(* ===== verification/Prelude.thy ===== *)
theory Prelude
  imports Complex_Main "HOL-Library.Char_ord" "HOL-Library.List_Lexorder" "HOL-Library.Sublist"
begin

text \<open>
  Shared vocabulary of the development: Python exceptions as values, the sequencing of
  fallible computations, and the operations of Python's \<open>str\<close>, \<open>bytes\<close> and \<open>list\<close> that the
  scripts under \<open>src/scripts\<close> use.

  A Python \<open>str\<close> is a \<^typ>\<open>string\<close> whose characters are the code points U+0000 to U+00FF, and
  a Python \<open>bytes\<close> object is a \<^typ>\<open>string\<close> whose characters are its byte values.  File names
  are represented by their bytes (\<open>os.fsencode\<close>), so \<open>os.fsencode\<close> and \<open>os.fsdecode\<close> are
  identities.  The order of strings is lexicographic by character code, which is the order
  Python's \<open>sorted\<close> uses.
\<close>

unbundle bit_operations_syntax

named_theorems res_simps \<open>evaluation of sequenced fallible computations\<close>
named_theorems str_simps \<open>string operations of the Python model\<close>

section \<open>Exceptions as values\<close>

text \<open>
  The exception classes the scripts raise or let escape.  The message is the constant part
  of the message the script formats.
\<close>

datatype exn =
    ValueError string
  | TypeError string
  | KeyError string
  | IndexError string
  | AttributeError string
  | OSError string
  | FileNotFoundError string
  | FileExistsError string
  | PermissionError string
  | UnicodeDecodeError string
  | UnicodeEncodeError string
  | JSONDecodeError string
  | EOFError string
  | RuntimeError string
  | OverflowError string
  | ZlibError string
  | ApprovalError string
  | RootFSError string
  | VerificationError string
  | PublicationError string
  | MaterializationError string
  | ImageError string
  | StorageBuildError string
  | SupportError string
  | ConfigError string
  | SubprocessError string

type_synonym bytes = string
type_synonym 'a res = "exn + 'a"

definition bindE :: "'a res \<Rightarrow> ('a \<Rightarrow> 'b res) \<Rightarrow> 'b res" where
  "bindE m k = (case m of Inl e \<Rightarrow> Inl e | Inr v \<Rightarrow> k v)"

definition raise_if :: "bool \<Rightarrow> exn \<Rightarrow> unit res" where
  "raise_if c e = (if c then Inl e else Inr ())"

text \<open>A \<open>for\<close> loop whose body may raise: the first exception ends the loop.\<close>

fun forE :: "'a list \<Rightarrow> ('s \<Rightarrow> 'a \<Rightarrow> 's res) \<Rightarrow> 's \<Rightarrow> 's res" where
  "forE [] f s = Inr s"
| "forE (x # xs) f s = bindE (f s x) (\<lambda>s'. forE xs f s')"

text \<open>A list comprehension whose element expression may raise.\<close>

fun mapE :: "('a \<Rightarrow> 'b res) \<Rightarrow> 'a list \<Rightarrow> 'b list res" where
  "mapE f [] = Inr []"
| "mapE f (x # xs) = bindE (f x) (\<lambda>y. bindE (mapE f xs) (\<lambda>ys. Inr (y # ys)))"

text \<open>
  The subclasses of \<open>OSError\<close> the model distinguishes, and \<open>except C as error: raise E from
  error\<close>.
\<close>

fun is_os_error :: "exn \<Rightarrow> bool" where
  "is_os_error (OSError _) = True"
| "is_os_error (FileNotFoundError _) = True"
| "is_os_error (FileExistsError _) = True"
| "is_os_error (PermissionError _) = True"
| "is_os_error _ = False"

fun is_missing :: "exn \<Rightarrow> bool" where
  "is_missing (FileNotFoundError _) = True" | "is_missing _ = False"

fun is_exists :: "exn \<Rightarrow> bool" where
  "is_exists (FileExistsError _) = True" | "is_exists _ = False"

fun is_decode_error :: "exn \<Rightarrow> bool" where
  "is_decode_error (UnicodeDecodeError _) = True"
| "is_decode_error (JSONDecodeError _) = True"
| "is_decode_error _ = False"

definition wrap_exn :: "(exn \<Rightarrow> bool) \<Rightarrow> exn \<Rightarrow> 'a res \<Rightarrow> 'a res" where
  "wrap_exn p e' r = (case r of Inl e \<Rightarrow> Inl (if p e then e' else e) | Inr v \<Rightarrow> Inr v)"

lemma wrap_exn_Inr [simp]: "wrap_exn p e' r = Inr v \<longleftrightarrow> r = Inr v"
  by (cases r) (auto simp: wrap_exn_def)

lemma wrap_exn_ok [simp]: "wrap_exn p e' (Inr v) = Inr v"
  by simp

lemma bindE_simps [simp]:
  "bindE (Inl e) k = Inl e"
  "bindE (Inr v) k = k v"
  by (simp_all add: bindE_def)

lemma bindE_Inr [res_simps]: "bindE m k = Inr r \<longleftrightarrow> (\<exists>v. m = Inr v \<and> k v = Inr r)"
  by (cases m) auto

lemma bindE_Inl [res_simps]:
  "bindE m k = Inl e \<longleftrightarrow> m = Inl e \<or> (\<exists>v. m = Inr v \<and> k v = Inl e)"
  by (cases m) auto

lemma raise_if_Inr [simp]: "raise_if c e = Inr u \<longleftrightarrow> \<not> c"
  by (simp add: raise_if_def)

lemma raise_if_Inl [simp]: "raise_if c e = Inl e' \<longleftrightarrow> c \<and> e' = e"
  by (auto simp add: raise_if_def)

lemma raise_if_cases [simp]: "raise_if False e = Inr ()" "raise_if True e = Inl e"
  by (simp_all add: raise_if_def)

lemma if_Inl_Inr [res_simps]:
  "(if c then Inl e else k) = Inr r \<longleftrightarrow> \<not> c \<and> k = Inr r"
  by auto

lemma mapE_Inr_length: "mapE f xs = Inr ys \<Longrightarrow> length ys = length xs"
  by (induction xs arbitrary: ys) (auto simp: res_simps)

lemma mapE_Inr_iff: "mapE f xs = Inr ys \<longleftrightarrow> list_all2 (\<lambda>x y. f x = Inr y) xs ys"
  by (induction xs arbitrary: ys) (auto simp: res_simps list_all2_Cons1)

lemma mapE_map: "(\<And>x. x \<in> set xs \<Longrightarrow> f x = Inr (g x)) \<Longrightarrow> mapE f xs = Inr (map g xs)"
  by (induction xs) auto

lemma forE_append: "forE (xs @ ys) f s = bindE (forE xs f s) (forE ys f)"
  by (induction xs arbitrary: s) (auto simp: bindE_def split: sum.splits)

lemma bindE_Inr_id [simp]: "bindE m Inr = m"
  by (cases m) auto

lemma forE_snoc: "forE (xs @ [x]) f s = bindE (forE xs f s) (\<lambda>s. f s x)"
  by (induction xs arbitrary: s) (auto simp: bindE_def split: sum.splits)

text \<open>An invariant of the loop state that every successful iteration keeps.\<close>

lemma forE_invariant:
  assumes "forE xs f s = Inr t" and "P s"
    and "\<And>s x s'. x \<in> set xs \<Longrightarrow> P s \<Longrightarrow> f s x = Inr s' \<Longrightarrow> P s'"
  shows "P t"
  using assms by (induction xs arbitrary: s) (auto simp: res_simps)

text \<open>What every iteration establishes for its element and later iterations keep.\<close>

lemma forE_each:
  assumes "forE xs f s = Inr t" and "x \<in> set xs"
    and "\<And>s s'. f s x = Inr s' \<Longrightarrow> Q x"
  shows "Q x"
  using assms by (induction xs arbitrary: s) (auto simp: res_simps)

lemma forE_unit_Inr:
  "forE xs (\<lambda>_ x. f x) u = Inr v \<longleftrightarrow> (\<forall>x \<in> set xs. f x = Inr ())"
  by (induction xs arbitrary: u) (auto simp: res_simps)

text \<open>
  The contract of a validation loop: every accepted element satisfies \<open>ok\<close>, and the loop
  state keeps an invariant.  A recording loop also enters every accepted element in its state
  and never drops one.
\<close>

locale validated_loop =
  fixes step :: "'s \<Rightarrow> 'a \<Rightarrow> 's res" and inv :: "'s \<Rightarrow> bool" and ok :: "'a \<Rightarrow> bool"
  assumes step_inv: "step s x = Inr s' \<Longrightarrow> inv s \<Longrightarrow> inv s'"
    and step_ok: "step s x = Inr s' \<Longrightarrow> ok x"
begin

lemma loop_inv: "forE xs step s = Inr t \<Longrightarrow> inv s \<Longrightarrow> inv t"
  by (erule forE_invariant) (auto intro: step_inv)

lemma loop_ok: "forE xs step s = Inr t \<Longrightarrow> x \<in> set xs \<Longrightarrow> ok x"
  by (erule forE_each) (auto intro: step_ok)

end

locale recording_loop = validated_loop step inv ok
  for step :: "'s \<Rightarrow> 'a \<Rightarrow> 's res" and inv and ok +
  fixes recorded :: "'s \<Rightarrow> 'a \<Rightarrow> bool"
  assumes step_records: "step s x = Inr s' \<Longrightarrow> recorded s' x"
    and step_keeps: "step s x = Inr s' \<Longrightarrow> recorded s y \<Longrightarrow> recorded s' y"
begin

lemma loop_keeps: "forE xs step s = Inr t \<Longrightarrow> recorded s y \<Longrightarrow> recorded t y"
  by (erule forE_invariant) (auto intro: step_keeps)

lemma loop_records: "forE xs step s = Inr t \<Longrightarrow> x \<in> set xs \<Longrightarrow> recorded t x"
  by (induction xs arbitrary: s) (auto simp: bindE_Inr intro: loop_keeps step_records)

end

section \<open>Sequences\<close>

text \<open>Python indexing and slicing with possibly negative bounds.\<close>

definition py_index :: "int \<Rightarrow> int \<Rightarrow> int" where
  "py_index n i = (if i < 0 then max 0 (i + n) else min i n)"

definition py_slice :: "'a list \<Rightarrow> int \<Rightarrow> int \<Rightarrow> 'a list" where
  "py_slice xs a b =
     (let n = int (length xs); a' = py_index n a; b' = py_index n b
      in take (nat (b' - a')) (drop (nat a') xs))"

definition py_get :: "'a list \<Rightarrow> int \<Rightarrow> 'a res" where
  "py_get xs i =
     (let n = int (length xs); j = (if i < 0 then i + n else i)
      in if 0 \<le> j \<and> j < n then Inr (xs ! nat j) else Inl (IndexError ''index out of range''))"

lemma py_slice_nonneg:
  assumes "a \<le> b" and "b \<le> length xs"
  shows "py_slice xs (int a) (int b) = take (b - a) (drop a xs)"
  using assms by (simp add: py_slice_def py_index_def min_def flip: of_nat_diff)

lemma py_slice_append:
  assumes "a = int (length pre)" and "b = int (length pre + length mid)"
  shows "py_slice (pre @ mid @ post) a b = mid"
  using assms by (simp add: py_slice_def py_index_def)

lemma py_slice_to_end:
  assumes "a = int (length pre)"
  shows "py_slice (pre @ post) a (int (length (pre @ post))) = post"
  using assms by (simp add: py_slice_def py_index_def)

lemma py_get_append: "i = int (length pre) \<Longrightarrow> py_get (pre @ x # post) i = Inr x"
  by (simp add: py_get_def)

lemma py_get_Inr_bounds: "py_get xs i = Inr v \<Longrightarrow> v \<in> set xs"
  by (auto simp: py_get_def Let_def split: if_splits)

section \<open>Strings\<close>

definition startswith :: "string \<Rightarrow> string \<Rightarrow> bool" where
  "startswith s p \<longleftrightarrow> prefix p s"

definition endswith :: "string \<Rightarrow> string \<Rightarrow> bool" where
  "endswith s p \<longleftrightarrow> suffix p s"

definition removeprefix :: "string \<Rightarrow> string \<Rightarrow> string" where
  "removeprefix s p = (if startswith s p then drop (length p) s else s)"

definition NUL :: char where "NUL = CHR 0x00"

text \<open>\<open>s.split(c)\<close> for a one-character separator, and \<open>c.join(parts)\<close>.\<close>

fun split_on :: "char \<Rightarrow> string \<Rightarrow> string list" where
  "split_on c [] = [[]]"
| "split_on c (x # xs) =
     (if x = c then [] # split_on c xs
      else (case split_on c xs of [] \<Rightarrow> [[x]] | p # ps \<Rightarrow> (x # p) # ps))"

fun join_with :: "string \<Rightarrow> string list \<Rightarrow> string" where
  "join_with sep [] = []"
| "join_with sep [p] = p"
| "join_with sep (p # q # ps) = p @ sep @ join_with sep (q # ps)"

lemma startswith_simps [simp, str_simps]:
  "startswith s []"
  "startswith [] (c # p) = False"
  "startswith (x # s) (c # p) = (x = c \<and> startswith s p)"
  by (auto simp: startswith_def)

lemma startswith_append: "startswith (p @ s) p"
  by (simp add: startswith_def)

lemma startswith_iff: "startswith s p \<longleftrightarrow> (\<exists>t. s = p @ t)"
  by (simp add: startswith_def prefix_def)

lemma startswith_split: "startswith s k \<Longrightarrow> s = k @ drop (length k) s"
  by (auto simp: startswith_iff)

lemma takeWhile_run: "list_all P xs \<Longrightarrow> ys = [] \<or> \<not> P (hd ys) \<Longrightarrow> takeWhile P (xs @ ys) = xs \<and> dropWhile P (xs @ ys) = ys"
  by (induction xs; cases ys) auto

lemma split_on_not_Nil [simp]: "split_on c s \<noteq> []"
  by (induction s) (auto split: list.splits)

lemma join_split_on [simp]: "join_with [c] (split_on c s) = s"
proof (induction s)
  case (Cons x xs)
  show ?case
  proof (cases "x = c")
    case True
    then show ?thesis using Cons by (cases "split_on c xs") auto
  next
    case False
    obtain p ps where "split_on c xs = p # ps" by (cases "split_on c xs") auto
    with Cons False show ?thesis by (cases ps) auto
  qed
qed simp

lemma split_on_no_sep: "p \<in> set (split_on c s) \<Longrightarrow> c \<notin> set p"
  by (induction s arbitrary: p) (auto split: list.splits if_splits)

lemma split_on_plain: "c \<notin> set s \<Longrightarrow> split_on c s = [s]"
  by (induction s) auto

lemma split_on_append_sep: "c \<notin> set p \<Longrightarrow> split_on c (p @ c # s) = p # split_on c s"
  by (induction p) (auto split: list.splits)

lemma split_join_on:
  assumes "ps \<noteq> []" and "\<And>p. p \<in> set ps \<Longrightarrow> c \<notin> set p"
  shows "split_on c (join_with [c] ps) = ps"
  using assms
proof (induction "[c]" ps rule: join_with.induct)
  case (2 p)
  then show ?case by (simp add: split_on_plain)
next
  case (3 p q ps)
  then show ?case by (simp add: split_on_append_sep)
qed simp

lemma join_with_Cons: "ps \<noteq> [] \<Longrightarrow> join_with sep (p # ps) = p @ sep @ join_with sep ps"
  by (cases ps) auto

lemma join_with_snoc: "ps \<noteq> [] \<Longrightarrow> join_with sep (ps @ [p]) = join_with sep ps @ sep @ p"
  by (induction ps rule: induct_list012) auto

lemma forE_mono:
  assumes "\<And>v x r. x \<in> set xs \<Longrightarrow> f v x = Inr r \<Longrightarrow> g v x = Inr r" and "forE xs f v = Inr r"
  shows "forE xs g v = Inr r"
  using assms
proof (induction xs arbitrary: v)
  case (Cons x xs)
  from Cons.prems(2) obtain w where w: "f v x = Inr w" "forE xs f w = Inr r" by (auto simp: bindE_def split: sum.splits)
  have "g v x = Inr w" using Cons.prems(1) w(1) by simp
  moreover have "forE xs g w = Inr r" by (rule Cons.IH [OF Cons.prems(1) w(2)]) simp_all
  ultimately show ?case by simp
qed simp

lemma map_of_const: "x \<in> set xs \<Longrightarrow> map_of (map (\<lambda>x. (x, c)) xs) x = Some c"
  by (induction xs) auto

end
