(* ===== verification/Newc.thy ===== *)
theory Newc
  imports Prelude
begin

text \<open>
  The cpio \<open>newc\<close> archive: the writer of \<open>build-runtime-rootfs.py\<close> (\<open>_pad\<close>, \<open>write_newc\<close>
  with its inner \<open>emit\<close>) and the reader of \<open>verify-runtime-rootfs.py\<close> (\<open>align\<close>,
  \<open>parse_newc\<close>).  The writer's stream is the byte string it has written.  The reader's
  offsets are Python integers, its slices are Python slices and its header fields go through
  Python's \<open>int(_, 16)\<close>, which accepts signs, blanks, underscores and a \<open>0x\<close> prefix.  The
  \<open>while True\<close> loop of the reader is a partial function: a run that does not return is
  \<^const>\<open>None\<close>.
\<close>

section \<open>Numbers in the header\<close>

definition hex_char :: "nat \<Rightarrow> char" where
  "hex_char d = ''0123456789abcdef'' ! d"

fun hex_digits :: "nat \<Rightarrow> string" where
  "hex_digits n = (if n < 16 then [hex_char n] else hex_digits (n div 16) @ [hex_char (n mod 16)])"

declare hex_digits.simps [simp del]

text \<open>The format \<open>f"{field:08x}"\<close>.\<close>

definition fmt08x :: "nat \<Rightarrow> string" where
  "fmt08x n = (let h = hex_digits n in replicate (8 - length h) CHR ''0'' @ h)"

definition hex_val :: "char \<Rightarrow> nat option" where
  "hex_val c =
     (let n = (of_char c :: nat)
      in if 48 \<le> n \<and> n \<le> 57 then Some (n - 48)
         else if 97 \<le> n \<and> n \<le> 102 then Some (n - 87)
         else if 65 \<le> n \<and> n \<le> 70 then Some (n - 55)
         else None)"

definition is_space :: "char \<Rightarrow> bool" where
  "is_space c = (let n = (of_char c :: nat) in n = 32 \<or> 9 \<le> n \<and> n \<le> 13)"

text \<open>
  The digits of \<open>int(_, 16)\<close>: single underscores may stand between digits.  The flag says
  that the previous character was an underscore.
\<close>

fun scan_hex :: "nat \<Rightarrow> bool \<Rightarrow> string \<Rightarrow> (nat \<times> string) option" where
  "scan_hex acc us [] = (if us then None else Some (acc, []))"
| "scan_hex acc us (c # cs) =
     (if c = CHR ''_'' then (if us then None else scan_hex acc True cs)
      else (case hex_val c of
              Some d \<Rightarrow> scan_hex (16 * acc + d) False cs
            | None \<Rightarrow> (if us then None else Some (acc, c # cs))))"

definition int16_sign :: "string \<Rightarrow> bool \<times> string" where
  "int16_sign s =
     (case s of
        [] \<Rightarrow> (False, [])
      | c # cs \<Rightarrow> if c = CHR ''-'' then (True, cs) else if c = CHR ''+'' then (False, cs) else (False, s))"

definition int16_prefix :: "string \<Rightarrow> string" where
  "int16_prefix s =
     (if startswith s ''0x'' \<or> startswith s ''0X''
      then removeprefix (drop 2 s) ''_'' else s)"

text \<open>Python's \<open>int(s, 16)\<close> on a byte string.\<close>

definition py_int16 :: "bytes \<Rightarrow> int res" where
  "py_int16 s =
     (let (neg, s2) = int16_sign (dropWhile is_space s);
          s3 = int16_prefix s2;
          bad = Inl (ValueError ''invalid literal for int() with base 16'')
      in case s3 of
           [] \<Rightarrow> bad
         | c # cs \<Rightarrow>
             if hex_val c = None then bad
             else (case scan_hex 0 False s3 of
                     None \<Rightarrow> bad
                   | Some (n, rest) \<Rightarrow>
                       if dropWhile is_space rest = [] then Inr (if neg then - int n else int n) else bad))"

section \<open>The writer\<close>

record entry =
  e_path :: string
  e_mode :: nat
  e_uid :: nat
  e_gid :: nat
  e_size :: nat
  e_kind :: string
  e_digest :: "string option"
  e_target :: "string option"
  e_hardlink :: "string option"

text \<open>The truth value of \<open>entry.hardlink\<close>: neither \<open>None\<close> nor the empty string.\<close>

definition hardlink_of :: "entry \<Rightarrow> string option" where
  "hardlink_of e = (case e_hardlink e of None \<Rightarrow> None | Some h \<Rightarrow> if h = [] then None else Some h)"

definition pad :: "nat \<Rightarrow> bytes" where
  "pad count = replicate (nat ((- int count) mod 4)) NUL"

definition emit :: "string \<Rightarrow> nat \<Rightarrow> nat \<Rightarrow> nat \<Rightarrow> nat \<Rightarrow> nat \<Rightarrow> bytes \<Rightarrow> bytes" where
  "emit name mode uid gid nlink ino data =
     (let encoded_name = name @ [NUL];
          fs = [ino, mode, uid, gid, nlink, 0, length data, 0, 0, 0, 0, length encoded_name, 0]
      in ''070701'' @ concat (map fmt08x fs) @ encoded_name @ pad (110 + length encoded_name)
         @ data @ pad (length data))"

definition link_counts :: "entry list \<Rightarrow> string \<Rightarrow> nat" where
  "link_counts es h = length (filter (\<lambda>e. hardlink_of e = Some h) es)"

text \<open>
  The emission loop.  Its state is \<open>next_inode\<close>, \<open>assigned\<close>, \<open>emitted_link_data\<close> and the
  bytes written so far; \<open>contents\<close> is the dictionary of file contents.
\<close>

record writer =
  next_inode :: nat
  assigned :: "string \<rightharpoonup> nat"
  emitted_link_data :: "string list"
  written :: bytes

definition write_entry ::
  "entry list \<Rightarrow> (string \<rightharpoonup> bytes) \<Rightarrow> writer \<Rightarrow> entry \<Rightarrow> writer res" where
  "write_entry es contents w e =
     (case hardlink_of e of
        Some h \<Rightarrow>
          (let w1 = (if assigned w h = None
                     then w\<lparr>assigned := (assigned w)(h \<mapsto> next_inode w), next_inode := next_inode w + 1\<rparr>
                     else w);
               ino = (case assigned w1 h of Some i \<Rightarrow> i | None \<Rightarrow> 0);
               nlink = link_counts es h
           in bindE (if h \<in> set (emitted_link_data w1) then Inr []
                     else (case contents (e_path e) of
                             Some d \<Rightarrow> Inr d | None \<Rightarrow> Inl (KeyError (e_path e))))
                (\<lambda>data. Inr (w1\<lparr>emitted_link_data := h # emitted_link_data w1,
                    written := written w1 @ emit (e_path e) (e_mode e) (e_uid e) (e_gid e) nlink ino data\<rparr>)))
      | None \<Rightarrow>
          (let ino = next_inode w;
               nlink = (if e_kind e = ''directory'' then 2 else 1);
               data = (case contents (e_path e) of Some d \<Rightarrow> d | None \<Rightarrow> [])
           in Inr (w\<lparr>next_inode := next_inode w + 1,
                written := written w @ emit (e_path e) (e_mode e) (e_uid e) (e_gid e) nlink ino data\<rparr>)))"

definition write_newc :: "entry list \<Rightarrow> (string \<rightharpoonup> bytes) \<Rightarrow> bytes res" where
  "write_newc es contents =
     bindE (forE es (write_entry es contents)
              \<lparr>next_inode = 1, assigned = Map.empty, emitted_link_data = [], written = []\<rparr>)
       (\<lambda>w. Inr (written w @ emit ''TRAILER!!!'' 0 0 0 1 (next_inode w) []))"

section \<open>The reader\<close>

record newc_entry =
  n_path :: string
  n_mode :: int
  n_uid :: int
  n_gid :: int
  n_nlink :: int
  n_mtime :: int
  n_size :: int
  n_ino :: int
  n_data :: bytes

definition align :: "int \<Rightarrow> int" where
  "align v = (v + 3) AND NOT 3"

definition newc_fields :: "bytes \<Rightarrow> int \<Rightarrow> int list res" where
  "newc_fields data offset =
     (case mapE (\<lambda>i. py_int16 (py_slice data (offset + 6 + int i * 8) (offset + 14 + int i * 8))) [0..<13] of
        Inl _ \<Rightarrow> Inl (VerificationError ''invalid newc field'')
      | Inr fs \<Rightarrow> Inr fs)"

definition unsafe_newc_path :: "string \<Rightarrow> bool" where
  "unsafe_newc_path name \<longleftrightarrow> startswith name ''/'' \<or> name = [] \<or> ''..'' \<in> set (split_on CHR ''/'' name)"

text \<open>
  One pass through the body of the \<open>while True\<close> loop: an exception, the end of the loop at
  the trailer, or the next entry and offset.
\<close>

datatype newc_outcome = Trailer | Next newc_entry int

definition newc_name :: "bytes \<Rightarrow> int \<Rightarrow> int \<Rightarrow> string res" where
  "newc_name data name_start namesize =
     (let name_end = name_start + namesize
      in if namesize < 2 then Inl (VerificationError ''invalid newc name length'')
         else if name_end > int (length data) then Inl (VerificationError ''unterminated newc name'')
         else bindE (py_get data (name_end - 1)) (\<lambda>terminator.
           if terminator \<noteq> NUL then Inl (VerificationError ''unterminated newc name'')
           else Inr (py_slice data name_start (name_end - 1))))"

definition newc_payload :: "bytes \<Rightarrow> int list \<Rightarrow> string \<Rightarrow> int \<Rightarrow> newc_outcome res" where
  "newc_payload data fs name payload_start =
     (let size = fs ! 6; payload_end = payload_start + size; offset' = align payload_end
      in if payload_end > int (length data) then Inl (VerificationError ''truncated newc payload'')
         else if name = ''TRAILER!!!''
         then (if size \<noteq> 0 \<or> (\<exists>c \<in> set (py_slice data offset' (int (length data))). c \<noteq> NUL)
               then Inl (VerificationError ''invalid data after newc trailer'')
               else Inr Trailer)
         else if unsafe_newc_path name then Inl (VerificationError ''unsafe newc path'')
         else Inr (Next \<lparr>n_path = name, n_mode = fs ! 1, n_uid = fs ! 2, n_gid = fs ! 3,
                         n_nlink = fs ! 4, n_mtime = fs ! 5, n_size = size, n_ino = fs ! 0,
                         n_data = py_slice data payload_start payload_end\<rparr> offset'))"

definition newc_step :: "bytes \<Rightarrow> int \<Rightarrow> newc_outcome res" where
  "newc_step data offset =
     (if offset + 110 > int (length data) \<or> py_slice data offset (offset + 6) \<noteq> ''070701''
      then Inl (VerificationError ''invalid newc header'')
      else bindE (newc_fields data offset) (\<lambda>fs.
           bindE (newc_name data (offset + 110) (fs ! 11)) (\<lambda>name.
           newc_payload data fs name (align (offset + 110 + fs ! 11)))))"

partial_function (option) newc_loop :: "bytes \<Rightarrow> int \<Rightarrow> newc_entry list \<Rightarrow> newc_entry list res option" where
  "newc_loop data offset entries =
     (case newc_step data offset of
        Inl e \<Rightarrow> Some (Inl e)
      | Inr st \<Rightarrow> (case st of
          Trailer \<Rightarrow> Some (Inr entries)
        | Next e offset' \<Rightarrow> newc_loop data offset' (entries @ [e])))"

definition parse_newc :: "bytes \<Rightarrow> newc_entry list res option" where
  "parse_newc data =
     map_option (\<lambda>r. bindE r (\<lambda>entries.
         if length (remdups (map n_path entries)) \<noteq> length entries
         then Inl (VerificationError ''duplicate newc path'') else Inr entries))
       (newc_loop data 0 [])"

section \<open>Header numbers read back\<close>

definition hexstr :: "string \<Rightarrow> bool" where
  "hexstr s \<longleftrightarrow> (\<forall>c \<in> set s. hex_val c \<noteq> None)"

definition hex_value :: "nat \<Rightarrow> string \<Rightarrow> nat" where
  "hex_value acc s = foldl (\<lambda>a c. 16 * a + the (hex_val c)) acc s"

lemma hex_val_hex_char [simp]: "d < 16 \<Longrightarrow> hex_val (hex_char d) = Some d"
  by (auto simp: numeral_eq_Suc less_Suc_eq hex_char_def hex_val_def)

lemma hex_val_special [simp]:
  "hex_val CHR ''_'' = None" "hex_val CHR ''-'' = None" "hex_val CHR ''+'' = None"
  "hex_val CHR ''x'' = None" "hex_val CHR ''X'' = None" "hex_val CHR ''0'' = Some 0"
  by (simp_all add: hex_val_def)

lemma hex_val_not_space: "hex_val c = Some d \<Longrightarrow> \<not> is_space c"
  by (auto simp: hex_val_def is_space_def Let_def split: if_splits)

lemma scan_hex_hexstr: "hexstr s \<Longrightarrow> scan_hex acc False s = Some (hex_value acc s, [])"
proof (induction s arbitrary: acc)
  case Nil
  then show ?case by (simp add: hex_value_def)
next
  case (Cons c s)
  then obtain d where d: "hex_val c = Some d" by (auto simp: hexstr_def)
  then have "c \<noteq> CHR ''_''" by auto
  with Cons d show ?case by (simp add: hexstr_def hex_value_def)
qed

lemma py_int16_hexstr:
  assumes "s \<noteq> []" and "hexstr s"
  shows "py_int16 s = Inr (int (hex_value 0 s))"
proof -
  obtain c cs where s: "s = c # cs" using assms(1) by (cases s) auto
  with assms(2) obtain d where d: "hex_val c = Some d" by (auto simp: hexstr_def)
  then have ns: "dropWhile is_space s = s" using s hex_val_not_space by auto
  have sg: "int16_sign s = (False, s)" using s d by (auto simp: int16_sign_def)
  have "\<not> startswith s ''0x'' \<and> \<not> startswith s ''0X''"
    using assms(2) s by (cases cs) (auto simp: hexstr_def)
  then have "int16_prefix s = s" by (simp add: int16_prefix_def)
  with ns sg s d scan_hex_hexstr [OF assms(2), of 0] show ?thesis
    by (simp add: py_int16_def)
qed

lemma hexstr_hex_digits: "hexstr (hex_digits n)"
proof (induction n rule: hex_digits.induct)
  case (1 n)
  then show ?case by (subst hex_digits.simps) (auto simp: hexstr_def)
qed

lemma hex_value_append: "hex_value acc (s @ t) = hex_value (hex_value acc s) t"
  by (simp add: hex_value_def)

lemma hex_value_digits: "hex_value acc (hex_digits n) = acc * 16 ^ length (hex_digits n) + n"
proof (induction n arbitrary: acc rule: hex_digits.induct)
  case (1 n)
  show ?case
  proof (cases "n < 16")
    case True
    then show ?thesis by (simp add: hex_digits.simps hex_value_def)
  next
    case False
    then have "hex_digits n = hex_digits (n div 16) @ [hex_char (n mod 16)]"
      by (subst hex_digits.simps) simp
    moreover have "16 * (n div 16) + n mod 16 = n" by simp
    ultimately show ?thesis using "1.IH" [OF False]
      by (simp add: hex_value_append) (simp add: hex_value_def algebra_simps)
  qed
qed

lemma length_hex_digits: "n < 16 ^ k \<Longrightarrow> 0 < k \<Longrightarrow> length (hex_digits n) \<le> k"
proof (induction k arbitrary: n)
  case (Suc k)
  show ?case
  proof (cases "n < 16")
    case True
    then show ?thesis by (simp add: hex_digits.simps)
  next
    case False
    then have "k > 0" using Suc.prems by (cases k) auto
    moreover have "n div 16 < 16 ^ k" using Suc.prems by (simp add: less_mult_imp_div_less mult.commute)
    ultimately have "length (hex_digits (n div 16)) \<le> k" using Suc.IH by blast
    then show ?thesis using False by (subst hex_digits.simps) simp
  qed
qed simp

lemma length_hex_digits_gt: "16 ^ k \<le> n \<Longrightarrow> k < length (hex_digits n)"
proof (induction k arbitrary: n)
  case 0
  then show ?case by (subst hex_digits.simps) simp
next
  case (Suc k)
  have "16 * 1 \<le> 16 * (16 :: nat) ^ k" by (intro mult_le_mono) auto
  then have "16 \<le> n" using Suc.prems unfolding power_Suc by linarith
  moreover have "16 ^ k \<le> n div 16" using Suc.prems by (simp add: less_eq_div_iff_mult_less_eq mult.commute)
  ultimately show ?case using Suc.IH [of "n div 16"] by (subst hex_digits.simps) simp
qed

lemma hex_value_zeros: "hex_value 0 (replicate k CHR ''0'' @ s) = hex_value 0 s"
  by (induction k) (simp_all add: hex_value_def)

lemma hexstr_fmt08x [simp]: "hexstr (fmt08x n)"
  using hexstr_hex_digits [of n] by (auto simp: fmt08x_def Let_def hexstr_def)

lemma fmt08x_fits:
  assumes "n < 2 ^ 32"
  shows "length (fmt08x n) = 8" and "py_int16 (fmt08x n) = Inr (int n)"
proof -
  have "length (hex_digits n) \<le> 8" using length_hex_digits [of n 8] assms by simp
  then show l: "length (fmt08x n) = 8" by (simp add: fmt08x_def Let_def)
  then have "fmt08x n \<noteq> []" by auto
  then show "py_int16 (fmt08x n) = Inr (int n)"
    using py_int16_hexstr [OF _ hexstr_fmt08x, of n] hex_value_digits [of 0 n]
    by (simp add: hex_value_zeros fmt08x_def [unfolded Let_def])
qed

lemma align_eq: "align v = 4 * ((v + 3) div 4)"
proof -
  have "x AND NOT (mask 2) = push_bit 2 (drop_bit 2 x)" for x :: int
    by (rule bit_eqI) (auto simp: bit_simps not_less dest: le_Suc_ex)
  moreover have "mask 2 = (3 :: int)" by (simp add: mask_eq_exp_minus_1)
  ultimately show ?thesis by (simp add: align_def push_bit_eq_mult drop_bit_eq_div)
qed

section \<open>Reading back one emitted record\<close>

definition fits32 :: "nat \<Rightarrow> bool" where
  "fits32 n \<longleftrightarrow> n < 2 ^ 32"

lemma concat_fmt08x_length:
  "(\<And>n. n \<in> set fs \<Longrightarrow> fits32 n) \<Longrightarrow> length (concat (map fmt08x fs)) = 8 * length fs"
  by (induction fs) (auto simp: fmt08x_fits fits32_def)

lemma newc_field_slice:
  assumes "\<And>n. n \<in> set fs \<Longrightarrow> fits32 n" and "i < length fs" and "length magic = 6"
  shows "py_slice (pre @ magic @ concat (map fmt08x fs) @ post)
           (int (length pre) + 6 + int i * 8) (int (length pre) + 14 + int i * 8) = fmt08x (fs ! i)"
proof -
  have "fs = take i fs @ fs ! i # drop (Suc i) fs" using assms(2) by (rule id_take_nth_drop)
  then have "map fmt08x fs = map fmt08x (take i fs) @ fmt08x (fs ! i) # map fmt08x (drop (Suc i) fs)"
    by (metis list.simps(9) map_append)
  then have split: "concat (map fmt08x fs) = concat (map fmt08x (take i fs)) @ fmt08x (fs ! i)
      @ concat (map fmt08x (drop (Suc i) fs))"
    by simp
  have len: "length (concat (map fmt08x (take i fs))) = 8 * i"
    using concat_fmt08x_length [of "take i fs"] assms(1,2) by (auto dest: in_set_takeD)
  have len1: "length (fmt08x (fs ! i)) = 8" using assms by (simp add: fmt08x_fits fits32_def)
  have "py_slice ((pre @ magic @ concat (map fmt08x (take i fs))) @ fmt08x (fs ! i)
      @ (concat (map fmt08x (drop (Suc i) fs)) @ post))
      (int (length pre) + 6 + int i * 8) (int (length pre) + 14 + int i * 8) = fmt08x (fs ! i)"
    by (rule py_slice_append) (use len len1 assms(3) in auto)
  then show ?thesis by (simp add: split)
qed

lemma newc_fields_emit:
  assumes "\<And>n. n \<in> set fs \<Longrightarrow> fits32 n" and "length fs = 13" and "length magic = 6"
  shows "newc_fields (pre @ magic @ concat (map fmt08x fs) @ post) (int (length pre)) = Inr (map int fs)"
proof -
  have "py_int16 (py_slice (pre @ magic @ concat (map fmt08x fs) @ post)
            (int (length pre) + 6 + int i * 8) (int (length pre) + 14 + int i * 8)) = Inr (int (fs ! i))"
    if "i \<in> set [0..<13]" for i
    using that assms fmt08x_fits(2) [of "fs ! i"] by (simp add: newc_field_slice fits32_def)
  then have "mapE (\<lambda>i. py_int16 (py_slice (pre @ magic @ concat (map fmt08x fs) @ post)
            (int (length pre) + 6 + int i * 8) (int (length pre) + 14 + int i * 8))) [0..<13]
        = Inr (map (\<lambda>i. int (fs ! i)) [0..<13])"
    by (rule mapE_map)
  moreover have "map (\<lambda>i. int (fs ! i)) [0..<13] = map int (map ((!) fs) [0..<length fs])"
    using assms(2) by (simp only: map_map comp_def)
  ultimately show ?thesis unfolding newc_fields_def map_nth by (simp only: sum.case)
qed

lemma length_pad: "int (length (pad n)) = (- int n) mod 4"
  by (simp add: pad_def)

lemma align_pad: "align (int n) = int n + int (length (pad n))"
  unfolding align_eq length_pad by presburger

definition emit_ok :: "string \<Rightarrow> nat \<Rightarrow> nat \<Rightarrow> nat \<Rightarrow> nat \<Rightarrow> nat \<Rightarrow> bytes \<Rightarrow> bool" where
  "emit_ok name mode uid gid nlink ino data \<longleftrightarrow>
     name \<noteq> [] \<and> NUL \<notin> set name \<and> fits32 mode \<and> fits32 uid \<and> fits32 gid \<and> fits32 nlink \<and> fits32 ino
     \<and> fits32 (length data) \<and> fits32 (length name + 1)"

abbreviation emit_fields where
  "emit_fields name mode uid gid nlink ino data \<equiv>
     [ino, mode, uid, gid, nlink, 0, length data, 0, 0, 0, 0, length name + 1, 0]"

lemma emit_length:
  assumes "emit_ok name mode uid gid nlink ino data"
  shows "int (length (emit name mode uid gid nlink ino data)) mod 4 = 0"
    and "length (emit name mode uid gid nlink ino data) =
         111 + length name + length (pad (111 + length name)) + length data + length (pad (length data))"
proof -
  have "length (concat (map fmt08x (emit_fields name mode uid gid nlink ino data))) = 104"
    by (subst concat_fmt08x_length) (use assms in \<open>auto simp: emit_ok_def fits32_def\<close>)
  then show l: "length (emit name mode uid gid nlink ino data) =
      111 + length name + length (pad (111 + length name)) + length data + length (pad (length data))"
    by (simp add: emit_def Let_def)
  show "int (length (emit name mode uid gid nlink ino data)) mod 4 = 0"
    unfolding l of_nat_add length_pad by presburger
qed

lemma align_add: "v mod 4 = 0 \<Longrightarrow> align (v + w) = v + align w"
  unfolding align_eq by presburger

definition newc_record :: "string \<Rightarrow> nat \<Rightarrow> nat \<Rightarrow> nat \<Rightarrow> nat \<Rightarrow> nat \<Rightarrow> bytes \<Rightarrow> newc_entry" where
  "newc_record name mode uid gid nlink ino data =
     \<lparr>n_path = name, n_mode = int mode, n_uid = int uid, n_gid = int gid, n_nlink = int nlink,
      n_mtime = 0, n_size = int (length data), n_ino = int ino, n_data = data\<rparr>"

lemma newc_step_emit:
  fixes pre post :: bytes
  assumes ok: "emit_ok name mode uid gid nlink ino d" and al: "int (length pre) mod 4 = 0"
  defines "e \<equiv> emit name mode uid gid nlink ino d"
  shows "newc_step (pre @ e @ post) (int (length pre)) =
    (if name = ''TRAILER!!!''
     then (if d \<noteq> [] \<or> (\<exists>c \<in> set post. c \<noteq> NUL)
           then Inl (VerificationError ''invalid data after newc trailer'') else Inr Trailer)
     else if unsafe_newc_path name then Inl (VerificationError ''unsafe newc path'')
     else Inr (Next (newc_record name mode uid gid nlink ino d) (int (length (pre @ e)))))"
proof -
  let ?fs = "emit_fields name mode uid gid nlink ino d"
  let ?m = "''070701''" let ?c = "concat (map fmt08x ?fs)"
  let ?p1 = "pad (111 + length name)" let ?p2 = "pad (length d)"
  let ?data = "pre @ e @ post" and ?n = "int (length pre)"
  have fs: "\<And>n. n \<in> set ?fs \<Longrightarrow> fits32 n" using ok by (auto simp: emit_ok_def fits32_def)
  have lc: "length ?c = 104" using concat_fmt08x_length [of ?fs] fs by simp
  have e: "e = ?m @ ?c @ name @ NUL # ?p1 @ d @ ?p2" by (simp add: e_def emit_def Let_def)
  have len: "length ?data = length pre + 111 + length name + length ?p1 + length d + length ?p2 + length post"
    using lc by (simp add: e)
  have s0: "py_slice ?data ?n (?n + 6) = ?m"
    using py_slice_append [of ?n pre "?n + 6" ?m] by (simp add: e)
  have s1: "newc_fields ?data ?n = Inr (map int ?fs)"
    using newc_fields_emit [of ?fs ?m pre "name @ NUL # ?p1 @ d @ ?p2 @ post"] fs by (simp add: e)
  have s2: "py_get ?data (?n + 110 + int (length name)) = Inr NUL"
    using py_get_append [of "?n + 110 + int (length name)" "pre @ ?m @ ?c @ name" NUL "?p1 @ d @ ?p2 @ post"] lc
    by (simp add: e)
  have s3: "py_slice ?data (?n + 110) (?n + 110 + int (length name)) = name"
    using py_slice_append [of "?n + 110" "pre @ ?m @ ?c" "?n + 110 + int (length name)" name "NUL # ?p1 @ d @ ?p2 @ post"] lc
    by (simp add: e)
  have a1: "align (?n + 111 + int (length name)) = ?n + 111 + int (length name) + int (length ?p1)"
    using align_add [OF al, of "111 + int (length name)"] align_pad [of "111 + length name"] by (simp add: algebra_simps)
  have s4: "py_slice ?data (?n + 111 + int (length name) + int (length ?p1))
      (?n + 111 + int (length name) + int (length ?p1) + int (length d)) = d"
    using py_slice_append [of "?n + 111 + int (length name) + int (length ?p1)" "pre @ ?m @ ?c @ name @ NUL # ?p1"
        "?n + 111 + int (length name) + int (length ?p1) + int (length d)" d "?p2 @ post"] lc
    by (simp add: e)
  have m4: "(?n + 111 + int (length name) + int (length ?p1)) mod 4 = 0"
    using al unfolding length_pad of_nat_add by presburger
  have a2: "align (?n + 111 + int (length name) + int (length ?p1) + int (length d)) = int (length (pre @ e))"
    using align_add [OF m4, of "int (length d)"] align_pad [of "length d"] lc by (simp add: e)
  have s5: "py_slice ?data (int (length (pre @ e))) (int (length ?data)) = post"
    using py_slice_to_end [of "int (length (pre @ e))" "pre @ e" post] by simp
  have ne: "0 < length name" using ok by (simp add: emit_ok_def)
  have nm: "newc_name ?data (?n + 110) (map int ?fs ! 11) = Inr name"
    using s2 s3 len ne by (simp add: newc_name_def Let_def algebra_simps)
  have six: "map int ?fs ! 6 = int (length d)" by simp
  have pl: "newc_payload ?data (map int ?fs) name (?n + 111 + int (length name) + int (length ?p1)) =
    (if name = ''TRAILER!!!''
     then (if d \<noteq> [] \<or> (\<exists>c \<in> set post. c \<noteq> NUL)
           then Inl (VerificationError ''invalid data after newc trailer'') else Inr Trailer)
     else if unsafe_newc_path name then Inl (VerificationError ''unsafe newc path'')
     else Inr (Next (newc_record name mode uid gid nlink ino d) (int (length (pre @ e)))))"
    unfolding newc_payload_def Let_def six a2 s5 s4 using len by (simp add: newc_record_def)
  have a1': "align (?n + 110 + map int ?fs ! 11) = ?n + 111 + int (length name) + int (length ?p1)"
    using a1 by (simp add: algebra_simps)
  show ?thesis
    using len unfolding newc_step_def s0 s1 bindE_simps nm a1' pl by simp
qed

text \<open>What the reader makes of a sequence of emitted records.\<close>

type_synonym emission = "string \<times> nat \<times> nat \<times> nat \<times> nat \<times> nat \<times> bytes"

abbreviation emit_of :: "emission \<Rightarrow> bytes" where
  "emit_of \<equiv> \<lambda>(name, mode, uid, gid, nlink, ino, d). emit name mode uid gid nlink ino d"

abbreviation record_of :: "emission \<Rightarrow> newc_entry" where
  "record_of \<equiv> \<lambda>(name, mode, uid, gid, nlink, ino, d). newc_record name mode uid gid nlink ino d"

definition emission_ok :: "emission \<Rightarrow> bool" where
  "emission_ok = (\<lambda>(name, mode, uid, gid, nlink, ino, d).
     emit_ok name mode uid gid nlink ino d \<and> name \<noteq> ''TRAILER!!!'' \<and> \<not> unsafe_newc_path name)"

lemma newc_loop_emissions:
  assumes "\<forall>r \<in> set rs. emission_ok r" and "fits32 ino" and "int (length pre) mod 4 = 0"
  shows "newc_loop (pre @ concat (map emit_of rs) @ emit ''TRAILER!!!'' 0 0 0 1 ino [])
           (int (length pre)) acc = Some (Inr (acc @ map record_of rs))"
  using assms
proof (induction rs arbitrary: pre acc)
  case Nil
  have ok: "emit_ok ''TRAILER!!!'' 0 0 0 1 ino []" using Nil by (simp add: emit_ok_def fits32_def NUL_def)
  show ?case
    using newc_step_emit [OF ok Nil(3), of "[]"] by (subst newc_loop.simps) simp
next
  case (Cons r rs)
  obtain name mode uid gid nlink ino' d where r: "r = (name, mode, uid, gid, nlink, ino', d)"
    by (cases r) auto
  have ok: "emit_ok name mode uid gid nlink ino' d" and nt: "name \<noteq> ''TRAILER!!!''"
    and sf: "\<not> unsafe_newc_path name"
    using Cons.prems(1) r by (auto simp: emission_ok_def)
  let ?e = "emit name mode uid gid nlink ino' d"
  have "int (length (pre @ ?e)) mod 4 = 0"
    using emit_length(1) [OF ok] Cons.prems(3) by (simp add: mod_add_eq flip: mod_add_eq)
  from Cons.IH [OF _ Cons.prems(2) this] Cons.prems(1)
  have "newc_loop ((pre @ ?e) @ concat (map emit_of rs) @ emit ''TRAILER!!!'' 0 0 0 1 ino [])
      (int (length (pre @ ?e))) (acc @ [record_of r]) = Some (Inr ((acc @ [record_of r]) @ map record_of rs))"
    by simp
  then show ?case
    using newc_step_emit [OF ok Cons.prems(3), of "concat (map emit_of rs) @ emit ''TRAILER!!!'' 0 0 0 1 ino []"] nt sf
    by (subst newc_loop.simps) (simp add: r)
qed

section \<open>The writer's inode plan\<close>

text \<open>
  The records the writer emits, as a recursion over the entries: \<open>n\<close> is the next free inode,
  \<open>asg\<close> the inodes of the hardlink groups seen so far.
\<close>

fun newc_plan ::
  "entry list \<Rightarrow> (string \<rightharpoonup> bytes) \<Rightarrow> nat \<Rightarrow> (string \<rightharpoonup> nat) \<Rightarrow> entry list \<Rightarrow> emission list" where
  "newc_plan all contents n asg [] = []"
| "newc_plan all contents n asg (e # es) =
     (let data = (case contents (e_path e) of Some d \<Rightarrow> d | None \<Rightarrow> []) in
      case hardlink_of e of
        None \<Rightarrow> (e_path e, e_mode e, e_uid e, e_gid e, (if e_kind e = ''directory'' then 2 else 1), n, data)
                 # newc_plan all contents (n + 1) asg es
      | Some h \<Rightarrow> (case asg h of
          Some i \<Rightarrow> (e_path e, e_mode e, e_uid e, e_gid e, link_counts all h, i, [])
                     # newc_plan all contents n asg es
        | None \<Rightarrow> (e_path e, e_mode e, e_uid e, e_gid e, link_counts all h, n, data)
                     # newc_plan all contents (n + 1) (asg(h \<mapsto> n)) es))"

fun plan_next :: "nat \<Rightarrow> (string \<rightharpoonup> nat) \<Rightarrow> entry list \<Rightarrow> nat" where
  "plan_next n asg [] = n"
| "plan_next n asg (e # es) =
     (case hardlink_of e of
        None \<Rightarrow> plan_next (n + 1) asg es
      | Some h \<Rightarrow> (case asg h of
          Some i \<Rightarrow> plan_next n asg es
        | None \<Rightarrow> plan_next (n + 1) (asg(h \<mapsto> n)) es))"

lemma write_loop_plan:
  assumes "forE es (write_entry all contents) w = Inr w'"
    and "dom (assigned w) = set (emitted_link_data w)"
  shows "written w' = written w @ concat (map emit_of (newc_plan all contents (next_inode w) (assigned w) es))
       \<and> next_inode w' = plan_next (next_inode w) (assigned w) es"
  using assms
proof (induction es arbitrary: w)
  case (Cons e es)
  then obtain w1 where w1: "write_entry all contents w e = Inr w1"
    and rest: "forE es (write_entry all contents) w1 = Inr w'" by (auto simp: res_simps)
  show ?case
  proof (cases "hardlink_of e")
    case None
    with w1 Cons.prems(2) Cons.IH [OF rest] show ?thesis
      by (auto simp: write_entry_def Let_def)
  next
    case (Some h)
    show ?thesis
    proof (cases "assigned w h")
      case None
      then have "h \<notin> set (emitted_link_data w)" using Cons.prems(2) by auto
      moreover then obtain d where d: "contents (e_path e) = Some d"
        using w1 Some None by (cases "contents (e_path e)") (auto simp: write_entry_def Let_def)
      ultimately have "w1 = w\<lparr>assigned := (assigned w)(h \<mapsto> next_inode w), next_inode := next_inode w + 1,
          emitted_link_data := h # emitted_link_data w, written := written w
            @ emit (e_path e) (e_mode e) (e_uid e) (e_gid e) (link_counts all h) (next_inode w) d\<rparr>"
        using w1 Some None by (simp add: write_entry_def Let_def)
      with Cons.IH [OF rest] Cons.prems(2) Some None d show ?thesis by (simp del: fun_upd_apply)
    next
      case asg: (Some i)
      then have "h \<in> set (emitted_link_data w)" using Cons.prems(2) by auto
      then show ?thesis using Some asg w1 Cons.prems(2) Cons.IH [OF rest]
        by (auto simp: write_entry_def Let_def insert_absorb)
    qed
  qed
qed simp

lemma write_newc_plan:
  assumes "write_newc es contents = Inr out"
  shows "out = concat (map emit_of (newc_plan es contents 1 Map.empty es))
               @ emit ''TRAILER!!!'' 0 0 0 1 (plan_next 1 Map.empty es) []"
  using assms write_loop_plan [where w = "\<lparr>next_inode = 1, assigned = Map.empty, emitted_link_data = [], written = []\<rparr>"]
  by (fastforce simp: write_newc_def bindE_Inr)

text \<open>The writer succeeds when the contents of every hardlinked entry are known.\<close>

lemma write_entry_total:
  assumes "\<And>h. hardlink_of e = Some h \<Longrightarrow> contents (e_path e) \<noteq> None"
  shows "\<exists>w'. write_entry all contents w e = Inr w'"
  using assms by (auto simp: write_entry_def Let_def split: option.splits)

lemma write_newc_total:
  assumes "\<And>e h. e \<in> set es \<Longrightarrow> hardlink_of e = Some h \<Longrightarrow> contents (e_path e) \<noteq> None"
  shows "\<exists>out. write_newc es contents = Inr out"
proof -
  have "\<exists>w'. forE xs (write_entry es contents) w = Inr w'" if "set xs \<subseteq> set es" for xs w
    using that
  proof (induction xs arbitrary: w)
    case (Cons x xs)
    have "\<exists>w1. write_entry es contents w x = Inr w1"
      by (rule write_entry_total) (use Cons.prems assms in auto)
    then show ?case using Cons by auto
  qed simp
  from this [of es] show ?thesis by (auto simp: write_newc_def bindE_Inr)
qed

section \<open>The round trip\<close>

definition entry_ok :: "(string \<rightharpoonup> bytes) \<Rightarrow> entry \<Rightarrow> bool" where
  "entry_ok contents e \<longleftrightarrow>
     e_path e \<noteq> ''TRAILER!!!'' \<and> \<not> unsafe_newc_path (e_path e) \<and> NUL \<notin> set (e_path e)
     \<and> fits32 (length (e_path e) + 1) \<and> fits32 (e_mode e) \<and> fits32 (e_uid e) \<and> fits32 (e_gid e)
     \<and> (\<forall>d. contents (e_path e) = Some d \<longrightarrow> fits32 (length d))"

lemma plan_next_bound: "plan_next n asg es \<le> n + length es"
  by (induction n asg es rule: plan_next.induct) (auto split: option.splits simp del: fun_upd_apply intro: le_SucI)

lemma newc_plan_ok:
  assumes "\<forall>e \<in> set es. entry_ok contents e" and "fits32 (n + length es)"
    and "fits32 (length all)" and "\<And>h i. asg h = Some i \<Longrightarrow> fits32 i"
  shows "\<forall>r \<in> set (newc_plan all contents n asg es). emission_ok r"
  using assms
proof (induction all contents n asg es rule: newc_plan.induct)
  case (2 all contents n asg e es)
  have lc: "fits32 (link_counts all h)" for h
    using "2.prems"(3) le_less_trans [OF length_filter_le, of all] by (simp add: link_counts_def fits32_def)
  have ne: "e_path e \<noteq> []" using "2.prems"(1) by (auto simp: entry_ok_def unsafe_newc_path_def)
  have n: "fits32 n" using "2.prems"(2) by (simp add: fits32_def)
  have hd: "entry_ok contents e" using "2.prems"(1) by simp
  have path: "emission_ok (e_path e, e_mode e, e_uid e, e_gid e, nl, i, d)"
    if "fits32 nl" "fits32 i" "d = [] \<or> contents (e_path e) = Some d" for nl i d
    using that hd ne by (auto simp: emission_ok_def emit_ok_def entry_ok_def fits32_def)
  show ?case
  proof (cases "hardlink_of e")
    case None
    have "\<forall>r \<in> set (newc_plan all contents (n + 1) asg es). emission_ok r"
      by (rule "2.IH"(1) [OF refl None]) (use "2.prems" in auto)
    with None n show ?thesis
      by (auto simp: Let_def fits32_def intro!: path split: option.splits)
  next
    case (Some h)
    show ?thesis
    proof (cases "asg h")
      case None
      have "fits32 i" if "(asg(h \<mapsto> n)) h' = Some i" for h' i
        using that "2.prems"(4) n by (auto split: if_splits)
      then have "\<forall>r \<in> set (newc_plan all contents (n + 1) (asg(h \<mapsto> n)) es). emission_ok r"
        by (intro "2.IH"(2) [OF refl Some None]) (use "2.prems" in auto)
      with Some None lc n show ?thesis
        by (auto simp: Let_def intro!: path split: option.splits)
    next
      case asg: (Some i)
      have "\<forall>r \<in> set (newc_plan all contents n asg es). emission_ok r"
        by (rule "2.IH"(3) [OF refl Some asg]) (use "2.prems" in \<open>auto simp: fits32_def\<close>)
      with Some asg lc "2.prems"(4) show ?thesis
        by (auto simp: Let_def intro!: path)
    qed
  qed
qed simp

lemma newc_plan_paths: "map fst (newc_plan all contents n asg es) = map e_path es"
  by (induction all contents n asg es rule: newc_plan.induct)
    (auto simp: Let_def split: option.splits simp del: fun_upd_apply)

lemma parse_newc_plan:
  assumes "write_newc es contents = Inr out"
    and "\<forall>e \<in> set es. entry_ok contents e" and "distinct (map e_path es)" and "fits32 (1 + length es)"
  shows "parse_newc out = Some (Inr (map record_of (newc_plan es contents 1 Map.empty es)))"
proof -
  let ?rs = "newc_plan es contents 1 Map.empty es"
  have "\<forall>r \<in> set ?rs. emission_ok r"
    by (rule newc_plan_ok) (use assms in \<open>auto simp: fits32_def\<close>)
  moreover have "fits32 (plan_next 1 Map.empty es)"
    using plan_next_bound [of 1 Map.empty es] assms(4) by (simp add: fits32_def)
  ultimately have "newc_loop out 0 [] = Some (Inr (map record_of ?rs))"
    using newc_loop_emissions [of ?rs _ "[]" "[]"] write_newc_plan [OF assms(1)] by simp
  moreover have "map n_path (map record_of ?rs) = map fst ?rs"
    by (auto simp: newc_record_def)
  then have "map n_path (map record_of ?rs) = map e_path es"
    by (simp only: newc_plan_paths)
  moreover have "length (map record_of ?rs) = length es"
    using newc_plan_paths [of es contents 1 Map.empty es] by (metis length_map)
  ultimately show ?thesis
    using assms(3) by (simp add: parse_newc_def distinct_remdups_id del: map_map)
qed

section \<open>Inodes and payloads of the plan\<close>

definition emission_ino :: "emission \<Rightarrow> nat" where
  "emission_ino = (\<lambda>(name, mode, uid, gid, nlink, ino, d). ino)"

definition emission_data :: "emission \<Rightarrow> bytes" where
  "emission_data = (\<lambda>(name, mode, uid, gid, nlink, ino, d). d)"

definition entry_nlink :: "entry list \<Rightarrow> entry \<Rightarrow> nat" where
  "entry_nlink all e =
     (case hardlink_of e of Some h \<Rightarrow> link_counts all h | None \<Rightarrow> if e_kind e = ''directory'' then 2 else 1)"

lemma length_newc_plan [simp]: "length (newc_plan all contents n asg es) = length es"
  using newc_plan_paths [of all contents n asg es] by (metis length_map)

lemma newc_plan_fields:
  "map (\<lambda>(name, mode, uid, gid, nlink, ino, d). (name, mode, uid, gid, nlink)) (newc_plan all contents n asg es) =
   map (\<lambda>e. (e_path e, e_mode e, e_uid e, e_gid e, entry_nlink all e)) es"
  by (induction all contents n asg es rule: newc_plan.induct)
    (auto simp: Let_def entry_nlink_def split: option.splits simp del: fun_upd_apply)

lemma newc_plan_first:
  assumes "hardlink_of e = Some h" "asg h = None"
  obtains asg' where "asg' h = Some n" "\<And>x. x \<noteq> h \<Longrightarrow> asg' x = asg x"
    "newc_plan all contents n asg (e # es) =
       (e_path e, e_mode e, e_uid e, e_gid e, link_counts all h, n,
        (case contents (e_path e) of Some d \<Rightarrow> d | None \<Rightarrow> [])) # newc_plan all contents (n + 1) asg' es"
  using assms by (intro that [of "asg(h \<mapsto> n)"]) (simp, simp, simp add: Let_def del: fun_upd_apply)

lemma newc_plan_ino:
  assumes "i < length es"
  shows "case hardlink_of (es ! i) of
           None \<Rightarrow> n \<le> emission_ino (newc_plan all contents n asg es ! i)
         | Some h \<Rightarrow> (case asg h of
             Some k \<Rightarrow> emission_ino (newc_plan all contents n asg es ! i) = k
           | None \<Rightarrow> n \<le> emission_ino (newc_plan all contents n asg es ! i))"
  using assms
proof (induction es arbitrary: i n asg)
  case (Cons e es)
  show ?case
  proof (cases i)
    case 0
    then show ?thesis by (auto simp: Let_def emission_ino_def split: option.splits)
  next
    case (Suc j)
    then have j: "j < length es" using Cons.prems by simp
    show ?thesis
    proof (cases "hardlink_of e")
      case None
      then show ?thesis using Cons.IH [OF j, of "n + 1" asg] Suc
        by (auto simp: Let_def split: option.splits)
    next
      case (Some h)
      show ?thesis
      proof (cases "asg h")
        case None
        obtain a' where a': "a' h = Some n" "\<And>x. x \<noteq> h \<Longrightarrow> a' x = asg x"
          "newc_plan all contents n asg (e # es) = (e_path e, e_mode e, e_uid e, e_gid e, link_counts all h, n,
             (case contents (e_path e) of Some d \<Rightarrow> d | None \<Rightarrow> [])) # newc_plan all contents (n + 1) a' es"
          using newc_plan_first [of e h asg n, OF Some None] by blast
        show ?thesis using Cons.IH [OF j, of "n + 1" a'] Suc None a'(1,2) unfolding a'(3)
          by (cases "hardlink_of (es ! j) = Some h") (auto split: option.splits)
      next
        case asg: (Some a)
        then show ?thesis using Cons.IH [OF j, of n asg] Suc Some
          by (auto simp: Let_def split: option.splits)
      qed
    qed
  qed
qed simp

text \<open>Two records share an inode exactly when they are the same record or hardlinked together.\<close>

lemma newc_plan_ino_eq:
  assumes "i < length es" "j < length es" and "inj_on asg (dom asg)" and "\<And>h k. asg h = Some k \<Longrightarrow> k < n"
  shows "emission_ino (newc_plan all contents n asg es ! i) = emission_ino (newc_plan all contents n asg es ! j)
    \<longleftrightarrow> i = j \<or> (hardlink_of (es ! i) \<noteq> None \<and> hardlink_of (es ! i) = hardlink_of (es ! j))"
  using assms
proof (induction es arbitrary: i j n asg)
  case (Cons e es)
  let ?ino = "\<lambda>n asg es i. emission_ino (newc_plan all contents n asg es ! i)"
  have head: "?ino n asg (e # es) 0 = ?ino n asg (e # es) (Suc j)
      \<longleftrightarrow> hardlink_of e \<noteq> None \<and> hardlink_of e = hardlink_of (es ! j)" if "j < length es" for j
  proof (cases "hardlink_of e")
    case None
    then show ?thesis
      using newc_plan_ino [OF that, of "n + 1" all contents asg] Cons.prems(4)
      by (cases "hardlink_of (es ! j)")
        (auto simp: Let_def emission_ino_def split: option.splits dest: Cons.prems(4))
  next
    case (Some h)
    show ?thesis
    proof (cases "asg h")
      case None
      obtain a' where a': "a' h = Some n" "\<And>x. x \<noteq> h \<Longrightarrow> a' x = asg x"
        "newc_plan all contents n asg (e # es) = (e_path e, e_mode e, e_uid e, e_gid e, link_counts all h, n,
           (case contents (e_path e) of Some d \<Rightarrow> d | None \<Rightarrow> [])) # newc_plan all contents (n + 1) a' es"
        using newc_plan_first [of e h asg n, OF Some None] by blast
      show ?thesis
        using newc_plan_ino [OF that, of "n + 1" all contents a'] Some a'(1,2)
        unfolding a'(3)
        by (cases "hardlink_of (es ! j) = Some h")
          (auto simp: emission_ino_def split: option.splits dest: Cons.prems(4))
    next
      case asg: (Some k)
      have other: "asg h' \<noteq> Some k" if "h' \<noteq> h" for h'
        using Cons.prems(3) asg that by (metis domI inj_onD)
      have ino: "emission_ino (newc_plan all contents n asg (e # es) ! 0) = k"
        using Some asg by (simp add: Let_def emission_ino_def)
      have "k < n" using Cons.prems(4) [OF asg] .
      then show ?thesis
        using newc_plan_ino [OF that, of n all contents asg] Some asg other unfolding ino
        by (cases "hardlink_of (es ! j)"; cases "hardlink_of (es ! j) = Some h")
          (auto simp: Let_def split: option.splits)
    qed
  qed
  have tail: "?ino n asg (e # es) (Suc i) = ?ino n asg (e # es) (Suc j)
      \<longleftrightarrow> i = j \<or> (hardlink_of (es ! i) \<noteq> None \<and> hardlink_of (es ! i) = hardlink_of (es ! j))"
    if "i < length es" "j < length es" for i j
  proof (cases "hardlink_of e")
    case None
    then show ?thesis using Cons.IH [OF that Cons.prems(3), of "n + 1"] Cons.prems(4)
      by (auto simp: Let_def less_SucI)
  next
    case (Some h)
    show ?thesis
    proof (cases "asg h")
      case None
      obtain a' where a': "a' h = Some n" "\<And>x. x \<noteq> h \<Longrightarrow> a' x = asg x"
        "newc_plan all contents n asg (e # es) = (e_path e, e_mode e, e_uid e, e_gid e, link_counts all h, n,
           (case contents (e_path e) of Some d \<Rightarrow> d | None \<Rightarrow> [])) # newc_plan all contents (n + 1) a' es"
        using newc_plan_first [of e h asg n, OF Some None] by blast
      have "x = y" if "x \<in> dom a'" "y \<in> dom a'" "a' x = a' y" for x y
        using that Cons.prems(3) a'(1,2)
        by (cases "x = h"; cases "y = h") (auto simp: inj_on_def dom_def dest: Cons.prems(4) dest!: sym [of "Some n"])
      then have "inj_on a' (dom a')" by (auto intro: inj_onI)
      moreover have "\<And>h' k. a' h' = Some k \<Longrightarrow> k < n + 1"
        using Cons.prems(4) a'(1,2) by (metis add.commute less_add_same_cancel1 less_numeral_extra(1) option.inject trans_less_add2)
      ultimately show ?thesis using Cons.IH [OF that, of a' "n + 1"] unfolding a'(3) by simp
    next
      case (Some k)
      with \<open>hardlink_of e = Some h\<close> Cons.IH [OF that Cons.prems(3,4)] show ?thesis
        by (simp add: Let_def)
    qed
  qed
  show ?case
  proof (cases i)
    case i: 0
    show ?thesis using head [of "j - 1"] Cons.prems(2) i
      by (cases j) (simp_all del: newc_plan.simps)
  next
    case i: (Suc i')
    show ?thesis
    proof (cases j)
      case 0
      have "hardlink_of e \<noteq> None \<and> hardlink_of e = hardlink_of (es ! i') \<longleftrightarrow>
          hardlink_of (es ! i') \<noteq> None \<and> hardlink_of (es ! i') = hardlink_of e" by metis
      moreover have "?ino n asg (e # es) (Suc i') = ?ino n asg (e # es) 0 \<longleftrightarrow>
          ?ino n asg (e # es) 0 = ?ino n asg (e # es) (Suc i')" by (rule eq_commute)
      ultimately show ?thesis using head [of i'] Cons.prems(1) i 0 by (simp del: newc_plan.simps)
    next
      case (Suc j')
      then show ?thesis using tail [of i' j'] Cons.prems(1,2) i by (simp del: newc_plan.simps)
    qed
  qed
qed simp

lemma newc_plan_data:
  assumes "i < length es"
  shows "emission_data (newc_plan all contents n asg es ! i) =
    (if \<exists>h. hardlink_of (es ! i) = Some h \<and> (asg h \<noteq> None \<or> (\<exists>j < i. hardlink_of (es ! j) = Some h))
     then [] else (case contents (e_path (es ! i)) of Some d \<Rightarrow> d | None \<Rightarrow> []))"
  using assms
proof (induction es arbitrary: i n asg)
  case (Cons e es)
  show ?case
  proof (cases i)
    case 0
    then show ?thesis by (auto simp: Let_def emission_data_def split: option.splits)
  next
    case (Suc k)
    then have k: "k < length es" using Cons.prems by simp
    have ex: "(\<exists>j < Suc k. hardlink_of ((e # es) ! j) = Some h) \<longleftrightarrow>
        hardlink_of e = Some h \<or> (\<exists>j < k. hardlink_of (es ! j) = Some h)" for h
      by (simp add: Ex_less_Suc2)
    show ?thesis
    proof (cases "hardlink_of e")
      case None
      then show ?thesis using Cons.IH [OF k, of "n + 1" asg] Suc ex by (auto simp: Let_def)
    next
      case (Some h)
      show ?thesis
      proof (cases "asg h")
        case None
        obtain a' where a': "a' h = Some n" "\<And>x. x \<noteq> h \<Longrightarrow> a' x = asg x"
          "newc_plan all contents n asg (e # es) = (e_path e, e_mode e, e_uid e, e_gid e, link_counts all h, n,
             (case contents (e_path e) of Some d \<Rightarrow> d | None \<Rightarrow> [])) # newc_plan all contents (n + 1) a' es"
          using newc_plan_first [of e h asg n, OF Some None] by blast
        show ?thesis using Cons.IH [OF k, of "n + 1" a'] Suc ex Some None a'(1,2) unfolding a'(3)
          by (cases "hardlink_of (es ! k) = Some h") auto
      next
        case asg: (Some a)
        then show ?thesis using Cons.IH [OF k, of n asg] Suc ex Some by (auto simp: Let_def)
      qed
    qed
  qed
qed simp

section \<open>Properties of the archive format\<close>

lemma newc_payload_Next:
  assumes "newc_payload data fs name ps = Inr (Next e offset')"
  shows "\<not> unsafe_newc_path name \<and> n_path e = name \<and> n_size e = fs ! 6 \<and> offset' = align (ps + fs ! 6)"
  using assms unfolding newc_payload_def Let_def
  by (simp split: if_split_asm) (metis newc_entry.select_convs(1,7))

lemma newc_step_Next:
  assumes "newc_step data offset = Inr (Next e offset')"
  obtains fs where "newc_fields data offset = Inr fs" "newc_name data (offset + 110) (fs ! 11) = Inr (n_path e)"
    "newc_payload data fs (n_path e) (align (offset + 110 + fs ! 11)) = Inr (Next e offset')"
proof -
  from assms obtain fs name where "newc_fields data offset = Inr fs"
    and "newc_name data (offset + 110) (fs ! 11) = Inr name"
    and p: "newc_payload data fs name (align (offset + 110 + fs ! 11)) = Inr (Next e offset')"
    unfolding newc_step_def if_Inl_Inr bindE_Inr by blast
  then show thesis using that newc_payload_Next [OF p] by blast
qed

lemma newc_step_safe: "newc_step data offset = Inr (Next e offset') \<Longrightarrow> \<not> unsafe_newc_path (n_path e)"
  by (metis newc_step_Next newc_payload_Next)

lemma newc_loop_safe:
  assumes ret: "newc_loop data offset entries = Some (Inr recs)"
    and "\<forall>e \<in> set entries. \<not> unsafe_newc_path (n_path e)"
  shows "\<forall>e \<in> set recs. \<not> unsafe_newc_path (n_path e)"
proof -
  have "(\<forall>e \<in> set entries. \<not> unsafe_newc_path (n_path e)) \<longrightarrow>
      (\<forall>recs. r = Inr recs \<longrightarrow> (\<forall>e \<in> set recs. \<not> unsafe_newc_path (n_path e)))"
    if "newc_loop data offset entries = Some r" for r
  proof (rule newc_loop.raw_induct [where P = "\<lambda>data offset entries r.
        (\<forall>e \<in> set entries. \<not> unsafe_newc_path (n_path e)) \<longrightarrow>
        (\<forall>recs. r = Inr recs \<longrightarrow> (\<forall>e \<in> set recs. \<not> unsafe_newc_path (n_path e)))", OF _ that], goal_cases)
    case (1 loop data offset entries r)
    note ret = 1(2) and IH = 1(1)
    show ?case
    proof (cases "newc_step data offset")
      case (Inl e)
      with ret show ?thesis by fastforce
    next
      case (Inr st)
      with ret show ?thesis
      proof (cases st)
        case (Next e offset')
        with ret Inr have "loop data offset' (entries @ [e]) = Some r" by simp
        from IH [OF this] show ?thesis using newc_step_safe [OF Inr [unfolded Next]] by simp
      qed auto
    qed
  qed
  then show ?thesis using assms by blast
qed

lemma newc_records:
  assumes "write_newc es contents = Inr out"
    and "\<forall>e \<in> set es. entry_ok contents e" and "distinct (map e_path es)" and "length es < 2 ^ 32 - 1"
  shows "\<exists>recs. parse_newc out = Some (Inr recs) \<and> length recs = length es
    \<and> (\<forall>i < length es. n_path (recs ! i) = e_path (es ! i) \<and> n_mode (recs ! i) = int (e_mode (es ! i))
        \<and> n_uid (recs ! i) = int (e_uid (es ! i)) \<and> n_gid (recs ! i) = int (e_gid (es ! i))
        \<and> n_nlink (recs ! i) = int (entry_nlink es (es ! i)) \<and> n_mtime (recs ! i) = 0
        \<and> n_size (recs ! i) = int (length (n_data (recs ! i)))
        \<and> n_data (recs ! i) =
            (if \<exists>h. hardlink_of (es ! i) = Some h \<and> (\<exists>j < i. hardlink_of (es ! j) = Some h) then []
             else (case contents (e_path (es ! i)) of Some d \<Rightarrow> d | None \<Rightarrow> [])))
    \<and> (\<forall>i < length es. \<forall>j < length es. n_ino (recs ! i) = n_ino (recs ! j) \<longleftrightarrow>
        i = j \<or> (hardlink_of (es ! i) \<noteq> None \<and> hardlink_of (es ! i) = hardlink_of (es ! j)))"
proof -
  define rs where "rs = newc_plan es contents 1 Map.empty es"
  have p: "parse_newc out = Some (Inr (map record_of rs))"
    unfolding rs_def by (rule parse_newc_plan) (use assms in \<open>auto simp: fits32_def\<close>)
  have len: "length rs = length es" by (simp add: rs_def)
  have flds: "(\<lambda>(name, mode, uid, gid, nlink, ino, d). (name, mode, uid, gid, nlink)) (rs ! i) =
      (e_path (es ! i), e_mode (es ! i), e_uid (es ! i), e_gid (es ! i), entry_nlink es (es ! i))"
    if "i < length es" for i
    using arg_cong [OF newc_plan_fields [of es contents 1 Map.empty es, folded rs_def], of "\<lambda>xs. xs ! i"] that len
    by simp
  have rec: "record_of (rs ! i) = newc_record (e_path (es ! i)) (e_mode (es ! i)) (e_uid (es ! i)) (e_gid (es ! i))
      (entry_nlink es (es ! i)) (emission_ino (rs ! i)) (emission_data (rs ! i))" if "i < length es" for i
    using flds [OF that] by (auto simp: emission_ino_def emission_data_def split: prod.splits)
  have dat: "emission_data (rs ! i) =
      (if \<exists>h. hardlink_of (es ! i) = Some h \<and> (\<exists>j < i. hardlink_of (es ! j) = Some h) then []
       else (case contents (e_path (es ! i)) of Some d \<Rightarrow> d | None \<Rightarrow> []))" if "i < length es" for i
    using newc_plan_data [OF that, of es contents 1 Map.empty, folded rs_def] by simp
  have ino: "emission_ino (rs ! i) = emission_ino (rs ! j) \<longleftrightarrow>
      i = j \<or> (hardlink_of (es ! i) \<noteq> None \<and> hardlink_of (es ! i) = hardlink_of (es ! j))"
    if "i < length es" "j < length es" for i j
    using newc_plan_ino_eq [OF that, of Map.empty 1 es contents, folded rs_def] by simp
  have "n_path r = e_path e \<and> n_mode r = int (e_mode e) \<and> n_uid r = int (e_uid e) \<and> n_gid r = int (e_gid e)
        \<and> n_nlink r = int (entry_nlink es e) \<and> n_mtime r = 0 \<and> n_size r = int (length (n_data r))
        \<and> n_data r = emission_data (rs ! i) \<and> n_ino r = int (emission_ino (rs ! i))"
    if "i < length es" "r = map record_of rs ! i" "e = es ! i" for i r e
    using that rec [OF that(1)] len by (simp add: newc_record_def)
  then show ?thesis
    using p len dat ino by (intro exI [of _ "map record_of rs"]) (simp del: nth_map)
qed

text \<open>
  C1.  An archive written by \<open>write_newc\<close> is read back by \<open>parse_newc\<close> as one record per
  entry, in order, with the entry's path, mode, owner and link count, a zero mtime, the
  entry's contents (empty for the later members of a hardlink group), and inodes that are
  shared by exactly the entries of one hardlink group.
\<close>

theorem newc_roundtrip:
  assumes "write_newc es contents = Inr out"
    and "\<forall>e \<in> set es. entry_ok contents e" and "distinct (map e_path es)" and "length es < 2 ^ 32 - 1"
  shows "\<exists>recs. parse_newc out = Some (Inr recs) \<and> length recs = length es
    \<and> (\<forall>i < length es. n_path (recs ! i) = e_path (es ! i) \<and> n_mode (recs ! i) = int (e_mode (es ! i))
        \<and> n_uid (recs ! i) = int (e_uid (es ! i)) \<and> n_gid (recs ! i) = int (e_gid (es ! i))
        \<and> n_nlink (recs ! i) = int (entry_nlink es (es ! i)) \<and> n_mtime (recs ! i) = 0
        \<and> n_size (recs ! i) = int (length (n_data (recs ! i)))
        \<and> n_data (recs ! i) =
            (if \<exists>h. hardlink_of (es ! i) = Some h \<and> (\<exists>j < i. hardlink_of (es ! j) = Some h) then []
             else (case contents (e_path (es ! i)) of Some d \<Rightarrow> d | None \<Rightarrow> [])))
    \<and> (\<forall>i < length es. \<forall>j < length es. n_ino (recs ! i) = n_ino (recs ! j) \<longleftrightarrow>
        i = j \<or> (hardlink_of (es ! i) \<noteq> None \<and> hardlink_of (es ! i) = hardlink_of (es ! j)))"
  using assms by (rule newc_records)

theorem newc_roundtrip_witness:
  "\<exists>out recs. write_newc [\<lparr>e_path = ''a'', e_mode = 33188, e_uid = 0, e_gid = 0, e_size = 2, e_kind = ''regular'',
        e_digest = None, e_target = None, e_hardlink = Some ''h1''\<rparr>,
      \<lparr>e_path = ''b'', e_mode = 33188, e_uid = 0, e_gid = 0, e_size = 2, e_kind = ''regular'',
        e_digest = None, e_target = None, e_hardlink = Some ''h1''\<rparr>] (\<lambda>_. Some ''hi'') = Inr out
     \<and> parse_newc out = Some (Inr recs) \<and> n_data (recs ! 0) = ''hi'' \<and> n_data (recs ! 1) = []
     \<and> n_ino (recs ! 0) = n_ino (recs ! 1)"
proof -
  let ?es = "[\<lparr>e_path = ''a'', e_mode = 33188, e_uid = 0, e_gid = 0, e_size = 2, e_kind = ''regular'',
        e_digest = None, e_target = None, e_hardlink = Some ''h1''\<rparr>,
      \<lparr>e_path = ''b'', e_mode = 33188, e_uid = 0, e_gid = 0, e_size = 2, e_kind = ''regular'',
        e_digest = None, e_target = None, e_hardlink = Some ''h1''\<rparr>]"
  obtain out where out: "write_newc ?es (\<lambda>_. Some ''hi'') = Inr out"
    using write_newc_total [of ?es "\<lambda>_. Some ''hi''"] by auto
  have ok: "\<forall>e \<in> set ?es. entry_ok (\<lambda>_. Some ''hi'') e"
    by (simp add: entry_ok_def unsafe_newc_path_def fits32_def NUL_def)
  have "\<exists>recs. parse_newc out = Some (Inr recs) \<and> n_data (recs ! 0) = ''hi'' \<and> n_data (recs ! 1) = []
     \<and> n_ino (recs ! 0) = n_ino (recs ! 1)"
    using newc_roundtrip [OF out ok] by (auto simp: hardlink_of_def less_Suc_eq)
  then show ?thesis using out by blast
qed

text \<open>
  C2.  Whatever bytes it is given, \<open>parse_newc\<close> returns only records with pairwise distinct
  paths that are relative, non-empty and free of \<open>..\<close> components.
\<close>

theorem parse_newc_safe:
  assumes "parse_newc data = Some (Inr recs)"
  shows "distinct (map n_path recs)
    \<and> (\<forall>r \<in> set recs. n_path r \<noteq> [] \<and> \<not> startswith (n_path r) ''/'' \<and> ''..'' \<notin> set (split_on CHR ''/'' (n_path r)))"
proof -
  from assms obtain r where r: "newc_loop data 0 [] = Some r"
    and "bindE r (\<lambda>entries. if length (remdups (map n_path entries)) \<noteq> length entries
         then Inl (VerificationError ''duplicate newc path'') else Inr entries) = Inr recs"
    by (auto simp: parse_newc_def)
  then have "r = Inr recs" and "length (remdups (map n_path recs)) = length (map n_path recs)"
    by (auto simp: bindE_Inr split: if_splits)
  then have "distinct (map n_path recs)" by (metis length_remdups_leq length_remdups_card_conv card_distinct)
  then show ?thesis
    using newc_loop_safe [of data 0 "[]" recs] r \<open>r = Inr recs\<close> by (simp add: unsafe_newc_path_def)
qed

theorem parse_newc_safe_witness:
  "let archive = ''070701'' @ concat (replicate 11 ''00000000'') @ ''00000002'' @ ''00000000'' @ [CHR ''a'', NUL]
       @ ''070701'' @ concat (replicate 11 ''00000000'') @ ''0000000b'' @ ''00000000'' @ ''TRAILER!!!'' @ [NUL, NUL, NUL, NUL]
   in \<exists>recs. parse_newc archive = Some (Inr recs) \<and> length recs = 1 \<and> distinct (map n_path recs)
     \<and> (\<forall>r \<in> set recs. ''..'' \<notin> set (split_on CHR ''/'' (n_path r)))"
proof -
  define archive where "archive = ''070701'' @ concat (replicate 11 ''00000000'') @ ''00000002'' @ ''00000000'' @ [CHR ''a'', NUL]
       @ ''070701'' @ concat (replicate 11 ''00000000'') @ ''0000000b'' @ ''00000000'' @ ''TRAILER!!!'' @ [NUL, NUL, NUL, NUL]"
  define rec where "rec = \<lparr>n_path = ''a'', n_mode = 0, n_uid = 0, n_gid = 0, n_nlink = 0, n_mtime = 0,
      n_size = 0, n_ino = 0, n_data = []\<rparr>"
  have "newc_step archive 0 = Inr (Next rec 112)" and "newc_step archive 112 = Inr Trailer"
    unfolding archive_def rec_def by code_simp+
  then have "parse_newc archive = Some (Inr [rec])"
    by (simp add: parse_newc_def newc_loop.simps bindE_def)
  with parse_newc_safe [OF this] show ?thesis unfolding archive_def [symmetric] Let_def by simp
qed

lemma py_int16_nonneg:
  assumes "CHR ''-'' \<notin> set s" and "py_int16 s = Inr v"
  shows "0 \<le> v"
proof -
  have "CHR ''-'' \<notin> set (dropWhile is_space s)" using assms(1) by (meson set_dropWhileD)
  then have "\<not> fst (int16_sign (dropWhile is_space s))"
    by (auto simp: int16_sign_def split: list.splits)
  then show ?thesis using assms(2)
    by (auto simp: py_int16_def Let_def split: prod.splits list.splits option.splits if_splits)
qed

lemma newc_fields_nonneg:
  assumes "CHR ''-'' \<notin> set data" and "newc_fields data offset = Inr fs"
  shows "length fs = 13" and "\<forall>f \<in> set fs. 0 \<le> f"
proof -
  let ?f = "\<lambda>i. py_int16 (py_slice data (offset + 6 + int i * 8) (offset + 14 + int i * 8))"
  have m: "mapE ?f [0..<13] = Inr fs"
    using assms(2) unfolding newc_fields_def by (simp split: sum.splits)
  then show "length fs = 13" using mapE_Inr_length by fastforce
  have "0 \<le> fs ! i" if "i < length fs" for i
  proof (rule py_int16_nonneg)
    show "?f i = Inr (fs ! i)"
      using m that \<open>length fs = 13\<close> unfolding mapE_Inr_iff list_all2_conv_all_nth by force
    show "CHR ''-'' \<notin> set (py_slice data (offset + 6 + int i * 8) (offset + 14 + int i * 8))"
      using assms(1) unfolding py_slice_def Let_def by (meson in_set_dropD in_set_takeD)
  qed
  then show "\<forall>f \<in> set fs. 0 \<le> f" by (metis in_set_conv_nth)
qed

lemma newc_step_progress:
  assumes "CHR ''-'' \<notin> set data" and "newc_step data offset = Inr (Next e offset')" and "0 \<le> offset"
  shows "offset + 112 \<le> offset'" and "offset + 110 \<le> int (length data)"
proof -
  from assms(2) obtain fs where fs: "newc_fields data offset = Inr fs"
    and nm: "newc_name data (offset + 110) (fs ! 11) = Inr (n_path e)"
    and pl: "newc_payload data fs (n_path e) (align (offset + 110 + fs ! 11)) = Inr (Next e offset')"
    by (rule newc_step_Next)
  have "2 \<le> fs ! 11" using nm unfolding newc_name_def Let_def if_Inl_Inr by linarith
  moreover have "0 \<le> fs ! 6" using newc_fields_nonneg [OF assms(1) fs] by simp
  moreover have "offset' = align (align (offset + 110 + fs ! 11) + fs ! 6)"
    using newc_payload_Next [OF pl] by simp
  moreover have "v \<le> align v" for v unfolding align_eq by presburger
  ultimately show "offset + 112 \<le> offset'"
    by (smt (verit))
  show "offset + 110 \<le> int (length data)"
    using assms(2) unfolding newc_step_def if_Inl_Inr by linarith
qed

text \<open>
  C3.  The reader returns (a list of records or an exception) on every byte string without a
  minus sign, so on every archive whose header fields are plain hexadecimal numbers.
\<close>

theorem parse_newc_returns:
  assumes "CHR ''-'' \<notin> set data"
  shows "\<exists>r. parse_newc data = Some r"
proof -
  have "\<exists>r. newc_loop data offset entries = Some r" if "0 \<le> offset" for offset entries
    using that
  proof (induction "nat (int (length data) - offset)" arbitrary: offset entries rule: less_induct)
    case less
    show ?case
    proof (cases "newc_step data offset")
      case (Inl e)
      then show ?thesis by (subst newc_loop.simps) simp
    next
      case (Inr st)
      show ?thesis
      proof (cases st)
        case Trailer
        with Inr show ?thesis by (subst newc_loop.simps) simp
      next
        case (Next e offset')
        note st = newc_step_progress [OF assms Inr [unfolded Next] less.prems]
        then have "nat (int (length data) - offset') < nat (int (length data) - offset)" by linarith
        then have "\<exists>r. newc_loop data offset' (entries @ [e]) = Some r"
          using less.hyps st less.prems by simp
        with Inr Next show ?thesis by (subst newc_loop.simps) simp
      qed
    qed
  qed
  then show ?thesis by (auto simp: parse_newc_def)
qed

theorem parse_newc_returns_witness: "\<exists>r. parse_newc ''070701'' = Some r"
  using parse_newc_returns [of "''070701''"] by simp

definition looping_archive :: bytes where
  "looping_archive = ''070701'' @ concat (replicate 6 ''00000000'') @ ''-0000070''
     @ concat (replicate 4 ''00000000'') @ ''00000002'' @ ''00000000'' @ [CHR ''a'', NUL]"

lemma newc_loop_diverges:
  assumes "newc_step data offset = Inr (Next e offset)"
  shows "newc_loop data offset entries = None"
proof -
  have "\<not> (data = d \<and> offset = off)" if "newc_loop d off es = Some r" for d off es r
  proof (rule newc_loop.raw_induct [where P = "\<lambda>d off _ _. \<not> (data = d \<and> offset = off)", OF _ that], goal_cases)
    case (1 loop d off es r)
    then show ?case using assms by fastforce
  qed
  then show ?thesis by (metis option.exhaust)
qed

text \<open>
  C4.  A minus sign in the size field can send the reader back to an earlier offset: on this
  one-record archive of 112 bytes, whose size field is \<open>-0000070\<close>, the loop returns to offset
  0 with one more record each time and \<open>parse_newc\<close> never returns.
\<close>

theorem parse_newc_can_loop: "parse_newc looping_archive = None"
proof -
  have "newc_step looping_archive 0 = Inr (Next \<lparr>n_path = ''a'', n_mode = 0, n_uid = 0, n_gid = 0, n_nlink = 0,
      n_mtime = 0, n_size = -112, n_ino = 0, n_data = []\<rparr> 0)"
    by code_simp
  then show ?thesis by (simp add: parse_newc_def newc_loop_diverges)
qed

end
