(* ===== verification/Py_Json.thy ===== *)
theory Py_Json
  imports Prelude
begin

text \<open>
  The Python values that \<open>json.loads\<close> returns, with the operations the scripts apply to them:
  \<open>==\<close>, membership, truth value, hashability, \<open>dict.get\<close>, and the \<open>object_pairs_hook\<close> that
  refuses duplicate names.  The JSON text parser itself is a parameter of the definitions that
  load a file; its result is a value in which an object still lists its pairs in document
  order, duplicates included.
\<close>

named_theorems json_simps \<open>evaluation of operations on JSON values\<close>

section \<open>Values\<close>

text \<open>A finite float is the rational number it denotes (the sign of zero is not kept).\<close>

datatype pyfloat = FNum rat | FInf | FNegInf | FNaN

datatype json =
    JNull
  | JBool bool
  | JInt int
  | JFloat pyfloat
  | JStr string
  | JList "json list"
  | JObj "(string \<times> json) list"

type_synonym fields = "(string \<times> json) list"

abbreviation jstrs :: "string list \<Rightarrow> json" where
  "jstrs ss \<equiv> JList (map JStr ss)"

fun num_of :: "json \<Rightarrow> pyfloat option" where
  "num_of (JBool b) = Some (FNum (of_bool b))"
| "num_of (JInt i) = Some (FNum (of_int i))"
| "num_of (JFloat f) = Some f"
| "num_of _ = None"

text \<open>
  Equality as containers use it (identity or \<open>==\<close>): numbers compare by value across \<open>bool\<close>,
  \<open>int\<close> and \<open>float\<close>, dictionaries regardless of order.  The decoder's \<open>NaN\<close> is one object,
  so it is the same as itself here, while \<open>NaN == NaN\<close> is false.
\<close>

fun py_same :: "json \<Rightarrow> json \<Rightarrow> bool"
  and py_same_list :: "json list \<Rightarrow> json list \<Rightarrow> bool"
  and py_same_dict :: "fields \<Rightarrow> fields \<Rightarrow> bool" where
  "py_same (JList xs) y = (case y of JList ys \<Rightarrow> py_same_list xs ys | _ \<Rightarrow> False)"
| "py_same (JObj xs) y = (case y of JObj ys \<Rightarrow> length xs = length ys \<and> py_same_dict xs ys | _ \<Rightarrow> False)"
| "py_same (JStr s) y = (case y of JStr t \<Rightarrow> s = t | _ \<Rightarrow> False)"
| "py_same JNull y = (case y of JNull \<Rightarrow> True | _ \<Rightarrow> False)"
| "py_same (JBool b) y = (num_of y = num_of (JBool b))"
| "py_same (JInt i) y = (num_of y = num_of (JInt i))"
| "py_same (JFloat f) y = (num_of y = num_of (JFloat f))"
| "py_same_list [] ys = (ys = [])"
| "py_same_list (x # xs) ys = (case ys of [] \<Rightarrow> False | y # ys' \<Rightarrow> py_same x y \<and> py_same_list xs ys')"
| "py_same_dict [] ys = True"
| "py_same_dict ((k, v) # xs) ys =
     ((case map_of ys k of None \<Rightarrow> False | Some w \<Rightarrow> py_same v w) \<and> py_same_dict xs ys)"

definition py_eq :: "json \<Rightarrow> json \<Rightarrow> bool" where
  "py_eq x y \<longleftrightarrow> x \<noteq> JFloat FNaN \<and> py_same x y"

fun hashable :: "json \<Rightarrow> bool" where
  "hashable (JList _) = False"
| "hashable (JObj _) = False"
| "hashable _ = True"

text \<open>\<open>x in s\<close> for a set or dictionary: an unhashable \<open>x\<close> raises.\<close>

definition in_set :: "json \<Rightarrow> json list \<Rightarrow> bool res" where
  "in_set x s = (if hashable x then Inr (\<exists>y \<in> set s. py_same x y)
                 else Inl (TypeError ''unhashable type''))"

text \<open>\<open>set(xs)\<close>, as the list of its elements in first-seen order.\<close>

fun dedup :: "json list \<Rightarrow> json list \<Rightarrow> json list" where
  "dedup seen [] = []"
| "dedup seen (x # xs) =
     (if \<exists>y \<in> set seen. py_same x y then dedup seen xs else x # dedup (x # seen) xs)"

definition py_set :: "json list \<Rightarrow> json list res" where
  "py_set xs = (if \<forall>x \<in> set xs. hashable x then Inr (dedup [] xs) else Inl (TypeError ''unhashable type''))"

fun py_truth :: "json \<Rightarrow> bool" where
  "py_truth JNull = False"
| "py_truth (JBool b) = b"
| "py_truth (JInt i) = (i \<noteq> 0)"
| "py_truth (JFloat f) = (f \<noteq> FNum 0)"
| "py_truth (JStr s) = (s \<noteq> [])"
| "py_truth (JList xs) = (xs \<noteq> [])"
| "py_truth (JObj xs) = (xs \<noteq> [])"

fun is_str :: "json \<Rightarrow> bool" where "is_str (JStr _) = True" | "is_str _ = False"
fun is_list :: "json \<Rightarrow> bool" where "is_list (JList _) = True" | "is_list _ = False"
fun is_dict :: "json \<Rightarrow> bool" where "is_dict (JObj _) = True" | "is_dict _ = False"
fun is_bool :: "json \<Rightarrow> bool" where "is_bool (JBool _) = True" | "is_bool _ = False"

text \<open>\<open>type(x) is int\<close>, which is also \<open>isinstance(x, int) and not isinstance(x, bool)\<close>.\<close>

fun is_int :: "json \<Rightarrow> bool" where "is_int (JInt _) = True" | "is_int _ = False"

fun the_str :: "json \<Rightarrow> string" where "the_str (JStr s) = s" | "the_str _ = []"
fun the_list :: "json \<Rightarrow> json list" where "the_list (JList xs) = xs" | "the_list _ = []"
fun the_int :: "json \<Rightarrow> int" where "the_int (JInt i) = i" | "the_int _ = 0"

text \<open>\<open>d.get(k)\<close>, \<open>d.get(k, default)\<close>, \<open>d[k]\<close> and \<open>k in d\<close> on a dictionary with string keys.\<close>

definition jget :: "fields \<Rightarrow> string \<Rightarrow> json" where
  "jget d k = (case map_of d k of None \<Rightarrow> JNull | Some v \<Rightarrow> v)"

definition jget_or :: "fields \<Rightarrow> string \<Rightarrow> json \<Rightarrow> json" where
  "jget_or d k v0 = (case map_of d k of None \<Rightarrow> v0 | Some v \<Rightarrow> v)"

definition jitem :: "fields \<Rightarrow> string \<Rightarrow> json res" where
  "jitem d k = (case map_of d k of None \<Rightarrow> Inl (KeyError k) | Some v \<Rightarrow> Inr v)"

definition has_key :: "fields \<Rightarrow> string \<Rightarrow> bool" where
  "has_key d k \<longleftrightarrow> k \<in> fst ` set d"

text \<open>\<open>d[k] = v\<close>, which keeps the place of an existing key, and \<open>d.pop(k, None)\<close>.\<close>

fun dict_set :: "fields \<Rightarrow> string \<Rightarrow> json \<Rightarrow> fields" where
  "dict_set [] k v = [(k, v)]"
| "dict_set ((k', v') # d) k v = (if k' = k then (k, v) # d else (k', v') # dict_set d k v)"

definition dict_pop :: "fields \<Rightarrow> string \<Rightarrow> fields" where
  "dict_pop d k = filter (\<lambda>p. fst p \<noteq> k) d"

text \<open>\<open>v[k]\<close> and \<open>v.items()\<close> on a value that need not be a dictionary.\<close>

definition subscript :: "json \<Rightarrow> string \<Rightarrow> json res" where
  "subscript v k = (case v of JObj d \<Rightarrow> jitem d k | _ \<Rightarrow> Inl (TypeError ''not subscriptable by name''))"

definition dict_items :: "json \<Rightarrow> fields res" where
  "dict_items v = (case v of JObj d \<Rightarrow> Inr d | _ \<Rightarrow> Inl (AttributeError ''items''))"

section \<open>Decoding with the duplicate-refusing hook\<close>

text \<open>
  \<open>json.loads\<close> passes the names \<open>NaN\<close>, \<open>Infinity\<close> and \<open>-Infinity\<close> to its \<open>parse_constant\<close>
  argument; without one they are floats.  The text parser is a parameter of type
  \<open>loads\<close> taking that argument.
\<close>

type_synonym loads = "(string \<Rightarrow> json res) \<Rightarrow> bytes \<Rightarrow> json res"

definition default_constant :: "string \<Rightarrow> json res" where
  "default_constant name = Inr (JFloat (if name = ''NaN'' then FNaN else if name = ''Infinity'' then FInf else FNegInf))"

fun wf_json :: "json \<Rightarrow> bool" where
  "wf_json (JList xs) = (\<forall>x \<in> set xs. wf_json x)"
| "wf_json (JObj ps) = (distinct (map fst ps) \<and> (\<forall>p \<in> set ps. wf_json (snd p)))"
| "wf_json _ = True"

text \<open>
  \<open>strict_object(pairs)\<close>: the dictionary of the pairs, or an exception at the first name that
  is already there.  The scripts differ in the exception they raise, which is a parameter.
\<close>

definition strict_object :: "exn \<Rightarrow> fields \<Rightarrow> fields res" where
  "strict_object e pairs =
     forE pairs (\<lambda>value p. if has_key value (fst p) then Inl e else Inr (value @ [p])) []"

fun hook :: "exn \<Rightarrow> json \<Rightarrow> json res"
  and hook_list :: "exn \<Rightarrow> json list \<Rightarrow> json list res"
  and hook_pairs :: "exn \<Rightarrow> fields \<Rightarrow> fields res" where
  "hook e (JList xs) = bindE (hook_list e xs) (\<lambda>ys. Inr (JList ys))"
| "hook e (JObj ps) = bindE (hook_pairs e ps) (\<lambda>qs. bindE (strict_object e qs) (\<lambda>d. Inr (JObj d)))"
| "hook e JNull = Inr JNull"
| "hook e (JBool b) = Inr (JBool b)"
| "hook e (JInt i) = Inr (JInt i)"
| "hook e (JFloat f) = Inr (JFloat f)"
| "hook e (JStr s) = Inr (JStr s)"
| "hook_list e [] = Inr []"
| "hook_list e (x # xs) = bindE (hook e x) (\<lambda>y. bindE (hook_list e xs) (\<lambda>ys. Inr (y # ys)))"
| "hook_pairs e [] = Inr []"
| "hook_pairs e ((k, x) # ps) = bindE (hook e x) (\<lambda>y. bindE (hook_pairs e ps) (\<lambda>qs. Inr ((k, y) # qs)))"

section \<open>Laws\<close>

lemma has_key_simps [simp, json_simps]:
  "has_key [] k = False"
  "has_key (p # d) k = (k = fst p \<or> has_key d k)"
  "has_key (d @ d') k = (has_key d k \<or> has_key d' k)"
  by (auto simp: has_key_def)

lemma has_key_iff: "has_key d k \<longleftrightarrow> (\<exists>v. map_of d k = Some v)"
  by (induction d) auto

lemma jget_Some [simp]: "map_of d k = Some v \<Longrightarrow> jget d k = v" and
  jget_None: "map_of d k = None \<Longrightarrow> jget d k = JNull"
  by (simp_all add: jget_def)

lemma jget_or_Some [simp]: "map_of d k = Some v \<Longrightarrow> jget_or d k v0 = v" and
  jget_or_None [simp]: "map_of d k = None \<Longrightarrow> jget_or d k v0 = v0"
  by (simp_all add: jget_or_def)

lemma jitem_Inr [simp]: "jitem d k = Inr v \<longleftrightarrow> map_of d k = Some v"
  by (auto simp: jitem_def split: option.splits)

lemma map_of_dict_set [simp]: "map_of (dict_set d k v) = (map_of d)(k \<mapsto> v)"
  by (induction d k v rule: dict_set.induct) auto

lemma map_of_dict_pop [simp]: "map_of (dict_pop d k) = (map_of d)(k := None)"
  by (induction d) (auto simp: dict_pop_def)

lemma dict_set_fresh: "\<not> has_key d k \<Longrightarrow> dict_set d k v = d @ [(k, v)]"
  by (induction d k v rule: dict_set.induct) auto

lemma dict_set_same: "map_of d k = Some v \<Longrightarrow> dict_set d k v = d"
  by (induction d k v rule: dict_set.induct) (auto split: if_splits)

lemma dict_set_twice [simp]: "dict_set (dict_set d k v) k w = dict_set d k w"
  by (induction d k v rule: dict_set.induct) auto

lemma dict_pop_fresh: "\<not> has_key d k \<Longrightarrow> dict_pop d k = d"
  by (induction d) (auto simp: dict_pop_def)

lemma dict_set_keys: "fst ` set (dict_set d k v) = insert k (fst ` set d)"
  by (induction d k v rule: dict_set.induct) auto

lemma dict_set_distinct: "distinct (map fst d) \<Longrightarrow> distinct (map fst (dict_set d k v))"
proof (induction d k v rule: dict_set.induct)
  case (2 k' v' d k v)
  then show ?case using dict_set_keys [of d k v] by (auto simp: image_iff)
qed simp

lemma is_str_iff: "is_str v \<longleftrightarrow> (\<exists>s. v = JStr s)" by (cases v) auto
lemma is_list_iff: "is_list v \<longleftrightarrow> (\<exists>xs. v = JList xs)" by (cases v) auto
lemma is_dict_iff: "is_dict v \<longleftrightarrow> (\<exists>d. v = JObj d)" by (cases v) auto
lemma is_bool_iff: "is_bool v \<longleftrightarrow> (\<exists>b. v = JBool b)" by (cases v) auto
lemma is_int_iff: "is_int v \<longleftrightarrow> (\<exists>i. v = JInt i)" by (cases v) auto

lemmas is_type_iff = is_str_iff is_list_iff is_dict_iff is_bool_iff is_int_iff

lemma py_same_JStr [simp, json_simps]: "py_same x (JStr s) \<longleftrightarrow> x = JStr s"
  by (cases x) auto

lemma py_eq_JStr [simp, json_simps]: "py_eq x (JStr s) \<longleftrightarrow> x = JStr s"
  by (auto simp: py_eq_def)

lemma py_same_JNull [simp, json_simps]: "py_same x JNull \<longleftrightarrow> x = JNull"
  by (cases x) auto

lemma py_same_list_JStr: "py_same_list xs (map JStr ss) \<longleftrightarrow> xs = map JStr ss"
  by (induction xs arbitrary: ss) (auto split: list.splits)

lemma py_eq_jstrs [simp]: "py_eq x (jstrs ss) \<longleftrightarrow> x = jstrs ss"
  by (cases x) (auto simp: py_eq_def py_same_list_JStr)

lemma dedup_JStr: "dedup (map JStr seen) (map JStr ss) = map JStr (filter (\<lambda>s. s \<notin> set seen) (rev (remdups (rev ss))))"
proof (induction ss arbitrary: seen)
  case (Cons s ss)
  have "filter P (rev (remdups (rev ss @ [s]))) =
     (if P s then [s] else []) @ filter P (filter (\<lambda>x. x \<noteq> s) (rev (remdups (rev ss))))" for P
  proof -
    have "remdups (xs @ [s]) = filter (\<lambda>x. x \<noteq> s) (remdups xs) @ [s]" for xs :: "string list"
      by (induction xs) auto
    then show ?thesis by (auto simp: rev_filter)
  qed
  then show ?case using Cons.IH [of seen] Cons.IH [of "s # seen"]
    by (auto simp: image_iff intro!: arg_cong [where f = "map JStr"] filter_cong)
qed simp

lemma length_dedup_JStr: "length (dedup [] (map JStr ss)) = card (set ss)"
  using dedup_JStr [of "[]" ss] by (simp add: length_remdups_card_conv)

lemma strict_object_loop:
  assumes "forE pairs (\<lambda>value p. if has_key value (fst p) then Inl e else Inr (value @ [p])) d0 = Inr d"
    and "distinct (map fst d0)"
  shows "d = d0 @ pairs \<and> distinct (map fst d)"
  using assms
proof (induction pairs arbitrary: d0)
  case (Cons p pairs)
  then have "\<not> has_key d0 (fst p)" by (auto split: if_splits)
  with Cons.prems have "forE pairs (\<lambda>value p. if has_key value (fst p) then Inl e else Inr (value @ [p])) (d0 @ [p]) = Inr d"
    and "distinct (map fst (d0 @ [p]))" by (auto simp: has_key_def)
  note IH = Cons.IH [OF this]
  from IH have "d = d0 @ p # pairs" by simp
  then show ?case using conjunct2 [OF IH] by (rule conjI)
qed simp

lemma strict_object_Inr: "strict_object e pairs = Inr d \<Longrightarrow> d = pairs \<and> distinct (map fst d)"
  unfolding strict_object_def using strict_object_loop [of pairs e "[]" d] by auto

lemma strict_object_distinct:
  "distinct (map fst (d0 @ pairs)) \<Longrightarrow>
   forE pairs (\<lambda>value p. if has_key value (fst p) then Inl e else Inr (value @ [p])) d0 = Inr (d0 @ pairs)"
proof (induction pairs arbitrary: d0)
  case (Cons p pairs)
  then have "\<not> has_key d0 (fst p)" by (auto simp: has_key_def)
  then show ?case using Cons.IH [of "d0 @ [p]"] Cons.prems by simp
qed simp

lemma strict_object_iff: "strict_object e pairs = Inr d \<longleftrightarrow> d = pairs \<and> distinct (map fst pairs)"
  using strict_object_Inr strict_object_distinct [of "[]" pairs e] unfolding strict_object_def by auto

lemma hook_sound:
  "hook e v = Inr w \<Longrightarrow> w = v \<and> wf_json v"
  "hook_list e vs = Inr ws \<Longrightarrow> ws = vs \<and> (\<forall>v \<in> set vs. wf_json v)"
  "hook_pairs e ps = Inr qs \<Longrightarrow> qs = ps \<and> (\<forall>p \<in> set ps. wf_json (snd p))"
  by (induction e v and e vs and e ps arbitrary: w and ws and qs rule: hook_hook_list_hook_pairs.induct)
    (auto simp: res_simps strict_object_iff)

lemma hook_complete:
  "wf_json v \<Longrightarrow> hook e v = Inr v"
  "\<forall>v \<in> set vs. wf_json v \<Longrightarrow> hook_list e vs = Inr vs"
  "\<forall>p \<in> set ps. wf_json (snd p) \<Longrightarrow> hook_pairs e ps = Inr ps"
proof (induction e v and e vs and e ps rule: hook_hook_list_hook_pairs.induct)
  case (2 e ps)
  then show ?case using strict_object_iff [of e ps ps] by (simp add: bindE_def split: sum.splits)
qed auto

lemma hook_iff: "hook e v = Inr w \<longleftrightarrow> w = v \<and> wf_json v"
  using hook_sound(1) hook_complete(1) by blast

end
