(* ===== verification/Py_Path.thy ===== *)
theory Py_Path
  imports Prelude
begin

text \<open>
  Python's \<open>pathlib.PurePosixPath\<close> and \<open>os.path.normpath\<close> on strings, the canonical-path check
  the validators share, and the relation between string prefixes of canonical paths and
  prefixes of their component lists.  A path with exactly two leading slashes keeps both
  (POSIX leaves its meaning to the implementation), which is why a canonical path may start
  with \<open>//\<close>.
\<close>

section \<open>Character classes and digit strings\<close>

definition in_range :: "char \<Rightarrow> char \<Rightarrow> char \<Rightarrow> bool" where
  "in_range lo hi c \<longleftrightarrow> lo \<le> c \<and> c \<le> hi"

definition is_digit :: "char \<Rightarrow> bool" where
  "is_digit = in_range (CHR ''0'') (CHR ''9'')"

definition is_lower_hex :: "char \<Rightarrow> bool" where
  "is_lower_hex c \<longleftrightarrow> is_digit c \<or> in_range (CHR ''a'') (CHR ''f'') c"

definition is_ascii_alnum :: "char \<Rightarrow> bool" where
  "is_ascii_alnum c \<longleftrightarrow> is_digit c \<or> in_range (CHR ''a'') (CHR ''z'') c \<or> in_range (CHR ''A'') (CHR ''Z'') c"

text \<open>The pattern \<open>[0-9a-f]{64}\<close>, the textual form of a SHA-256 digest.\<close>

definition is_hex64 :: "string \<Rightarrow> bool" where
  "is_hex64 s \<longleftrightarrow> length s = 64 \<and> list_all is_lower_hex s"

section \<open>\<open>PurePosixPath\<close>\<close>

definition path_root :: "string \<Rightarrow> string" where
  "path_root s =
     (if \<not> startswith s ''/'' then ''''
      else if startswith s ''//'' \<and> \<not> startswith s ''///'' then ''//''
      else ''/'')"

definition path_tail :: "string \<Rightarrow> string list" where
  "path_tail s = filter (\<lambda>c. c \<noteq> '''' \<and> c \<noteq> ''.'') (split_on CHR ''/'' (drop (length (path_root s)) s))"

definition path_parts :: "string \<Rightarrow> string list" where
  "path_parts s = (if path_root s = '''' then [] else [path_root s]) @ path_tail s"

definition as_posix :: "string \<Rightarrow> string" where
  "as_posix s =
     (let r = path_root s @ join_with ''/'' (path_tail s) in if r = '''' then ''.'' else r)"

definition path_name :: "string \<Rightarrow> string" where
  "path_name s = (if path_tail s = [] then '''' else last (path_tail s))"

text \<open>\<open>os.path.normpath\<close>.\<close>

fun norm_comps :: "bool \<Rightarrow> string list \<Rightarrow> string list \<Rightarrow> string list" where
  "norm_comps absolute acc [] = rev acc"
| "norm_comps absolute acc (c # cs) =
     (if c = '''' \<or> c = ''.'' then norm_comps absolute acc cs
      else if c \<noteq> ''..'' \<or> (\<not> absolute \<and> acc = []) \<or> (acc \<noteq> [] \<and> hd acc = ''..'') then norm_comps absolute (c # acc) cs
      else if acc \<noteq> [] then norm_comps absolute (tl acc) cs
      else norm_comps absolute acc cs)"

definition normpath :: "string \<Rightarrow> string" where
  "normpath s =
     (if s = '''' then ''.''
      else let root = path_root s;
               comps = norm_comps (root \<noteq> '''') [] (split_on CHR ''/'' (drop (length root) s));
               r = root @ join_with ''/'' comps
           in if r = '''' then ''.'' else r)"

section \<open>Canonical paths\<close>

text \<open>
  The check \<open>value.startswith("/") and PurePosixPath(value).as_posix() == value and
  ".." not in PurePosixPath(value).parts\<close>.
\<close>

definition canonical_path :: "string \<Rightarrow> bool" where
  "canonical_path s \<longleftrightarrow> startswith s ''/'' \<and> as_posix s = s \<and> ''..'' \<notin> set (path_parts s)"

text \<open>The string test for \<open>b\<close> being \<open>a\<close> or below it.\<close>

definition is_within :: "string \<Rightarrow> string \<Rightarrow> bool" where
  "is_within a b \<longleftrightarrow> b = a \<or> startswith b (a @ ''/'')"

definition comp_ok :: "string \<Rightarrow> bool" where
  "comp_ok c \<longleftrightarrow> c \<noteq> '''' \<and> c \<noteq> ''.'' \<and> c \<noteq> ''..'' \<and> CHR ''/'' \<notin> set c"

section \<open>Laws\<close>

lemma split_on_append:
  assumes "ps \<noteq> []" and "\<And>p. p \<in> set ps \<Longrightarrow> c \<notin> set p"
  shows "split_on c (join_with [c] ps @ c # s) = ps @ split_on c s"
  using assms
proof (induction "[c]" ps rule: join_with.induct)
  case (2 p)
  then show ?case by (simp add: split_on_append_sep)
next
  case (3 p q ps)
  then show ?case by (simp add: split_on_append_sep)
qed simp

lemma join_with_inj:
  assumes "join_with [c] xs = join_with [c] ys" and "xs \<noteq> []" and "ys \<noteq> []"
    and "\<And>p. p \<in> set xs \<Longrightarrow> c \<notin> set p" and "\<And>p. p \<in> set ys \<Longrightarrow> c \<notin> set p"
  shows "xs = ys"
  using assms by (metis split_join_on)

lemma join_with_append:
  "xs \<noteq> [] \<Longrightarrow> ys \<noteq> [] \<Longrightarrow> join_with sep (xs @ ys) = join_with sep xs @ sep @ join_with sep ys"
  by (induction xs rule: induct_list012) (auto simp: join_with_Cons)

text \<open>String containment of joined component lists is the prefix order of the lists.\<close>

lemma is_within_join:
  assumes "xs \<noteq> []" and "ys \<noteq> []" and "\<forall>c \<in> set xs. CHR ''/'' \<notin> set c" and "\<forall>c \<in> set ys. CHR ''/'' \<notin> set c"
  shows "is_within (join_with ''/'' xs) (join_with ''/'' ys) \<longleftrightarrow> prefix xs ys"
proof
  assume "is_within (join_with ''/'' xs) (join_with ''/'' ys)"
  then consider "join_with ''/'' ys = join_with ''/'' xs"
    | t where "join_with ''/'' ys = join_with ''/'' xs @ CHR ''/'' # t"
    by (auto simp: is_within_def startswith_iff)
  then show "prefix xs ys"
  proof cases
    case 1
    then show ?thesis using join_with_inj [of "CHR ''/''" ys xs] assms by auto
  next
    case (2 t)
    then have "ys = xs @ split_on CHR ''/'' t"
      using split_on_append [of xs "CHR ''/''" t] split_join_on [of ys "CHR ''/''"] assms by auto
    then show ?thesis by simp
  qed
next
  assume "prefix xs ys"
  then obtain zs where "ys = xs @ zs" by (auto simp: prefix_def)
  then show "is_within (join_with ''/'' xs) (join_with ''/'' ys)"
    using assms by (cases "zs = []") (auto simp: is_within_def join_with_append startswith_iff)
qed

lemma is_within_append [simp]: "is_within (r @ a) (r @ b) \<longleftrightarrow> is_within a b"
  by (auto simp: is_within_def startswith_iff)

lemma path_tail_clean: "c \<in> set (path_tail s) \<Longrightarrow> c \<noteq> '''' \<and> c \<noteq> ''.'' \<and> CHR ''/'' \<notin> set c"
  by (auto simp: path_tail_def dest: split_on_no_sep)

lemma canonical_path_eq:
  assumes "canonical_path s"
  shows "s = path_root s @ join_with ''/'' (path_tail s)" and "path_root s \<in> {''/'', ''//''}"
    and "\<forall>c \<in> set (path_tail s). comp_ok c"
proof -
  show root: "path_root s \<in> {''/'', ''//''}" using assms by (auto simp: canonical_path_def path_root_def)
  then have ne: "path_root s @ join_with ''/'' (path_tail s) \<noteq> ''''" by auto
  have eq: "as_posix s = s" using assms by (simp add: canonical_path_def)
  show "s = path_root s @ join_with ''/'' (path_tail s)"
    using eq ne unfolding as_posix_def Let_def by presburger
  show "\<forall>c \<in> set (path_tail s). comp_ok c"
    using assms path_tail_clean by (auto simp: canonical_path_def path_parts_def comp_ok_def)
qed

lemma join_ok_no_slash:
  assumes "\<forall>c \<in> set cs. comp_ok c" shows "\<not> startswith (join_with ''/'' cs) ''/''"
proof (cases cs)
  case (Cons c cs')
  then obtain x c' where "c = x # c'" "x \<noteq> CHR ''/''" using assms by (cases c) (auto simp: comp_ok_def)
  with Cons show ?thesis by (cases cs') auto
qed simp

lemma path_tail_join:
  assumes "\<forall>c \<in> set cs. comp_ok c" and "r0 \<in> {''/'', ''//''}"
  shows "path_root (r0 @ join_with ''/'' cs) = r0" and "path_tail (r0 @ join_with ''/'' cs) = cs"
proof -
  let ?j = "join_with ''/'' cs"
  show r: "path_root (r0 @ ?j) = r0"
    using join_ok_no_slash [OF assms(1)] assms(2) by (cases ?j) (auto simp: path_root_def)
  show "path_tail (r0 @ ?j) = cs"
  proof (cases "cs = []")
    case False
    then have "split_on CHR ''/'' ?j = cs" using assms(1) by (intro split_join_on) (auto simp: comp_ok_def)
    then show ?thesis using assms(1) unfolding path_tail_def r by (auto simp: comp_ok_def filter_id_conv)
  qed (use r in \<open>simp add: path_tail_def\<close>)
qed

lemma canonical_pathI:
  assumes "\<forall>c \<in> set cs. comp_ok c" and "r0 \<in> {''/'', ''//''}"
  shows "canonical_path (r0 @ join_with ''/'' cs)"
proof -
  define p where "p = r0 @ join_with ''/'' cs"
  have r: "path_root p = r0" and t: "path_tail p = cs" unfolding p_def by (rule path_tail_join [OF assms])+
  have "startswith p ''/''" using assms(2) by (auto simp: p_def)
  moreover have "as_posix p = p" unfolding as_posix_def Let_def r t using assms(2) by (auto simp: p_def)
  moreover have "''..'' \<notin> set (path_parts p)"
    unfolding path_parts_def r t using assms by (auto simp: comp_ok_def)
  ultimately show ?thesis by (simp add: canonical_path_def flip: p_def)
qed

text \<open>A path is canonical exactly when it is a r0 followed by clean components.\<close>

lemma canonical_path_iff:
  "canonical_path s \<longleftrightarrow>
     (\<exists>r0 cs. r0 \<in> {''/'', ''//''} \<and> s = r0 @ join_with ''/'' cs \<and> (\<forall>c \<in> set cs. comp_ok c))"
proof
  assume c: "canonical_path s"
  note e = canonical_path_eq [OF c]
  show "\<exists>r0 cs. r0 \<in> {''/'', ''//''} \<and> s = r0 @ join_with ''/'' cs \<and> (\<forall>c \<in> set cs. comp_ok c)"
    by (intro exI [of _ "path_root s"] exI [of _ "path_tail s"] conjI e)
next
  assume "\<exists>r0 cs. r0 \<in> {''/'', ''//''} \<and> s = r0 @ join_with ''/'' cs \<and> (\<forall>c \<in> set cs. comp_ok c)"
  then show "canonical_path s" using canonical_pathI by metis
qed

lemma canonical_within:
  assumes "canonical_path a" and "canonical_path b" and "path_root a = path_root b"
    and "path_tail a \<noteq> []" and "path_tail b \<noteq> []"
  shows "is_within a b \<longleftrightarrow> prefix (path_tail a) (path_tail b)"
proof -
  have "is_within a b = is_within (join_with ''/'' (path_tail a)) (join_with ''/'' (path_tail b))"
    using canonical_path_eq(1) [OF assms(1)] canonical_path_eq(1) [OF assms(2)] assms(3) is_within_append by metis
  also have "\<dots> = prefix (path_tail a) (path_tail b)"
    using assms canonical_path_eq(3) [OF assms(1)] canonical_path_eq(3) [OF assms(2)]
    by (intro is_within_join) (auto simp: comp_ok_def)
  finally show ?thesis .
qed

lemma canonical_root_only: "canonical_path s \<Longrightarrow> path_tail s = [] \<Longrightarrow> s = path_root s"
  using canonical_path_eq(1) by fastforce

lemma norm_comps_ok: "\<forall>c \<in> set cs. comp_ok c \<Longrightarrow> norm_comps a acc cs = rev acc @ cs"
  by (induction cs arbitrary: acc) (auto simp: comp_ok_def)

text \<open>On canonical paths \<open>normpath\<close> is the identity.\<close>

lemma normpath_canonical:
  assumes "canonical_path s" shows "normpath s = s"
proof -
  note c = canonical_path_eq [OF assms]
  have ne: "s \<noteq> ''''" using c(2) by (auto simp: path_root_def)
  show ?thesis
  proof (cases "path_tail s = []")
    case True
    then have s: "s = path_root s" using canonical_root_only [OF assms] by simp
    then have "norm_comps (path_root s \<noteq> '''') [] (split_on CHR ''/'' (drop (length (path_root s)) s)) = []" by simp
    with ne s show ?thesis by (simp add: normpath_def)
  next
    case False
    have "drop (length (path_root s)) s = join_with ''/'' (path_tail s)"
      by (metis append_eq_conv_conj c(1))
    then have "split_on CHR ''/'' (drop (length (path_root s)) s) = path_tail s"
      using False c(3) split_join_on [of "path_tail s" "CHR ''/''"] by (auto simp: comp_ok_def)
    then have n: "norm_comps (path_root s \<noteq> '''') [] (split_on CHR ''/'' (drop (length (path_root s)) s)) = path_tail s"
      using norm_comps_ok [OF c(3)] by simp
    show ?thesis unfolding normpath_def Let_def n c(1) [symmetric] using ne by simp
  qed
qed

end
