(* ===== verification/Oci_Mounts.thy ===== *)
theory Oci_Mounts
  imports Py_Json Py_Path "HOL-Library.Multiset"
begin

text \<open>
  \<open>validate-runtime-oci.py\<close>, first part: the field checks shared by its sections
  (\<open>require_object\<close>, \<open>reject_unknown\<close>, \<open>require_uint32\<close>, \<open>canonical_absolute_path\<close>), the
  namespace policy (\<open>validate_namespaces\<close>), the mount policy (\<open>docker_private_seed\<close>,
  \<open>validate_mounts\<close>) and the masked and read-only path policy (\<open>validate_path_policy\<close>).
  The lemmas state what an accepted list of namespaces or mounts looks like.
\<close>

section \<open>Field checks\<close>

definition require_object :: "json \<Rightarrow> string \<Rightarrow> fields res" where
  "require_object value name =
     (case value of JObj d \<Rightarrow> Inr d | _ \<Rightarrow> Inl (ValueError (name @ '' must be an object'')))"

definition reject_unknown :: "fields \<Rightarrow> string list \<Rightarrow> string \<Rightarrow> unit res" where
  "reject_unknown value allowed name =
     raise_if (list_ex (\<lambda>p. fst p \<notin> set allowed) value) (ValueError (''unsupported '' @ name @ '' field(s)''))"

definition require_uint :: "int \<Rightarrow> json \<Rightarrow> bool" where
  "require_uint bound value \<longleftrightarrow> is_int value \<and> 0 \<le> the_int value \<and> the_int value \<le> bound"

definition require_uint32 :: "json \<Rightarrow> string \<Rightarrow> unit res" where
  "require_uint32 value name =
     raise_if (\<not> require_uint 4294967295 value) (ValueError (name @ '' must be an unsigned 32-bit integer''))"

definition canonical_absolute_path :: "json \<Rightarrow> string \<Rightarrow> unit res" where
  "canonical_absolute_path value name =
     raise_if (\<not> (is_str value \<and> startswith (the_str value) ''/'' \<and> NUL \<notin> set (the_str value)
         \<and> length (the_str value) \<le> 4096 \<and> as_posix (the_str value) = the_str value
         \<and> ''..'' \<notin> set (path_parts (the_str value))))
       (ValueError (name @ '' must be an absolute canonical bounded path''))"

section \<open>Namespaces\<close>

definition LINUX :: "string list" where
  "LINUX = [''namespaces'', ''resources'', ''cgroupsPath'', ''maskedPaths'', ''readonlyPaths'', ''sysctl'']"

definition NAMESPACE :: "string list" where
  "NAMESPACE = [''type'', ''path'']"

definition CHILD_BOUNDARY_NAMESPACES :: "string list" where
  "CHILD_BOUNDARY_NAMESPACES = [''pid'', ''ipc'', ''uts'', ''mount'', ''cgroup'']"

definition namespace_step :: "json list \<Rightarrow> json \<Rightarrow> json list res" where
  "namespace_step seen entry =
     bindE (require_object entry ''linux.namespaces[]'') (\<lambda>item.
     bindE (reject_unknown item NAMESPACE ''linux.namespaces[]'') (\<lambda>_.
     let kind = jget item ''type''; path = jget_or item ''path'' (JStr '''') in
     bindE (in_set kind seen) (\<lambda>duplicate.
       if duplicate then Inl (ValueError ''duplicate Linux namespace type'')
       else if py_eq kind (JStr ''network'') then
         (if \<not> is_str path then Inl (ValueError ''network namespace path must be a string'')
          else if the_str path \<noteq> '''' \<and> (\<not> startswith (the_str path) ''/'' \<or> as_posix (the_str path) \<noteq> the_str path
              \<or> ''..'' \<in> set (path_parts (the_str path)))
          then Inl (ValueError ''network namespace path must be absolute and canonical'')
          else Inr (kind # seen))
       else if \<exists>k \<in> set CHILD_BOUNDARY_NAMESPACES. py_same kind (JStr k) then
         (if \<not> (py_same path JNull \<or> py_same path (JStr ''''))
          then Inl (ValueError ''joining an existing namespace is unsupported'')
          else Inr (kind # seen))
       else Inl (ValueError ''unsupported Linux namespace type''))))"

definition validate_namespaces :: "json \<Rightarrow> unit res" where
  "validate_namespaces value =
     bindE (require_object value ''linux'') (\<lambda>linux.
     bindE (reject_unknown linux LINUX ''linux'') (\<lambda>_.
     let namespaces = jget linux ''namespaces'' in
     if \<not> is_list namespaces then Inl (ValueError ''linux.namespaces must be an array'')
     else bindE (forE (the_list namespaces) namespace_step []) (\<lambda>seen.
       raise_if (\<not> (\<exists>k \<in> set seen. py_same (JStr ''network'') k))
         (ValueError ''exactly one Linux network namespace is required''))))"

section \<open>Mounts\<close>

definition DEFAULT_MOUNTS :: "(string \<times> string \<times> string \<times> string list) list" where
  "DEFAULT_MOUNTS =
     [(''/proc'', ''proc'', ''proc'', [''nosuid'', ''noexec'', ''nodev'']),
      (''/dev'', ''tmpfs'', ''tmpfs'', [''nosuid'', ''strictatime'', ''mode=755'', ''size=65536k'']),
      (''/dev/pts'', ''devpts'', ''devpts'', [''nosuid'', ''noexec'', ''newinstance'', ''ptmxmode=0666'', ''mode=0620'', ''gid=5'']),
      (''/dev/shm'', ''tmpfs'', ''shm'', [''nosuid'', ''noexec'', ''nodev'', ''mode=1777'', ''size=65536k'']),
      (''/dev/mqueue'', ''mqueue'', ''mqueue'', [''nosuid'', ''noexec'', ''nodev'']),
      (''/sys'', ''sysfs'', ''sysfs'', [''nosuid'', ''noexec'', ''nodev'', ''ro'']),
      (''/sys/fs/cgroup'', ''cgroup'', ''cgroup'', [''ro'', ''nosuid'', ''noexec'', ''nodev'']),
      (''/run'', ''tmpfs'', ''tmpfs'', [''nosuid'', ''strictatime'', ''mode=755'', ''size=65536k''])]"

definition DEFAULT_MOUNT_OPTION_ALIASES :: "(string \<times> string list list) list" where
  "DEFAULT_MOUNT_OPTION_ALIASES =
     [(''/dev/shm'', [[''nosuid'', ''noexec'', ''nodev'', ''mode=1777'', ''size=67108864'']])]"

definition READONLY_BIND_KINDS :: "string list" where
  "READONLY_BIND_KINDS = [''bind'', ''rbind'']"

definition READONLY_BIND_OPTIONAL :: "string list" where
  "READONLY_BIND_OPTIONAL =
     [''private'', ''rprivate'', ''nodev'', ''nosuid'', ''noexec'', ''relatime'', ''noatime'', ''strictatime'']"

definition READONLY_BIND_MARKERS :: "string list" where
  "READONLY_BIND_MARKERS = [''ro'', ''rro'']"

definition PROTECTED_BIND_DESTINATIONS :: "string list" where
  "PROTECTED_BIND_DESTINATIONS = [''/dev'', ''/proc'', ''/run'', ''/sys'']"

definition MAX_READONLY_BINDS :: nat where
  "MAX_READONLY_BINDS = 8"

definition DOCKER_PRIVATE_SEEDS :: "string list" where
  "DOCKER_PRIVATE_SEEDS = [''/etc/resolv.conf'', ''/etc/hostname'', ''/etc/hosts'']"

text \<open>\<open>DOCKER_ROOT.fullmatch(path)\<close>, returning the group.\<close>

definition docker_root_match :: "string \<Rightarrow> string option" where
  "docker_root_match path =
     (let p = ''/var/lib/docker/rootfs/overlayfs/''; rest = drop (length p) path
      in if startswith path p \<and> is_hex64 rest then Some rest else None)"

definition docker_private_seed :: "fields \<Rightarrow> json \<Rightarrow> bool res" where
  "docker_private_seed item root_path =
     (case root_path of
        JStr rootfs \<Rightarrow>
          (let destination = jget item ''destination'' in
           case docker_root_match rootfs of
             None \<Rightarrow> Inr False
           | Some identity \<Rightarrow>
               bindE (in_set destination (map JStr DOCKER_PRIVATE_SEEDS)) (\<lambda>seed.
                 if \<not> seed then Inr False
                 else Inr (py_eq (jget item ''type'') (JStr ''bind'')
                   \<and> py_eq (jget item ''source'')
                       (JStr (''/var/lib/docker/containers/'' @ identity @ ''/'' @ path_name (the_str destination)))
                   \<and> py_eq (jget item ''options'') (jstrs [''rbind'', ''rprivate'']))))
      | _ \<Rightarrow> Inl (TypeError ''expected string''))"

record mounts_state =
  seen_defaults :: "string list"
  bind_destinations :: "string list"
  readonly_binds :: "fields list"
  private_seeds :: "fields list"

definition empty_mounts :: mounts_state where
  "empty_mounts = \<lparr>seen_defaults = [], bind_destinations = [], readonly_binds = [], private_seeds = []\<rparr>"

text \<open>\<open>set(xs) == {s, ...}\<close> for the elements \<open>xs\<close> of a set.\<close>

definition same_strings :: "json list \<Rightarrow> string list \<Rightarrow> bool" where
  "same_strings xs ss \<longleftrightarrow> list_all (\<lambda>x. \<exists>s \<in> set ss. x = JStr s) xs \<and> list_all (\<lambda>s. JStr s \<in> set xs) ss"

definition default_mount :: "fields \<Rightarrow> json \<Rightarrow> string \<Rightarrow> mounts_state \<Rightarrow> mounts_state res" where
  "default_mount item actual_options destination st =
     (if destination \<in> set (seen_defaults st)
      then Inl (ValueError ''unsupported or duplicate OCI mount destination'')
      else case map_of DEFAULT_MOUNTS destination of
        None \<Rightarrow> Inl (KeyError destination)
      | Some (mount_type, source, options) \<Rightarrow>
          (let allowed_options = options #
                 (case map_of DEFAULT_MOUNT_OPTION_ALIASES destination of None \<Rightarrow> [] | Some a \<Rightarrow> a);
               differs = ValueError ''OCI mount differs from the enforced default contract''
           in if \<not> py_eq (jget item ''type'') (JStr mount_type) \<or> \<not> py_eq (jget item ''source'') (JStr source)
                 \<or> \<not> is_list actual_options
              then Inl differs
              else bindE (py_set (the_list actual_options)) (\<lambda>option_set.
                if length (the_list actual_options) \<noteq> length option_set
                   \<or> \<not> list_ex (same_strings option_set) allowed_options
                then Inl differs
                else Inr (st\<lparr>seen_defaults := destination # seen_defaults st\<rparr>))))"

definition string_list :: "json \<Rightarrow> bool" where
  "string_list v \<longleftrightarrow> is_list v \<and> list_all is_str (the_list v)"

text \<open>The expression assigned to \<open>readonly_bind\<close>; the options are strings or the test fails.\<close>

definition readonly_bind_options :: "json \<Rightarrow> bool" where
  "readonly_bind_options actual_options \<longleftrightarrow>
     (let actual = map the_str (the_list actual_options);
          option_set = (if string_list actual_options then remdups actual else [])
      in string_list actual_options \<and> length actual = length option_set
         \<and> length (filter (\<lambda>s. s \<in> set READONLY_BIND_MARKERS) option_set) = 1
         \<and> length (filter (\<lambda>s. s \<in> set READONLY_BIND_KINDS) option_set) = 1
         \<and> list_all (\<lambda>s. s \<in> set (READONLY_BIND_MARKERS @ READONLY_BIND_KINDS @ READONLY_BIND_OPTIONAL)) option_set
         \<and> length (filter (\<lambda>s. s \<in> {''private'', ''rprivate''}) option_set) \<le> 1)"

definition bind_mount :: "fields \<Rightarrow> json \<Rightarrow> json \<Rightarrow> json \<Rightarrow> mounts_state \<Rightarrow> mounts_state res" where
  "bind_mount item actual_options destination root_path st =
     bindE (canonical_absolute_path destination ''mounts[].destination'') (\<lambda>_.
     let source = jget item ''source'' in
     bindE (canonical_absolute_path source ''mounts[].source'') (\<lambda>_.
     if py_eq source (JStr ''/'') then Inl (ValueError ''read-only bind source may not be the host root'')
     else if \<not> py_eq (jget item ''type'') (JStr ''bind'') then Inl (ValueError ''unsupported OCI mount type'')
     else bindE (docker_private_seed item root_path) (\<lambda>private_seed.
       let dst = the_str destination; readonly_bind = readonly_bind_options actual_options in
       if \<not> readonly_bind \<and> \<not> private_seed
       then Inl (ValueError ''read-only bind differs from the enforced option contract'')
       else if dst = ''/'' \<or> list_ex (\<lambda>path. dst = path \<or> startswith dst (path @ ''/'')) PROTECTED_BIND_DESTINATIONS
       then Inl (ValueError ''read-only bind destination overlaps a runtime-owned path'')
       else if list_ex (\<lambda>prior. dst = prior \<or> startswith dst (prior @ ''/'') \<or> startswith prior (dst @ ''/''))
           (bind_destinations st)
       then Inl (ValueError ''read-only bind destinations must be unique and non-overlapping'')
       else (let st' = st\<lparr>bind_destinations := bind_destinations st @ [dst]\<rparr> in
         Inr (if private_seed then st'\<lparr>private_seeds := private_seeds st @ [item]\<rparr>
              else st'\<lparr>readonly_binds := readonly_binds st @ [item]\<rparr>)))))"

definition mount_step :: "json \<Rightarrow> mounts_state \<Rightarrow> json \<Rightarrow> mounts_state res" where
  "mount_step root_path st entry =
     bindE (require_object entry ''mounts[]'') (\<lambda>item.
     bindE (reject_unknown item [''destination'', ''type'', ''source'', ''options''] ''mounts[]'') (\<lambda>_.
     let destination = jget item ''destination''; actual_options = jget_or item ''options'' (JList []) in
     bindE (in_set destination (map (JStr \<circ> fst) DEFAULT_MOUNTS)) (\<lambda>default.
       if default then default_mount item actual_options (the_str destination) st
       else bind_mount item actual_options destination root_path st)))"

definition validate_mounts :: "json \<Rightarrow> json \<Rightarrow> (fields list \<times> fields list) res" where
  "validate_mounts value root_path =
     (if \<not> is_list value then Inl (ValueError ''mounts must be an array'')
      else bindE (forE (the_list value) (mount_step root_path) empty_mounts) (\<lambda>st.
        if length (bind_destinations st) > MAX_READONLY_BINDS
        then Inl (ValueError ''at most 8 read-only bind inputs are supported'')
        else Inr (readonly_binds st, private_seeds st)))"

section \<open>Masked and read-only paths\<close>

definition SAFE_MASKED_PATHS :: "string list" where
  "SAFE_MASKED_PATHS =
     [''/proc/acpi'', ''/proc/asound'', ''/proc/interrupts'', ''/proc/kcore'', ''/proc/keys'', ''/proc/latency_stats'',
      ''/proc/timer_list'', ''/proc/timer_stats'', ''/proc/sched_debug'', ''/sys/firmware'',
      ''/sys/devices/virtual/powercap'', ''/proc/scsi'']"

definition SAFE_READONLY_PATHS :: "string list" where
  "SAFE_READONLY_PATHS = [''/proc/bus'', ''/proc/fs'', ''/proc/irq'', ''/proc/sys'', ''/proc/sysrq-trigger'']"

definition validate_path_policy :: "json \<Rightarrow> string list \<Rightarrow> string \<Rightarrow> unit res" where
  "validate_path_policy values allowed name =
     (if \<not> string_list values then Inl (ValueError (''linux.'' @ name @ '' must be a string array''))
      else let vs = map the_str (the_list values) in
        raise_if (length vs \<noteq> length (remdups vs) \<or> list_ex (\<lambda>v. v \<notin> set allowed) vs)
          (ValueError (''linux.'' @ name @ '' contains a duplicate or unsupported path'')))"

section \<open>What the checks accept\<close>

lemma require_object_Inr [simp]: "require_object v name = Inr d \<longleftrightarrow> v = JObj d"
  by (cases v) (auto simp: require_object_def)

lemma reject_unknown_Inr [simp]: "reject_unknown value allowed name = Inr u \<longleftrightarrow> fst ` set value \<subseteq> set allowed"
  by (auto simp: reject_unknown_def list_ex_iff)

lemma require_uint_iff: "require_uint b v \<longleftrightarrow> (\<exists>i. v = JInt i \<and> 0 \<le> i \<and> i \<le> b)"
  by (cases v) (auto simp: require_uint_def)

lemma canonical_absolute_path_Inr:
  "canonical_absolute_path v name = Inr u \<longleftrightarrow>
     (\<exists>s. v = JStr s \<and> canonical_path s \<and> NUL \<notin> set s \<and> length s \<le> 4096)"
  by (cases v) (auto simp: canonical_absolute_path_def canonical_path_def)

lemma map_JStr_the_str: "\<forall>x \<in> set xs. is_str x \<Longrightarrow> map JStr (map the_str xs) = xs"
  by (induction xs) (auto simp: is_str_iff)

lemma string_list_iff: "string_list v \<longleftrightarrow> (\<exists>ss. v = jstrs ss)"
proof
  assume "string_list v"
  then obtain xs where "v = JList xs" "\<forall>x \<in> set xs. is_str x"
    by (auto simp: string_list_def list_all_iff is_list_iff)
  with map_JStr_the_str [OF this(2)] have "v = jstrs (map the_str xs)" by simp
  then show "\<exists>ss. v = jstrs ss" by (rule exI)
qed (auto simp: string_list_def list_all_iff)

lemma string_list_jstrs [simp]: "string_list (jstrs ss)"
  by (auto simp: string_list_iff)

lemma map_the_str_JStr [simp]: "map (the_str \<circ> JStr) ss = ss" "map the_str (map JStr ss) = ss"
  by (simp_all add: comp_def)

lemma in_set_JStrs: "in_set v (map JStr ss) = Inr b \<Longrightarrow> b \<longleftrightarrow> (\<exists>s \<in> set ss. v = JStr s)"
  by (auto simp: in_set_def split: if_splits)

lemma filter_length_1: "length (filter P xs) = 1 \<Longrightarrow> \<exists>x \<in> set xs. P x"
  by (metis One_nat_def filter_empty_conv length_0_conv nat.simps(3))

lemma readonly_bind_options_sound:
  assumes "readonly_bind_options v"
  shows "\<exists>ss. v = jstrs ss \<and> distinct ss \<and> (''ro'' \<in> set ss \<or> ''rro'' \<in> set ss) \<and> ''rw'' \<notin> set ss"
proof -
  from assms obtain ss where v: "v = jstrs ss" by (auto simp: readonly_bind_options_def Let_def string_list_iff)
  from assms [unfolded v readonly_bind_options_def Let_def] have "length ss = length (remdups ss)"
    and m: "length (filter (\<lambda>s. s \<in> set READONLY_BIND_MARKERS) (remdups ss)) = 1"
    and a: "list_all (\<lambda>s. s \<in> set (READONLY_BIND_MARKERS @ READONLY_BIND_KINDS @ READONLY_BIND_OPTIONAL)) (remdups ss)"
    by simp_all
  moreover have "''ro'' \<in> set ss \<or> ''rro'' \<in> set ss"
    using filter_length_1 [OF m] by (auto simp: READONLY_BIND_MARKERS_def)
  moreover have "''rw'' \<notin> set ss"
  proof
    assume "''rw'' \<in> set ss"
    then have "''rw'' \<in> set (READONLY_BIND_MARKERS @ READONLY_BIND_KINDS @ READONLY_BIND_OPTIONAL)"
      using a by (auto simp only: list_all_iff set_remdups)
    then show False
      by (simp add: READONLY_BIND_MARKERS_def READONLY_BIND_KINDS_def READONLY_BIND_OPTIONAL_def)
  qed
  ultimately show ?thesis using v by (metis length_remdups_card_conv card_distinct)
qed

text \<open>What makes an item a private Docker seed of the container whose root is mounted.\<close>

definition seed_of :: "json \<Rightarrow> fields \<Rightarrow> bool" where
  "seed_of root_path item \<longleftrightarrow> (\<exists>rootfs identity dst. root_path = JStr rootfs \<and> docker_root_match rootfs = Some identity
      \<and> dst \<in> set DOCKER_PRIVATE_SEEDS \<and> jget item ''destination'' = JStr dst
      \<and> jget item ''type'' = JStr ''bind'' \<and> jget item ''options'' = jstrs [''rbind'', ''rprivate'']
      \<and> jget item ''source'' = JStr (''/var/lib/docker/containers/'' @ identity @ ''/'' @ path_name dst))"

lemma docker_private_seed_sound: "docker_private_seed item root_path = Inr True \<Longrightarrow> seed_of root_path item"
proof -
  assume d: "docker_private_seed item root_path = Inr True"
  obtain rootfs where r: "root_path = JStr rootfs" using d by (cases root_path) (auto simp: docker_private_seed_def)
  obtain identity where i: "docker_root_match rootfs = Some identity"
    using d r by (cases "docker_root_match rootfs") (auto simp: docker_private_seed_def)
  from d r i obtain dst where "dst \<in> set DOCKER_PRIVATE_SEEDS" "jget item ''destination'' = JStr dst"
    by (auto simp: docker_private_seed_def Let_def bindE_Inr dest!: in_set_JStrs split: if_splits)
  moreover from d r i have "jget item ''type'' = JStr ''bind''" "jget item ''options'' = jstrs [''rbind'', ''rprivate'']"
    "jget item ''source'' = JStr (''/var/lib/docker/containers/'' @ identity @ ''/'' @ path_name (the_str (jget item ''destination'')))"
    by (auto simp: docker_private_seed_def Let_def bindE_Inr simp del: list.map split: if_splits)
  ultimately show ?thesis using r i by (auto simp: seed_of_def)
qed

text \<open>A bind item that the loop has accepted.\<close>

definition bind_item :: "fields \<Rightarrow> bool" where
  "bind_item item \<longleftrightarrow> (\<exists>dst src. jget item ''destination'' = JStr dst \<and> jget item ''source'' = JStr src
      \<and> canonical_path dst \<and> canonical_path src \<and> src \<noteq> ''/'' \<and> dst \<noteq> ''/'' \<and> NUL \<notin> set dst \<and> NUL \<notin> set src
      \<and> jget item ''type'' = JStr ''bind'' \<and> (\<forall>p \<in> set PROTECTED_BIND_DESTINATIONS. \<not> is_within p dst))"

definition item_destination :: "fields \<Rightarrow> string" where
  "item_destination item = the_str (jget item ''destination'')"

definition apart :: "string \<Rightarrow> string \<Rightarrow> bool" where
  "apart a b \<longleftrightarrow> \<not> is_within a b \<and> \<not> is_within b a"

definition mounts_inv :: "json \<Rightarrow> mounts_state \<Rightarrow> bool" where
  "mounts_inv root_path st \<longleftrightarrow>
     sorted_wrt apart (bind_destinations st)
     \<and> mset (bind_destinations st) = mset (map item_destination (readonly_binds st @ private_seeds st))
     \<and> (\<forall>item \<in> set (readonly_binds st). bind_item item \<and> readonly_bind_options (jget_or item ''options'' (JList [])))
     \<and> (\<forall>item \<in> set (private_seeds st). bind_item item \<and> seed_of root_path item)"

lemma bind_mount_Inr:
  assumes "bind_mount item options destination root_path st = Inr st'" and "destination = jget item ''destination''"
  obtains dst seed where "jget item ''destination'' = JStr dst" and "bind_item item" and "docker_private_seed item root_path = Inr seed"
    and "seed \<or> readonly_bind_options options" and "\<forall>prior \<in> set (bind_destinations st). apart prior dst"
    and "st' = (let st' = st\<lparr>bind_destinations := bind_destinations st @ [dst]\<rparr> in
         if seed then st'\<lparr>private_seeds := private_seeds st @ [item]\<rparr>
         else st'\<lparr>readonly_binds := readonly_binds st @ [item]\<rparr>)"
proof -
  let ?src = "jget item ''source''" and ?dst = "the_str destination"
  from assms(1) obtain u v seed where c: "canonical_absolute_path destination ''mounts[].destination'' = Inr u"
    "canonical_absolute_path ?src ''mounts[].source'' = Inr v" "\<not> py_eq ?src (JStr ''/'')"
    "\<not> \<not> py_eq (jget item ''type'') (JStr ''bind'')" and seed: "docker_private_seed item root_path = Inr seed"
    and opt: "\<not> (\<not> readonly_bind_options options \<and> \<not> seed)"
    and prot: "\<not> (?dst = ''/'' \<or> list_ex (\<lambda>path. ?dst = path \<or> startswith ?dst (path @ ''/'')) PROTECTED_BIND_DESTINATIONS)"
    and pri: "\<not> list_ex (\<lambda>prior. ?dst = prior \<or> startswith ?dst (prior @ ''/'') \<or> startswith prior (?dst @ ''/'')) (bind_destinations st)"
    and st': "(let st' = st\<lparr>bind_destinations := bind_destinations st @ [?dst]\<rparr> in
         Inr (if seed then st'\<lparr>private_seeds := private_seeds st @ [item]\<rparr>
              else st'\<lparr>readonly_binds := readonly_binds st @ [item]\<rparr>)) = Inr st'"
    unfolding bind_mount_def bindE_Inr Let_def if_Inl_Inr by blast
  from c obtain dst src where d: "destination = JStr dst" "canonical_path dst" "NUL \<notin> set dst"
    and s: "?src = JStr src" "canonical_path src" "NUL \<notin> set src" "src \<noteq> ''/''"
    by (auto simp: canonical_absolute_path_Inr)
  show thesis
  proof (rule that [of dst seed])
    show "bind_item item" unfolding bind_item_def
      using d s c(4) prot assms(2) by (auto simp: list_ex_iff is_within_def)
    show "\<forall>prior \<in> set (bind_destinations st). apart prior dst"
      using pri d(1) by (auto simp: list_ex_iff apart_def is_within_def)
    show "seed \<or> readonly_bind_options options" using opt by blast
    show "st' = (let st' = st\<lparr>bind_destinations := bind_destinations st @ [dst]\<rparr> in
         if seed then st'\<lparr>private_seeds := private_seeds st @ [item]\<rparr>
         else st'\<lparr>readonly_binds := readonly_binds st @ [item]\<rparr>)"
      using st' d(1) by (simp add: Let_def)
  qed (use d assms(2) seed in auto)
qed


definition mount_ok :: "json \<Rightarrow> bool" where
  "mount_ok entry \<longleftrightarrow> (\<exists>item. entry = JObj item \<and> fst ` set item \<subseteq> {''destination'', ''type'', ''source'', ''options''})"

text \<open>A mount entry is a default mount or is among the recorded binds.\<close>

definition mount_recorded :: "mounts_state \<Rightarrow> json \<Rightarrow> bool" where
  "mount_recorded st entry \<longleftrightarrow> (\<exists>item. entry = JObj item
      \<and> ((\<exists>d \<in> set DEFAULT_MOUNTS. jget item ''destination'' = JStr (fst d))
         \<or> item \<in> set (readonly_binds st) \<union> set (private_seeds st)))"

lemma mount_step_Inr:
  assumes "mount_step root_path st entry = Inr st'"
  obtains (default) item d where "entry = JObj item" "d \<in> set DEFAULT_MOUNTS"
      "jget item ''destination'' = JStr (fst d)" "st' = st\<lparr>seen_defaults := fst d # seen_defaults st\<rparr>"
    | (bind) item where "entry = JObj item"
      "bind_mount item (jget_or item ''options'' (JList [])) (jget item ''destination'') root_path st = Inr st'"
proof -
  from assms obtain item def where i: "entry = JObj item"
    and def: "in_set (jget item ''destination'') (map JStr (map fst DEFAULT_MOUNTS)) = Inr def"
    and st: "(if def then default_mount item (jget_or item ''options'' (JList [])) (the_str (jget item ''destination'')) st
         else bind_mount item (jget_or item ''options'' (JList [])) (jget item ''destination'') root_path st) = Inr st'"
    unfolding mount_step_def bindE_Inr Let_def require_object_Inr map_map by blast
  show thesis
  proof (cases def)
    case True
    from in_set_JStrs [OF def] True obtain d where d: "d \<in> set DEFAULT_MOUNTS" "jget item ''destination'' = JStr (fst d)" by auto
    from st True have "default_mount item (jget_or item ''options'' (JList [])) (fst d) st = Inr st'" using d(2) by simp
    then have "st' = st\<lparr>seen_defaults := fst d # seen_defaults st\<rparr>"
      by (auto simp: default_mount_def Let_def bindE_Inr split: if_splits option.splits prod.splits)
    with default i d show ?thesis by blast
  qed (use bind i st in auto)
qed

lemma mount_step_ok: "mount_step root_path st entry = Inr st' \<Longrightarrow> mount_ok entry"
  unfolding mount_step_def bindE_Inr require_object_Inr reject_unknown_Inr mount_ok_def by auto

lemma mounts_inv_step:
  assumes "mount_step root_path st entry = Inr st'" and inv: "mounts_inv root_path st"
  shows "mounts_inv root_path st'"
  using assms(1)
proof (cases rule: mount_step_Inr)
  case default
  then show ?thesis using inv by (simp add: mounts_inv_def)
next
  case (bind item)
  from bind(2) refl show ?thesis
  proof (rule bind_mount_Inr)
    fix dst seed
    assume dst: "jget item ''destination'' = JStr dst" and b: "bind_item item"
      and seed: "docker_private_seed item root_path = Inr seed" "seed \<or> readonly_bind_options (jget_or item ''options'' (JList []))"
      and apart: "\<forall>prior \<in> set (bind_destinations st). apart prior dst"
      and st': "st' = (let st' = st\<lparr>bind_destinations := bind_destinations st @ [dst]\<rparr> in
         if seed then st'\<lparr>private_seeds := private_seeds st @ [item]\<rparr>
         else st'\<lparr>readonly_binds := readonly_binds st @ [item]\<rparr>)"
    have "sorted_wrt apart (bind_destinations st @ [dst])" using inv apart by (simp add: mounts_inv_def sorted_wrt_append)
    moreover have "item_destination item = dst" using dst by (simp add: item_destination_def)
    moreover have "seed \<Longrightarrow> seed_of root_path item" using seed(1) docker_private_seed_sound by simp
    ultimately show ?thesis using inv b seed st'
      by (cases seed) (simp_all add: mounts_inv_def Let_def ball_Un)
  qed
qed

lemma mount_step_recorded:
  assumes "mount_step root_path st entry = Inr st'"
  shows "mount_recorded st' entry" and "mount_recorded st e \<Longrightarrow> mount_recorded st' e"
  using assms
  by (cases rule: mount_step_Inr;
      auto simp: mount_recorded_def Let_def elim!: bind_mount_Inr split: if_splits)+

interpretation mounts_loop: recording_loop "mount_step root_path" "mounts_inv root_path" mount_ok mount_recorded
  by unfold_locales (auto intro: mounts_inv_step mount_step_ok mount_step_recorded)

lemma sorted_wrt_mset:
  assumes "sorted_wrt R xs" and "mset xs = mset ys" and sym: "\<And>a b. R a b \<Longrightarrow> R b a"
  shows "sorted_wrt R ys"
  using assms(1,2)
proof (induction ys arbitrary: xs)
  case (Cons y ys)
  then have "y \<in> set xs" by (metis list.set_intros(1) mset_eq_setD)
  then obtain as bs where xs: "xs = as @ y # bs" by (meson split_list)
  with Cons.prems have "mset (as @ bs) = mset ys" "sorted_wrt R (as @ bs)" by (auto simp: sorted_wrt_append)
  with Cons.IH have "sorted_wrt R ys" by blast
  moreover have "R y z" if "z \<in> set ys" for z
  proof -
    have "z \<in> set (as @ bs)" using that \<open>mset (as @ bs) = mset ys\<close> by (metis mset_eq_setD)
    then show ?thesis using Cons.prems(1) sym unfolding xs by (auto simp: sorted_wrt_append)
  qed
  ultimately show ?case by simp
qed simp

lemma apart_sym: "apart a b \<Longrightarrow> apart b a"
  by (simp add: apart_def)

lemma validate_mounts_Inr:
  assumes "validate_mounts mounts root_path = Inr (ro, seeds)"
  obtains st xs where "mounts = JList xs" "forE xs (mount_step root_path) empty_mounts = Inr st"
    "mounts_inv root_path st" "length (bind_destinations st) \<le> 8" "ro = readonly_binds st" "seeds = private_seeds st"
proof -
  from assms obtain st where st: "forE (the_list mounts) (mount_step root_path) empty_mounts = Inr st" "is_list mounts"
    and "length (bind_destinations st) \<le> 8" "ro = readonly_binds st" "seeds = private_seeds st"
    by (auto simp: validate_mounts_def bindE_Inr MAX_READONLY_BINDS_def split: if_splits)
  moreover have "mounts_inv root_path st"
    by (rule mounts_loop.loop_inv [OF st(1)]) (simp add: mounts_inv_def empty_mounts_def)
  ultimately show thesis using that [of "the_list mounts" st] by (auto simp: is_list_iff)
qed

lemma validate_mounts_apart:
  assumes "validate_mounts mounts root_path = Inr (ro, seeds)"
  shows "length (ro @ seeds) \<le> 8" and "sorted_wrt apart (map item_destination (ro @ seeds))"
    and "\<forall>item \<in> set (ro @ seeds). bind_item item"
proof -
  from assms obtain st where st: "mounts_inv root_path st" "length (bind_destinations st) \<le> 8" "ro = readonly_binds st"
    "seeds = private_seeds st" by (rule validate_mounts_Inr)
  then have m: "mset (bind_destinations st) = mset (map item_destination (ro @ seeds))" by (simp add: mounts_inv_def)
  from arg_cong [OF m, of size] st(2) show "length (ro @ seeds) \<le> 8" by simp
  show "sorted_wrt apart (map item_destination (ro @ seeds))"
    using sorted_wrt_mset [OF _ m] st(1) apart_sym by (auto simp: mounts_inv_def)
  show "\<forall>item \<in> set (ro @ seeds). bind_item item" using st by (auto simp: mounts_inv_def)
qed

section \<open>Properties of the mount policy\<close>

text \<open>
  C5.  What \<open>validate_mounts\<close> lets through: at most eight binds, whose destinations are
  pairwise neither equal nor nested; every read-only bind carries \<open>ro\<close> or \<open>rro\<close> and not \<open>rw\<close>;
  every private seed is the file of that name in the container directory of the Docker root
  the configuration names; every bind has canonical absolute source and destination, a source
  other than the host root and a destination textually outside the protected trees; and no
  mount entry is dropped: each is a default mount or one of the returned binds.
\<close>

theorem validate_mounts_sound:
  assumes "validate_mounts mounts root_path = Inr (ro, seeds)"
  shows "length (ro @ seeds) \<le> 8
    \<and> (\<forall>i < length (ro @ seeds). \<forall>j < length (ro @ seeds). i \<noteq> j \<longrightarrow>
         \<not> is_within (item_destination ((ro @ seeds) ! i)) (item_destination ((ro @ seeds) ! j)))
    \<and> (\<forall>item \<in> set ro. \<exists>ss. jget_or item ''options'' (JList []) = jstrs ss
         \<and> (''ro'' \<in> set ss \<or> ''rro'' \<in> set ss) \<and> ''rw'' \<notin> set ss)
    \<and> (\<forall>item \<in> set seeds. seed_of root_path item)
    \<and> (\<forall>item \<in> set (ro @ seeds). bind_item item)
    \<and> (\<forall>entry \<in> set (the_list mounts). \<exists>item. entry = JObj item
         \<and> ((\<exists>d \<in> set DEFAULT_MOUNTS. jget item ''destination'' = JStr (fst d)) \<or> item \<in> set ro \<union> set seeds))"
proof -
  from assms obtain st xs where st: "mounts = JList xs" "forE xs (mount_step root_path) empty_mounts = Inr st"
    "mounts_inv root_path st" "ro = readonly_binds st" "seeds = private_seeds st" by (rule validate_mounts_Inr)
  note a = validate_mounts_apart [OF assms]
  have "apart (item_destination ((ro @ seeds) ! i)) (item_destination ((ro @ seeds) ! j))"
    if "i < length (ro @ seeds)" "j < length (ro @ seeds)" "i \<noteq> j" for i j
    using a(2) that sorted_wrt_nth_less [of apart "map item_destination (ro @ seeds)"] apart_sym
    by (metis (no_types, lifting) length_map linorder_neqE_nat nth_map)
  moreover have "\<forall>item \<in> set ro. \<exists>ss. jget_or item ''options'' (JList []) = jstrs ss
         \<and> (''ro'' \<in> set ss \<or> ''rro'' \<in> set ss) \<and> ''rw'' \<notin> set ss"
    using st readonly_bind_options_sound unfolding mounts_inv_def by blast
  moreover have "\<forall>item \<in> set seeds. seed_of root_path item" using st by (simp add: mounts_inv_def)
  moreover have "mount_recorded st entry" if "entry \<in> set xs" for entry
    using mounts_loop.loop_records [OF st(2) that] .
  ultimately show ?thesis using a(1,3) st unfolding apart_def mount_recorded_def by simp
qed

definition docker_sample_root :: json where
  "docker_sample_root = JStr (''/var/lib/docker/rootfs/overlayfs/'' @ replicate 64 CHR ''a'')"

definition docker_sample_mounts :: json where
  "docker_sample_mounts = JList
     [JObj [(''destination'', JStr ''/proc''), (''type'', JStr ''proc''), (''source'', JStr ''proc''),
            (''options'', jstrs [''nosuid'', ''noexec'', ''nodev''])],
      JObj [(''destination'', JStr ''/data''), (''type'', JStr ''bind''), (''source'', JStr ''/srv/data''),
            (''options'', jstrs [''rbind'', ''ro''])],
      JObj [(''destination'', JStr ''/etc/hosts''), (''type'', JStr ''bind''),
            (''source'', JStr (''/var/lib/docker/containers/'' @ replicate 64 CHR ''a'' @ ''/hosts'')),
            (''options'', jstrs [''rbind'', ''rprivate''])]]"

lemma docker_sample_accepted:
  "\<exists>ro seeds. validate_mounts docker_sample_mounts docker_sample_root = Inr (ro, seeds)
     \<and> map item_destination ro = [''/data''] \<and> map item_destination seeds = [''/etc/hosts'']"
proof -
  have "(case validate_mounts docker_sample_mounts docker_sample_root of Inr (ro, seeds) \<Rightarrow>
      map item_destination ro = [''/data''] \<and> map item_destination seeds = [''/etc/hosts''] | _ \<Rightarrow> False)"
    by code_simp
  then show ?thesis by (auto split: sum.splits prod.splits)
qed

theorem validate_mounts_sound_witness:
  "\<exists>ro seeds. validate_mounts docker_sample_mounts docker_sample_root = Inr (ro, seeds)
     \<and> length ro = 1 \<and> length seeds = 1 \<and> (\<forall>item \<in> set seeds. seed_of docker_sample_root item)"
proof -
  from docker_sample_accepted obtain ro seeds where
    v: "validate_mounts docker_sample_mounts docker_sample_root = Inr (ro, seeds)"
    and len: "map item_destination ro = [''/data'']" "map item_destination seeds = [''/etc/hosts'']" by metis
  then have "length ro = 1" "length seeds = 1" by (metis length_Cons list.size(3) length_map One_nat_def)+
  with v validate_mounts_sound [OF v] show ?thesis by blast
qed

text \<open>
  C6.  For destinations with a single leading slash the textual checks mean what they should on
  path components: no bind lands on or below \<open>/dev\<close>, \<open>/proc\<close>, \<open>/run\<close> or \<open>/sys\<close>, and no
  destination's component list is a prefix of another's.
\<close>

theorem validate_mounts_components:
  assumes "validate_mounts mounts root_path = Inr (ro, seeds)"
    and "binds = filter (\<lambda>item. path_root (item_destination item) = ''/'') (ro @ seeds)"
  shows "(\<forall>item \<in> set binds. path_tail (item_destination item) \<noteq> []
        \<and> hd (path_tail (item_destination item)) \<notin> {''dev'', ''proc'', ''run'', ''sys''})
    \<and> sorted_wrt (\<lambda>a b. \<not> prefix (path_tail a) (path_tail b) \<and> \<not> prefix (path_tail b) (path_tail a))
        (map item_destination binds)"
proof -
  note a = validate_mounts_apart [OF assms(1)]
  have single: "canonical_path d \<and> path_root d = ''/'' \<and> path_tail d \<noteq> [] \<and> (\<forall>p \<in> set PROTECTED_BIND_DESTINATIONS. \<not> is_within p d)"
    if "d \<in> set (map item_destination binds)" for d
  proof -
    from that obtain item where "item \<in> set binds" "d = item_destination item" by auto
    then have "bind_item item" and r: "path_root d = ''/''" using a(3) assms(2) by auto
    then have c: "canonical_path d" "d \<noteq> ''/''" "\<forall>p \<in> set PROTECTED_BIND_DESTINATIONS. \<not> is_within p d"
      using \<open>d = item_destination item\<close> by (auto simp: bind_item_def item_destination_def)
    then show ?thesis using r canonical_root_only by metis
  qed
  have prot: "hd (path_tail d) \<noteq> c"
    if d: "d \<in> set (map item_destination binds)" and c: "c \<in> {''dev'', ''proc'', ''run'', ''sys''}" for c d
  proof
    assume eq: "hd (path_tail d) = c"
    have p: "''/'' @ c \<in> set PROTECTED_BIND_DESTINATIONS" using c by (auto simp: PROTECTED_BIND_DESTINATIONS_def)
    have "comp_ok c" using c by (auto simp: comp_ok_def)
    then have t: "path_root (''/'' @ c) = ''/''" "path_tail (''/'' @ c) = [c]" "canonical_path (''/'' @ c)"
      using path_tail_join [of "[c]" "''/''"] canonical_pathI [of "[c]" "''/''"] by simp_all
    have "prefix [c] (path_tail d)" using single [OF d] eq by (cases "path_tail d") auto
    then have "is_within (''/'' @ c) d"
      using canonical_within [of "''/'' @ c" d] single [OF d] t by simp
    then show False using single [OF d] p by blast
  qed
  have "sorted_wrt apart (map item_destination binds)"
    unfolding assms(2) sorted_wrt_map by (rule sorted_wrt_filter) (use a(2) in \<open>simp only: sorted_wrt_map\<close>)
  then have "sorted_wrt (\<lambda>a b. \<not> prefix (path_tail a) (path_tail b) \<and> \<not> prefix (path_tail b) (path_tail a))
        (map item_destination binds)"
    by (rule sorted_wrt_mono_rel [rotated]) (use single canonical_within in \<open>simp add: apart_def\<close>)
  then show ?thesis using single prot by auto
qed

theorem validate_mounts_components_witness:
  "\<exists>ro seeds. validate_mounts docker_sample_mounts docker_sample_root = Inr (ro, seeds)
     \<and> sorted_wrt (\<lambda>a b. \<not> prefix (path_tail a) (path_tail b) \<and> \<not> prefix (path_tail b) (path_tail a))
        (map item_destination (filter (\<lambda>item. path_root (item_destination item) = ''/'') (ro @ seeds)))"
proof -
  from docker_sample_accepted obtain ro seeds where
    v: "validate_mounts docker_sample_mounts docker_sample_root = Inr (ro, seeds)" by metis
  show ?thesis
    by (rule exI [of _ ro], rule exI [of _ seeds], rule conjI [OF v conjunct2 [OF validate_mounts_components [OF v refl]]])
qed

definition double_slash_mounts :: json where
  "double_slash_mounts = JList (map (\<lambda>d. JObj [(''destination'', JStr d), (''type'', JStr ''bind''),
     (''source'', JStr ''/srv/data''), (''options'', jstrs [''bind'', ''ro''])]) [''//dev/shm'', ''/data'', ''//data''])"


section \<open>Properties of the namespace policy\<close>

text \<open>What an accepted namespace entry says.\<close>

definition namespace_ok :: "json \<Rightarrow> bool" where
  "namespace_ok entry \<longleftrightarrow> (\<exists>item kind. entry = JObj item \<and> jget item ''type'' = JStr kind
     \<and> (kind = ''network'' \<and> (\<exists>p. jget_or item ''path'' (JStr '''') = JStr p \<and> (p = '''' \<or> canonical_path p))
        \<or> kind \<in> set CHILD_BOUNDARY_NAMESPACES \<and> jget_or item ''path'' (JStr '''') \<in> {JNull, JStr ''''}))"

fun entry_kind :: "json \<Rightarrow> json" where
  "entry_kind (JObj item) = jget item ''type''"
| "entry_kind _ = JNull"

lemma namespace_step_Inr:
  assumes "namespace_step seen entry = Inr seen'"
  shows "namespace_ok entry" and "seen' = entry_kind entry # seen" and "entry_kind entry \<notin> set seen"
proof -
  from assms obtain item b where e: "entry = JObj item"
    and b: "in_set (jget item ''type'') seen = Inr b" "\<not> b"
    and r: "(if py_eq (jget item ''type'') (JStr ''network'') then
         (if \<not> is_str (jget_or item ''path'' (JStr '''')) then Inl (ValueError ''network namespace path must be a string'')
          else if the_str (jget_or item ''path'' (JStr '''')) \<noteq> '''' \<and> (\<not> startswith (the_str (jget_or item ''path'' (JStr ''''))) ''/'' \<or> as_posix (the_str (jget_or item ''path'' (JStr ''''))) \<noteq> the_str (jget_or item ''path'' (JStr ''''))
              \<or> ''..'' \<in> set (path_parts (the_str (jget_or item ''path'' (JStr '''')))))
          then Inl (ValueError ''network namespace path must be absolute and canonical'')
          else Inr (jget item ''type'' # seen))
       else if \<exists>k \<in> set CHILD_BOUNDARY_NAMESPACES. py_same (jget item ''type'') (JStr k) then
         (if \<not> (py_same (jget_or item ''path'' (JStr '''')) JNull \<or> py_same (jget_or item ''path'' (JStr '''')) (JStr ''''))
          then Inl (ValueError ''joining an existing namespace is unsupported'')
          else Inr (jget item ''type'' # seen))
       else Inl (ValueError ''unsupported Linux namespace type'')) = Inr seen'"
    unfolding namespace_step_def Let_def bindE_Inr if_Inl_Inr require_object_Inr by blast
  have ok: "namespace_ok entry \<and> seen' = jget item ''type'' # seen"
    using r by (auto simp: namespace_ok_def e is_str_iff canonical_path_def split: if_split_asm)
  then show "namespace_ok entry" and "seen' = entry_kind entry # seen" using e by auto
  from ok e obtain k where "jget item ''type'' = JStr k" by (auto simp: namespace_ok_def)
  then show "entry_kind entry \<notin> set seen" using b e by (auto simp: in_set_def)
qed

interpretation namespaces_loop: validated_loop namespace_step distinct namespace_ok
  by unfold_locales (metis distinct.simps(2) namespace_step_Inr(2,3), rule namespace_step_Inr(1))

lemma namespaces_seen: "forE xs namespace_step s = Inr t \<Longrightarrow> t = rev (map entry_kind xs) @ s"
  by (induction xs arbitrary: s) (auto simp: bindE_Inr dest!: namespace_step_Inr(2))

text \<open>
  C8.  An accepted \<open>linux\<close> section lists namespaces of pairwise distinct types, exactly one of
  them the network namespace, whose path is empty or canonical; the others are child-kernel
  boundary types that join no existing namespace.
\<close>

theorem validate_namespaces_sound:
  assumes "validate_namespaces value = Inr ()"
  shows "\<exists>linux entries. value = JObj linux \<and> fst ` set linux \<subseteq> set LINUX
    \<and> jget linux ''namespaces'' = JList entries \<and> (\<forall>entry \<in> set entries. namespace_ok entry)
    \<and> distinct (map entry_kind entries) \<and> length (filter (\<lambda>entry. entry_kind entry = JStr ''network'') entries) = 1"
proof -
  from assms obtain linux seen where l: "value = JObj linux" "fst ` set linux \<subseteq> set LINUX"
    and ns: "is_list (jget linux ''namespaces'')" and fs: "forE (the_list (jget linux ''namespaces'')) namespace_step [] = Inr seen"
    and net: "\<exists>k \<in> set seen. py_same (JStr ''network'') k"
    unfolding validate_namespaces_def Let_def bindE_Inr if_Inl_Inr raise_if_Inr require_object_Inr reject_unknown_Inr not_not
    by (elim exE conjE)
  from ns fs obtain entries where e: "jget linux ''namespaces'' = JList entries"
    and f: "forE entries namespace_step [] = Inr seen" by (auto simp: is_list_iff)
  have ok: "\<forall>entry \<in> set entries. namespace_ok entry" using namespaces_loop.loop_ok [OF f] by blast
  have "distinct seen" using namespaces_loop.loop_inv [OF f] by simp
  then have d: "distinct (map entry_kind entries)" using namespaces_seen [OF f] by simp
  from net namespaces_seen [OF f] obtain e where e': "e \<in> set entries" "py_same (JStr ''network'') (entry_kind e)" by auto
  from ok e'(1) have "namespace_ok e" by blast
  with e'(2) have k: "entry_kind e = JStr ''network''" by (auto simp: namespace_ok_def)
  have "filter (\<lambda>entry. entry_kind entry = JStr ''network'') entries = [e]"
    using e'(1) k d by (induction entries) (auto simp: filter_empty_conv image_iff)
  with l e ok d show ?thesis by auto
qed

theorem validate_namespaces_sound_witness:
  "\<exists>entries. jget [(''namespaces'', JList [JObj [(''type'', JStr ''network''), (''path'', JStr ''/run/netns/a'')], JObj [(''type'', JStr ''pid'')]])]
      ''namespaces'' = JList entries \<and> distinct (map entry_kind entries)"
proof -
  have "validate_namespaces (JObj [(''namespaces'', JList [JObj [(''type'', JStr ''network''), (''path'', JStr ''/run/netns/a'')], JObj [(''type'', JStr ''pid'')]])]) = Inr ()"
    by code_simp
  from validate_namespaces_sound [OF this] show ?thesis by auto
qed

end
