(* ===== verification/Py_Text.thy ===== *)
theory Py_Text
  imports Prelude Py_Path
begin

text \<open>
  Text operations of the scripts: UTF-8 decoding, \<open>splitlines\<close>, \<open>strip\<close>, \<open>isdigit\<close>, decimal numbers
  and \<open>re.fullmatch\<close> of the patterns that are a bounded run of characters of one class.
  A decoded text is represented by its code points up to U+00FF; any higher code point is represented by
  U+00FF, which like most of them is neither a blank nor a line end nor a digit.
\<close>

section \<open>UTF-8\<close>

definition utf8_tail :: "nat \<Rightarrow> bool" where
  "utf8_tail b \<longleftrightarrow> 128 \<le> b \<and> b < 192"

fun utf8_points :: "nat list \<Rightarrow> nat list option" where
  "utf8_points [] = Some []"
| "utf8_points (a # rest) =
     (if a < 128 then map_option ((#) a) (utf8_points rest)
      else case rest of
        b # rest1 \<Rightarrow>
          if 194 \<le> a \<and> a < 224
          then if utf8_tail b then map_option ((#) (a mod 32 * 64 + b mod 64)) (utf8_points rest1) else None
          else (case rest1 of
            c # rest2 \<Rightarrow>
              if 224 \<le> a \<and> a < 240
              then if utf8_tail b \<and> utf8_tail c \<and> (a = 224 \<longrightarrow> 160 \<le> b) \<and> (a = 237 \<longrightarrow> b < 160)
                then map_option ((#) (a mod 16 * 4096 + b mod 64 * 64 + c mod 64)) (utf8_points rest2) else None
              else (case rest2 of
                d # rest3 \<Rightarrow>
                  if 240 \<le> a \<and> a < 245 \<and> utf8_tail b \<and> utf8_tail c \<and> utf8_tail d \<and> (a = 240 \<longrightarrow> 144 \<le> b) \<and> (a = 244 \<longrightarrow> b < 144)
                  then map_option ((#) (a mod 8 * 262144 + b mod 64 * 4096 + c mod 64 * 64 + d mod 64)) (utf8_points rest3) else None
              | [] \<Rightarrow> None)
          | [] \<Rightarrow> None)
      | [] \<Rightarrow> None)"

definition utf8_ok :: "bytes \<Rightarrow> bool" where
  "utf8_ok data \<longleftrightarrow> utf8_points (map of_char data) \<noteq> None"

definition decode_utf8 :: "bytes \<Rightarrow> string res" where
  "decode_utf8 data =
     (case utf8_points (map of_char data) of
        None \<Rightarrow> Inl (UnicodeDecodeError ''utf-8'')
      | Some points \<Rightarrow> Inr (map (\<lambda>point. char_of (min point 255)) points))"

definition is_ascii :: "char \<Rightarrow> bool" where
  "is_ascii c \<longleftrightarrow> (of_char c :: nat) < 128"

lemma utf8_points_ascii: "list_all (\<lambda>a. a < 128) bs \<Longrightarrow> utf8_points bs = Some bs"
  by (induction bs) auto

lemma decode_utf8_ascii:
  assumes "list_all is_ascii data" shows "decode_utf8 data = Inr data"
proof -
  have "list_all (\<lambda>a. a < (128 :: nat)) (map of_char data)" using assms by (auto simp: list_all_iff is_ascii_def)
  moreover have "min (of_char c) 255 = (of_char c :: nat)" if "c \<in> set data" for c
    using assms that by (auto simp: list_all_iff is_ascii_def)
  ultimately show ?thesis using utf8_points_ascii by (simp add: decode_utf8_def comp_def cong: map_cong)
qed

section \<open>Lines and blanks\<close>

text \<open>The characters at which \<open>str.splitlines\<close> ends a line, and those \<open>str.strip\<close> removes.\<close>

definition is_line_end :: "char \<Rightarrow> bool" where
  "is_line_end c \<longleftrightarrow> (of_char c :: nat) \<in> {10, 11, 12, 13, 28, 29, 30, 133}"

definition is_blank :: "char \<Rightarrow> bool" where
  "is_blank c \<longleftrightarrow> (of_char c :: nat) \<in> {9, 10, 11, 12, 13, 28, 29, 30, 31, 32, 133, 160}"

text \<open>The flag says that the line ended in a carriage return, which takes a following line feed with it.\<close>

fun split_lines :: "bool \<Rightarrow> string \<Rightarrow> string \<Rightarrow> string list" where
  "split_lines cr line [] = (if line = [] then [] else [rev line])"
| "split_lines cr line (c # cs) =
     (if cr \<and> c = CHR 0x0A then split_lines False line cs
      else if is_line_end c then rev line # split_lines (c = CHR 0x0D) [] cs
      else split_lines False (c # line) cs)"

definition splitlines :: "string \<Rightarrow> string list" where
  "splitlines s = split_lines False [] s"

lemma split_lines_line:
  "list_all (\<lambda>c. \<not> is_line_end c) l \<Longrightarrow> split_lines False acc (l @ CHR 0x0A # rest) = (rev acc @ l) # split_lines False [] rest"
  by (induction l arbitrary: acc) (auto simp: is_line_end_def)

lemma split_lines_last:
  "list_all (\<lambda>c. \<not> is_line_end c) l \<Longrightarrow> l \<noteq> [] \<or> acc \<noteq> [] \<Longrightarrow> split_lines False acc l = [rev acc @ l]"
  by (induction l arbitrary: acc) auto

lemma splitlines_join:
  assumes "list_all (\<lambda>l. l \<noteq> [] \<and> list_all (\<lambda>c. \<not> is_line_end c) l) ls"
  shows "splitlines (join_with [CHR 0x0A] ls) = ls"
  unfolding splitlines_def using assms
proof (induction ls)
  case (Cons l ls)
  then show ?case by (cases ls) (auto simp: split_lines_line split_lines_last)
qed simp

definition strip :: "string \<Rightarrow> string" where
  "strip s = rev (dropWhile is_blank (rev (dropWhile is_blank s)))"

text \<open>\<open>s.split(c, 1)\<close> for a character that occurs.\<close>

definition split_once :: "char \<Rightarrow> string \<Rightarrow> string \<times> string" where
  "split_once c s = (takeWhile (\<lambda>x. x \<noteq> c) s, drop 1 (dropWhile (\<lambda>x. x \<noteq> c) s))"

section \<open>Numbers\<close>

text \<open>\<open>isdigit\<close> also holds of the superscripts, which \<open>int\<close> refuses.\<close>

definition is_unicode_digit :: "char \<Rightarrow> bool" where
  "is_unicode_digit c \<longleftrightarrow> is_digit c \<or> (of_char c :: nat) \<in> {178, 179, 185}"

definition isdigit :: "string \<Rightarrow> bool" where
  "isdigit s \<longleftrightarrow> s \<noteq> [] \<and> list_all is_unicode_digit s"

definition decimal :: "string \<Rightarrow> nat" where
  "decimal s = foldl (\<lambda>n c. n * 10 + (of_char c - 48)) 0 s"

definition int_of_digits :: "string \<Rightarrow> nat res" where
  "int_of_digits s = (if list_all is_digit s then Inr (decimal s) else Inl (ValueError ''invalid literal for int''))"

fun dec_digits :: "nat \<Rightarrow> string" where
  "dec_digits n = (if n < 10 then [char_of (48 + n)] else dec_digits (n div 10) @ [char_of (48 + n mod 10)])"

declare dec_digits.simps [simp del]

lemma digit_char: "d < 10 \<Longrightarrow> of_char (char_of (48 + d) :: char) = (48 + d :: nat)"
  by simp

lemma decimal_snoc: "decimal (s @ [c]) = decimal s * 10 + (of_char c - 48)"
  by (simp add: decimal_def)

lemma decimal_dec_digits: "decimal (dec_digits n) = n"
proof (induction n rule: dec_digits.induct)
  case (1 n)
  show ?case
  proof (cases "n < 10")
    case True
    then show ?thesis by (subst dec_digits.simps) (simp add: decimal_def)
  next
    case False
    then show ?thesis using 1 by (subst dec_digits.simps) (simp add: decimal_snoc)
  qed
qed

lemma is_digit_code: "is_digit c \<longleftrightarrow> 48 \<le> (of_char c :: nat) \<and> (of_char c :: nat) \<le> 57"
  by (simp add: is_digit_def in_range_def less_eq_char_def)

lemma dec_digits_digits: "dec_digits n \<noteq> []" "list_all is_digit (dec_digits n)"
proof -
  show "dec_digits n \<noteq> []" by (subst dec_digits.simps) simp
  show "list_all is_digit (dec_digits n)"
  proof (induction n rule: dec_digits.induct)
    case (1 n)
    show ?case
    proof (cases "n < 10")
      case True
      then show ?thesis by (subst dec_digits.simps) (simp add: is_digit_code)
    next
      case False
      have "is_digit (char_of (48 + n mod 10) :: char)" unfolding is_digit_code by simp
      then show ?thesis using 1 False by (subst dec_digits.simps) simp
    qed
  qed
qed

section \<open>Patterns\<close>

text \<open>\<open>[first][rest]{lo,hi}\<close> as a full match.\<close>

definition class_run :: "(char \<Rightarrow> bool) \<Rightarrow> (char \<Rightarrow> bool) \<Rightarrow> nat \<Rightarrow> nat \<Rightarrow> string \<Rightarrow> bool" where
  "class_run first rest lo hi s \<longleftrightarrow>
     (case s of [] \<Rightarrow> False | c # cs \<Rightarrow> first c \<and> list_all rest cs \<and> lo \<le> length cs \<and> length cs \<le> hi)"

text \<open>\<open>[0-9a-f]{n}\<close>.\<close>

definition is_hex_run :: "nat \<Rightarrow> string \<Rightarrow> bool" where
  "is_hex_run n s \<longleftrightarrow> length s = n \<and> list_all is_lower_hex s"

text \<open>The textual form of a UUID.\<close>

definition is_uuid :: "string \<Rightarrow> bool" where
  "is_uuid s \<longleftrightarrow>
     (case split_on CHR ''-'' s of
        [a, b, c, d, e] \<Rightarrow> is_hex_run 8 a \<and> is_hex_run 4 b \<and> is_hex_run 4 c \<and> is_hex_run 4 d \<and> is_hex_run 12 e
      | _ \<Rightarrow> False)"

text \<open>\<open>[A-Za-z0-9._+-]\<close> and the same with \<open>/\<close>.\<close>

definition is_token_char :: "char \<Rightarrow> bool" where
  "is_token_char c \<longleftrightarrow> is_ascii_alnum c \<or> c \<in> {CHR ''.'', CHR ''_'', CHR ''+'', CHR ''-''}"

definition is_path_char :: "char \<Rightarrow> bool" where
  "is_path_char c \<longleftrightarrow> is_token_char c \<or> c = CHR ''/''"

end
