(* ===== verification/Py_Os.thy ===== *)
theory Py_Os
  imports Prelude
begin

text \<open>
  What the scripts observe of the operating system: \<open>stat\<close> results with the mode tests of the
  \<open>stat\<close> module, a file tree opened component by component without following links, and reads
  that may return fewer bytes than asked for.
\<close>

section \<open>\<open>stat\<close> results\<close>

record stat_info =
  st_mode :: nat
  st_uid :: nat
  st_gid :: nat
  st_nlink :: nat
  st_size :: nat
  st_dev :: nat
  st_ino :: nat
  st_rdev :: nat
  st_mtime_ns :: int
  st_ctime_ns :: int

text \<open>The file type bits are \<open>0o170000\<close>.\<close>

definition s_ifmt :: "nat \<Rightarrow> nat" where "s_ifmt m = m AND 61440"
definition S_ISREG :: "nat \<Rightarrow> bool" where "S_ISREG m \<longleftrightarrow> s_ifmt m = 32768"
definition S_ISDIR :: "nat \<Rightarrow> bool" where "S_ISDIR m \<longleftrightarrow> s_ifmt m = 16384"
definition S_ISLNK :: "nat \<Rightarrow> bool" where "S_ISLNK m \<longleftrightarrow> s_ifmt m = 40960"
definition S_ISCHR :: "nat \<Rightarrow> bool" where "S_ISCHR m \<longleftrightarrow> s_ifmt m = 8192"
definition S_ISBLK :: "nat \<Rightarrow> bool" where "S_ISBLK m \<longleftrightarrow> s_ifmt m = 24576"

text \<open>\<open>stat.S_IMODE\<close>, the low twelve bits, and the test \<open>mode & 0o022\<close>.\<close>

definition S_IMODE :: "nat \<Rightarrow> nat" where "S_IMODE m = m AND 4095"
definition others_may_write :: "nat \<Rightarrow> bool" where "others_may_write m \<longleftrightarrow> m AND 18 \<noteq> 0"

text \<open>The tuple \<open>(st_dev, st_ino, st_size, st_mtime_ns, st_ctime_ns)\<close>.\<close>

definition file_identity :: "stat_info \<Rightarrow> nat \<times> nat \<times> nat \<times> int \<times> int" where
  "file_identity st = (st_dev st, st_ino st, st_size st, st_mtime_ns st, st_ctime_ns st)"

section \<open>File tree\<close>

datatype node =
    NDir stat_info "(string \<times> node) list"
  | NFile stat_info bytes
  | NLink stat_info string
  | NOther stat_info

fun node_stat :: "node \<Rightarrow> stat_info" where
  "node_stat (NDir st _) = st"
| "node_stat (NFile st _) = st"
| "node_stat (NLink st _) = st"
| "node_stat (NOther st) = st"

text \<open>
  \<open>os.open(name, O_NOFOLLOW, dir_fd=directory)\<close> for a one-component name, and the same with
  \<open>O_DIRECTORY\<close>.
\<close>

definition open_at :: "node \<Rightarrow> string \<Rightarrow> node res" where
  "open_at directory name =
     (if NUL \<in> set name then Inl (ValueError ''embedded null byte'')
      else if name = '''' then Inl (FileNotFoundError name)
      else case directory of
        NDir _ children \<Rightarrow> (case map_of children name of
            None \<Rightarrow> Inl (FileNotFoundError name)
          | Some (NLink _ _) \<Rightarrow> Inl (OSError ''too many levels of symbolic links'')
          | Some n \<Rightarrow> Inr n)
      | _ \<Rightarrow> Inl (OSError ''not a directory''))"

definition open_dir_at :: "node \<Rightarrow> string \<Rightarrow> node res" where
  "open_dir_at directory name =
     bindE (open_at directory name) (\<lambda>n. case n of NDir _ _ \<Rightarrow> Inr n | _ \<Rightarrow> Inl (OSError ''not a directory''))"

section \<open>Reads\<close>

text \<open>
  \<open>os.read(fd, n)\<close> at position \<open>pos\<close>: at least one byte unless the end is reached, at most
  \<open>n\<close>; how many is up to the kernel (\<open>chunk\<close>).
\<close>

definition os_read :: "(nat \<Rightarrow> nat) \<Rightarrow> nat \<Rightarrow> nat \<Rightarrow> bytes \<Rightarrow> bytes" where
  "os_read chunk pos n rest = take (min n (max 1 (chunk pos))) rest"

text \<open>
  The loop \<open>while retained <= limit: chunk = os.read(fd, min(block, limit + 1 - retained)); if not
  chunk: break; ...\<close>
\<close>

function bounded_read :: "(nat \<Rightarrow> nat) \<Rightarrow> nat \<Rightarrow> nat \<Rightarrow> bytes \<Rightarrow> bytes \<Rightarrow> bytes" where
  "bounded_read chunk block limit acc rest =
     (if length acc \<le> limit
      then (let c = os_read chunk (length acc) (min block (limit + 1 - length acc)) rest
            in if c = [] then acc else bounded_read chunk block limit (acc @ c) (drop (length c) rest))
      else acc)"
  by pat_completeness auto
termination
  by (relation "measure (\<lambda>(chunk, block, limit, acc, rest). length rest)")
    (auto simp: os_read_def)

declare bounded_read.simps [simp del]

text \<open>
  Whatever the sizes of the partial reads, the loop returns the first \<open>limit + 1\<close> bytes.
\<close>

lemma bounded_read_take_aux:
  assumes "0 < block" and "length acc \<le> limit + 1"
  shows "bounded_read chunk block limit acc rest = acc @ take (limit + 1 - length acc) rest"
  using assms
proof (induction chunk block limit acc rest rule: bounded_read.induct)
  case (1 chunk block limit acc rest)
  show ?case
  proof (cases "length acc \<le> limit")
    case True
    define k where "k = min (min block (limit + 1 - length acc)) (max 1 (chunk (length acc)))"
    have k: "0 < k" "k \<le> limit + 1 - length acc" using True 1(2) by (auto simp: k_def)
    let ?c = "os_read chunk (length acc) (min block (limit + 1 - length acc)) rest"
    have c: "?c = take k rest" by (simp add: os_read_def k_def)
    show ?thesis
    proof (cases "rest = []")
      case True
      then show ?thesis by (subst bounded_read.simps) (simp add: os_read_def)
    next
      case False
      then have ne: "?c \<noteq> []" using k c by simp
      have eq: "acc @ take (limit + 1 - length acc) rest =
          (acc @ ?c) @ take (limit + 1 - length (acc @ ?c)) (drop (length ?c) rest)"
      proof (cases "k \<le> length rest")
        case True
        have "take (limit + 1 - length acc) rest = take (k + (limit + 1 - length acc - k)) rest" using k by simp
        then show ?thesis using True unfolding c take_add by (simp add: min_def)
      qed (use k c in auto)
      have "bounded_read chunk block limit (acc @ ?c) (drop (length ?c) rest) =
          (acc @ ?c) @ take (limit + 1 - length (acc @ ?c)) (drop (length ?c) rest)"
        by (rule 1(1) [OF True refl ne 1(2)]) (use True k c in auto)
      then show ?thesis using True ne eq by (subst bounded_read.simps) (simp add: Let_def)
    qed
  qed (use 1(3) in \<open>simp add: bounded_read.simps\<close>)
qed

lemma bounded_read_take: "0 < block \<Longrightarrow> bounded_read chunk block limit [] data = take (limit + 1) data"
  using bounded_read_take_aux [of block "[]" limit chunk data] by simp

end
