(* ===== verification/Oci_Config.thy ===== *)
theory Oci_Config
  imports Oci_Mounts Py_Text Py_Os "HOL-Library.Code_Target_Nat"
begin

text \<open>
  \<open>validate-runtime-oci.py\<close>, second part: loading the configuration file (\<open>load_config\<close>,
  \<open>load_config_descriptor\<close>), the sections of \<open>validate\<close> in their order, the two projections
  (\<open>guest_projection\<close>, \<open>bind_projection\<close>) and \<open>main\<close>.  The JSON text parser is the parameter
  \<open>decode\<close>, from the bytes of the file to a value whose objects list their pairs as written.
\<close>

section \<open>Constants\<close>

definition TOP_LEVEL :: "string list" where
  "TOP_LEVEL = [''ociVersion'', ''process'', ''root'', ''linux'', ''annotations'', ''mounts'', ''hostname'']"

definition PROCESS :: "string list" where
  "PROCESS = [''terminal'', ''consoleSize'', ''user'', ''args'', ''env'', ''cwd'', ''noNewPrivileges'', ''rlimits'',
     ''capabilities'', ''apparmorProfile'', ''oomScoreAdj'']"

definition USER :: "string list" where
  "USER = [''uid'', ''gid'', ''additionalGids'']"

definition CAPABILITY_SETS :: "string list" where
  "CAPABILITY_SETS = [''bounding'', ''effective'', ''inheritable'', ''permitted'', ''ambient'']"

definition CAPABILITIES :: "string list" where
  "CAPABILITIES =
    [''CAP_CHOWN'', ''CAP_DAC_OVERRIDE'', ''CAP_DAC_READ_SEARCH'', ''CAP_FOWNER'', ''CAP_FSETID'', ''CAP_KILL'',
     ''CAP_SETGID'', ''CAP_SETUID'', ''CAP_SETPCAP'', ''CAP_LINUX_IMMUTABLE'', ''CAP_NET_BIND_SERVICE'',
     ''CAP_NET_BROADCAST'', ''CAP_NET_ADMIN'', ''CAP_NET_RAW'', ''CAP_IPC_LOCK'', ''CAP_IPC_OWNER'',
     ''CAP_SYS_MODULE'', ''CAP_SYS_RAWIO'', ''CAP_SYS_CHROOT'', ''CAP_SYS_PTRACE'', ''CAP_SYS_PACCT'',
     ''CAP_SYS_ADMIN'', ''CAP_SYS_BOOT'', ''CAP_SYS_NICE'', ''CAP_SYS_RESOURCE'', ''CAP_SYS_TIME'',
     ''CAP_SYS_TTY_CONFIG'', ''CAP_MKNOD'', ''CAP_LEASE'', ''CAP_AUDIT_WRITE'', ''CAP_AUDIT_CONTROL'',
     ''CAP_SETFCAP'', ''CAP_MAC_OVERRIDE'', ''CAP_MAC_ADMIN'', ''CAP_SYSLOG'', ''CAP_WAKE_ALARM'',
     ''CAP_BLOCK_SUSPEND'', ''CAP_AUDIT_READ'', ''CAP_PERFMON'', ''CAP_BPF'', ''CAP_CHECKPOINT_RESTORE'']"

definition supported_capabilities :: "string list" where
  "supported_capabilities =
    [''CAP_CHOWN'', ''CAP_DAC_OVERRIDE'', ''CAP_FOWNER'', ''CAP_FSETID'', ''CAP_KILL'',
     ''CAP_SETGID'', ''CAP_SETUID'', ''CAP_SETPCAP'', ''CAP_NET_BIND_SERVICE'', ''CAP_NET_RAW'',
     ''CAP_SYS_CHROOT'', ''CAP_MKNOD'', ''CAP_AUDIT_WRITE'', ''CAP_SETFCAP'']"

definition RLIMITS :: "string list" where
  "RLIMITS =
    [''RLIMIT_AS'', ''RLIMIT_CORE'', ''RLIMIT_CPU'', ''RLIMIT_DATA'', ''RLIMIT_FSIZE'', ''RLIMIT_LOCKS'',
     ''RLIMIT_MEMLOCK'', ''RLIMIT_MSGQUEUE'', ''RLIMIT_NICE'', ''RLIMIT_NOFILE'', ''RLIMIT_NPROC'',
     ''RLIMIT_RSS'', ''RLIMIT_RTPRIO'', ''RLIMIT_RTTIME'', ''RLIMIT_SIGPENDING'', ''RLIMIT_STACK'']"

definition ROOT :: "string list" where
  "ROOT = [''path'', ''readonly'']"

definition CHILD_DEFAULT_SYSCTLS :: json where
  "CHILD_DEFAULT_SYSCTLS = JObj
     [(''net.ipv4.ip_unprivileged_port_start'', JStr ''1024''), (''net.ipv4.ping_group_range'', JStr ''1 0'')]"

definition MAX_PROCESS_ARGS :: nat where "MAX_PROCESS_ARGS = 256"
definition MAX_PROCESS_ENV :: nat where "MAX_PROCESS_ENV = 1024"
definition MAX_PROCESS_TEXT :: nat where "MAX_PROCESS_TEXT = 131072"
definition MAX_SUPPLEMENTAL_GIDS :: nat where "MAX_SUPPLEMENTAL_GIDS = 256"
definition MAX_CONFIG_BYTES :: nat where "MAX_CONFIG_BYTES = 1048576"

definition SANITIZED_READONLY_BIND_OPTIONS :: "string list" where
  "SANITIZED_READONLY_BIND_OPTIONS = [''bind'', ''ro'', ''nodev'', ''nosuid'', ''noexec'']"

definition deny_all :: json where
  "deny_all = JObj [(''allow'', JBool False), (''access'', JStr ''rwm'')]"

text \<open>A device rule with \<open>type\<close>, \<open>major\<close> and \<open>minor\<close>.\<close>

definition device_rule :: "bool \<Rightarrow> string \<Rightarrow> int \<Rightarrow> int \<Rightarrow> json" where
  "device_rule allow kind major minor = JObj
     [(''allow'', JBool allow), (''type'', JStr kind), (''major'', JInt major), (''minor'', JInt minor), (''access'', JStr ''rwm'')]"

definition DENY_ALL_DEVICES :: json where
  "DENY_ALL_DEVICES = JList [deny_all]"

definition CONTAINERD_DEFAULT_DEVICES :: json where
  "CONTAINERD_DEFAULT_DEVICES = JList
     [deny_all, device_rule True ''c'' 1 3, device_rule True ''c'' 1 8, device_rule True ''c'' 1 7,
      device_rule True ''c'' 5 0, device_rule True ''c'' 1 5, device_rule True ''c'' 1 9, device_rule True ''c'' 5 1,
      JObj [(''allow'', JBool True), (''type'', JStr ''c''), (''major'', JInt 136), (''access'', JStr ''rwm'')],
      device_rule True ''c'' 5 2]"

definition DOCKER_UNRESTRICTED_DEVICES :: json where
  "DOCKER_UNRESTRICTED_DEVICES = JList
     [deny_all, device_rule True ''c'' 1 5, device_rule True ''c'' 1 3, device_rule True ''c'' 1 9,
      device_rule True ''c'' 1 8, device_rule True ''c'' 5 0, device_rule True ''c'' 5 1, device_rule False ''c'' 10 229,
      deny_all, device_rule True ''c'' 1 5, device_rule True ''c'' 1 3, device_rule True ''c'' 1 9,
      device_rule True ''c'' 1 8, device_rule True ''c'' 5 0, device_rule True ''c'' 5 1, device_rule False ''c'' 10 229,
      device_rule True ''a'' (-1) (-1)]"

section \<open>Loading\<close>

text \<open>
  The observations of one load: the caller's effective user, the two \<open>fstat\<close> results around the
  read, the bytes the descriptor yields and how the kernel cuts them into reads.
\<close>

definition load_config_descriptor ::
  "(bytes \<Rightarrow> json res) \<Rightarrow> nat \<Rightarrow> stat_info \<Rightarrow> (nat \<Rightarrow> nat) \<Rightarrow> bytes \<Rightarrow> stat_info \<Rightarrow> json res" where
  "load_config_descriptor decode euid before chunk data after =
     (if \<not> S_ISREG (st_mode before) \<or> st_nlink before \<noteq> 1 \<or> st_uid before \<noteq> euid
         \<or> others_may_write (st_mode before) \<or> st_size before > MAX_CONFIG_BYTES
      then Inl (ValueError ''OCI config must be a bounded private caller-owned single-link regular file'')
      else let retained = bounded_read chunk 65536 MAX_CONFIG_BYTES [] data in
        if length retained > MAX_CONFIG_BYTES
        then Inl (ValueError ''OCI config exceeds the retained byte limit'')
        else if file_identity before \<noteq> file_identity after
        then Inl (ValueError ''OCI config identity changed while reading'')
        else bindE (decode retained) (hook (ValueError ''duplicate JSON object name'')))"

text \<open>\<open>INHERITED_CONFIG.fullmatch\<close>: the digits of \<open>/proc/self/fd/N/config.json\<close>.\<close>

definition inherited_config :: "string \<Rightarrow> string option" where
  "inherited_config s =
     (let p = ''/proc/self/fd/''; q = ''/config.json'';
          digits = take (length s - length p - length q) (drop (length p) s)
      in if s = p @ digits @ q \<and> digits \<noteq> [] \<and> list_all is_digit digits then Some digits else None)"

text \<open>
  \<open>fds\<close> are the open descriptors of the process, \<open>fs\<close> the root directory, and \<open>after\<close> the
  \<open>fstat\<close> result after the read.
\<close>

definition load_config ::
  "(bytes \<Rightarrow> json res) \<Rightarrow> nat \<Rightarrow> (nat \<rightharpoonup> node) \<Rightarrow> node \<Rightarrow> (nat \<Rightarrow> nat) \<Rightarrow> stat_info \<Rightarrow> string \<Rightarrow> json res" where
  "load_config decode euid fds fs chunk after argument =
     (let source = as_posix argument;
          read = (\<lambda>n. case n of
              NFile st data \<Rightarrow> load_config_descriptor decode euid st chunk data after
            | _ \<Rightarrow> load_config_descriptor decode euid (node_stat n) chunk [] after)
      in if path_root source = '''' \<or> as_posix (normpath source) \<noteq> source
         then Inl (ValueError ''OCI config path must be absolute and canonical'')
         else case inherited_config source of
           Some digits \<Rightarrow> (case fds (decimal digits) of
               None \<Rightarrow> Inl (OSError ''bad file descriptor'')
             | Some directory \<Rightarrow>
                 (let info = node_stat directory in
                  if \<not> S_ISDIR (st_mode info) \<or> st_uid info \<noteq> euid \<or> others_may_write (st_mode info)
                  then Inl (ValueError ''inherited OCI bundle must be a caller-owned non-writable directory'')
                  else bindE (open_at directory ''config.json'') read))
         | None \<Rightarrow>
             bindE (forE (butlast (path_tail source)) open_dir_at fs) (\<lambda>directory.
             bindE (open_at directory (path_name source)) read))"

section \<open>The sections of \<open>validate\<close>\<close>

text \<open>The pattern \<open>1\.(?:0|1|2|3)\.\d+(?:-[A-Za-z0-9.-]+)?\<close>.\<close>

definition oci_version_match :: "string \<Rightarrow> bool" where
  "oci_version_match s =
     (case s of
        a # b # c # d # rest \<Rightarrow>
          a = CHR ''1'' \<and> b = CHR ''.'' \<and> c \<in> set ''0123'' \<and> d = CHR ''.''
          \<and> (let digits = takeWhile is_digit rest; suffix = dropWhile is_digit rest
             in digits \<noteq> [] \<and> (suffix = [] \<or> hd suffix = CHR ''-'' \<and> tl suffix \<noteq> []
                  \<and> list_all (\<lambda>x. is_ascii_alnum x \<or> x \<in> set ''.-'') (tl suffix)))
      | _ \<Rightarrow> False)"

definition validate_version :: "fields \<Rightarrow> unit res" where
  "validate_version config =
     (let version = jget config ''ociVersion'' in
      raise_if (\<not> is_str version \<or> \<not> oci_version_match (the_str version))
        (ValueError ''ociVersion must be a supported OCI 1.0-1.3 version''))"

definition validate_console :: "fields \<Rightarrow> unit res" where
  "validate_console process =
     (if has_key process ''terminal'' \<and> \<not> is_bool (jget process ''terminal'')
      then Inl (ValueError ''process.terminal must be boolean'')
      else if \<not> has_key process ''consoleSize'' then Inr ()
      else bindE (require_object (jget process ''consoleSize'') ''process.consoleSize'') (\<lambda>console_size.
        bindE (reject_unknown console_size [''width'', ''height''] ''process.consoleSize'') (\<lambda>_.
        if \<not> (has_key console_size ''width'' \<and> has_key console_size ''height'')
        then Inl (ValueError ''process.consoleSize requires width and height'')
        else bindE (forE [''width'', ''height''] (\<lambda>_ field.
            raise_if (\<not> require_uint 65535 (jget console_size field))
              (ValueError (''process.consoleSize.'' @ field @ '' must fit a Linux PTY dimension''))) ()) (\<lambda>_.
          raise_if (jget process ''terminal'' \<noteq> JBool True)
            (ValueError ''process.consoleSize requires process.terminal=true'')))))"

definition validate_compatibility :: "fields \<Rightarrow> unit res" where
  "validate_compatibility process =
     (if has_key process ''apparmorProfile'' \<and> \<not> py_eq (jget process ''apparmorProfile'') (JStr ''unconfined'')
      then Inl (ValueError ''process.apparmorProfile must be the explicit unconfined compatibility value'')
      else raise_if (has_key process ''oomScoreAdj'' \<and> jget process ''oomScoreAdj'' \<noteq> JInt 0)
        (ValueError ''process.oomScoreAdj must be the inert integer zero compatibility value''))"

definition text_list :: "json \<Rightarrow> bool" where
  "text_list v \<longleftrightarrow> is_list v \<and> list_all (\<lambda>x. is_str x \<and> NUL \<notin> set (the_str x)) (the_list v)"

definition validate_args_env :: "fields \<Rightarrow> unit res" where
  "validate_args_env process =
     (let args = jget process ''args''; env = jget_or process ''env'' (JList []);
          argv = map the_str (the_list args); envv = map the_str (the_list env);
          environment_names = map (takeWhile (\<lambda>c. c \<noteq> CHR ''='')) envv
      in if \<not> text_list args \<or> argv = [] \<or> length argv > MAX_PROCESS_ARGS \<or> hd argv = ''''
         then Inl (ValueError ''process.args must contain a bounded non-empty argv[0] without NUL'')
         else if \<not> text_list env \<or> length envv > MAX_PROCESS_ENV
         then Inl (ValueError ''process.env must be a bounded string array without NUL'')
         else if list_ex (\<lambda>(item, name). CHR ''='' \<notin> set item \<or> name = '''') (zip envv environment_names)
              \<or> length environment_names \<noteq> length (remdups environment_names)
         then Inl (ValueError ''process.env entries must have unique non-empty names'')
         else raise_if (sum_list (map (\<lambda>item. length item + 1) (argv @ envv)) > MAX_PROCESS_TEXT)
           (ValueError ''process args and environment exceed the retained byte limit''))"

definition validate_cwd :: "fields \<Rightarrow> unit res" where
  "validate_cwd process =
     (let cwd = jget process ''cwd'' in
      if \<not> (is_str cwd \<and> startswith (the_str cwd) ''/'' \<and> NUL \<notin> set (the_str cwd) \<and> length (the_str cwd) \<le> 4096
             \<and> as_posix (the_str cwd) = the_str cwd \<and> ''..'' \<notin> set (path_parts (the_str cwd)))
      then Inl (ValueError ''process.cwd must be absolute, canonical, and bounded'')
      else if has_key process ''noNewPrivileges'' \<and> \<not> is_bool (jget process ''noNewPrivileges'')
      then Inl (ValueError ''process.noNewPrivileges must be boolean'')
      else raise_if (jget process ''noNewPrivileges'' = JBool False)
        (ValueError ''disabling no-new-privileges is not supported''))"

definition rlimit_step :: "json list \<Rightarrow> json \<Rightarrow> json list res" where
  "rlimit_step seen_limits entry =
     bindE (require_object entry ''process.rlimits[]'') (\<lambda>limit.
     bindE (reject_unknown limit [''type'', ''hard'', ''soft''] ''process.rlimits[]'') (\<lambda>_.
     let kind = jget limit ''type'' in
     bindE (in_set kind (map JStr RLIMITS)) (\<lambda>known.
     bindE (if known then in_set kind seen_limits else Inr True) (\<lambda>refused.
     if refused then Inl (ValueError ''unsupported or duplicate process rlimit'')
     else bindE (forE [''hard'', ''soft''] (\<lambda>_ field.
         raise_if (\<not> require_uint 18446744073709551615 (jget limit field))
           (ValueError (''process.rlimits[].'' @ field @ '' must be uint64''))) ()) (\<lambda>_.
       if the_int (jget limit ''soft'') > the_int (jget limit ''hard'')
       then Inl (ValueError ''process.rlimits[] soft limit exceeds hard limit'')
       else Inr (kind # seen_limits))))))"

definition validate_rlimits :: "fields \<Rightarrow> unit res" where
  "validate_rlimits process =
     (let rlimits = jget_or process ''rlimits'' (JList []) in
      if \<not> is_list rlimits \<or> length (the_list rlimits) > 32
      then Inl (ValueError ''process.rlimits must be an array of at most 32 limits'')
      else bindE (forE (the_list rlimits) rlimit_step []) (\<lambda>_. Inr ()))"

definition capability_set_step :: "unit \<Rightarrow> string \<times> json \<Rightarrow> unit res" where
  "capability_set_step _ p =
     (let name = fst p; values = snd p; vs = map the_str (the_list values) in
      if \<not> is_list values \<or> length (the_list values) > length CAPABILITIES \<or> \<not> string_list values
      then Inl (ValueError (''process.capabilities.'' @ name @ '' must be a bounded string array''))
      else if length vs \<noteq> length (remdups vs) \<or> list_ex (\<lambda>item. item \<notin> set CAPABILITIES) vs
      then Inl (ValueError (''process.capabilities.'' @ name @ '' contains an unknown or duplicate capability''))
      else raise_if (list_ex (\<lambda>item. item \<notin> set supported_capabilities) vs)
        (ValueError ''requested capability is outside the supported workload policy''))"

text \<open>\<open>set(capabilities.get(name, []))\<close>, once the values are known to be string lists.\<close>

definition capability_set :: "fields \<Rightarrow> string \<Rightarrow> string list" where
  "capability_set capabilities name = map the_str (the_list (jget_or capabilities name (JList [])))"

definition subset_list :: "string list \<Rightarrow> string list \<Rightarrow> bool" where
  "subset_list xs ys \<longleftrightarrow> list_all (\<lambda>x. x \<in> set ys) xs"

definition validate_capabilities :: "fields \<Rightarrow> unit res" where
  "validate_capabilities process =
     (if jget process ''capabilities'' = JNull then Inr ()
      else bindE (require_object (jget process ''capabilities'') ''process.capabilities'') (\<lambda>capabilities.
        bindE (reject_unknown capabilities CAPABILITY_SETS ''process.capabilities'') (\<lambda>_.
        bindE (forE capabilities capability_set_step ()) (\<lambda>_.
        bindE (case jget_or process ''user'' (JObj []) of JObj user \<Rightarrow> Inr (jget user ''uid'')
               | _ \<Rightarrow> Inl (AttributeError ''get'')) (\<lambda>uid.
        if \<not> py_eq uid (JInt 0) \<and> list_ex (\<lambda>p. py_truth (snd p)) capabilities
        then Inl (ValueError ''non-root processes may not request capability grants'')
        else
          (let bounding = capability_set capabilities ''bounding'';
               permitted = capability_set capabilities ''permitted'';
               effective = capability_set capabilities ''effective'';
               inheritable = capability_set capabilities ''inheritable'';
               ambient = capability_set capabilities ''ambient''
           in if \<not> subset_list permitted bounding \<or> \<not> subset_list effective permitted
                 \<or> \<not> (subset_list ambient permitted \<and> subset_list ambient inheritable)
              then Inl (ValueError ''process capability sets violate containment'')
              else raise_if (\<not> (subset_list bounding permitted \<and> subset_list permitted bounding)
                  \<or> \<not> (subset_list permitted effective \<and> subset_list effective permitted))
                (ValueError ''root bounding, permitted, and effective capabilities must match'')))))))"

definition gid_step :: "json list \<Rightarrow> json \<Rightarrow> json list res" where
  "gid_step seen_gids gid =
     bindE (require_uint32 gid ''process.user.additionalGids[]'') (\<lambda>_.
     bindE (in_set gid seen_gids) (\<lambda>duplicate.
       if duplicate then Inl (ValueError ''process.user.additionalGids must contain unique values'')
       else Inr (gid # seen_gids)))"

definition validate_user :: "fields \<Rightarrow> unit res" where
  "validate_user process =
     bindE (require_object (jget process ''user'') ''process.user'') (\<lambda>user.
     bindE (reject_unknown user USER ''process.user'') (\<lambda>_.
     bindE (require_uint32 (jget user ''uid'') ''process.user.uid'') (\<lambda>_.
     bindE (require_uint32 (jget user ''gid'') ''process.user.gid'') (\<lambda>_.
     let gids = jget_or user ''additionalGids'' (JList []) in
     if \<not> is_list gids \<or> length (the_list gids) > MAX_SUPPLEMENTAL_GIDS
     then Inl (ValueError ''process.user.additionalGids must be a bounded array'')
     else bindE (forE (the_list gids) gid_step []) (\<lambda>_. Inr ())))))"

definition validate_root :: "fields \<Rightarrow> fields res" where
  "validate_root config =
     bindE (require_object (jget config ''root'') ''root'') (\<lambda>root_object.
     bindE (reject_unknown root_object ROOT ''root'') (\<lambda>_.
     if \<not> is_str (jget root_object ''path'') \<or> the_str (jget root_object ''path'') = ''''
     then Inl (ValueError ''root.path must be a non-empty string'')
     else if has_key root_object ''readonly'' \<and> \<not> is_bool (jget root_object ''readonly'')
     then Inl (ValueError ''root.readonly must be boolean'')
     else Inr root_object))"

definition standard_resources :: "json \<Rightarrow> bool" where
  "standard_resources resources =
     (case resources of
        JObj d \<Rightarrow>
          list_all (\<lambda>p. fst p \<in> {''cpu'', ''devices''}) d \<and> has_key d ''devices''
          \<and> (py_eq (jget d ''devices'') DENY_ALL_DEVICES \<or> py_eq (jget d ''devices'') CONTAINERD_DEFAULT_DEVICES)
          \<and> (\<not> has_key d ''cpu'' \<or> py_eq (jget d ''cpu'') (JObj [(''shares'', JInt 1024)]))
      | _ \<Rightarrow> False)"

definition validate_resources :: "fields \<Rightarrow> unit res" where
  "validate_resources linux =
     (let resources = jget linux ''resources'' in
      raise_if (has_key linux ''resources'' \<and> \<not> standard_resources resources
          \<and> \<not> py_eq resources (JObj [(''devices'', DOCKER_UNRESTRICTED_DEVICES), (''blockIO'', JObj [])]))
        (ValueError ''only exact default resource contracts are supported''))"

definition validate_cgroups_path :: "fields \<Rightarrow> unit res" where
  "validate_cgroups_path linux =
     (let path = jget linux ''cgroupsPath''; s = the_str path; p = ''system.slice:docker:'' in
      raise_if (has_key linux ''cgroupsPath''
          \<and> \<not> (is_str path \<and> startswith s ''/'' \<and> as_posix s = s \<and> ''..'' \<notin> set (path_parts s) \<and> length s \<le> 4096)
          \<and> \<not> (is_str path \<and> startswith s p \<and> is_hex64 (drop (length p) s)))
        (ValueError ''linux.cgroupsPath must be canonical absolute or exact Docker systemd form''))"

definition validate_linux :: "json \<Rightarrow> fields res" where
  "validate_linux value =
     bindE (validate_namespaces value) (\<lambda>_.
     bindE (require_object value ''linux'') (\<lambda>linux.
     bindE (validate_resources linux) (\<lambda>_.
     bindE (validate_cgroups_path linux) (\<lambda>_.
     if has_key linux ''sysctl'' \<and> \<not> py_eq (jget linux ''sysctl'') CHILD_DEFAULT_SYSCTLS
     then Inl (ValueError ''linux.sysctl must exactly match the explicit child-kernel defaults'')
     else bindE (validate_path_policy (jget_or linux ''maskedPaths'' (JList [])) SAFE_MASKED_PATHS ''maskedPaths'') (\<lambda>_.
          bindE (validate_path_policy (jget_or linux ''readonlyPaths'' (JList [])) SAFE_READONLY_PATHS ''readonlyPaths'') (\<lambda>_.
          Inr linux))))))"

text \<open>The pattern \<open>[A-Za-z0-9](?:[A-Za-z0-9.-]*[A-Za-z0-9])?\<close>.\<close>

definition hostname_match :: "string \<Rightarrow> bool" where
  "hostname_match s \<longleftrightarrow> s \<noteq> [] \<and> is_ascii_alnum (hd s) \<and> is_ascii_alnum (last s)
     \<and> list_all (\<lambda>c. is_ascii_alnum c \<or> c \<in> set ''.-'') s"

definition validate_hostname :: "fields \<Rightarrow> unit res" where
  "validate_hostname config =
     (let hostname = jget_or config ''hostname'' (JStr '''') in
      raise_if (\<not> is_str hostname \<or> length (the_str hostname) > 63
          \<or> (the_str hostname \<noteq> '''' \<and> \<not> hostname_match (the_str hostname)))
        (ValueError ''hostname must be an RFC1123-compatible value of at most 63 bytes''))"

definition validate_annotations :: "fields \<Rightarrow> unit res" where
  "validate_annotations config =
     (case jget_or config ''annotations'' (JObj []) of
        JObj d \<Rightarrow> raise_if (\<not> list_all (\<lambda>p. is_str (snd p)) d) (ValueError ''annotations must be a string-to-string object'')
      | _ \<Rightarrow> Inl (ValueError ''annotations must be a string-to-string object''))"

definition validate_process :: "fields \<Rightarrow> unit res" where
  "validate_process process =
     bindE (reject_unknown process PROCESS ''process'') (\<lambda>_.
     bindE (validate_console process) (\<lambda>_.
     bindE (validate_compatibility process) (\<lambda>_.
     bindE (validate_args_env process) (\<lambda>_.
     bindE (validate_cwd process) (\<lambda>_.
     bindE (validate_rlimits process) (\<lambda>_.
     bindE (validate_capabilities process) (\<lambda>_.
     validate_user process)))))))"

definition validate :: "json \<Rightarrow> unit res" where
  "validate value =
     bindE (require_object value ''config'') (\<lambda>config.
     bindE (reject_unknown config TOP_LEVEL ''OCI'') (\<lambda>_.
     bindE (validate_version config) (\<lambda>_.
     bindE (require_object (jget config ''process'') ''process'') (\<lambda>process.
     bindE (validate_process process) (\<lambda>_.
     bindE (validate_root config) (\<lambda>root_object.
     bindE (validate_linux (jget config ''linux'')) (\<lambda>_.
     bindE (validate_mounts (jget_or config ''mounts'' (JList [])) (jget root_object ''path'')) (\<lambda>_.
     bindE (validate_hostname config) (\<lambda>_.
     validate_annotations config)))))))))"

section \<open>Projections\<close>

text \<open>
  The projections are called on a configuration whose \<open>process\<close>, \<open>root\<close> and \<open>linux\<close> members are
  objects; subscripting a value of another type raises.
\<close>

definition guest_mount :: "fields \<Rightarrow> json res" where
  "guest_mount item =
     bindE (jitem item ''destination'') (\<lambda>destination.
     Inr (JObj [(''destination'', destination), (''type'', JStr ''bind''), (''source'', destination),
                (''options'', jstrs (sort SANITIZED_READONLY_BIND_OPTIONS))]))"

definition guest_projection :: "json \<Rightarrow> json res" where
  "guest_projection config =
     bindE (bindE (subscript config ''process'') dict_items) (\<lambda>items.
     let process = filter (\<lambda>p. fst p \<notin> {''apparmorProfile'', ''oomScoreAdj''}) items in
     bindE (subscript config ''root'') (\<lambda>root_value.
     bindE (dict_items config) (\<lambda>top.
     let result = [(''ociVersion'', JStr ''1.1.0''), (''process'', JObj process), (''root'', root_value)]
           @ (if py_truth (jget top ''hostname'') then [(''hostname'', jget top ''hostname'')] else [])
     in
     bindE (bindE (subscript config ''linux'') dict_items) (\<lambda>linux.
     let policy = concat (map (\<lambda>name. if has_key linux name then [(name, jget linux name)] else [])
                          [''maskedPaths'', ''readonlyPaths'']);
         result = result @ (if policy = [] then [] else [(''linux'', JObj policy)])
     in
     bindE (subscript root_value ''path'') (\<lambda>path.
     bindE (validate_mounts (jget_or top ''mounts'' (JList [])) path) (\<lambda>(ro, _).
     if ro = [] then Inr (JObj result)
     else bindE (mapE guest_mount ro) (\<lambda>mounts. Inr (JObj (result @ [(''mounts'', JList mounts)])))))))))"

definition bind_entry :: "string \<Rightarrow> fields \<Rightarrow> json res" where
  "bind_entry mode item =
     bindE (jitem item ''destination'') (\<lambda>destination.
     bindE (jitem item ''source'') (\<lambda>source.
     Inr (JObj [(''destination'', destination), (''type'', JStr ''bind''), (''source'', source),
                (''options'', jstrs [''bind'', mode, ''nodev'', ''nosuid'', ''noexec''])])))"

definition bind_projection :: "json \<Rightarrow> json res" where
  "bind_projection config =
     bindE (dict_items config) (\<lambda>top.
     bindE (bindE (subscript config ''root'') (\<lambda>r. subscript r ''path'')) (\<lambda>path.
     bindE (validate_mounts (jget_or top ''mounts'' (JList [])) path) (\<lambda>(ro, seeds).
     bindE (mapE (bind_entry ''ro'') ro) (\<lambda>readonly.
     bindE (mapE (bind_entry ''rw'') seeds) (\<lambda>private.
     Inr (JObj [(''schema_version'', JInt 1), (''readonly_binds'', JList (readonly @ private))]))))))"

section \<open>The command\<close>

text \<open>
  One run of \<open>main\<close>: the files written before it ended, as the values whose JSON text is
  written, and the exit status, or the exception that escapes.  Writing a file is assumed to
  succeed.
\<close>

type_synonym run = "(string \<times> json) list \<times> int res"

fun caught :: "exn \<Rightarrow> bool" where
  "caught (ValueError _) = True"
| "caught (UnicodeDecodeError _) = True"
| "caught (UnicodeEncodeError _) = True"
| "caught (JSONDecodeError _) = True"
| "caught (OSError _) = True"
| "caught (FileNotFoundError _) = True"
| "caught (FileExistsError _) = True"
| "caught (PermissionError _) = True"
| "caught _ = False"

definition stop :: "(string \<times> json) list \<Rightarrow> exn \<Rightarrow> run" where
  "stop written e = (written, if caught e then Inr 1 else Inl e)"

definition main :: "(string \<Rightarrow> json res) \<Rightarrow> string list \<Rightarrow> run" where
  "main load argv =
     (if length argv \<notin> {1, 2, 3} then ([], Inr 2)
      else case bindE (load (argv ! 0)) (\<lambda>config. bindE (validate config) (\<lambda>_. Inr config)) of
        Inl e \<Rightarrow> stop [] e
      | Inr config \<Rightarrow>
          if length argv = 1 then ([], Inr 0)
          else case guest_projection config of
            Inl e \<Rightarrow> stop [] e
          | Inr guest \<Rightarrow>
              if length argv = 2 then ([(argv ! 1, guest)], Inr 0)
              else case bind_projection config of
                Inl e \<Rightarrow> stop [(argv ! 1, guest)] e
              | Inr binds \<Rightarrow> ([(argv ! 1, guest), (argv ! 2, binds)], Inr 0))"

section \<open>What validation establishes\<close>

lemma validate_Inr:
  assumes "validate v = Inr ()"
  obtains config process root_object linux ro seeds where "v = JObj config" and "fst ` set config \<subseteq> set TOP_LEVEL"
    and "jget config ''process'' = JObj process" and "validate_process process = Inr ()"
    and "validate_root config = Inr root_object" and "validate_linux (jget config ''linux'') = Inr linux"
    and "validate_mounts (jget_or config ''mounts'' (JList [])) (jget root_object ''path'') = Inr (ro, seeds)"
    and "validate_hostname config = Inr ()" and "validate_annotations config = Inr ()"
proof -
  from assms obtain config process root_object linux binds u1 u2 where v: "v = JObj config" "fst ` set config \<subseteq> set TOP_LEVEL"
    "jget config ''process'' = JObj process" "validate_process process = Inr u1"
    "validate_root config = Inr root_object" "validate_linux (jget config ''linux'') = Inr linux"
    "validate_mounts (jget_or config ''mounts'' (JList [])) (jget root_object ''path'') = Inr binds"
    "validate_hostname config = Inr u2" "validate_annotations config = Inr ()"
    unfolding validate_def bindE_Inr require_object_Inr reject_unknown_Inr by (elim exE conjE) (rule that)
  show thesis
    by (rule that [of config process root_object linux "fst binds" "snd binds"]) (use v in simp_all)
qed

lemma map_of_jget: "jget d k \<noteq> JNull \<Longrightarrow> map_of d k = Some (jget d k)"
  by (auto simp: jget_def split: option.splits)

lemma validate_root_Inr:
  "validate_root config = Inr r \<Longrightarrow> jget config ''root'' = JObj r \<and> (\<exists>s. jget r ''path'' = JStr s \<and> s \<noteq> '''')"
  unfolding validate_root_def bindE_Inr require_object_Inr if_Inl_Inr by (auto simp: is_str_iff)

lemma validate_linux_Inr:
  "validate_linux value = Inr linux \<Longrightarrow> value = JObj linux \<and> validate_namespaces value = Inr ()"
  unfolding validate_linux_def bindE_Inr require_object_Inr if_Inl_Inr by auto

definition item_source :: "fields \<Rightarrow> string" where
  "item_source item = the_str (jget item ''source'')"

lemma bind_item_jitem:
  assumes "bind_item item"
  shows "map_of item ''destination'' = Some (JStr (item_destination item))"
    and "map_of item ''source'' = Some (JStr (item_source item))"
proof -
  from assms obtain dst src where d: "jget item ''destination'' = JStr dst" "jget item ''source'' = JStr src"
    unfolding bind_item_def by (elim exE conjE) (rule that)
  show "map_of item ''destination'' = Some (JStr (item_destination item))"
    using map_of_jget [of item "''destination''"] d(1) by (simp add: item_destination_def)
  show "map_of item ''source'' = Some (JStr (item_source item))"
    using map_of_jget [of item "''source''"] d(2) by (simp add: item_source_def)
qed

definition guest_mount_of :: "string \<Rightarrow> json" where
  "guest_mount_of d = JObj [(''destination'', JStr d), (''type'', JStr ''bind''), (''source'', JStr d),
     (''options'', jstrs [''bind'', ''nodev'', ''noexec'', ''nosuid'', ''ro''])]"

lemma sorted_options: "sort SANITIZED_READONLY_BIND_OPTIONS = [''bind'', ''nodev'', ''noexec'', ''nosuid'', ''ro'']"
  by code_simp

lemma guest_mount_bind: "bind_item item \<Longrightarrow> guest_mount item = Inr (guest_mount_of (item_destination item))"
  unfolding guest_mount_def sorted_options using bind_item_jitem(1) [of item]
  by (simp add: jitem_def guest_mount_of_def)

definition bind_entry_of :: "string \<Rightarrow> fields \<Rightarrow> json" where
  "bind_entry_of mode item = JObj [(''destination'', JStr (item_destination item)), (''type'', JStr ''bind''),
      (''source'', JStr (item_source item)), (''options'', jstrs [''bind'', mode, ''nodev'', ''nosuid'', ''noexec''])]"

lemma bind_entry_bind: "bind_item item \<Longrightarrow> bind_entry mode item = Inr (bind_entry_of mode item)"
  unfolding bind_entry_def bind_entry_of_def using bind_item_jitem [of item] by (simp add: jitem_def)

lemma validated_parts:
  assumes "validate v = Inr ()"
  obtains config process root_object path linux ro seeds where "v = JObj config"
    and "map_of config ''process'' = Some (JObj process)" and "map_of config ''root'' = Some (JObj root_object)"
    and "map_of root_object ''path'' = Some path" and "map_of config ''linux'' = Some (JObj linux)"
    and "validate_namespaces (JObj linux) = Inr ()" and "validate_process process = Inr ()"
    and "validate_mounts (jget_or config ''mounts'' (JList [])) path = Inr (ro, seeds)"
    and "\<forall>item \<in> set (ro @ seeds). bind_item item"
proof -
  from assms obtain config process root_object linux ro seeds where v: "v = JObj config"
    "jget config ''process'' = JObj process" "validate_process process = Inr ()"
    "validate_root config = Inr root_object" "validate_linux (jget config ''linux'') = Inr linux"
    and m: "validate_mounts (jget_or config ''mounts'' (JList [])) (jget root_object ''path'') = Inr (ro, seeds)"
    by (rule validate_Inr)
  from validate_root_Inr [OF v(4)] validate_linux_Inr [OF v(5)] obtain p where
    r: "jget config ''root'' = JObj root_object" "jget root_object ''path'' = JStr p" "jget config ''linux'' = JObj linux"
    "validate_namespaces (JObj linux) = Inr ()" by auto
  have "map_of config ''process'' = Some (JObj process)" using map_of_jget [of config "''process''"] v(2) by simp
  moreover have "map_of config ''root'' = Some (JObj root_object)" using map_of_jget [of config "''root''"] r(1) by simp
  moreover have "map_of config ''linux'' = Some (JObj linux)" using map_of_jget [of config "''linux''"] r(3) by simp
  moreover have "map_of root_object ''path'' = Some (JStr p)" using map_of_jget [of root_object "''path''"] r(2) by simp
  ultimately show thesis
    using that v(1,3) r(4) m [unfolded r(2)] validate_mounts_apart(3) [OF m] by metis
qed

lemma guest_projection_eq:
  assumes c: "v = JObj config" "map_of config ''process'' = Some (JObj process)" "map_of config ''root'' = Some (JObj root_object)"
    "map_of root_object ''path'' = Some path" "map_of config ''linux'' = Some (JObj linux)"
    and m: "validate_mounts (jget_or config ''mounts'' (JList [])) path = Inr (ro, seeds)" "\<forall>item \<in> set (ro @ seeds). bind_item item"
  defines "policy \<equiv> concat (map (\<lambda>name. if has_key linux name then [(name, jget linux name)] else []) [''maskedPaths'', ''readonlyPaths''])"
  shows "guest_projection v = Inr (JObj (
      [(''ociVersion'', JStr ''1.1.0''), (''process'', JObj (filter (\<lambda>p. fst p \<notin> {''apparmorProfile'', ''oomScoreAdj''}) process)), (''root'', JObj root_object)]
      @ (if py_truth (jget config ''hostname'') then [(''hostname'', jget config ''hostname'')] else [])
      @ (if policy = [] then [] else [(''linux'', JObj policy)])
      @ (if ro = [] then [] else [(''mounts'', JList (map (guest_mount_of \<circ> item_destination) ro))])))"
proof -
  have s: "subscript v ''process'' = Inr (JObj process)" "subscript v ''root'' = Inr (JObj root_object)"
    "subscript v ''linux'' = Inr (JObj linux)" "subscript (JObj root_object) ''path'' = Inr path"
    "dict_items v = Inr config" "dict_items (JObj process) = Inr process" "dict_items (JObj linux) = Inr linux"
    using c by (simp_all add: subscript_def dict_items_def jitem_def)
  have g: "mapE guest_mount ro = Inr (map (guest_mount_of \<circ> item_destination) ro)"
    by (rule mapE_map) (use m(2) guest_mount_bind in auto)
  show ?thesis unfolding guest_projection_def s bindE_simps Let_def m(1) prod.case g policy_def [symmetric] by simp
qed

lemma bind_projection_eq:
  assumes c: "v = JObj config" "map_of config ''root'' = Some (JObj root_object)" "map_of root_object ''path'' = Some path"
    and m: "validate_mounts (jget_or config ''mounts'' (JList [])) path = Inr (ro, seeds)" "\<forall>item \<in> set (ro @ seeds). bind_item item"
  shows "bind_projection v = Inr (JObj [(''schema_version'', JInt 1),
      (''readonly_binds'', JList (map (bind_entry_of ''ro'') ro @ map (bind_entry_of ''rw'') seeds))])"
proof -
  have s: "subscript v ''root'' = Inr (JObj root_object)" "subscript (JObj root_object) ''path'' = Inr path" "dict_items v = Inr config"
    using c by (simp_all add: subscript_def dict_items_def jitem_def)
  have g: "mapE (bind_entry ''ro'') ro = Inr (map (bind_entry_of ''ro'') ro)" "mapE (bind_entry ''rw'') seeds = Inr (map (bind_entry_of ''rw'') seeds)"
    by (rule mapE_map, use m(2) bind_entry_bind in auto)+
  show ?thesis unfolding bind_projection_def s bindE_simps m(1) prod.case g by simp
qed

lemma bind_item_paths:
  assumes "bind_item item"
  shows "canonical_path (item_destination item)" and "canonical_path (item_source item)" and "item_source item \<noteq> ''/''"
proof -
  from assms obtain dst src where "jget item ''destination'' = JStr dst" "jget item ''source'' = JStr src"
    "canonical_path dst" "canonical_path src" "src \<noteq> ''/''"
    unfolding bind_item_def by (elim exE conjE) (rule that)
  then show "canonical_path (item_destination item)" and "canonical_path (item_source item)" and "item_source item \<noteq> ''/''"
    by (simp_all add: item_destination_def item_source_def)
qed

section \<open>Properties\<close>

definition sample_capabilities :: fields where
  "sample_capabilities = [(''bounding'', jstrs [''CAP_KILL'']), (''permitted'', jstrs [''CAP_KILL'']), (''effective'', jstrs [''CAP_KILL''])]"

definition sample_user :: fields where
  "sample_user = [(''uid'', JInt 0), (''gid'', JInt 0)]"

definition sample_process :: fields where
  "sample_process = [(''terminal'', JBool True), (''args'', jstrs [''/bin/sh'']), (''env'', jstrs [''PATH=/bin'']), (''cwd'', JStr ''/''),
     (''user'', JObj sample_user), (''oomScoreAdj'', JInt 0), (''capabilities'', JObj sample_capabilities)]"

definition sample_fields :: fields where
  "sample_fields =
     [(''ociVersion'', JStr ''1.2.0''), (''process'', JObj sample_process), (''root'', JObj [(''path'', docker_sample_root)]),
      (''linux'', JObj [(''namespaces'', JList [JObj [(''type'', JStr ''network'')], JObj [(''type'', JStr ''pid'')]]),
         (''maskedPaths'', jstrs [''/proc/kcore''])]),
      (''mounts'', docker_sample_mounts), (''annotations'', JObj [(''k'', JStr ''v'')])]"

abbreviation sample_config :: json where "sample_config \<equiv> JObj sample_fields"

lemma sample_config_valid: "validate sample_config = Inr ()"
  by code_simp

text \<open>
  C9.  Every validated configuration has a guest projection, and the projection carries no host
  policy: its members are the six allowed ones, its \<open>linux\<close> member has only the masked and
  read-only paths, its process has no AppArmor profile and no OOM score, and each of its mounts
  is a read-only bind of a canonical guest path onto itself, so no host source path is passed on.
\<close>

theorem guest_projection_hides_host:
  assumes "validate v = Inr ()"
  shows "\<exists>g. guest_projection v = Inr (JObj g)
    \<and> fst ` set g \<subseteq> {''ociVersion'', ''process'', ''root'', ''hostname'', ''linux'', ''mounts''}
    \<and> (\<forall>l. jget g ''linux'' = JObj l \<longrightarrow> fst ` set l \<subseteq> {''maskedPaths'', ''readonlyPaths''})
    \<and> (\<forall>p. jget g ''process'' = JObj p \<longrightarrow> \<not> has_key p ''apparmorProfile'' \<and> \<not> has_key p ''oomScoreAdj'')
    \<and> (\<forall>m \<in> set (the_list (jget g ''mounts'')). \<exists>d. m = guest_mount_of d \<and> canonical_path d)"
proof -
  from assms obtain config process root_object path linux ro seeds where
    c: "v = JObj config" "map_of config ''process'' = Some (JObj process)" "map_of config ''root'' = Some (JObj root_object)"
    "map_of root_object ''path'' = Some path" "map_of config ''linux'' = Some (JObj linux)"
    and m: "validate_mounts (jget_or config ''mounts'' (JList [])) path = Inr (ro, seeds)" "\<forall>item \<in> set (ro @ seeds). bind_item item"
    by (rule validated_parts)
  have d: "canonical_path (item_destination item)" if "item \<in> set ro" for item
    using m(2) that bind_item_paths by simp
  show ?thesis unfolding guest_projection_eq [OF c m]
    by (rule exI, rule conjI, rule refl) (use d in \<open>auto simp: jget_def has_key_def\<close>)
qed

theorem guest_projection_hides_host_witness:
  "\<exists>g. guest_projection sample_config = Inr (JObj g) \<and> length (the_list (jget g ''mounts'')) = 1
     \<and> (\<forall>m \<in> set (the_list (jget g ''mounts'')). \<exists>d. m = guest_mount_of d \<and> canonical_path d)"
proof -
  from guest_projection_hides_host [OF sample_config_valid] obtain g where g: "guest_projection sample_config = Inr (JObj g)"
    "\<forall>m \<in> set (the_list (jget g ''mounts'')). \<exists>d. m = guest_mount_of d \<and> canonical_path d" by (elim exE conjE) (rule that)
  have "(case guest_projection sample_config of Inr (JObj g) \<Rightarrow> length (the_list (jget g ''mounts'')) = 1 | _ \<Rightarrow> False)"
    by code_simp
  with g show ?thesis by simp
qed

text \<open>
  A projected bind: restricted options, canonical paths, and read-only unless it is a seed file
  of the container whose root file system is \<open>rootfs\<close>.
\<close>

definition projected_bind :: "json \<Rightarrow> json \<Rightarrow> bool" where
  "projected_bind rootfs b \<longleftrightarrow>
     (\<exists>dst src mode. b = JObj [(''destination'', JStr dst), (''type'', JStr ''bind''), (''source'', JStr src),
           (''options'', jstrs [''bind'', mode, ''nodev'', ''nosuid'', ''noexec''])]
        \<and> canonical_path dst \<and> canonical_path src \<and> src \<noteq> ''/''
        \<and> (mode = ''ro'' \<or> mode = ''rw'' \<and> dst \<in> set DOCKER_PRIVATE_SEEDS
             \<and> (\<exists>r identity. rootfs = JStr r \<and> docker_root_match r = Some identity
                  \<and> src = ''/var/lib/docker/containers/'' @ identity @ ''/'' @ path_name dst)))"

lemma seed_of_source:
  assumes "seed_of path item"
  shows "item_destination item \<in> set DOCKER_PRIVATE_SEEDS \<and> (\<exists>r identity. path = JStr r \<and> docker_root_match r = Some identity
      \<and> item_source item = ''/var/lib/docker/containers/'' @ identity @ ''/'' @ path_name (item_destination item))"
proof -
  from assms obtain r identity dst where "path = JStr r" "docker_root_match r = Some identity"
    "dst \<in> set DOCKER_PRIVATE_SEEDS" "jget item ''destination'' = JStr dst"
    "jget item ''source'' = JStr (''/var/lib/docker/containers/'' @ identity @ ''/'' @ path_name dst)"
    unfolding seed_of_def by (elim exE conjE) (rule that)
  then show ?thesis by (simp add: item_destination_def item_source_def)
qed

text \<open>
  C10.  Every validated configuration has a bind projection of at most eight entries, each with
  \<open>nodev\<close>, \<open>nosuid\<close> and \<open>noexec\<close>, canonical paths and a source other than the host root.  An entry is
  read-only, or it is one of the three private seed files taken from the directory of the very
  container whose root file system the configuration names.
\<close>

theorem bind_projection_sound:
  assumes "validate v = Inr ()"
  shows "\<exists>binds rootfs. bind_projection v = Inr (JObj [(''schema_version'', JInt 1), (''readonly_binds'', JList binds)])
    \<and> bindE (subscript v ''root'') (\<lambda>r. subscript r ''path'') = Inr rootfs \<and> length binds \<le> 8
    \<and> (\<forall>b \<in> set binds. projected_bind rootfs b)"
proof -
  from assms obtain config process root_object path linux ro seeds where
    c: "v = JObj config" "map_of config ''root'' = Some (JObj root_object)" "map_of root_object ''path'' = Some path"
    and m: "validate_mounts (jget_or config ''mounts'' (JList [])) path = Inr (ro, seeds)" "\<forall>item \<in> set (ro @ seeds). bind_item item"
    by (rule validated_parts)
  have p: "bindE (subscript v ''root'') (\<lambda>r. subscript r ''path'') = Inr path"
    using c by (simp add: subscript_def jitem_def)
  have "projected_bind path (bind_entry_of ''ro'' item)" if "item \<in> set ro" for item
    unfolding projected_bind_def bind_entry_of_def
    by (intro exI conjI refl disjI1) (use m(2) that bind_item_paths in auto)
  moreover have "projected_bind path (bind_entry_of ''rw'' item)" if "item \<in> set seeds" for item
  proof -
    from m(1) obtain st where "mounts_inv path st" "seeds = private_seeds st" by (rule validate_mounts_Inr)
    with that have "seed_of path item" by (simp add: mounts_inv_def)
    note s = seed_of_source [OF this]
    have "bind_item item" using m(2) that by simp
    then show ?thesis unfolding projected_bind_def bind_entry_of_def
      by (intro exI [of _ "item_destination item"] exI [of _ "item_source item"] exI [of _ "''rw''"]
          conjI refl disjI2 bind_item_paths conjunct1 [OF s] conjunct2 [OF s])
  qed
  ultimately have "\<forall>b \<in> set (map (bind_entry_of ''ro'') ro @ map (bind_entry_of ''rw'') seeds). projected_bind path b" by auto
  moreover have "length (map (bind_entry_of ''ro'') ro @ map (bind_entry_of ''rw'') seeds) \<le> 8"
    using validate_mounts_apart(1) [OF m(1)] by simp
  ultimately show ?thesis using p bind_projection_eq [OF c m] by blast
qed

theorem bind_projection_sound_witness:
  "\<exists>binds. bind_projection sample_config = Inr (JObj [(''schema_version'', JInt 1), (''readonly_binds'', JList binds)])
     \<and> length binds = 2 \<and> (\<forall>b \<in> set binds. projected_bind docker_sample_root b)"
proof -
  from bind_projection_sound [OF sample_config_valid] obtain binds rootfs where
    b: "bind_projection sample_config = Inr (JObj [(''schema_version'', JInt 1), (''readonly_binds'', JList binds)])"
    and r: "bindE (subscript sample_config ''root'') (\<lambda>r. subscript r ''path'') = Inr rootfs"
    and p: "\<forall>b \<in> set binds. projected_bind rootfs b" by (elim exE conjE) (rule that)
  have "bindE (subscript sample_config ''root'') (\<lambda>r. subscript r ''path'') = Inr docker_sample_root" by code_simp
  with r have "rootfs = docker_sample_root" by simp
  have "(case bind_projection sample_config of Inr (JObj [_, (_, JList binds)]) \<Rightarrow> length binds = 2 | _ \<Rightarrow> False)" by code_simp
  then have "length binds = 2" unfolding b by simp
  with b p \<open>rootfs = docker_sample_root\<close> show ?thesis by simp
qed

lemma subset_list_iff [simp]: "subset_list xs ys \<longleftrightarrow> set xs \<subseteq> set ys"
  by (auto simp: subset_list_def list_all_iff)

lemma capability_step_Inr:
  assumes "capability_set_step u (name, values) = Inr u'"
  shows "\<exists>ss. values = jstrs ss \<and> set ss \<subseteq> set supported_capabilities"
proof -
  from assms have "string_list values" and s: "\<not> list_ex (\<lambda>item. item \<notin> set supported_capabilities) (map the_str (the_list values))"
    unfolding capability_set_step_def Let_def if_Inl_Inr by simp_all
  then obtain ss where "values = jstrs ss" unfolding string_list_iff by (elim exE) (rule that)
  with s show ?thesis by (auto simp: list_ex_iff)
qed

interpretation capabilities_loop: validated_loop capability_set_step "\<lambda>_. True"
  "\<lambda>p. \<exists>ss. snd p = jstrs ss \<and> set ss \<subseteq> set supported_capabilities"
  by unfold_locales (use capability_step_Inr in \<open>auto simp: split_paired_all\<close>)

lemma capability_set_supported:
  assumes "forE caps capability_set_step () = Inr u"
  shows "set (capability_set caps name) \<subseteq> set supported_capabilities"
proof (cases "map_of caps name")
  case (Some vs)
  then have "(name, vs) \<in> set caps" by (rule map_of_SomeD)
  from capabilities_loop.loop_ok [OF assms this] obtain ss where "vs = jstrs ss" "set ss \<subseteq> set supported_capabilities" by auto
  with Some show ?thesis by (simp add: capability_set_def)
qed (simp add: capability_set_def)

lemma validate_process_parts:
  assumes "validate_process process = Inr u"
  shows "validate_capabilities process = Inr ()" and "validate_user process = Inr ()" and "validate_cwd process = Inr ()"
    and "validate_args_env process = Inr ()"
  using assms unfolding validate_process_def bindE_Inr by simp_all

lemma validate_user_uid:
  assumes "validate_user process = Inr u"
  shows "\<exists>user uid. jget process ''user'' = JObj user \<and> jget user ''uid'' = JInt uid \<and> 0 \<le> uid \<and> uid \<le> 4294967295"
  using assms unfolding validate_user_def bindE_Inr require_object_Inr
  by (auto simp: require_uint32_def require_uint_iff)

text \<open>
  C11.  In a validated configuration that has a capability object, the bounding, permitted and
  effective sets are the same set of supported capabilities, ambient capabilities are permitted
  and inheritable, and a process whose user is not root has none at all.
\<close>

theorem validate_capability_policy:
  assumes "validate (JObj config) = Inr ()" and "jget config ''process'' = JObj process"
    and "jget process ''capabilities'' = JObj caps" and "jget process ''user'' = JObj user"
  shows "set (capability_set caps ''bounding'') = set (capability_set caps ''permitted'')
    \<and> set (capability_set caps ''permitted'') = set (capability_set caps ''effective'')
    \<and> set (capability_set caps ''permitted'') \<subseteq> set supported_capabilities
    \<and> set (capability_set caps ''ambient'') \<subseteq> set (capability_set caps ''permitted'') \<inter> set (capability_set caps ''inheritable'')
    \<and> (jget user ''uid'' \<noteq> JInt 0 \<longrightarrow> (\<forall>name. capability_set caps name = []))"
proof -
  from assms(1) obtain process' where "jget config ''process'' = JObj process'" "validate_process process' = Inr ()"
    by (rule validate_Inr) simp
  with assms(2) have vp: "validate_process process = Inr ()" by simp
  have u: "jget_or process ''user'' (JObj []) = JObj user"
    using map_of_jget [of process "''user''"] assms(4) by (simp add: jget_or_def)
  obtain uid where uid: "jget user ''uid'' = JInt uid"
    using validate_user_uid [OF validate_process_parts(2) [OF vp]] assms(4) by auto
  let ?s = "capability_set caps"
  from validate_process_parts(1) [OF vp] obtain w where loop: "forE caps capability_set_step () = Inr w"
    and root: "\<not> (\<not> py_eq (JInt uid) (JInt 0) \<and> list_ex (\<lambda>p. py_truth (snd p)) caps)"
    and sub: "\<not> (\<not> subset_list (?s ''permitted'') (?s ''bounding'') \<or> \<not> subset_list (?s ''effective'') (?s ''permitted'')
                 \<or> \<not> (subset_list (?s ''ambient'') (?s ''permitted'') \<and> subset_list (?s ''ambient'') (?s ''inheritable'')))"
      "subset_list (?s ''bounding'') (?s ''permitted'')" "subset_list (?s ''permitted'') (?s ''effective'')"
    unfolding validate_capabilities_def assms(3) bindE_Inr require_object_Inr Let_def u uid
    by (auto simp: bindE_Inr uid split: if_splits)
  have "?s name = []" if "uid \<noteq> 0" for name
  proof (cases "map_of caps name")
    case (Some vs)
    then have m: "(name, vs) \<in> set caps" by (rule map_of_SomeD)
    with capabilities_loop.loop_ok [OF loop this] obtain ss where ss: "vs = jstrs ss" by auto
    from root that have "\<not> list_ex (\<lambda>p. py_truth (snd p)) caps" by (simp add: py_eq_def)
    with m ss have "ss = []" by (auto simp: list_ex_iff)
    with ss Some show ?thesis by (simp add: capability_set_def)
  qed (simp add: capability_set_def)
  then show ?thesis using sub capability_set_supported [OF loop] uid by auto
qed

theorem validate_capability_policy_witness:
  "set (capability_set sample_capabilities ''permitted'') = {''CAP_KILL''} \<and> {''CAP_KILL''} \<subseteq> set supported_capabilities"
proof -
  have "jget sample_fields ''process'' = JObj sample_process" "jget sample_process ''capabilities'' = JObj sample_capabilities"
    "jget sample_process ''user'' = JObj sample_user" by (simp_all add: jget_def sample_fields_def sample_process_def)
  from validate_capability_policy [OF sample_config_valid this]
  have "set (capability_set sample_capabilities ''permitted'') \<subseteq> set supported_capabilities" by (elim conjE)
  then show ?thesis by (simp add: capability_set_def sample_capabilities_def)
qed



definition unhashable_kind_config :: json where
  "unhashable_kind_config = JObj
     [(''ociVersion'', JStr ''1.2.0''),
      (''process'', JObj [(''args'', jstrs [''/bin/sh'']), (''cwd'', JStr ''/''), (''user'', JObj [(''uid'', JInt 0), (''gid'', JInt 0)])]),
      (''root'', JObj [(''path'', JStr ''rootfs'')]),
      (''linux'', JObj [(''namespaces'', JList [JObj [(''type'', JList [])]])])]"


lemma load_descriptor_iff:
  "load_config_descriptor decode euid before chunk data after = Inr v \<longleftrightarrow>
     S_ISREG (st_mode before) \<and> st_nlink before = 1 \<and> st_uid before = euid \<and> \<not> others_may_write (st_mode before)
     \<and> st_size before \<le> 1048576 \<and> length data \<le> 1048576 \<and> file_identity before = file_identity after
     \<and> decode data = Inr v \<and> wf_json v"
proof -
  have r: "bounded_read chunk 65536 MAX_CONFIG_BYTES [] data = take (MAX_CONFIG_BYTES + 1) data"
    by (rule bounded_read_take) simp
  have t: "length (take (MAX_CONFIG_BYTES + 1) data) > MAX_CONFIG_BYTES \<longleftrightarrow> length data > MAX_CONFIG_BYTES" by auto
  show ?thesis
  proof (cases "length data \<le> MAX_CONFIG_BYTES")
    case True
    then show ?thesis
      unfolding load_config_descriptor_def r Let_def if_Inl_Inr t
      by (auto simp: bindE_Inr hook_iff MAX_CONFIG_BYTES_def)
  next
    case False
    then show ?thesis unfolding load_config_descriptor_def r Let_def if_Inl_Inr t
      by (simp add: MAX_CONFIG_BYTES_def)
  qed
qed

text \<open>
  C14.  Loading from a descriptor succeeds exactly when the file is a private single-link regular
  file of the caller within the size limit, is unchanged over the read, and its whole contents
  decode to a value without duplicate names, however the kernel splits the reads.
\<close>

theorem load_config_descriptor_iff:
  "load_config_descriptor decode euid before chunk data after = Inr v \<longleftrightarrow>
     S_ISREG (st_mode before) \<and> st_nlink before = 1 \<and> st_uid before = euid \<and> \<not> others_may_write (st_mode before)
     \<and> st_size before \<le> 1048576 \<and> length data \<le> 1048576 \<and> file_identity before = file_identity after
     \<and> decode data = Inr v \<and> wf_json v"
  by (rule load_descriptor_iff)

text \<open>The node that a list of names reaches through directories only.\<close>

fun node_at :: "node \<Rightarrow> string list \<Rightarrow> node option" where
  "node_at n [] = Some n"
| "node_at (NDir st children) (c # cs) = (case map_of children c of None \<Rightarrow> None | Some n \<Rightarrow> node_at n cs)"
| "node_at _ (c # cs) = None"

lemma open_at_Inr:
  "open_at d c = Inr n \<Longrightarrow> \<exists>st children. d = NDir st children \<and> map_of children c = Some n \<and> (\<forall>s t. n \<noteq> NLink s t)"
  by (auto simp: open_at_def split: if_splits node.split_asm option.split_asm)

lemma open_dir_at_Inr: "open_dir_at d c = Inr n \<Longrightarrow> open_at d c = Inr n"
proof -
  assume "open_dir_at d c = Inr n"
  then obtain m where m: "open_at d c = Inr m" "(case m of NDir _ _ \<Rightarrow> Inr m | _ \<Rightarrow> Inl (OSError ''not a directory'')) = Inr n"
    unfolding open_dir_at_def bindE_Inr by (elim exE conjE) (rule that)
  from m show ?thesis by (cases m) auto
qed

lemma node_at_append: "node_at n (xs @ ys) = (case node_at n xs of None \<Rightarrow> None | Some m \<Rightarrow> node_at m ys)"
  by (induction n xs rule: node_at.induct) (auto split: option.splits)

lemma walk_node_at: "forE cs open_dir_at d = Inr n \<Longrightarrow> node_at d cs = Some n"
  by (induction cs arbitrary: d) (auto simp: bindE_Inr dest!: open_dir_at_Inr open_at_Inr)


definition sample_file :: node where
  "sample_file = NFile \<lparr>st_mode = 33152, st_uid = 0, st_gid = 0, st_nlink = 1, st_size = 2, st_dev = 1, st_ino = 2, st_rdev = 0,
     st_mtime_ns = 0, st_ctime_ns = 0\<rparr> ''{}''"


end
