(* ===== verification/Docker_Config.thy ===== *)
theory Docker_Config
  imports Py_Json
begin

text \<open>
  \<open>merge-runtime-docker-config.py\<close>: adding or removing the shim's entry in Docker's
  \<open>daemon.json\<close>.  The file system is observed through what \<open>path.exists()\<close> and
  \<open>path.read_text()\<close> return; dictionaries keep Python's insertion order.
\<close>

definition RUNTIME :: string where
  "RUNTIME = ''io.containerd.multikernel.v2''"

definition ENTRY :: json where
  "ENTRY = JObj [(''runtimeType'', JStr RUNTIME)]"

text \<open>The input file: absent, or present with the outcome of reading it.\<close>

definition docker_load :: "loads \<Rightarrow> bytes res option \<Rightarrow> fields res" where
  "docker_load loads file =
     (case file of
        None \<Rightarrow> Inr []
      | Some text \<Rightarrow>
          bindE (wrap_exn (\<lambda>e. is_os_error e \<or> is_decode_error e) (ConfigError ''invalid Docker configuration'')
              (bindE (bindE text (loads (\<lambda>_. Inl (ConfigError ''invalid number'')))) (hook (ConfigError ''duplicate JSON key'')))) (\<lambda>value.
          case value of JObj d \<Rightarrow> Inr d | _ \<Rightarrow> Inl (ConfigError ''Docker configuration must be a JSON object'')))"

definition merge_runtimes :: "fields \<Rightarrow> bool \<Rightarrow> fields res" where
  "merge_runtimes runtimes remove =
     (let existing = jget runtimes RUNTIME;
          conflict = (existing \<noteq> JNull \<and> \<not> py_eq existing ENTRY)
      in if remove
         then if conflict then Inl (ConfigError ''refusing to remove a conflicting Multikernel runtime entry'')
              else Inr (dict_pop runtimes RUNTIME)
         else if conflict then Inl (ConfigError ''conflicting Multikernel runtime entry already exists'')
              else Inr (dict_set runtimes RUNTIME ENTRY))"

definition merge_live_restore :: "fields \<Rightarrow> bool \<Rightarrow> fields res" where
  "merge_live_restore value enable_live_restore =
     (if \<not> enable_live_restore then Inr value
      else let existing = jget value ''live-restore'' in
        if existing \<noteq> JNull \<and> existing \<noteq> JBool True
        then Inl (ConfigError ''conflicting Docker live-restore setting already exists'')
        else Inr (dict_set value ''live-restore'' (JBool True)))"

definition docker_merge :: "fields \<Rightarrow> bool \<Rightarrow> bool \<Rightarrow> fields res" where
  "docker_merge value remove enable_live_restore =
     (case jget_or value ''runtimes'' (JObj []) of
        JObj runtimes0 \<Rightarrow>
          bindE (merge_runtimes runtimes0 remove) (\<lambda>runtimes.
          merge_live_restore
            (if runtimes \<noteq> [] then dict_set value ''runtimes'' (JObj runtimes) else dict_pop value ''runtimes'')
            enable_live_restore)
      | _ \<Rightarrow> Inl (ConfigError ''Docker runtimes must be an object''))"

text \<open>
  \<open>main\<close> after argument parsing: the value whose JSON text is written to the new output file, if
  any, and the exit status or the escaping exception.
\<close>

definition docker_main :: "loads \<Rightarrow> bytes res option \<Rightarrow> bool \<Rightarrow> bool \<Rightarrow> bool \<Rightarrow> json option \<times> int res" where
  "docker_main loads file output_exists remove enable_live_restore =
     (case bindE (docker_load loads file) (\<lambda>value. docker_merge value remove enable_live_restore) of
        Inl e \<Rightarrow> (None, if is_os_error e \<or> (case e of ConfigError _ \<Rightarrow> True | _ \<Rightarrow> False) then Inr 1 else Inl e)
      | Inr result \<Rightarrow> if output_exists then (None, Inr 1) else (Some (JObj result), Inr 0))"

section \<open>Laws of the merge\<close>

lemma py_eq_ENTRY: "py_eq ENTRY ENTRY"
  by (simp add: ENTRY_def py_eq_def)

lemma merge_runtimes_add: "merge_runtimes rs False = Inr rs' \<longleftrightarrow>
    (jget rs RUNTIME = JNull \<or> py_eq (jget rs RUNTIME) ENTRY) \<and> rs' = dict_set rs RUNTIME ENTRY"
  by (auto simp: merge_runtimes_def Let_def split: if_splits)

lemma docker_merge_Inr:
  "docker_merge v remove lr = Inr w \<longleftrightarrow>
     (\<exists>rs rs'. jget_or v ''runtimes'' (JObj []) = JObj rs \<and> merge_runtimes rs remove = Inr rs'
        \<and> merge_live_restore (if rs' \<noteq> [] then dict_set v ''runtimes'' (JObj rs') else dict_pop v ''runtimes'') lr = Inr w)"
  unfolding docker_merge_def by (cases "jget_or v ''runtimes'' (JObj [])") (auto simp: bindE_Inr)

lemma merge_live_restore_Inr:
  "merge_live_restore v lr = Inr w \<Longrightarrow> w = (if lr then dict_set v ''live-restore'' (JBool True) else v)"
  by (auto simp: merge_live_restore_def Let_def split: if_splits)

lemma dict_set_not_Nil [simp]: "dict_set d k v \<noteq> []"
  by (induction d k v rule: dict_set.induct) auto

lemma dict_pop_set: "dict_pop (dict_set d k v) k = dict_pop d k"
  by (induction d k v rule: dict_set.induct) (auto simp: dict_pop_def)

section \<open>Properties\<close>



text \<open>
  C17.  Removing the runtime undoes adding it: for a configuration that did not mention the shim
  and whose \<open>runtimes\<close> member is absent or not empty, add followed by remove gives back the very
  same dictionary, order included.
\<close>

theorem docker_merge_add_remove:
  assumes "docker_merge v False False = Inr w"
    and "case map_of v ''runtimes'' of None \<Rightarrow> True | Some (JObj rs) \<Rightarrow> rs \<noteq> [] \<and> \<not> has_key rs RUNTIME | _ \<Rightarrow> False"
  shows "docker_merge w True False = Inr v"
proof -
  from assms(1) obtain rs rs' where r: "jget_or v ''runtimes'' (JObj []) = JObj rs" "merge_runtimes rs False = Inr rs'"
    and l: "merge_live_restore (if rs' \<noteq> [] then dict_set v ''runtimes'' (JObj rs') else dict_pop v ''runtimes'') False = Inr w"
    unfolding docker_merge_Inr by (elim exE conjE) (rule that)
  from r(2) have rs': "rs' = dict_set rs RUNTIME ENTRY" by (simp add: merge_runtimes_add)
  with l have w: "w = dict_set v ''runtimes'' (JObj rs')" using merge_live_restore_Inr by fastforce
  have fresh: "\<not> has_key rs RUNTIME"
    using assms(2) r(1) by (auto simp: jget_or_def split: option.splits json.splits)
  have undo: "merge_runtimes rs' True = Inr rs"
    using py_eq_ENTRY dict_pop_set [of rs RUNTIME ENTRY] dict_pop_fresh [OF fresh] rs'
    by (auto simp: merge_runtimes_def)
  show ?thesis
  proof (cases "map_of v ''runtimes''")
    case None
    then have "rs = []" and "\<not> has_key v ''runtimes''" using r(1) by (auto simp: has_key_iff)
    then show ?thesis using undo w dict_pop_set [of v "''runtimes''"] dict_pop_fresh [of v]
      by (simp add: docker_merge_def merge_live_restore_def)
  next
    case (Some x)
    with r(1) assms(2) have "map_of v ''runtimes'' = Some (JObj rs)" "rs \<noteq> []" by auto
    then show ?thesis using undo w dict_set_same [of v "''runtimes''"]
      by (simp add: docker_merge_def merge_live_restore_def)
  qed
qed

theorem docker_merge_add_remove_witness:
  "\<exists>w. docker_merge [(''runtimes'', JObj [(''runc'', JObj [])])] False False = Inr w
     \<and> docker_merge w True False = Inr [(''runtimes'', JObj [(''runc'', JObj [])])]"
proof -
  obtain w where w: "docker_merge [(''runtimes'', JObj [(''runc'', JObj [])])] False False = Inr w"
    by (simp add: docker_merge_def jget_or_def merge_runtimes_def jget_def merge_live_restore_def RUNTIME_def)
  with docker_merge_add_remove [OF w] show ?thesis by (simp add: RUNTIME_def)
qed

end
