(* ===== verification/Rootfs_Verify.thy ===== *)
theory Rootfs_Verify
  imports Newc Py_Json Py_Os
begin

text \<open>
  \<open>verify-runtime-rootfs.py\<close>: \<open>verify\<close> and \<open>main\<close>.  The archive reader is
  \<^theory_text>\<open>Newc\<close>.  \<open>gzip.decompress\<close>, \<open>hashlib.sha256\<close> and the JSON text parser are
  parameters.  A run of \<open>verify\<close> is \<^const>\<open>None\<close> when the archive reader does not return.
\<close>

section \<open>Manifest schema\<close>

definition required_normalization :: json where
  "required_normalization = JObj
     [(''archive'', JStr ''cpio-newc''), (''mtime'', JInt 0),
      (''inode_assignment'', JStr ''lexical-path-with-hardlink-groups''),
      (''xattrs'', JStr ''rejected-except-realized-overlay-opacity''),
      (''overlay_opacity'', JStr ''materialized-view-normalized''),
      (''sparse_extents'', JStr ''normalized-to-regular-bytes''), (''device_nodes'', JStr ''rejected'')]"

definition same_keys :: "fields \<Rightarrow> string list \<Rightarrow> bool" where
  "same_keys d ks \<longleftrightarrow> list_all (\<lambda>p. fst p \<in> set ks) d \<and> list_all (has_key d) ks"

definition check_schema :: "json \<Rightarrow> fields list res" where
  "check_schema manifest =
     (case manifest of
        JObj d \<Rightarrow>
          (if \<not> same_keys d [''schema_version'', ''normalization'', ''entries'']
           then Inl (VerificationError ''manifest fields differ from schema'')
           else if \<not> py_eq (jget d ''schema_version'') (JInt 1) \<or> is_bool (jget d ''schema_version'')
                   \<or> \<not> is_list (jget d ''entries'')
           then Inl (VerificationError ''unsupported manifest schema'')
           else if \<not> py_eq (jget d ''normalization'') required_normalization
           then Inl (VerificationError ''manifest normalization policy differs from builder contract'')
           else mapE (\<lambda>entry. case entry of JObj e \<Rightarrow> Inr e
               | _ \<Rightarrow> Inl (VerificationError ''manifest entries must be objects'')) (the_list (jget d ''entries'')))
      | _ \<Rightarrow> Inl (VerificationError ''manifest fields differ from schema''))"

section \<open>Comparison of manifest and archive\<close>

text \<open>\<open>data_by_inode\<close>: the payload of each inode that carries one.\<close>

definition collect_data :: "newc_entry list \<Rightarrow> (int \<rightharpoonup> bytes) res" where
  "collect_data actual =
     forE actual (\<lambda>m e.
       if n_data e = [] then Inr m
       else (case m (n_ino e) of
           None \<Rightarrow> Inr (m(n_ino e \<mapsto> n_data e))
         | Some prior \<Rightarrow> if prior \<noteq> n_data e
             then Inl (VerificationError ''one inode contains conflicting hardlink data'') else Inr m)) Map.empty"

definition inode_group :: "newc_entry list \<Rightarrow> int \<Rightarrow> string list" where
  "inode_group actual ino = map n_path (filter (\<lambda>e. n_ino e = ino) actual)"

text \<open>The dictionary \<open>hardlinks\<close>, in insertion order.\<close>

type_synonym links = "(string \<times> int \<times> string list) list"

fun link_add :: "links \<Rightarrow> string \<Rightarrow> int \<Rightarrow> string \<Rightarrow> links" where
  "link_add [] link ino path = [(link, ino, [path])]"
| "link_add ((l, i, ps) # ls) link ino path =
     (if l = link then (l, i, path # ps) # ls else (l, i, ps) # link_add ls link ino path)"

definition required_kind :: "json \<Rightarrow> nat option res" where
  "required_kind kind =
     (if \<not> hashable kind then Inl (TypeError ''unhashable type'')
      else Inr (if kind = JStr ''directory'' then Some 16384
                else if kind = JStr ''regular'' then Some 32768
                else if kind = JStr ''symlink'' then Some 40960 else None))"

definition check_fields :: "fields \<Rightarrow> unit res" where
  "check_fields wanted =
     (let kind = jget wanted ''type'';
          required = [''path'', ''type'', ''mode'', ''uid'', ''gid'', ''size''];
          allowed = required @ (if kind = JStr ''regular'' then [''sha256'', ''hardlink'']
                                else if kind = JStr ''symlink'' then [''target''] else [])
      in raise_if (\<not> list_all (\<lambda>p. fst p \<in> set allowed) wanted \<or> \<not> list_all (has_key wanted) required)
           (VerificationError ''invalid manifest fields''))"

definition check_metadata :: "fields \<Rightarrow> newc_entry \<Rightarrow> unit res" where
  "check_metadata wanted observed =
     bindE (if n_mode observed < 0 then Inl (OverflowError ''mode'') else Inr (s_ifmt (nat (n_mode observed)))) (\<lambda>mode_kind.
     bindE (required_kind (jget wanted ''type'')) (\<lambda>required.
     if required \<noteq> Some mode_kind then Inl (VerificationError ''type mismatch'')
     else if \<not> py_eq (jget wanted ''mode'') (JInt (n_mode observed)) then Inl (VerificationError ''mode mismatch'')
     else if \<not> py_eq (jget wanted ''uid'') (JInt (n_uid observed)) then Inl (VerificationError ''uid mismatch'')
     else if \<not> py_eq (jget wanted ''gid'') (JInt (n_gid observed)) then Inl (VerificationError ''gid mismatch'')
     else raise_if (n_mtime observed \<noteq> 0) (VerificationError ''nonzero mtime'')))"

definition content_of :: "(int \<rightharpoonup> bytes) \<Rightarrow> newc_entry \<Rightarrow> bytes" where
  "content_of data_by_inode observed =
     (case data_by_inode (n_ino observed) of Some d \<Rightarrow> d | None \<Rightarrow> n_data observed)"

definition check_content :: "(bytes \<Rightarrow> string) \<Rightarrow> (int \<rightharpoonup> bytes) \<Rightarrow> fields \<Rightarrow> newc_entry \<Rightarrow> unit res" where
  "check_content sha256 data_by_inode wanted observed =
     (let kind = jget wanted ''type''; content = content_of data_by_inode observed;
          logical_size = (if kind = JStr ''regular'' then int (length content) else n_size observed)
      in if \<not> py_eq (jget wanted ''size'') (JInt logical_size) then Inl (VerificationError ''size mismatch'')
         else if kind = JStr ''regular'' \<and> \<not> py_eq (jget wanted ''sha256'') (JStr (sha256 content))
         then Inl (VerificationError ''content digest mismatch'')
         else raise_if (kind = JStr ''symlink'' \<and> \<not> py_eq (jget wanted ''target'') (JStr (n_data observed)))
           (VerificationError ''symlink target mismatch''))"

definition check_link :: "fields \<Rightarrow> newc_entry \<Rightarrow> links \<Rightarrow> links res" where
  "check_link wanted observed hardlinks =
     (let link = jget wanted ''hardlink'' in
      if py_truth link then
        (if \<not> is_str link then Inl (VerificationError ''invalid hardlink identity'')
         else Inr (link_add hardlinks (the_str link) (n_ino observed) (n_path observed)))
      else if n_nlink observed \<noteq> (if jget wanted ''type'' = JStr ''directory'' then 2 else 1)
      then Inl (VerificationError ''unexpected link count'')
      else Inr hardlinks)"

definition check_entry ::
  "(bytes \<Rightarrow> string) \<Rightarrow> (int \<rightharpoonup> bytes) \<Rightarrow> links \<Rightarrow> fields \<times> newc_entry \<Rightarrow> links res" where
  "check_entry sha256 data_by_inode hardlinks = (\<lambda>(wanted, observed).
     bindE (check_fields wanted) (\<lambda>_.
     bindE (check_metadata wanted observed) (\<lambda>_.
     bindE (check_content sha256 data_by_inode wanted observed) (\<lambda>_.
     check_link wanted observed hardlinks))))"

definition check_group :: "newc_entry list \<Rightarrow> string \<times> int \<times> string list \<Rightarrow> unit res" where
  "check_group actual = (\<lambda>(link, inode, paths).
     raise_if (set (inode_group actual inode) \<noteq> set paths
         \<or> (case find (\<lambda>e. n_ino e = inode) actual of None \<Rightarrow> True | Some e \<Rightarrow> int (length (remdups paths)) \<noteq> n_nlink e))
       (VerificationError ''hardlink group mismatch''))"

definition verify_entries :: "(bytes \<Rightarrow> string) \<Rightarrow> fields list \<Rightarrow> newc_entry list \<Rightarrow> unit res" where
  "verify_entries sha256 expected actual =
     (if \<not> py_same_list (map (\<lambda>e. jget e ''path'') expected) (map (JStr \<circ> n_path) actual)
      then Inl (VerificationError ''archive path order/content differs from manifest'')
      else bindE (collect_data actual) (\<lambda>data_by_inode.
        bindE (forE (zip expected actual) (check_entry sha256 data_by_inode) []) (\<lambda>hardlinks.
        forE hardlinks (\<lambda>_. check_group actual) ())))"

section \<open>The command\<close>

record verified =
  archive_sha256 :: string
  manifest_sha256 :: string
  verified_entries :: nat
  uncompressed_bytes :: nat

definition gzip_header_ok :: "bytes \<Rightarrow> bool" where
  "gzip_header_ok encoded \<longleftrightarrow> 10 \<le> length encoded \<and> take 2 encoded = [CHR 0x1F, CHR 0x8B]
     \<and> take 4 (drop 4 encoded) = replicate 4 NUL \<and> (of_char (encoded ! 3) :: nat) AND 8 = 0"

definition load_manifest :: "loads \<Rightarrow> bytes res \<Rightarrow> json res" where
  "load_manifest loads manifest_bytes =
     wrap_exn (\<lambda>e. is_os_error e \<or> is_decode_error e) (VerificationError ''invalid manifest'')
       (bindE (bindE manifest_bytes (loads (\<lambda>_. Inl (VerificationError ''invalid JSON numeric constant''))))
          (hook (VerificationError ''duplicate manifest key'')))"

definition verify ::
  "(bytes \<Rightarrow> bytes res) \<Rightarrow> (bytes \<Rightarrow> string) \<Rightarrow> loads \<Rightarrow> bytes res \<Rightarrow> bytes res \<Rightarrow> verified res option" where
  "verify gunzip sha256 loads archive manifest_bytes =
     (case bindE archive (\<lambda>encoded.
          if \<not> gzip_header_ok encoded then Inl (VerificationError ''gzip header is not deterministic'')
          else bindE (wrap_exn (\<lambda>e. is_os_error e \<or> (case e of EOFError _ \<Rightarrow> True | _ \<Rightarrow> False)) (VerificationError ''invalid gzip stream'') (gunzip encoded))
            (\<lambda>unpacked. Inr (encoded, unpacked))) of
        Inl e \<Rightarrow> Some (Inl e)
      | Inr (encoded, unpacked) \<Rightarrow>
          (case parse_newc unpacked of
             None \<Rightarrow> None
           | Some parsed \<Rightarrow> Some (
               bindE parsed (\<lambda>actual.
               bindE (load_manifest loads manifest_bytes) (\<lambda>manifest.
               bindE (check_schema manifest) (\<lambda>expected.
               bindE (verify_entries sha256 expected actual) (\<lambda>_.
               bindE manifest_bytes (\<lambda>bytes.
               Inr \<lparr>archive_sha256 = sha256 encoded, manifest_sha256 = sha256 bytes,
                 verified_entries = length actual, uncompressed_bytes = length unpacked\<rparr>))))))))"

definition verify_main ::
  "(bytes \<Rightarrow> bytes res) \<Rightarrow> (bytes \<Rightarrow> string) \<Rightarrow> loads \<Rightarrow> bytes res \<Rightarrow> bytes res \<Rightarrow> int res option" where
  "verify_main gunzip sha256 loads archive manifest_bytes =
     map_option (\<lambda>r. case r of
         Inr _ \<Rightarrow> Inr 0
       | Inl e \<Rightarrow> if is_os_error e \<or> (case e of VerificationError _ \<Rightarrow> True | _ \<Rightarrow> False) then Inr 1 else Inl e)
       (verify gunzip sha256 loads archive manifest_bytes)"

section \<open>What the comparison establishes\<close>

lemma find_snoc: "find P (xs @ [x]) = (case find P xs of None \<Rightarrow> if P x then Some x else None | Some y \<Rightarrow> Some y)"
  by (induction xs) auto

text \<open>The payload of an inode: that of its first record with one.\<close>

definition inode_data :: "newc_entry list \<Rightarrow> int \<Rightarrow> bytes option" where
  "inode_data actual ino = map_option n_data (find (\<lambda>e. n_ino e = ino \<and> n_data e \<noteq> []) actual)"

definition data_consistent :: "newc_entry list \<Rightarrow> bool" where
  "data_consistent actual \<longleftrightarrow>
     (\<forall>a \<in> set actual. \<forall>b \<in> set actual. n_ino a = n_ino b \<and> n_data a \<noteq> [] \<and> n_data b \<noteq> [] \<longrightarrow> n_data a = n_data b)"

lemma inode_data_Some: "inode_data actual ino = Some d \<Longrightarrow> \<exists>e \<in> set actual. n_ino e = ino \<and> n_data e = d \<and> d \<noteq> []"
  by (auto simp: inode_data_def find_Some_iff)

lemma inode_data_None: "inode_data actual ino = None \<longleftrightarrow> (\<forall>e \<in> set actual. n_ino e = ino \<longrightarrow> n_data e = [])"
  by (auto simp: inode_data_def find_None_iff)

lemma inode_data_snoc:
  "inode_data (xs @ [e]) = (if n_data e = [] \<or> inode_data xs (n_ino e) \<noteq> None then inode_data xs
     else (inode_data xs)(n_ino e \<mapsto> n_data e))"
  by (rule ext) (auto simp: inode_data_def find_snoc split: option.splits)

lemma snoc_consistent:
  "data_consistent (xs @ [e]) \<longleftrightarrow> data_consistent xs
     \<and> (\<forall>a \<in> set xs. n_ino a = n_ino e \<and> n_data a \<noteq> [] \<and> n_data e \<noteq> [] \<longrightarrow> n_data a = n_data e)"
  unfolding data_consistent_def set_append list.set ball_Un ball_simps by (smt (verit, ccfv_threshold))

lemma collect_data_Inr: "collect_data actual = Inr m \<longleftrightarrow> m = inode_data actual \<and> data_consistent actual"
proof (induction actual arbitrary: m rule: rev_induct)
  case Nil
  show ?case by (auto simp: collect_data_def inode_data_def data_consistent_def)
next
  case (snoc e xs)
  have step: "collect_data (xs @ [e]) = bindE (collect_data xs) (\<lambda>m.
       if n_data e = [] then Inr m
       else (case m (n_ino e) of
           None \<Rightarrow> Inr (m(n_ino e \<mapsto> n_data e))
         | Some prior \<Rightarrow> if prior \<noteq> n_data e
             then Inl (VerificationError ''one inode contains conflicting hardlink data'') else Inr m))"
    unfolding collect_data_def by (rule forE_snoc)
  have cons: "data_consistent (xs @ [e]) \<longleftrightarrow> data_consistent xs \<and> (n_data e = [] \<or> inode_data xs (n_ino e) \<in> {None, Some (n_data e)})"
  proof (cases "inode_data xs (n_ino e)")
    case None
    then show ?thesis by (auto simp: snoc_consistent inode_data_None)
  next
    case (Some d)
    from inode_data_Some [OF Some] obtain a where a: "a \<in> set xs" "n_ino a = n_ino e" "n_data a = d" "d \<noteq> []" by blast
    have "n_data b = n_data e" if c: "data_consistent xs" and d: "d = n_data e" and b: "b \<in> set xs" "n_ino b = n_ino e" "n_data b \<noteq> []" for b
      using c [unfolded data_consistent_def, rule_format, OF a(1) b(1)] a b d by simp
    moreover have "d = n_data e" if "data_consistent (xs @ [e])" "n_data e \<noteq> []"
      using that(1) [unfolded data_consistent_def, rule_format, of a e] a that(2) by simp
    moreover have "data_consistent xs" if "data_consistent (xs @ [e])"
      using that unfolding data_consistent_def by simp
    moreover have "inode_data xs (n_ino e) \<in> {None, Some (n_data e)} \<longleftrightarrow> d = n_data e" using Some by simp
    ultimately show ?thesis unfolding snoc_consistent by blast
  qed
  show ?case
    unfolding step bindE_Inr snoc.IH cons inode_data_snoc
    by (cases "inode_data xs (n_ino e)") (auto split: if_splits)
qed

lemma link_add_map_of:
  "map_of (link_add ls l i p) = (map_of ls)(l \<mapsto> (case map_of ls l of None \<Rightarrow> (i, [p]) | Some (i', ps) \<Rightarrow> (i', p # ps)))"
  by (induction ls l i p rule: link_add.induct) (auto split: option.splits)

text \<open>The hardlink identity a manifest entry gives, if any.\<close>

definition wanted_link :: "fields \<Rightarrow> string option" where
  "wanted_link wanted = (case jget wanted ''hardlink'' of JStr l \<Rightarrow> if l = '''' then None else Some l | _ \<Rightarrow> None)"

definition linked_paths :: "(fields \<times> newc_entry) list \<Rightarrow> string \<Rightarrow> string set" where
  "linked_paths ps l = {n_path o' | w o'. (w, o') \<in> set ps \<and> wanted_link w = Some l}"

lemma check_link_Inr:
  assumes "check_link wanted observed ls = Inr ls'"
  shows "ls' = (case wanted_link wanted of None \<Rightarrow> ls | Some l \<Rightarrow> link_add ls l (n_ino observed) (n_path observed))"
    and "wanted_link wanted = None \<Longrightarrow> n_nlink observed = (if jget wanted ''type'' = JStr ''directory'' then 2 else 1)"
  using assms unfolding check_link_def Let_def wanted_link_def
  by (cases "jget wanted ''hardlink''"; auto split: if_splits)+

lemma check_entry_Inr:
  "check_entry sha256 m ls (w, o') = Inr ls' \<longleftrightarrow>
     check_fields w = Inr () \<and> check_metadata w o' = Inr () \<and> check_content sha256 m w o' = Inr () \<and> check_link w o' ls = Inr ls'"
  by (simp add: check_entry_def bindE_Inr)

text \<open>After the loop, each recorded identity has exactly the paths that name it.\<close>

lemma links_recorded:
  assumes "forE ps (check_entry sha256 m) ls = Inr ls'"
  shows "case map_of ls' l of
      None \<Rightarrow> linked_paths ps l = {} \<and> map_of ls l = None
    | Some (i, paths) \<Rightarrow> set paths = linked_paths ps l \<union> (case map_of ls l of None \<Rightarrow> {} | Some (_, q) \<Rightarrow> set q)"
  using assms
proof (induction ps arbitrary: ls)
  case Nil
  then show ?case by (auto simp: linked_paths_def split: option.splits)
next
  case (Cons p ps)
  obtain w o' where p: "p = (w, o')" by (cases p)
  from Cons.prems p obtain ls1 where s: "check_entry sha256 m ls (w, o') = Inr ls1"
    and t: "forE ps (check_entry sha256 m) ls1 = Inr ls'" by (auto simp: bindE_Inr)
  from s have ls1: "ls1 = (case wanted_link w of None \<Rightarrow> ls | Some l \<Rightarrow> link_add ls l (n_ino o') (n_path o'))"
    using check_link_Inr(1) by (simp add: check_entry_Inr)
  have lp: "linked_paths (p # ps) l = (if wanted_link w = Some l then {n_path o'} else {}) \<union> linked_paths ps l"
    by (auto simp: linked_paths_def p)
  show ?case using Cons.IH [OF t] unfolding lp ls1
    by (cases "wanted_link w") (auto simp: link_add_map_of split: option.splits if_splits prod.splits)
qed

lemma parse_newc_distinct: "parse_newc data = Some (Inr recs) \<Longrightarrow> distinct (map n_path recs)"
proof -
  assume "parse_newc data = Some (Inr recs)"
  then have "length (remdups (map n_path recs)) = length (map n_path recs)"
    by (auto simp: parse_newc_def bindE_Inr split: if_splits)
  then show ?thesis by (metis length_remdups_card_conv card_distinct)
qed

lemma verify_entries_Inr:
  assumes "verify_entries sha256 expected actual = Inr u"
  obtains ls where "map (\<lambda>e. jget e ''path'') expected = map (JStr \<circ> n_path) actual" and "length expected = length actual"
    and "data_consistent actual"
    and "forE (zip expected actual) (check_entry sha256 (inode_data actual)) [] = Inr ls"
    and "\<forall>g \<in> set ls. check_group actual g = Inr ()"
proof -
  have p: "py_same_list (map (\<lambda>e. jget e ''path'') expected) (map (JStr \<circ> n_path) actual) \<longleftrightarrow>
      map (\<lambda>e. jget e ''path'') expected = map (JStr \<circ> n_path) actual"
    using py_same_list_JStr [of _ "map n_path actual"] by simp
  from assms obtain m ls where "\<not> \<not> py_same_list (map (\<lambda>e. jget e ''path'') expected) (map (JStr \<circ> n_path) actual)"
    and c: "collect_data actual = Inr m" and f: "forE (zip expected actual) (check_entry sha256 m) [] = Inr ls"
    and g: "forE ls (\<lambda>_. check_group actual) () = Inr u"
    unfolding verify_entries_def if_Inl_Inr bindE_Inr by (elim exE conjE) (rule that)
  then have e: "map (\<lambda>e. jget e ''path'') expected = map (JStr \<circ> n_path) actual" using p by simp
  from arg_cong [OF e, of length] have "length expected = length actual" by simp
  with that e c [unfolded collect_data_Inr] f g [unfolded forE_unit_Inr] show thesis by blast
qed

text \<open>What an accepted manifest entry says of its archive record.\<close>

definition manifest_matches :: "(bytes \<Rightarrow> string) \<Rightarrow> newc_entry list \<Rightarrow> fields \<Rightarrow> newc_entry \<Rightarrow> bool" where
  "manifest_matches sha256 actual wanted observed \<longleftrightarrow>
     jget wanted ''path'' = JStr (n_path observed) \<and> n_mtime observed = 0 \<and> 0 \<le> n_mode observed
     \<and> py_eq (jget wanted ''mode'') (JInt (n_mode observed)) \<and> py_eq (jget wanted ''uid'') (JInt (n_uid observed))
     \<and> py_eq (jget wanted ''gid'') (JInt (n_gid observed))
     \<and> (jget wanted ''type'' = JStr ''directory'' \<and> S_ISDIR (nat (n_mode observed))
        \<or> jget wanted ''type'' = JStr ''regular'' \<and> S_ISREG (nat (n_mode observed))
          \<and> py_eq (jget wanted ''size'') (JInt (int (length (content_of (inode_data actual) observed))))
          \<and> jget wanted ''sha256'' = JStr (sha256 (content_of (inode_data actual) observed))
        \<or> jget wanted ''type'' = JStr ''symlink'' \<and> S_ISLNK (nat (n_mode observed))
          \<and> jget wanted ''target'' = JStr (n_data observed))"

lemma check_metadata_Inr:
  "check_metadata w r = Inr u \<longleftrightarrow>
     0 \<le> n_mode r \<and> required_kind (jget w ''type'') = Inr (Some (s_ifmt (nat (n_mode r))))
     \<and> py_eq (jget w ''mode'') (JInt (n_mode r)) \<and> py_eq (jget w ''uid'') (JInt (n_uid r))
     \<and> py_eq (jget w ''gid'') (JInt (n_gid r)) \<and> n_mtime r = 0"
  unfolding check_metadata_def bindE_Inr if_Inl_Inr by auto

lemma required_kind_Inr:
  "required_kind k = Inr (Some t) \<longleftrightarrow> k = JStr ''directory'' \<and> t = 16384 \<or> k = JStr ''regular'' \<and> t = 32768 \<or> k = JStr ''symlink'' \<and> t = 40960"
  by (auto simp: required_kind_def)

lemma check_entry_matches:
  assumes "check_entry sha256 (inode_data actual) ls (w, r) = Inr ls'" and "jget w ''path'' = JStr (n_path r)"
  shows "manifest_matches sha256 actual w r"
proof -
  from assms(1) have m: "check_metadata w r = Inr ()" and c: "check_content sha256 (inode_data actual) w r = Inr ()"
    by (simp_all add: check_entry_Inr)
  from m have k: "required_kind (jget w ''type'') = Inr (Some (s_ifmt (nat (n_mode r))))" by (simp add: check_metadata_Inr)
  from k [unfolded required_kind_Inr] show ?thesis
    using m c assms(2) unfolding manifest_matches_def check_metadata_Inr check_content_def Let_def if_Inl_Inr
    by (elim disjE) (simp_all add: S_ISDIR_def S_ISREG_def S_ISLNK_def)
qed

lemma inode_group_mem: "p \<in> set (inode_group actual ino) \<longleftrightarrow> (\<exists>e \<in> set actual. n_ino e = ino \<and> n_path e = p)"
  by (auto simp: inode_group_def)

lemma linked_inodes:
  assumes "forE (zip expected actual) (check_entry sha256 m) [] = Inr ls" and "\<forall>g \<in> set ls. check_group actual g = Inr ()"
    and d: "distinct (map n_path actual)" and len: "length expected = length actual"
    and i: "i < length actual" and j: "j < length actual" and l: "wanted_link (expected ! i) = Some l"
  shows "n_ino (actual ! i) = n_ino (actual ! j) \<longleftrightarrow> wanted_link (expected ! j) = Some l"
proof -
  have same: "k = k'" if "k < length actual" "k' < length actual" "n_path (actual ! k) = n_path (actual ! k')" for k k'
    using nth_eq_iff_index_eq [OF d, of k k'] that by simp
  have lp: "n_path (actual ! k) \<in> linked_paths (zip expected actual) l \<longleftrightarrow> wanted_link (expected ! k) = Some l"
    if "k < length actual" for k
    using that len same by (auto simp: linked_paths_def set_zip)
  from lp [OF i] l have "linked_paths (zip expected actual) l \<noteq> {}" by auto
  with links_recorded [OF assms(1), of l] obtain ino paths where m: "map_of ls l = Some (ino, paths)"
    and p: "set paths = linked_paths (zip expected actual) l" by (auto split: option.splits)
  from map_of_SomeD [OF m] assms(2) have g: "set (inode_group actual ino) = linked_paths (zip expected actual) l"
    using p by (auto simp: check_group_def)
  have grp: "n_ino (actual ! k) = ino \<longleftrightarrow> wanted_link (expected ! k) = Some l" if "k < length actual" for k
  proof -
    have "n_path (actual ! k) \<in> set (inode_group actual ino) \<longleftrightarrow> n_ino (actual ! k) = ino"
      using that same unfolding inode_group_mem by (metis in_set_conv_nth nth_mem)
    then show ?thesis using lp [OF that] g by simp
  qed
  then show ?thesis using i j l by metis
qed

section \<open>Completeness of the comparison\<close>

lemma link_add_keys: "fst ` set (link_add ls l i q) = insert l (fst ` set ls)"
  by (induction ls l i q rule: link_add.induct) auto

lemma link_add_distinct: "distinct (map fst ls) \<Longrightarrow> distinct (map fst (link_add ls l i q))"
proof (induction ls l i q rule: link_add.induct)
  case (2 l i ps ls link ino path)
  then show ?case using link_add_keys [of ls link ino path] by (auto simp del: link_add.simps(2) simp: link_add.simps(2))
qed simp

lemma links_inode:
  assumes "forE ps (check_entry sha256 m) ls = Inr ls'" and "distinct (map fst ls)"
  shows "distinct (map fst ls') \<and> (\<forall>l i paths. map_of ls' l = Some (i, paths) \<longrightarrow>
    (\<exists>q. map_of ls l = Some (i, q)) \<or> (\<exists>w o'. (w, o') \<in> set ps \<and> wanted_link w = Some l \<and> n_ino o' = i))"
  using assms
proof (induction ps arbitrary: ls)
  case (Cons p ps)
  obtain w o' where p: "p = (w, o')" by (cases p)
  from Cons.prems p obtain ls1 where s: "check_entry sha256 m ls (w, o') = Inr ls1"
    and t: "forE ps (check_entry sha256 m) ls1 = Inr ls'" by (auto simp: bindE_Inr)
  from s have ls1: "ls1 = (case wanted_link w of None \<Rightarrow> ls | Some l \<Rightarrow> link_add ls l (n_ino o') (n_path o'))"
    using check_link_Inr(1) by (simp add: check_entry_Inr)
  have d1: "distinct (map fst ls1)" using Cons.prems(2) link_add_distinct unfolding ls1 by (auto split: option.splits)
  have m1: "map_of ls1 l = Some (i, q) \<Longrightarrow> (\<exists>q. map_of ls l = Some (i, q)) \<or> wanted_link w = Some l \<and> n_ino o' = i" for l i q
    unfolding ls1 by (auto simp: link_add_map_of split: option.splits if_splits prod.splits)
  show ?case using Cons.IH [OF t d1] m1 unfolding p by (auto, blast+)
qed simp

lemma check_entries_run:
  assumes "\<And>w o'. (w, o') \<in> set ps \<Longrightarrow> check_fields w = Inr () \<and> check_metadata w o' = Inr () \<and> check_content sha256 m w o' = Inr ()
      \<and> (jget w ''hardlink'' = JNull \<and> n_nlink o' = (if jget w ''type'' = JStr ''directory'' then 2 else 1)
         \<or> (\<exists>l. wanted_link w = Some l))"
  shows "\<exists>ls'. forE ps (check_entry sha256 m) ls = Inr ls'"
  using assms
proof (induction ps arbitrary: ls)
  case (Cons p ps)
  obtain w o' where p: "p = (w, o')" by (cases p)
  have "(w, o') \<in> set (p # ps)" by (simp add: p)
  note here = Cons.prems [OF this]
  have "\<exists>ls1. check_link w o' ls = Inr ls1"
    using here by (auto simp: check_link_def wanted_link_def Let_def split: json.splits if_splits)
  then obtain ls1 where "check_entry sha256 m ls p = Inr ls1" using here unfolding p check_entry_Inr by auto
  moreover obtain ls' where "forE ps (check_entry sha256 m) ls1 = Inr ls'"
    using Cons.IH [of ls1] Cons.prems by (meson list.set_intros(2))
  ultimately show ?case by auto
qed simp

lemma check_groups_run:
  assumes run: "forE (zip expected actual) (check_entry sha256 m) [] = Inr ls" and len: "length expected = length actual"
    and d: "distinct (map n_path actual)"
    and ino: "\<And>i j l. i < length actual \<Longrightarrow> j < length actual \<Longrightarrow> wanted_link (expected ! i) = Some l \<Longrightarrow>
       n_ino (actual ! i) = n_ino (actual ! j) \<longleftrightarrow> wanted_link (expected ! j) = Some l"
    and cnt: "\<And>i l. i < length actual \<Longrightarrow> wanted_link (expected ! i) = Some l \<Longrightarrow>
       n_nlink (actual ! i) = int (card {j. j < length actual \<and> wanted_link (expected ! j) = Some l})"
    and g: "g \<in> set ls"
  shows "check_group actual g = Inr ()"
proof -
  obtain l ino0 paths where gg: "g = (l, ino0, paths)" by (metis prod_cases3)
  note li = links_inode [OF run, simplified]
  have m: "map_of ls l = Some (ino0, paths)" using li g gg by (simp add: map_of_is_SomeI)
  have "\<exists>w o'. (w, o') \<in> set (zip expected actual) \<and> wanted_link w = Some l \<and> n_ino o' = ino0" using li m by blast
  then obtain k where k: "k < length actual" "wanted_link (expected ! k) = Some l" "n_ino (actual ! k) = ino0"
    using len by (auto simp: set_zip)
  let ?J = "{j. j < length actual \<and> wanted_link (expected ! j) = Some l}"
  have J: "n_ino (actual ! j) = ino0 \<longleftrightarrow> wanted_link (expected ! j) = Some l" if "j < length actual" for j
    using ino [OF k(1) that k(2)] k(3) by auto
  have paths: "set paths = linked_paths (zip expected actual) l" using links_recorded [OF run, of l] m by simp
  also have "\<dots> = (\<lambda>j. n_path (actual ! j)) ` ?J" using len by (auto simp: linked_paths_def set_zip)
  finally have img: "set paths = (\<lambda>j. n_path (actual ! j)) ` ?J" .
  have "inj_on (\<lambda>j. n_path (actual ! j)) ?J"
    using d by (auto simp: inj_on_def distinct_conv_nth)
  then have card: "length (remdups paths) = card ?J" unfolding length_remdups_card_conv img by (rule card_image)
  have "set (inode_group actual ino0) = set paths" unfolding img
    using J by (auto simp: inode_group_def in_set_conv_nth image_iff) 
  moreover obtain e where e: "find (\<lambda>e. n_ino e = ino0) actual = Some e" "e \<in> set actual" "n_ino e = ino0"
    using k(1,3) by (cases "find (\<lambda>e. n_ino e = ino0) actual") (auto simp: find_None_iff find_Some_iff)
  moreover have "n_nlink e = int (length (remdups paths))"
  proof -
    obtain j where "j < length actual" "e = actual ! j" using e(2) by (auto simp: in_set_conv_nth)
    then show ?thesis using cnt [of j l] J e(3) card by simp
  qed
  ultimately show ?thesis by (simp add: gg check_group_def raise_if_def)
qed

section \<open>Sample archives\<close>

definition archive_of :: "emission list \<Rightarrow> bytes" where
  "archive_of rs = concat (map emit_of rs) @ emit ''TRAILER!!!'' 0 0 0 1 2 []"

lemma parse_archive_of:
  assumes "\<forall>r \<in> set rs. emission_ok r" and "distinct (map (n_path \<circ> record_of) rs)"
  shows "parse_newc (archive_of rs) = Some (Inr (map record_of rs))"
proof -
  have "newc_loop (archive_of rs) 0 [] = Some (Inr (map record_of rs))"
    using newc_loop_emissions [OF assms(1), of 2 "[]" "[]"] by (simp add: archive_of_def fits32_def)
  moreover have "length (remdups (map (n_path \<circ> record_of) rs)) = length rs"
    unfolding distinct_remdups_id [OF assms(2)] by simp
  ultimately show ?thesis by (simp add: parse_newc_def)
qed

text \<open>Two regular files, of which the second has no payload of its own.\<close>

definition sample_emissions :: "nat \<Rightarrow> emission list" where
  "sample_emissions ino = [(''a'', 33188, 0, 0, 1, 1, ''hi''), (''b'', 33188, 0, 0, 1, ino, [])]"

definition sample_entries :: "(bytes \<Rightarrow> string) \<Rightarrow> bytes \<Rightarrow> fields list" where
  "sample_entries sha256 second = map (\<lambda>(path, content). [(''path'', JStr path), (''type'', JStr ''regular''), (''mode'', JInt 33188),
     (''uid'', JInt 0), (''gid'', JInt 0), (''size'', JInt (int (length content))), (''sha256'', JStr (sha256 content))])
     [(''a'', ''hi''), (''b'', second)]"

lemma parse_sample:
  assumes "ino \<in> {1, 2}"
  shows "parse_newc (archive_of (sample_emissions ino)) = Some (Inr (map record_of (sample_emissions ino)))"
  by (rule parse_archive_of)
    (use assms in \<open>auto simp: sample_emissions_def emission_ok_def emit_ok_def fits32_def unsafe_newc_path_def NUL_def newc_record_def\<close>)

lemma verify_sample:
  assumes "ino = 1 \<and> second = ''hi'' \<or> ino = 2 \<and> second = []"
  shows "verify_entries sha256 (sample_entries sha256 second) (map record_of (sample_emissions ino)) = Inr ()"
proof -
  have rec: "map record_of (sample_emissions ino) = [newc_record ''a'' 33188 0 0 1 1 ''hi'', newc_record ''b'' 33188 0 0 1 ino []]"
    by (simp add: sample_emissions_def)
  have "s_ifmt 33188 = 32768" by (simp add: s_ifmt_def)
  with assms show ?thesis unfolding rec
    by (auto simp: verify_entries_def sample_entries_def newc_record_def jget_def collect_data_def
      check_entry_def check_fields_def check_metadata_def check_content_def check_link_def required_kind_def content_of_def
      py_eq_def raise_if_def)
qed

definition sample_manifest :: "(bytes \<Rightarrow> string) \<Rightarrow> json" where
  "sample_manifest sha256 = JObj [(''schema_version'', JInt 1), (''normalization'', required_normalization),
     (''entries'', JList (map JObj (sample_entries sha256 [])))]"

definition sample_gzip :: bytes where
  "sample_gzip = [CHR 0x1F, CHR 0x8B, CHR 8, NUL, NUL, NUL, NUL, NUL, CHR 2, CHR 0xFF]"

section \<open>Properties of the verifier\<close>

text \<open>
  C18.  A successful verification means that the archive decompresses to a newc archive that the
  manifest describes record by record: same paths in the same order, type, mode, owner and zero
  mtime; for regular files the size and digest of the inode's payload, for symbolic links the
  target; and records share an inode with a hardlinked one exactly when the manifest gives them
  the same hardlink identity.
\<close>

theorem verify_sound:
  assumes "verify gunzip sha256 loads archive manifest_bytes = Some (Inr result)"
  shows "\<exists>encoded unpacked actual manifest expected. archive = Inr encoded \<and> gunzip encoded = Inr unpacked
    \<and> parse_newc unpacked = Some (Inr actual) \<and> load_manifest loads manifest_bytes = Inr manifest
    \<and> check_schema manifest = Inr expected \<and> length expected = length actual \<and> verified_entries result = length actual
    \<and> (\<forall>i < length actual. manifest_matches sha256 actual (expected ! i) (actual ! i))
    \<and> (\<forall>i < length actual. \<forall>j < length actual. \<forall>l. wanted_link (expected ! i) = Some l \<longrightarrow>
         (n_ino (actual ! i) = n_ino (actual ! j) \<longleftrightarrow> wanted_link (expected ! j) = Some l))"
proof -
  from assms obtain encoded unpacked parsed where a: "archive = Inr encoded" "gunzip encoded = Inr unpacked"
    "parse_newc unpacked = Some parsed"
    and r: "bindE parsed (\<lambda>actual.
               bindE (load_manifest loads manifest_bytes) (\<lambda>manifest.
               bindE (check_schema manifest) (\<lambda>expected.
               bindE (verify_entries sha256 expected actual) (\<lambda>_.
               bindE manifest_bytes (\<lambda>bytes.
               Inr \<lparr>archive_sha256 = sha256 encoded, manifest_sha256 = sha256 bytes,
                 verified_entries = length actual, uncompressed_bytes = length unpacked\<rparr>))))) = Inr result"
    unfolding verify_def by (auto simp: bindE_Inr split: sum.splits option.splits if_splits)
  from r obtain actual manifest expected u b where m: "parsed = Inr actual" "load_manifest loads manifest_bytes = Inr manifest"
    "check_schema manifest = Inr expected" "verify_entries sha256 expected actual = Inr u"
    "Inr \<lparr>archive_sha256 = sha256 encoded, manifest_sha256 = sha256 b,
                 verified_entries = length actual, uncompressed_bytes = length unpacked\<rparr> = (Inr result :: verified res)"
    unfolding bindE_Inr by (elim exE conjE) (rule that)
  from m(4) obtain ls where v: "map (\<lambda>e. jget e ''path'') expected = map (JStr \<circ> n_path) actual" "length expected = length actual"
    "forE (zip expected actual) (check_entry sha256 (inode_data actual)) [] = Inr ls" "\<forall>g \<in> set ls. check_group actual g = Inr ()"
    by (rule verify_entries_Inr)
  have match: "manifest_matches sha256 actual (expected ! i) (actual ! i)" if "i < length actual" for i
  proof (rule forE_each [OF v(3), of "(expected ! i, actual ! i)"])
    show "(expected ! i, actual ! i) \<in> set (zip expected actual)" using that v(2) by (auto simp: set_zip)
    have p: "jget (expected ! i) ''path'' = JStr (n_path (actual ! i))"
      using arg_cong [OF v(1), of "\<lambda>xs. xs ! i"] that v(2) by simp
    show "manifest_matches sha256 actual (expected ! i) (actual ! i)"
      if "check_entry sha256 (inode_data actual) s (expected ! i, actual ! i) = Inr s'" for s s'
      using check_entry_matches [OF that p] .
  qed
  have d: "distinct (map n_path actual)" using parse_newc_distinct a(3) m(1) by simp
  have "verified_entries result = length actual" using m(5) by auto
  then show ?thesis using a m match v(2) linked_inodes [OF v(3,4) d v(2)] by blast
qed

text \<open>The parameters as constant functions: the verifier accepts the sample with two inodes.\<close>

theorem verify_sound_witness:
  "\<exists>expected. check_schema (sample_manifest (\<lambda>_. ''digest'')) = Inr expected
     \<and> manifest_matches (\<lambda>_. ''digest'') (map record_of (sample_emissions 2)) (expected ! 1) (record_of (sample_emissions 2 ! 1))"
proof -
  have "load_manifest (\<lambda>_ _. Inr (sample_manifest (\<lambda>_. ''digest''))) (Inr ''{}'') = Inr (sample_manifest (\<lambda>_. ''digest''))"
    by code_simp
  moreover have "check_schema (sample_manifest (\<lambda>_. ''digest'')) = Inr (sample_entries (\<lambda>_. ''digest'') [])"
    by code_simp
  moreover have "gzip_header_ok sample_gzip" by code_simp
  ultimately have run: "\<exists>result. verify (\<lambda>_. Inr (archive_of (sample_emissions 2))) (\<lambda>_. ''digest'') (\<lambda>_ _. Inr (sample_manifest (\<lambda>_. ''digest'')))
    (Inr sample_gzip) (Inr ''{}'') = Some (Inr result)"
    using parse_sample [of 2] verify_sample [of 2 "[]" "\<lambda>_. ''digest''"] by (simp add: verify_def)
  then obtain result where "verify (\<lambda>_. Inr (archive_of (sample_emissions 2))) (\<lambda>_. ''digest'') (\<lambda>_ _. Inr (sample_manifest (\<lambda>_. ''digest'')))
    (Inr sample_gzip) (Inr ''{}'') = Some (Inr result)" ..
  from verify_sound [OF this] show ?thesis
    using parse_sample [of 2] \<open>load_manifest _ _ = _\<close> by (auto simp: sample_emissions_def)
qed


end
