(* ===== verification/Machine.thy ===== *)
theory Machine
  imports Prelude
begin

text \<open>
  Programs that change a state and may raise: a computation keeps the state it reached when it raises.
  The state counts system calls, any of which may fail; which calls fail is given by a
  schedule in the state, so that a statement about all schedules covers every
  interrupted run.  The backward evaluation \<open>wp\<close> computes what holds after a run.
  The file systems of the development extend this state.
\<close>

record machine =
  faults :: "nat \<Rightarrow> string option"
  clock :: nat
  failures :: nat

type_synonym ('s, 'a) prog = "'s \<Rightarrow> 'a res \<times> 's"

definition returnS :: "'a \<Rightarrow> ('s, 'a) prog" where
  "returnS v s = (Inr v, s)"

definition raiseS :: "exn \<Rightarrow> ('s, 'a) prog" where
  "raiseS e s = (Inl e, s)"

definition bindS :: "('s, 'a) prog \<Rightarrow> ('a \<Rightarrow> ('s, 'b) prog) \<Rightarrow> ('s, 'b) prog" where
  "bindS m k s = (case m s of (Inl e, s') \<Rightarrow> (Inl e, s') | (Inr v, s') \<Rightarrow> k v s')"

text \<open>\<open>try: m except ...: h\<close>, where the handler sees the exception.\<close>

definition catchS :: "('s, 'a) prog \<Rightarrow> (exn \<Rightarrow> ('s, 'a) prog) \<Rightarrow> ('s, 'a) prog" where
  "catchS m h s = (case m s of (Inl e, s') \<Rightarrow> h e s' | r \<Rightarrow> r)"

text \<open>\<open>try: m except BaseException: h; raise\<close>.  An exception of the handler replaces the first.\<close>

definition rollbackS :: "('s, 'a) prog \<Rightarrow> ('s, unit) prog \<Rightarrow> ('s, 'a) prog" where
  "rollbackS m h = catchS m (\<lambda>e. bindS h (\<lambda>_. raiseS e))"

fun forS :: "'a list \<Rightarrow> ('b \<Rightarrow> 'a \<Rightarrow> ('s, 'b) prog) \<Rightarrow> 'b \<Rightarrow> ('s, 'b) prog" where
  "forS [] f v = returnS v"
| "forS (x # xs) f v = bindS (f v x) (forS xs f)"

text \<open>A query reads the state; a result that may be an exception is raised.\<close>

definition queryS :: "('s \<Rightarrow> 'a res) \<Rightarrow> ('s, 'a) prog" where
  "queryS q s = (q s, s)"

definition raiseE :: "'a res \<Rightarrow> ('s, 'a) prog" where
  "raiseE r = (case r of Inl e \<Rightarrow> raiseS e | Inr v \<Rightarrow> returnS v)"

section \<open>System calls\<close>

definition syscall :: "('z machine_scheme, 'a) prog \<Rightarrow> ('z machine_scheme, 'a) prog" where
  "syscall f s =
     (let s' = s\<lparr>clock := Suc (clock s)\<rparr> in
      case faults s (clock s) of Some m \<Rightarrow> (Inl (OSError m), s'\<lparr>failures := Suc (failures s)\<rparr>) | None \<Rightarrow> f s')"

text \<open>A call with no effect on the modelled state: \<open>open\<close>, \<open>fsync\<close>, \<open>fchmod\<close>, \<open>mkdir\<close> of an existing directory.\<close>

definition sys_noop :: "('z machine_scheme, unit) prog" where
  "sys_noop = syscall (returnS ())"

section \<open>Laws\<close>

lemma bindS_simps [simp]:
  "bindS (returnS v) k = k v" "bindS (raiseS e) k = raiseS e"
  by (auto simp: bindS_def returnS_def raiseS_def)

text \<open>
  What holds of the outcome of a run.  The equations evaluate it backwards through a program, one
  system call at a time.
\<close>

definition wp :: "('s, 'a) prog \<Rightarrow> ('a res \<Rightarrow> 's \<Rightarrow> bool) \<Rightarrow> 's \<Rightarrow> bool" where
  "wp m Q s \<longleftrightarrow> Q (fst (m s)) (snd (m s))"

named_theorems wp_simps \<open>backward evaluation of programs\<close>

lemma wpI: "(\<And>r s'. m s = (r, s') \<Longrightarrow> Q r s') \<Longrightarrow> wp m Q s"
  by (simp add: wp_def)

lemma wpD: "wp m Q s \<Longrightarrow> m s = (r, s') \<Longrightarrow> Q r s'"
  by (simp add: wp_def)

lemma wp_mono: "wp m Q s \<Longrightarrow> (\<And>r s'. Q r s' \<Longrightarrow> Q' r s') \<Longrightarrow> wp m Q' s"
  by (simp add: wp_def)

lemma wp_return [wp_simps]: "wp (returnS v) Q s \<longleftrightarrow> Q (Inr v) s"
  by (simp add: wp_def returnS_def)

lemma wp_raise [wp_simps]: "wp (raiseS e) Q s \<longleftrightarrow> Q (Inl e) s"
  by (simp add: wp_def raiseS_def)

lemma wp_bind [wp_simps]:
  "wp (bindS m k) Q s \<longleftrightarrow> wp m (\<lambda>r s'. case r of Inl e \<Rightarrow> Q (Inl e) s' | Inr v \<Rightarrow> wp (k v) Q s') s"
  by (auto simp: wp_def bindS_def split: prod.splits sum.splits)

lemma wp_catch [wp_simps]:
  "wp (catchS m h) Q s \<longleftrightarrow> wp m (\<lambda>r s'. case r of Inl e \<Rightarrow> wp (h e) Q s' | Inr v \<Rightarrow> Q (Inr v) s') s"
  by (auto simp: wp_def catchS_def split: prod.splits sum.splits)

lemma wp_if [wp_simps]: "wp (if c then m else m') Q s \<longleftrightarrow> (if c then wp m Q s else wp m' Q s)"
  by simp

lemma wp_syscall:
  "wp (syscall f) Q s \<longleftrightarrow>
     (case faults s (clock s) of
        Some m \<Rightarrow> Q (Inl (OSError m)) (s\<lparr>clock := Suc (clock s), failures := Suc (failures s)\<rparr>)
      | None \<Rightarrow> wp f Q (s\<lparr>clock := Suc (clock s)\<rparr>))"
  by (simp add: wp_def syscall_def Let_def split: option.splits)

text \<open>
  The part of the state a system call never changes, that failures are only counted up, and that there
  are none under a schedule without faults.
\<close>

definition runs :: "'z machine_scheme \<Rightarrow> 'z machine_scheme \<Rightarrow> bool" where
  "runs s s' \<longleftrightarrow> faults s' = faults s \<and> clock s \<le> clock s' \<and> failures s \<le> failures s'
     \<and> ((\<forall>k. faults s k = None) \<longrightarrow> failures s' = failures s)"

lemma runs_refl [simp]: "runs s s" by (simp add: runs_def)

lemma runs_trans: "runs s s1 \<Longrightarrow> runs s1 s2 \<Longrightarrow> runs s s2" by (simp add: runs_def)

lemma wp_noop [wp_simps]:
  "wp sys_noop Q s \<longleftrightarrow>
     (case faults s (clock s) of
        Some m \<Rightarrow> Q (Inl (OSError m)) (s\<lparr>clock := Suc (clock s), failures := Suc (failures s)\<rparr>)
      | None \<Rightarrow> Q (Inr ()) (s\<lparr>clock := Suc (clock s)\<rparr>))"
  by (simp add: sys_noop_def wp_syscall wp_return split: option.splits)

lemma wp_query [wp_simps]: "wp (queryS q) Q s \<longleftrightarrow> Q (q s) s"
  by (simp add: wp_def queryS_def)

lemma wp_raiseE [wp_simps]: "wp (raiseE r) Q s \<longleftrightarrow> Q r s"
  by (simp add: wp_def raiseE_def raiseS_def returnS_def split: sum.splits)

lemma bind_query: "bindS (queryS q) k s = (case q s of Inl e \<Rightarrow> (Inl e, s) | Inr v \<Rightarrow> k v s)"
  by (simp add: bindS_def queryS_def)

lemma bind_cases:
  assumes "bindS m k s = (r, s')"
  obtains e where "m s = (Inl e, s')" "r = Inl e" | v s1 where "m s = (Inr v, s1)" "k v s1 = (r, s')"
  using assms by (auto simp: bindS_def split: prod.splits sum.splits)

end
