(* ===== verification/Fs.thy ===== *)
theory Fs
  imports Newc Py_Path Machine
begin

text \<open>
  A file system as the publication code sees it: directory entries with the identity
  (\<open>st_dev\<close>, \<open>st_ino\<close>) they lead to.  A directory is an opaque entry.
\<close>

datatype ident = Ident (id_dev: nat) (id_ino: nat)

record fs = machine +
  names :: "string \<rightharpoonup> ident"
  directory :: "ident \<Rightarrow> bool"
  bytes_of :: "ident \<Rightarrow> bytes"

type_synonym 'a op = "(fs, 'a) prog"

section \<open>System calls\<close>

definition sys_lstat :: "string \<Rightarrow> ident op" where
  "sys_lstat path = syscall (\<lambda>s. case names s path of None \<Rightarrow> (Inl (FileNotFoundError path), s) | Some i \<Rightarrow> (Inr i, s))"

definition sys_rename_noreplace :: "string \<Rightarrow> string \<Rightarrow> unit op" where
  "sys_rename_noreplace source destination = syscall (\<lambda>s.
     case names s source of
       None \<Rightarrow> (Inl (FileNotFoundError source), s)
     | Some i \<Rightarrow>
         if names s destination \<noteq> None then (Inl (FileExistsError destination), s)
         else (Inr (), s\<lparr>names := (names s)(source := None, destination := Some i)\<rparr>))"

definition sys_link :: "string \<Rightarrow> string \<Rightarrow> unit op" where
  "sys_link source destination = syscall (\<lambda>s.
     case names s source of
       None \<Rightarrow> (Inl (FileNotFoundError source), s)
     | Some i \<Rightarrow>
         if names s destination \<noteq> None then (Inl (FileExistsError destination), s)
         else (Inr (), s\<lparr>names := (names s)(destination := Some i)\<rparr>))"

definition sys_unlink :: "string \<Rightarrow> unit op" where
  "sys_unlink path = syscall (\<lambda>s.
     if names s path = None then (Inl (FileNotFoundError path), s)
     else (Inr (), s\<lparr>names := (names s)(path := None)\<rparr>))"

text \<open>Creating an empty file under an unused name, as \<open>mkstemp\<close> does, with the identity it gets.\<close>

definition sys_create :: "string \<Rightarrow> ident \<Rightarrow> unit op" where
  "sys_create path i = syscall (\<lambda>s.
     if names s path \<noteq> None then (Inl (FileExistsError path), s)
     else (Inr (), s\<lparr>names := (names s)(path := Some i), bytes_of := (bytes_of s)(i := []), directory := (directory s)(i := False)\<rparr>))"

definition sys_write :: "ident \<Rightarrow> bytes \<Rightarrow> unit op" where
  "sys_write i data = syscall (\<lambda>s. (Inr (), s\<lparr>bytes_of := (bytes_of s)(i := data)\<rparr>))"

definition sys_read :: "string \<Rightarrow> bytes op" where
  "sys_read path = syscall (\<lambda>s. case names s path of None \<Rightarrow> (Inl (FileNotFoundError path), s) | Some i \<Rightarrow> (Inr (bytes_of s i), s))"

section \<open>Path names\<close>

text \<open>\<open>path.with_name(name)\<close> for a path with a final component.\<close>

definition with_name :: "string \<Rightarrow> string \<Rightarrow> string" where
  "with_name path name =
     (let r = path_root path; cs = butlast (path_tail path)
      in if cs = [] then r @ name else r @ join_with ''/'' cs @ ''/'' @ name)"

section \<open>Laws\<close>

lemma wp_lstat [wp_simps]:
  "wp (sys_lstat path) Q s \<longleftrightarrow>
     (case faults s (clock s) of
        Some m \<Rightarrow> Q (Inl (OSError m)) (s\<lparr>clock := Suc (clock s), failures := Suc (failures s)\<rparr>)
      | None \<Rightarrow> (case names s path of None \<Rightarrow> Q (Inl (FileNotFoundError path)) (s\<lparr>clock := Suc (clock s)\<rparr>)
                | Some i \<Rightarrow> Q (Inr i) (s\<lparr>clock := Suc (clock s)\<rparr>)))"
  by (auto simp: sys_lstat_def syscall_def Let_def wp_def split: option.splits)

lemma wp_rename [wp_simps]:
  "wp (sys_rename_noreplace source destination) Q s \<longleftrightarrow>
     (case faults s (clock s) of
        Some m \<Rightarrow> Q (Inl (OSError m)) (s\<lparr>clock := Suc (clock s), failures := Suc (failures s)\<rparr>)
      | None \<Rightarrow> (case names s source of None \<Rightarrow> Q (Inl (FileNotFoundError source)) (s\<lparr>clock := Suc (clock s)\<rparr>)
                | Some i \<Rightarrow> if names s destination \<noteq> None then Q (Inl (FileExistsError destination)) (s\<lparr>clock := Suc (clock s)\<rparr>)
                    else Q (Inr ()) (s\<lparr>clock := Suc (clock s), names := (names s)(source := None, destination := Some i)\<rparr>)))"
  by (auto simp: sys_rename_noreplace_def syscall_def Let_def wp_def split: option.splits)

lemma wp_link [wp_simps]:
  "wp (sys_link source destination) Q s \<longleftrightarrow>
     (case faults s (clock s) of
        Some m \<Rightarrow> Q (Inl (OSError m)) (s\<lparr>clock := Suc (clock s), failures := Suc (failures s)\<rparr>)
      | None \<Rightarrow> (case names s source of None \<Rightarrow> Q (Inl (FileNotFoundError source)) (s\<lparr>clock := Suc (clock s)\<rparr>)
                | Some i \<Rightarrow> if names s destination \<noteq> None then Q (Inl (FileExistsError destination)) (s\<lparr>clock := Suc (clock s)\<rparr>)
                    else Q (Inr ()) (s\<lparr>clock := Suc (clock s), names := (names s)(destination := Some i)\<rparr>)))"
  by (auto simp: sys_link_def syscall_def Let_def wp_def split: option.splits)

lemma wp_unlink [wp_simps]:
  "wp (sys_unlink path) Q s \<longleftrightarrow>
     (case faults s (clock s) of
        Some m \<Rightarrow> Q (Inl (OSError m)) (s\<lparr>clock := Suc (clock s), failures := Suc (failures s)\<rparr>)
      | None \<Rightarrow> if names s path = None then Q (Inl (FileNotFoundError path)) (s\<lparr>clock := Suc (clock s)\<rparr>)
                else Q (Inr ()) (s\<lparr>clock := Suc (clock s), names := (names s)(path := None)\<rparr>))"
  by (auto simp: sys_unlink_def syscall_def Let_def wp_def split: option.splits)

lemma wp_create [wp_simps]:
  "wp (sys_create path i) Q s \<longleftrightarrow>
     (case faults s (clock s) of
        Some m \<Rightarrow> Q (Inl (OSError m)) (s\<lparr>clock := Suc (clock s), failures := Suc (failures s)\<rparr>)
      | None \<Rightarrow> if names s path \<noteq> None then Q (Inl (FileExistsError path)) (s\<lparr>clock := Suc (clock s)\<rparr>)
                else Q (Inr ()) (s\<lparr>clock := Suc (clock s), names := (names s)(path := Some i),
                      bytes_of := (bytes_of s)(i := []), directory := (directory s)(i := False)\<rparr>))"
  by (auto simp: sys_create_def syscall_def Let_def wp_def split: option.splits)

lemma wp_write [wp_simps]:
  "wp (sys_write i data) Q s \<longleftrightarrow>
     (case faults s (clock s) of
        Some m \<Rightarrow> Q (Inl (OSError m)) (s\<lparr>clock := Suc (clock s), failures := Suc (failures s)\<rparr>)
      | None \<Rightarrow> Q (Inr ()) (s\<lparr>clock := Suc (clock s), bytes_of := (bytes_of s)(i := data)\<rparr>))"
  by (auto simp: sys_write_def syscall_def Let_def wp_def split: option.splits)

end
