(* ===== verification/Safe_Publish.thy ===== *)
theory Safe_Publish
  imports Fs
begin

text \<open>
  \<open>runtime_safe_publish.py\<close>: publication without replacement and with rollback by identity.  The
  operations run on the file system of \<^theory_text>\<open>Fs\<close>, where any system call may fail and no
  other process interferes.  The temporary name and the identity that \<open>mkstemp\<close> picks are
  arguments of \<open>atomic_write\<close>, and the callback that fills the stream is the bytes it writes or
  the exception it raises.
\<close>

section \<open>Operations\<close>

definition sync_directory :: "unit op" where
  "sync_directory = bindS sys_noop (\<lambda>_. sys_noop)"

definition path_identity :: "string \<Rightarrow> ident op" where
  "path_identity = sys_lstat"

definition missing_ok :: "bool op \<Rightarrow> bool op" where
  "missing_ok m = catchS m (\<lambda>e. if is_missing e then returnS False else raiseS e)"

definition quarantine_name :: "string \<Rightarrow> ident \<Rightarrow> string" where
  "quarantine_name path expected = with_name path
     (''.'' @ path_name path @ ''.rollback-'' @ hex_digits (id_dev expected) @ ''-'' @ hex_digits (id_ino expected))"

definition restore_quarantine :: "string \<Rightarrow> string \<Rightarrow> string \<Rightarrow> 'a op" where
  "restore_quarantine quarantine path message =
     bindS (catchS (sys_rename_noreplace quarantine path) (\<lambda>e. if is_os_error e then returnS () else raiseS e))
       (\<lambda>_. raiseS (PublicationError message))"

definition remove_if_identity :: "string \<Rightarrow> ident \<Rightarrow> bool op" where
  "remove_if_identity path expected =
     (let quarantine = quarantine_name path expected in
      bindS (missing_ok (bindS (path_identity path) (\<lambda>i. returnS (i = expected)))) (\<lambda>same.
      if \<not> same then returnS False
      else bindS (missing_ok (bindS (sys_rename_noreplace path quarantine) (\<lambda>_. returnS True))) (\<lambda>moved.
        if \<not> moved then returnS False
        else bindS (path_identity quarantine) (\<lambda>i.
          if i \<noteq> expected
          then restore_quarantine quarantine path ''output identity changed during rollback quarantine''
          else bindS (sys_unlink quarantine) (\<lambda>_. bindS sync_directory (\<lambda>_. returnS True))))))"

text \<open>\<open>path.stat(follow_symlinks=False)\<close> with the test for a directory of the expected identity.\<close>

definition is_expected_directory :: "string \<Rightarrow> ident \<Rightarrow> bool op" where
  "is_expected_directory path expected = bindS (sys_lstat path) (\<lambda>i s. (Inr (i = expected \<and> directory s i), s))"

definition remove_directory_if_identity :: "string \<Rightarrow> ident \<Rightarrow> bool op" where
  "remove_directory_if_identity path expected =
     (let quarantine = quarantine_name path expected in
      bindS (missing_ok (is_expected_directory path expected)) (\<lambda>same.
      if \<not> same then returnS False
      else bindS (missing_ok (bindS (sys_rename_noreplace path quarantine) (\<lambda>_. returnS True))) (\<lambda>moved.
        if \<not> moved then returnS False
        else bindS (is_expected_directory quarantine expected) (\<lambda>still.
          if \<not> still
          then restore_quarantine quarantine path ''directory identity changed during cleanup quarantine''
          else bindS (sys_unlink quarantine) (\<lambda>_. bindS sync_directory (\<lambda>_. returnS True))))))"

definition publish_link :: "string \<Rightarrow> string \<Rightarrow> unit op" where
  "publish_link source destination =
     catchS (sys_link source destination) (\<lambda>e.
       if is_exists e then raiseS (PublicationError ''refusing to overwrite existing output'') else raiseS e)"

definition publish_cleanup :: "string \<Rightarrow> ident \<Rightarrow> ident op" where
  "publish_cleanup source expected =
     bindS (remove_if_identity source expected) (\<lambda>removed.
     bindS (if removed then returnS False
            else missing_ok (bindS (path_identity source) (\<lambda>_. returnS True))) (\<lambda>left.
     if left then raiseS (PublicationError ''temporary output identity changed before cleanup'')
     else bindS sync_directory (\<lambda>_. returnS expected)))"

definition publish_finish :: "string \<Rightarrow> string \<Rightarrow> ident \<Rightarrow> ident op" where
  "publish_finish source destination expected =
     bindS (path_identity destination) (\<lambda>i.
     if i \<noteq> expected then raiseS (PublicationError ''published output identity changed before verification'')
     else publish_cleanup source expected)"

definition publish_rollback :: "string \<Rightarrow> string \<Rightarrow> ident \<Rightarrow> unit op" where
  "publish_rollback source destination expected =
     bindS (remove_if_identity destination expected) (\<lambda>_.
     bindS (remove_if_identity source expected) (\<lambda>_. returnS ()))"

text \<open>
  The two phases of the \<open>try\<close> block: while \<open>published\<close> is false the handler removes the source only,
  afterwards it removes the destination as well.
\<close>

definition publish_body :: "string \<Rightarrow> string \<Rightarrow> ident \<Rightarrow> ident op" where
  "publish_body source destination expected =
     bindS (rollbackS (publish_link source destination)
              (bindS (remove_if_identity source expected) (\<lambda>_. returnS ()))) (\<lambda>_.
     rollbackS (publish_finish source destination expected) (publish_rollback source destination expected))"

definition publish_existing :: "string \<Rightarrow> string \<Rightarrow> ident \<Rightarrow> ident op" where
  "publish_existing source destination expected =
     bindS (path_identity source) (\<lambda>i.
     if i \<noteq> expected then raiseS (PublicationError ''temporary output identity changed before publication'')
     else publish_body source destination expected)"

text \<open>
  Inside \<open>with os.fdopen\<close>: the callback, \<open>flush\<close>, \<open>fchmod\<close>, \<open>fsync\<close> and \<open>fstat\<close> of the
  descriptor, whose identity an open descriptor keeps.
\<close>

definition write_stream :: "ident \<Rightarrow> bytes res \<Rightarrow> unit op" where
  "write_stream i contents =
     (case contents of
        Inl e \<Rightarrow> raiseS e
      | Inr data \<Rightarrow> bindS (sys_write i data) (\<lambda>_. bindS sys_noop (\<lambda>_. bindS sys_noop (\<lambda>_. sys_noop))))"

definition atomic_write :: "string \<Rightarrow> string \<Rightarrow> ident \<Rightarrow> bytes res \<Rightarrow> ident op" where
  "atomic_write path temporary new contents =
     bindS sys_noop (\<lambda>_.
     bindS (sys_create temporary new) (\<lambda>_.
     bindS sys_noop (\<lambda>_.
     rollbackS
       (bindS (write_stream new contents) (\<lambda>_. publish_existing temporary path new))
       (bindS (remove_if_identity temporary new) (\<lambda>_. returnS ())))))"

section \<open>Removal by identity\<close>

text \<open>A run that leaves file contents and types alone.\<close>

definition keeps :: "fs \<Rightarrow> fs \<Rightarrow> bool" where
  "keeps s s' \<longleftrightarrow> runs s s' \<and> bytes_of s' = bytes_of s \<and> directory s' = directory s"

lemma keeps_refl [simp]: "keeps s s" by (simp add: keeps_def)

lemma keeps_trans: "keeps s s1 \<Longrightarrow> keeps s1 s2 \<Longrightarrow> keeps s s2"
  by (auto simp: keeps_def intro: runs_trans)

lemma fun_upd_None_None: "f q = None \<Longrightarrow> p \<noteq> q \<Longrightarrow> f(p := None, q := None) = f(p := None)"
  by auto

lemma wp_missing_ok [wp_simps]:
  "wp (missing_ok m) Q s \<longleftrightarrow> wp m (\<lambda>r s'. case r of
      Inl e \<Rightarrow> if is_missing e then Q (Inr False) s' else Q (Inl e) s' | Inr v \<Rightarrow> Q (Inr v) s') s"
  by (auto simp: wp_def missing_ok_def catchS_def returnS_def raiseS_def split: prod.splits sum.splits)

lemma wp_remove_if_identity:
  assumes "p \<noteq> quarantine_name p expected"
  defines "q \<equiv> quarantine_name p expected"
  shows "wp (remove_if_identity p expected) (\<lambda>r s'. keeps s s' \<and>
    (r = Inr False \<and> names s' = names s \<and> names s p \<noteq> Some expected
     \<or> r = Inr True \<and> names s' = (names s)(p := None) \<and> names s p = Some expected
     \<or> (\<exists>e. r = Inl e) \<and> (failures s < failures s' \<or> names s p = Some expected \<and> names s q \<noteq> None)
        \<and> (names s' = names s \<or> names s p = Some expected \<and> names s q = None
             \<and> (names s' = (names s)(p := None, q := Some expected) \<or> names s' = (names s)(p := None))))) s"
proof -
  have pq: "p \<noteq> q" "q \<noteq> p" using assms(1) by (auto simp: q_def)
  show ?thesis
    unfolding remove_if_identity_def Let_def q_def [symmetric] path_identity_def sync_directory_def restore_quarantine_def
    using pq by (auto simp: wp_simps keeps_def runs_def fun_upd_None_None split: option.splits)
qed

lemma bindS_cases:
  assumes "bindS m k s = (r, s')"
  obtains (raised) e where "m s = (Inl e, s')" "r = Inl e"
    | (returned) v s1 where "m s = (Inr v, s1)" "k v s1 = (r, s')"
  using assms by (auto simp: bindS_def split: prod.splits sum.splits)

lemma rollbackS_cases:
  assumes "rollbackS m h s = (r, s')"
  obtains (returned) v where "m s = (Inr v, s')" "r = Inr v"
    | (rolled) e s1 r1 e' where "m s = (Inl e, s1)" "h s1 = (r1, s')" "r = Inl e'"
  using assms by (auto simp: rollbackS_def catchS_def bindS_def raiseS_def split: prod.splits sum.splits)

text \<open>What removal by identity may do to the entries, in any run.\<close>

lemma remove_frame:
  assumes "remove_if_identity p expected s = (r, s')" and "p \<noteq> quarantine_name p expected"
  shows "keeps s s'" and "x \<notin> {p, quarantine_name p expected} \<Longrightarrow> names s' x = names s x"
    and "names s p \<noteq> Some expected \<Longrightarrow> names s' = names s"
  using wpD [OF wp_remove_if_identity [OF assms(2)] assms(1)] by auto

lemma remove_done:
  assumes "remove_if_identity p expected s = (r, s')" and "p \<noteq> quarantine_name p expected"
    and "failures s' = failures s" and "names s (quarantine_name p expected) = None"
  shows "r = Inr (names s p = Some expected)"
    and "names s' = (if names s p = Some expected then (names s)(p := None) else names s)"
  using wpD [OF wp_remove_if_identity [OF assms(2)] assms(1)] assms(3,4) by auto

lemma wp_path_identity:
  "wp (path_identity p) (\<lambda>r s'. keeps s s' \<and> names s' = names s \<and>
      (case r of Inr i \<Rightarrow> names s p = Some i \<and> failures s' = failures s | Inl e \<Rightarrow> failures s < failures s' \<or> names s p = None)) s"
  by (auto simp: path_identity_def wp_simps keeps_def runs_def split: option.splits)

lemma path_identity_cases:
  assumes "path_identity p s = (r, s')"
  shows "keeps s s'" and "names s' = names s"
    and "r = Inr i \<Longrightarrow> names s p = Some i"
    and "r = Inl e \<Longrightarrow> failures s < failures s' \<or> names s p = None"
    and "r = Inr i \<Longrightarrow> failures s' = failures s"
  using wpD [OF wp_path_identity assms] by auto

lemma wp_sync_directory:
  "wp sync_directory (\<lambda>r s'. keeps s s' \<and> names s' = names s \<and> (case r of Inr u \<Rightarrow> True | Inl e \<Rightarrow> failures s < failures s')) s"
  by (auto simp: sync_directory_def wp_simps keeps_def runs_def split: option.splits)

lemma sync_directory_cases:
  assumes "sync_directory s = (r, s')"
  shows "keeps s s'" and "names s' = names s" and "r = Inl e \<Longrightarrow> failures s < failures s'"
  using wpD [OF wp_sync_directory assms] by auto

lemma wp_publish_link:
  "wp (publish_link source destination) (\<lambda>r s'. keeps s s' \<and>
      (case r of Inr u \<Rightarrow> names s destination = None \<and> names s' = (names s)(destination := names s source) \<and> failures s' = failures s
          \<and> names s source \<noteq> None
        | Inl e \<Rightarrow> names s' = names s \<and> (failures s < failures s' \<or> names s destination \<noteq> None \<or> names s source = None))) s"
  by (auto simp: publish_link_def wp_simps keeps_def runs_def split: option.splits)

lemma publish_link_cases:
  assumes "publish_link source destination s = (r, s')"
  shows "keeps s s'"
    and "r = Inr u \<Longrightarrow> names s destination = None \<and> names s' = (names s)(destination := names s source) \<and> failures s' = failures s"
    and "r = Inl e \<Longrightarrow> names s' = names s"
    and "r = Inr u \<Longrightarrow> names s source \<noteq> None"
    and "r = Inl e \<Longrightarrow> failures s < failures s' \<or> names s destination \<noteq> None \<or> names s source = None"
  using wpD [OF wp_publish_link assms] by auto

lemma failures_mono: "keeps s s' \<Longrightarrow> failures s \<le> failures s'"
  by (simp add: keeps_def runs_def)

text \<open>The four names a publication works with are different.\<close>

definition publication_names :: "string \<Rightarrow> string \<Rightarrow> ident \<Rightarrow> bool" where
  "publication_names source destination expected \<longleftrightarrow>
     distinct [source, destination, quarantine_name source expected, quarantine_name destination expected]"

lemma publication_namesD:
  assumes "publication_names source destination expected"
  shows "source \<noteq> quarantine_name source expected" "destination \<noteq> quarantine_name destination expected" "source \<noteq> destination"
    "quarantine_name source expected \<noteq> quarantine_name destination expected" "source \<noteq> quarantine_name destination expected"
    "destination \<noteq> quarantine_name source expected"
  using assms by (auto simp: publication_names_def)

lemma publish_cleanup_cases:
  assumes N: "publication_names source destination expected" and run: "publish_cleanup source expected s = (r, s')"
    and src: "names s source = Some expected" and free: "names s (quarantine_name source expected) = None"
  shows "keeps s s'"
    and "r = Inr i \<Longrightarrow> i = expected \<and> names s' = (names s)(source := None)"
    and "r = Inl e \<Longrightarrow> failures s < failures s' \<and> (names s' = names s \<or> names s' = (names s)(source := None)
           \<or> names s' = (names s)(source := None, (quarantine_name source expected) := Some expected))"
proof -
  note neqs = publication_namesD [OF N]
  have "keeps s s' \<and> (case r of Inr i \<Rightarrow> i = expected \<and> names s' = (names s)(source := None)
     | Inl e \<Rightarrow> failures s < failures s' \<and> (names s' = names s \<or> names s' = (names s)(source := None)
           \<or> names s' = (names s)(source := None, (quarantine_name source expected) := Some expected)))"
    using run [unfolded publish_cleanup_def]
  proof (cases rule: bindS_cases)
    case (raised e)
    from wpD [OF wp_remove_if_identity [OF neqs(1)] raised(1)] show ?thesis
      using raised(2) free src by auto
  next
    case (returned removed s2)
    from wpD [OF wp_remove_if_identity [OF neqs(1)] returned(1)] src free
    have removed and n2: "names s2 = (names s)(source := None)" and k2: "keeps s s2" by auto
    with returned(2) have "bindS sync_directory (\<lambda>_. returnS expected) s2 = (r, s')" by simp
    then show ?thesis
    proof (cases rule: bindS_cases)
      case (raised e)
      show ?thesis using sync_directory_cases [OF raised(1)] raised(2) n2 k2 failures_mono [OF k2]
        by (auto intro: keeps_trans)
    next
      case (returned u s3)
      then have "r = Inr expected" "s' = s3" by (auto simp: returnS_def)
      then show ?thesis using sync_directory_cases(1,2) [OF returned(1)] n2 k2 by (auto intro: keeps_trans)
    qed
  qed
  then show "keeps s s'"
    and "r = Inr i \<Longrightarrow> i = expected \<and> names s' = (names s)(source := None)"
    and "r = Inl e \<Longrightarrow> failures s < failures s' \<and> (names s' = names s \<or> names s' = (names s)(source := None)
           \<or> names s' = (names s)(source := None, (quarantine_name source expected) := Some expected))" by auto
qed

lemma publish_finish_cases:
  assumes N: "publication_names source destination expected" and run: "publish_finish source destination expected s = (r, s')"
    and src: "names s source = Some expected" and dst: "names s destination = Some expected" and free: "names s (quarantine_name source expected) = None"
  shows "keeps s s'"
    and "r = Inr i \<Longrightarrow> i = expected \<and> names s' = (names s)(source := None)"
    and "r = Inl e \<Longrightarrow> failures s < failures s' \<and> (names s' = names s \<or> names s' = (names s)(source := None)
           \<or> names s' = (names s)(source := None, (quarantine_name source expected) := Some expected))"
proof -
  have "keeps s s' \<and> (case r of Inr i \<Rightarrow> i = expected \<and> names s' = (names s)(source := None)
     | Inl e \<Rightarrow> failures s < failures s' \<and> (names s' = names s \<or> names s' = (names s)(source := None)
           \<or> names s' = (names s)(source := None, (quarantine_name source expected) := Some expected)))"
    using run [unfolded publish_finish_def]
  proof (cases rule: bindS_cases)
    case (raised e)
    then show ?thesis using path_identity_cases [OF raised(1)] dst by auto
  next
    case (returned i s1)
    note p = path_identity_cases [OF returned(1)]
    have n1: "names s1 = names s" and f1: "failures s1 = failures s" and "i = expected" using p dst by auto
    with returned(2) have "publish_cleanup source expected s1 = (r, s')" by simp
    note c = publish_cleanup_cases [OF N this, unfolded n1, OF src free]
    show ?thesis using c keeps_trans [OF p(1) c(1)] f1 by (cases r) auto
  qed
  then show "keeps s s'"
    and "r = Inr i \<Longrightarrow> i = expected \<and> names s' = (names s)(source := None)"
    and "r = Inl e \<Longrightarrow> failures s < failures s' \<and> (names s' = names s \<or> names s' = (names s)(source := None)
           \<or> names s' = (names s)(source := None, (quarantine_name source expected) := Some expected))" by auto
qed

lemma publish_rollback_frame:
  assumes N: "publication_names source destination expected" and "publish_rollback source destination expected s = (r, s')"
  shows "keeps s s'" and "x \<notin> {source, destination, (quarantine_name source expected), (quarantine_name destination expected)} \<Longrightarrow> names s' x = names s x"
proof -
  note neqs = publication_namesD [OF N]
  have "keeps s s' \<and> (x \<notin> {source, destination, (quarantine_name source expected), (quarantine_name destination expected)} \<longrightarrow> names s' x = names s x)"
    using assms(2) [unfolded publish_rollback_def]
  proof (cases rule: bindS_cases)
    case (raised e)
    then show ?thesis using remove_frame [OF raised(1) neqs(2)] by auto
  next
    case (returned v s1)
    note f = remove_frame [OF returned(1) neqs(2)]
    from returned(2) obtain r1 where "remove_if_identity source expected s1 = (r1, s')"
      by (cases rule: bindS_cases) (auto simp: returnS_def)
    from remove_frame [OF this neqs(1)] f show ?thesis by (auto intro: keeps_trans)
  qed
  then show "keeps s s'" and "x \<notin> {source, destination, (quarantine_name source expected), (quarantine_name destination expected)} \<Longrightarrow> names s' x = names s x" by auto
qed

lemma publish_rollback_done:
  assumes N: "publication_names source destination expected" and run: "publish_rollback source destination expected s = (r, s')" and fault: "failures s' = failures s"
    and dst: "names s destination = Some expected" and free: "names s (quarantine_name destination expected) = None"
    and src: "names s source = None \<or> names s source = Some expected \<and> names s (quarantine_name source expected) = None"
  shows "names s' = (names s)(destination := None, source := None)"
  using run [unfolded publish_rollback_def]
proof (cases rule: bindS_cases)
  case (raised e)
  then show ?thesis using remove_done(1) [OF raised(1) publication_namesD(2) [OF N] fault free] by simp
next
  case (returned v s1)
  from returned(2) obtain r1 where r1: "remove_if_identity source expected s1 = (r1, s')"
    by (cases rule: bindS_cases) (auto simp: returnS_def)
  have f: "failures s1 = failures s" "failures s' = failures s1"
    using failures_mono [OF remove_frame(1) [OF returned(1) publication_namesD(2) [OF N]]] failures_mono [OF remove_frame(1) [OF r1 publication_namesD(1) [OF N]]] fault
    by linarith+
  have n1: "names s1 = (names s)(destination := None)" using remove_done(2) [OF returned(1) publication_namesD(2) [OF N] f(1) free] dst by simp
  show ?thesis
  proof (cases "names s source = None")
    case True
    then have "names s1 source \<noteq> Some expected" using n1 publication_namesD(3) [OF N] by simp
    from remove_frame(3) [OF r1 publication_namesD(1) [OF N] this] show ?thesis using n1 True publication_namesD(3) [OF N] by auto
  next
    case False
    with src n1 publication_namesD [OF N] have "names s1 source = Some expected" "names s1 (quarantine_name source expected) = None" by auto
    with remove_done(2) [OF r1 publication_namesD(1) [OF N] f(2)] n1 show ?thesis by simp
  qed
qed

text \<open>
  A publication that fails after at most one failing system call leaves the destination as it was.
\<close>

definition published_or_restored :: "string \<Rightarrow> string \<Rightarrow> ident \<Rightarrow> fs \<Rightarrow> ident res \<Rightarrow> fs \<Rightarrow> bool" where
  "published_or_restored source destination expected s r s' \<longleftrightarrow> keeps s s'
     \<and> (\<forall>x. x \<notin> {source, destination, (quarantine_name source expected), (quarantine_name destination expected)} \<longrightarrow> names s' x = names s x)
     \<and> (names s destination \<noteq> None \<longrightarrow> names s' destination = names s destination)
     \<and> (case r of Inr i \<Rightarrow> i = expected \<and> names s destination = None
            \<and> names s' = (names s)(source := None, destination := Some expected)
        | Inl e \<Rightarrow> (names s destination = None \<longrightarrow> failures s < failures s') \<and> (failures s' \<le> Suc (failures s) \<longrightarrow>
            names s' = names s \<or> names s' = (names s)(source := None)
            \<or> failures s < failures s' \<and> names s' = (names s)(source := None, (quarantine_name source expected) := Some expected)))"

lemma publish_body_outcome:
  assumes N: "publication_names source destination expected" and run: "publish_body source destination expected s = (r, s')"
    and src: "names s source = Some expected" and free: "names s (quarantine_name source expected) = None" "names s (quarantine_name destination expected) = None"
  shows "published_or_restored source destination expected s r s'"
  using run [unfolded publish_body_def]
proof (cases rule: bindS_cases)
  case (raised e)
  from raised(1) show ?thesis
  proof (cases rule: rollbackS_cases)
    case (rolled e1 s1 r1 e')
    note l = publish_link_cases [OF rolled(1)]
    from rolled(2) obtain r2 where r2: "remove_if_identity source expected s1 = (r2, s')"
      by (cases rule: bindS_cases) (auto simp: returnS_def)
    note w = wpD [OF wp_remove_if_identity [OF publication_namesD(1) [OF N]] r2]
    show ?thesis using w l(1) l(3) l(5) failures_mono [OF l(1)] failures_mono [OF remove_frame(1) [OF r2 publication_namesD(1) [OF N]]] src raised(2) publication_namesD [OF N] remove_frame(2) [OF r2 publication_namesD(1) [OF N]]
      by (auto simp: published_or_restored_def intro: keeps_trans)
  qed auto
next
  case (returned u s1)
  from returned(1) have "publish_link source destination s = (Inr u, s1)"
    by (cases rule: rollbackS_cases) auto
  note l = publish_link_cases [OF this]
  have d0: "names s destination = None" and n1: "names s1 = (names s)(destination := Some expected)"
    and f1: "failures s1 = failures s" using l src by auto
  have p1: "names s1 source = Some expected" "names s1 destination = Some expected" "names s1 (quarantine_name source expected) = None" "names s1 (quarantine_name destination expected) = None"
    using n1 src free publication_namesD [OF N] by auto
  from returned(2) show ?thesis
  proof (cases rule: rollbackS_cases)
    case (returned v)
    from publish_finish_cases(1,2) [OF N returned(1) p1(1-3)] returned(2) n1 l(1) d0 publication_namesD [OF N] show ?thesis
      by (auto simp: published_or_restored_def intro: keeps_trans)
  next
    case (rolled e1 s2 r1 e')
    note f = publish_finish_cases [OF N rolled(1) p1(1-3)]
    note g = publish_rollback_frame [OF N rolled(2)]
    have k: "keeps s s'" using l(1) f(1) g(1) by (meson keeps_trans)
    have fr: "names s' x = names s x" if "x \<notin> {source, destination, (quarantine_name source expected), (quarantine_name destination expected)}" for x
      using g(2) [OF that] f(3) [OF refl] n1 that by auto
    have "names s' = (names s)(source := None) \<or> names s' = (names s)(source := None, (quarantine_name source expected) := Some expected)"
      if "failures s' \<le> Suc (failures s)"
    proof -
      have "failures s' = failures s2" using that f(3) [OF refl] f1 failures_mono [OF g(1)] by linarith
      moreover have "names s2 destination = Some expected" "names s2 (quarantine_name destination expected) = None"
        "names s2 source = None \<or> names s2 source = Some expected \<and> names s2 (quarantine_name source expected) = None"
        using f(3) [OF refl] p1 publication_namesD [OF N] by auto
      ultimately have n: "names s' = (names s2)(destination := None, source := None)"
        using publish_rollback_done [OF N rolled(2)] by blast
      from f(3) [OF refl] consider "names s2 = names s1" | "names s2 = (names s1)(source := None)"
        | "names s2 = (names s1)(source := None, (quarantine_name source expected) := Some expected)" by blast
      then show ?thesis by cases (use n n1 d0 publication_namesD [OF N] in \<open>auto simp: fun_eq_iff\<close>)
    qed
    moreover have "failures s < failures s'" using f(3) [OF refl] f1 failures_mono [OF g(1)] by linarith
    ultimately show ?thesis using k fr d0 rolled(3) by (auto simp: published_or_restored_def)
  qed
qed

lemma publish_existing_outcome:
  assumes N: "publication_names source destination expected" and run: "publish_existing source destination expected s = (r, s')"
    and src: "names s source = Some expected" and free: "names s (quarantine_name source expected) = None" "names s (quarantine_name destination expected) = None"
  shows "published_or_restored source destination expected s r s'"
  using run [unfolded publish_existing_def]
proof (cases rule: bindS_cases)
  case (raised e)
  then show ?thesis using path_identity_cases(1,2,4) [OF raised(1)] src by (auto simp: published_or_restored_def)
next
  case (returned i s1)
  note p = path_identity_cases [OF returned(1)]
  have "i = expected" using p(3) src by simp
  with returned(2) have "publish_body source destination expected s1 = (r, s')" by simp
  from publish_body_outcome [OF N this] p(1,2) p(5) src free show ?thesis
    by (auto simp: published_or_restored_def intro: keeps_trans split: sum.splits)
qed

section \<open>Writing a new output\<close>

text \<open>The temporary and quarantine names are unused and differ from the output.\<close>

definition fresh_output :: "string \<Rightarrow> string \<Rightarrow> ident \<Rightarrow> fs \<Rightarrow> bool" where
  "fresh_output path temporary new s \<longleftrightarrow> publication_names temporary path new \<and> names s temporary = None
     \<and> names s (quarantine_name temporary new) = None \<and> names s (quarantine_name path new) = None"

lemma wp_write_stream:
  "wp (write_stream i contents) (\<lambda>r s'. runs s s' \<and> names s' = names s \<and> directory s' = directory s
     \<and> (\<forall>j. j \<noteq> i \<longrightarrow> bytes_of s' j = bytes_of s j)
     \<and> (case r of Inr u \<Rightarrow> failures s' = failures s \<and> contents = Inr (bytes_of s' i)
          | Inl e \<Rightarrow> failures s' \<le> Suc (failures s) \<and> (contents \<noteq> Inl e \<longrightarrow> failures s < failures s'))) s"
  by (auto simp: write_stream_def wp_simps runs_def split: option.splits sum.splits)

definition publication_aborted :: "string \<Rightarrow> ident \<Rightarrow> fs \<Rightarrow> fs \<Rightarrow> bool" where
  "publication_aborted temporary new s s' \<longleftrightarrow>
     (failures s' = failures s \<longrightarrow> names s' = names s)
     \<and> (failures s' \<le> Suc (failures s) \<longrightarrow> (\<forall>x. x \<notin> {temporary, quarantine_name temporary new} \<longrightarrow> names s' x = names s x))"

definition written_or_aborted :: "string \<Rightarrow> string \<Rightarrow> ident \<Rightarrow> bytes res \<Rightarrow> fs \<Rightarrow> ident res \<Rightarrow> fs \<Rightarrow> bool" where
  "written_or_aborted path temporary new contents s r s' \<longleftrightarrow>
     runs s s' \<and> (\<forall>j. j \<noteq> new \<longrightarrow> bytes_of s' j = bytes_of s j)
     \<and> (\<forall>x. x \<notin> {path, temporary, quarantine_name temporary new, quarantine_name path new} \<longrightarrow> names s' x = names s x)
     \<and> (names s path \<noteq> None \<longrightarrow> names s' path = names s path)
     \<and> (case r of
          Inr i \<Rightarrow> i = new \<and> names s path = None \<and> names s' = (names s)(path := Some new) \<and> contents = Inr (bytes_of s' new)
        | Inl e \<Rightarrow> publication_aborted temporary new s s'
            \<and> (names s path = None \<and> contents \<in> range Inr \<longrightarrow> failures s < failures s'))"

lemma written_body_outcome:
  assumes N: "publication_names temporary path new"
    and run: "bindS (write_stream new contents) (\<lambda>_. publish_existing temporary path new) s = (r, s')"
    and src: "names s temporary = Some new" and free: "names s (quarantine_name temporary new) = None" "names s (quarantine_name path new) = None"
  shows "runs s s'" and "j \<noteq> new \<Longrightarrow> bytes_of s' j = bytes_of s j"
    and "x \<notin> {temporary, path, quarantine_name temporary new, quarantine_name path new} \<Longrightarrow> names s' x = names s x"
    and "names s path \<noteq> None \<Longrightarrow> names s' path = names s path"
    and "r = Inr i \<Longrightarrow> i = new \<and> names s path = None \<and> names s' = (names s)(temporary := None, path := Some new)
           \<and> contents = Inr (bytes_of s' new)"
    and "r = Inl e \<Longrightarrow> failures s' \<le> Suc (failures s) \<Longrightarrow> names s' = names s \<or> names s' = (names s)(temporary := None)
           \<or> failures s < failures s' \<and> names s' = (names s)(temporary := None, quarantine_name temporary new := Some new)"
    and "r = Inl e \<Longrightarrow> names s path = None \<Longrightarrow> contents = Inr data \<Longrightarrow> failures s < failures s'"
proof -
  have "runs s s' \<and> (\<forall>j. j \<noteq> new \<longrightarrow> bytes_of s' j = bytes_of s j)
    \<and> (\<forall>x. x \<notin> {temporary, path, quarantine_name temporary new, quarantine_name path new} \<longrightarrow> names s' x = names s x)
    \<and> (names s path \<noteq> None \<longrightarrow> names s' path = names s path)
    \<and> (case r of Inr i \<Rightarrow> i = new \<and> names s path = None \<and> names s' = (names s)(temporary := None, path := Some new)
           \<and> contents = Inr (bytes_of s' new)
       | Inl e \<Rightarrow> (names s path = None \<and> contents \<in> range Inr \<longrightarrow> failures s < failures s') \<and> (failures s' \<le> Suc (failures s) \<longrightarrow> names s' = names s \<or> names s' = (names s)(temporary := None)
           \<or> failures s < failures s' \<and> names s' = (names s)(temporary := None, quarantine_name temporary new := Some new)))"
    using run
  proof (cases rule: bindS_cases)
    case (raised e)
    from wpD [OF wp_write_stream raised(1)] raised(2) show ?thesis by auto
  next
    case (returned u s1)
    note w = wpD [OF wp_write_stream returned(1)]
    have n: "names s1 = names s" and f: "failures s1 = failures s" using w by auto
    have b: "contents = Inr (bytes_of s1 new)" using w by simp
    have "published_or_restored temporary path new s1 r s'"
      using publish_existing_outcome [OF N returned(2)] src free n by simp
    with w b show ?thesis unfolding published_or_restored_def keeps_def n f
      by (auto intro: runs_trans split: sum.splits)
  qed
  then show "runs s s'" and "j \<noteq> new \<Longrightarrow> bytes_of s' j = bytes_of s j"
    and "x \<notin> {temporary, path, quarantine_name temporary new, quarantine_name path new} \<Longrightarrow> names s' x = names s x"
    and "names s path \<noteq> None \<Longrightarrow> names s' path = names s path"
    and "r = Inr i \<Longrightarrow> i = new \<and> names s path = None \<and> names s' = (names s)(temporary := None, path := Some new)
           \<and> contents = Inr (bytes_of s' new)"
    and "r = Inl e \<Longrightarrow> failures s' \<le> Suc (failures s) \<Longrightarrow> names s' = names s \<or> names s' = (names s)(temporary := None)
           \<or> failures s < failures s' \<and> names s' = (names s)(temporary := None, quarantine_name temporary new := Some new)"
    and "r = Inl e \<Longrightarrow> names s path = None \<Longrightarrow> contents = Inr data \<Longrightarrow> failures s < failures s'"
    by simp_all
qed

lemma guarded_write_outcome:
  assumes N: "publication_names temporary path new"
    and run: "rollbackS (bindS (write_stream new contents) (\<lambda>_. publish_existing temporary path new))
                (bindS (remove_if_identity temporary new) (\<lambda>_. returnS ())) s1 = (r, s')"
    and start: "names s1 = (names s)(temporary := Some new)" "failures s1 = failures s" "runs s s1"
      "\<And>j. j \<noteq> new \<Longrightarrow> bytes_of s1 j = bytes_of s j"
    and free: "names s temporary = None" "names s (quarantine_name temporary new) = None" "names s (quarantine_name path new) = None"
  shows "written_or_aborted path temporary new contents s r s'"
proof -
  note neqs = publication_namesD [OF N]
  have p: "names s1 temporary = Some new" "names s1 (quarantine_name temporary new) = None" "names s1 (quarantine_name path new) = None"
    "names s1 path = names s path"
    using start(1) free neqs by auto
  from run show ?thesis
  proof (cases rule: rollbackS_cases)
    case (returned v)
    note b = written_body_outcome [OF N returned(1) p(1-3)]
    have r: "v = new" "names s path = None" "names s' = (names s)(path := Some new)" "contents = Inr (bytes_of s' new)"
      using b(5) [OF refl] p(4) start(1) free(1) neqs(3) by (auto simp: fun_eq_iff)
    show ?thesis unfolding written_or_aborted_def using b(1,2) r start(3,4) returned(2) by (auto intro: runs_trans)
  next
    case (rolled e s2 r1 e')
    note b = written_body_outcome [OF N rolled(1) p(1-3)]
    from rolled(2) obtain r2 where r2: "remove_if_identity temporary new s2 = (r2, s')"
      by (cases rule: bindS_cases) (auto simp: returnS_def)
    note f = remove_frame [OF r2 neqs(1)]
    have mono: "failures s \<le> failures s2" "failures s2 \<le> failures s'"
      using b(1) start(2) failures_mono [OF f(1)] by (simp_all add: runs_def)
    have one: "names s' x = names s x"
      if "failures s' \<le> Suc (failures s)" "x \<notin> {temporary, quarantine_name temporary new}" for x
      using b(6) [OF refl] f(2) [OF that(2)] that mono start(1,2) by auto
    have none: "names s' = names s" if "failures s' = failures s"
    proof -
      have eq: "failures s2 = failures s1" "failures s' = failures s2" using that mono start(2) by linarith+
      then consider "names s2 = names s1" | "names s2 = (names s1)(temporary := None)" using b(6) [OF refl] by auto
      then show ?thesis
        using remove_done(2) [OF r2 neqs(1) eq(2)] p(1,2) start(1) free(1) neqs(1) by cases (auto simp: fun_eq_iff)
    qed
    have "runs s s'" "\<And>j. j \<noteq> new \<Longrightarrow> bytes_of s' j = bytes_of s j"
      using b(1,2) start(3,4) f(1) by (auto simp: keeps_def intro: runs_trans)
    moreover have "names s' x = names s x" if "x \<notin> {path, temporary, quarantine_name temporary new, quarantine_name path new}" for x
      using b(3) [of x] f(2) [of x] that start(1) by auto
    moreover have "names s' path = names s path" if "names s path \<noteq> None"
      using b(4) f(2) [of path] that p(4) neqs(3,6) by auto
    moreover have "failures s < failures s'" if "names s path = None" "contents = Inr data" for data
      using b(7) [OF refl] that p(4) mono start(2) by auto
    ultimately show ?thesis using one none rolled(3)
      by (auto simp: written_or_aborted_def publication_aborted_def)
  qed
qed

text \<open>Every run of \<open>atomic_write\<close>, whichever calls fail.\<close>

lemma atomic_write_outcome:
  assumes fresh: "fresh_output path temporary new s" and run: "atomic_write path temporary new contents s = (r, s')"
  shows "written_or_aborted path temporary new contents s r s'"
proof -
  from fresh have N: "publication_names temporary path new"
    and free: "names s temporary = None" "names s (quarantine_name temporary new) = None" "names s (quarantine_name path new) = None"
    by (auto simp: fresh_output_def)
  have "wp (atomic_write path temporary new contents) (written_or_aborted path temporary new contents s) s"
    unfolding atomic_write_def using publication_namesD [OF N]
    by (auto simp: wp_simps written_or_aborted_def [of _ _ _ _ _ "Inl _"] publication_aborted_def runs_def free split: option.splits
        intro!: wpI guarded_write_outcome [OF N] free)
  from wpD [OF this run] show ?thesis .
qed

section \<open>The interface the builders use\<close>

definition publish_outputs :: "(string \<Rightarrow> string \<Rightarrow> ident \<Rightarrow> bytes res \<Rightarrow> ident op) \<Rightarrow> (string \<Rightarrow> ident \<Rightarrow> bool op) \<Rightarrow>
    string \<Rightarrow> string \<Rightarrow> ident \<Rightarrow> bytes res \<Rightarrow> string \<Rightarrow> string \<Rightarrow> ident \<Rightarrow> bytes res \<Rightarrow> ident op" where
  "publish_outputs publish retract output tmp1 new1 archive manifest tmp2 new2 encoded =
     bindS (publish output tmp1 new1 archive) (\<lambda>archive_identity.
     rollbackS (publish manifest tmp2 new2 encoded)
       (bindS (retract output archive_identity) (\<lambda>_. returnS ())))"

text \<open>
  A publisher offers a name for an output, under which a file appears complete or not at all, and
  takes a published file back by its identity.  \<open>spare\<close> are the names it may use on the side.
\<close>

locale publisher =
  fixes publish :: "string \<Rightarrow> string \<Rightarrow> ident \<Rightarrow> bytes res \<Rightarrow> ident op"
    and retract :: "string \<Rightarrow> ident \<Rightarrow> bool op"
    and ready :: "string \<Rightarrow> string \<Rightarrow> ident \<Rightarrow> fs \<Rightarrow> bool"
    and spare :: "string \<Rightarrow> ident \<Rightarrow> string set"
  assumes publish_runs: "ready path tmp new s \<Longrightarrow> publish path tmp new contents s = (r, s') \<Longrightarrow>
      runs s s' \<and> (\<forall>j. j \<noteq> new \<longrightarrow> bytes_of s' j = bytes_of s j)"
    and publish_commits: "ready path tmp new s \<Longrightarrow> publish path tmp new contents s = (Inr i, s') \<Longrightarrow>
      i = new \<and> names s path = None \<and> names s' = (names s)(path := Some new) \<and> contents = Inr (bytes_of s' new)"
    and publish_aborts: "ready path tmp new s \<Longrightarrow> publish path tmp new contents s = (Inl e, s') \<Longrightarrow>
      failures s' \<le> Suc (failures s) \<Longrightarrow> x \<notin> spare tmp new \<Longrightarrow> names s' x = names s x"
    and publish_fails: "ready path tmp new s \<Longrightarrow> publish path tmp new (Inr data) s = (Inl e, s') \<Longrightarrow>
      names s path = None \<Longrightarrow> failures s < failures s'"
    and retract_keeps: "ready path tmp new s \<Longrightarrow> names t (quarantine_name path new) = None \<Longrightarrow>
      retract path new t = (b, s') \<Longrightarrow> failures s' = failures t \<Longrightarrow> names t path = Some new \<Longrightarrow> names s' = (names t)(path := None)"
    and retract_runs: "ready path tmp new s \<Longrightarrow> retract path new t = (b, s') \<Longrightarrow> keeps t s'"
begin

lemma outputs_together:
  assumes ready1: "ready output tmp1 new1 s"
    and ready2: "\<And>t. names t = (names s)(output := Some new1) \<Longrightarrow> ready manifest tmp2 new2 t"
    and free: "names s manifest = None"
    and run: "publish_outputs publish retract output tmp1 new1 archive manifest tmp2 new2 (Inr encoded) s = (r, s')"
    and apart: "output \<notin> spare tmp2 new2" "quarantine_name output new1 \<notin> insert output (spare tmp2 new2)"
      "output \<noteq> manifest" "new1 \<noteq> new2" "names s (quarantine_name output new1) = None"
  shows "r = Inr i \<Longrightarrow> names s' = (names s)(output := Some new1, manifest := Some new2)
           \<and> archive = Inr (bytes_of s' new1) \<and> encoded = bytes_of s' new2"
    and "r = Inl e \<Longrightarrow> failures s' \<le> Suc (failures s) \<Longrightarrow> x \<notin> spare tmp1 new1 \<union> spare tmp2 new2 \<Longrightarrow> names s' x = names s x"
proof -
  have "(\<forall>i. r = Inr i \<longrightarrow> names s' = (names s)(output := Some new1, manifest := Some new2)
           \<and> archive = Inr (bytes_of s' new1) \<and> encoded = bytes_of s' new2)
    \<and> (\<forall>e x. r = Inl e \<longrightarrow> failures s' \<le> Suc (failures s) \<longrightarrow> x \<notin> spare tmp1 new1 \<union> spare tmp2 new2 \<longrightarrow> names s' x = names s x)"
    using run [unfolded publish_outputs_def]
  proof (cases rule: bindS_cases)
    case (raised e)
    then show ?thesis using publish_aborts [OF ready1 raised(1)] by auto
  next
    case (returned i s1)
    note c = publish_commits [OF ready1 returned(1)]
    have n1: "names s1 = (names s)(output := Some new1)" and i: "i = new1" using c by auto
    note r1 = ready2 [OF n1] and m1 = publish_runs [OF ready1 returned(1)]
    from returned(2) show ?thesis
    proof (cases rule: rollbackS_cases)
      case (returned v)
      from publish_commits [OF r1 returned(1)] publish_runs [OF r1 returned(1)] c n1 returned(2) apart(4)
      show ?thesis by auto
    next
      case (rolled e s2 r1' e')
      from rolled(2) obtain r2 where r2: "retract output new1 s2 = (r2, s')"
        unfolding i by (cases rule: bindS_cases) (auto simp: returnS_def)
      have f: "failures s1 < failures s2" using publish_fails [OF r1 rolled(1)] free n1 apart(3) by simp
      have "names s' x = names s x" if le: "failures s' \<le> Suc (failures s)" and x: "x \<notin> spare tmp1 new1 \<union> spare tmp2 new2" for x
      proof -
        have fs: "failures s2 \<le> Suc (failures s1)" "failures s' = failures s2"
          using f le m1 failures_mono [OF retract_runs [OF ready1 r2]] by (auto simp: runs_def)
        note keep = publish_aborts [OF r1 rolled(1) fs(1)]
        have "names s2 output = Some new1" "names s2 (quarantine_name output new1) = None"
          using keep apart n1 by auto
        then have "names s' = (names s2)(output := None)" using retract_keeps [OF ready1 _ r2 fs(2)] by simp
        then show ?thesis using keep [of x] x n1 c by (cases "x = output") auto
      qed
      then show ?thesis using rolled(3) by auto
    qed
  qed
  then show "r = Inr i \<Longrightarrow> names s' = (names s)(output := Some new1, manifest := Some new2)
           \<and> archive = Inr (bytes_of s' new1) \<and> encoded = bytes_of s' new2"
    and "r = Inl e \<Longrightarrow> failures s' \<le> Suc (failures s) \<Longrightarrow> x \<notin> spare tmp1 new1 \<union> spare tmp2 new2 \<Longrightarrow> names s' x = names s x"
    by auto
qed

end

definition working_names :: "string \<Rightarrow> ident \<Rightarrow> string set" where
  "working_names temporary new = {temporary, quarantine_name temporary new}"

interpretation atomic: publisher atomic_write remove_if_identity fresh_output working_names
proof
  fix path tmp new s contents r s'
  assume fresh: "fresh_output path tmp new s" and run: "atomic_write path tmp new contents s = (r, s')"
  from atomic_write_outcome [OF fresh run] show "runs s s' \<and> (\<forall>j. j \<noteq> new \<longrightarrow> bytes_of s' j = bytes_of s j)"
    by (simp add: written_or_aborted_def)
next
  fix path tmp new s contents i s'
  assume fresh: "fresh_output path tmp new s" and run: "atomic_write path tmp new contents s = (Inr i, s')"
  from atomic_write_outcome [OF fresh run]
  show "i = new \<and> names s path = None \<and> names s' = (names s)(path := Some new) \<and> contents = Inr (bytes_of s' new)"
    by (simp add: written_or_aborted_def)
next
  fix path tmp new s contents e s' x
  assume fresh: "fresh_output path tmp new s" and run: "atomic_write path tmp new contents s = (Inl e, s')"
    and "failures s' \<le> Suc (failures s)" "x \<notin> working_names tmp new"
  with atomic_write_outcome [OF fresh run] show "names s' x = names s x"
    by (simp add: written_or_aborted_def publication_aborted_def working_names_def)
next
  fix path tmp new s data e s'
  assume fresh: "fresh_output path tmp new s" and run: "atomic_write path tmp new (Inr data) s = (Inl e, s')" and "names s path = None"
  with atomic_write_outcome [OF fresh run] show "failures s < failures s'" by (simp add: written_or_aborted_def)
next
  fix path tmp new s t r s'
  assume "fresh_output path tmp new s" and free: "names t (quarantine_name path new) = None"
    and run: "remove_if_identity path new t = (r, s')" and "failures s' = failures t" "names t path = Some new"
  then show "names s' = (names t)(path := None)"
    using remove_done(2) [OF run] publication_namesD(2) by (auto simp: fresh_output_def)
next
  fix path tmp new s t r s'
  assume "fresh_output path tmp new s" and run: "remove_if_identity path new t = (r, s')"
  then show "keeps t s'" using remove_frame(1) [OF run] publication_namesD(2) by (auto simp: fresh_output_def)
qed

section \<open>Properties\<close>


text \<open>A directory with one file, and a schedule in which the given call fails.\<close>

definition sample_fs :: "nat option \<Rightarrow> fs" where
  "sample_fs failing = \<lparr>faults = (\<lambda>k. if Some k = failing then Some ''EIO'' else None), clock = 0, failures = 0,
     names = [''/out/other'' \<mapsto> Ident 2 2], directory = (\<lambda>_. False), bytes_of = (\<lambda>_. ''x'')\<rparr>"

lemma sample_names:
  "quarantine_name ''/out/a'' (Ident 2 7) = ''/out/.a.rollback-2-7''"
  "quarantine_name ''/out/.a.t'' (Ident 2 7) = ''/out/..a.t.rollback-2-7''"
  "quarantine_name ''/out/m'' (Ident 2 8) = ''/out/.m.rollback-2-8''"
  "quarantine_name ''/out/.m.t'' (Ident 2 8) = ''/out/..m.t.rollback-2-8''"
  by code_simp+

lemma sample_fresh:
  "fresh_output ''/out/a'' ''/out/.a.t'' (Ident 2 7) (sample_fs failing)"
  "names t = (names (sample_fs failing))(''/out/a'' := Some (Ident 2 7)) \<Longrightarrow> fresh_output ''/out/m'' ''/out/.m.t'' (Ident 2 8) t"
  by (auto simp: fresh_output_def publication_names_def sample_names sample_fs_def)


text \<open>
  C21. When no system call fails and the output does not exist, \<open>atomic_write\<close> returns, and the output
  then has exactly the bytes the callback wrote.
\<close>

theorem atomic_write_returns:
  assumes fresh: "fresh_output path temporary new s" and "names s path = None" and ok: "\<And>k. faults s k = None"
  shows "\<exists>s'. atomic_write path temporary new (Inr data) s = (Inr new, s')
           \<and> names s' = (names s)(path := Some new) \<and> bytes_of s' new = data"
proof -
  obtain r s' where run: "atomic_write path temporary new (Inr data) s = (r, s')" by fastforce
  from atomic_write_outcome [OF fresh this] have w: "written_or_aborted path temporary new (Inr data) s r s'" .
  then have "failures s' = failures s" using ok by (simp add: written_or_aborted_def runs_def)
  with w assms(2) have "r = Inr new \<and> names s' = (names s)(path := Some new) \<and> bytes_of s' new = data"
    by (auto simp: written_or_aborted_def split: sum.splits)
  with run show ?thesis by auto
qed

theorem atomic_write_returns_witness:
  "\<exists>s'. atomic_write ''/out/a'' ''/out/.a.t'' (Ident 2 7) (Inr ''data'') (sample_fs None) = (Inr (Ident 2 7), s')
     \<and> bytes_of s' (Ident 2 7) = ''data''"
  using atomic_write_returns [OF sample_fresh(1) [of None], of "''data''"] by (auto simp: sample_fs_def)


lemma sample_outputs:
  "let run = publish_outputs atomic_write remove_if_identity ''/out/a'' ''/out/.a.t'' (Ident 2 7) (Inr ''data'')
               ''/out/m'' ''/out/.m.t'' (Ident 2 8) (Inr ''manifest'') (sample_fs (Some 25))
   in fst run = Inl (OSError ''EIO'') \<and> failures (snd run) = 1"
  by code_simp


end
