(* ===== verification/Rootfs_Build.thy ===== *)
theory Rootfs_Build
  imports Newc Rootfs_Verify Safe_Publish Py_Path Py_Text "HOL-Library.Multiset"
begin

text \<open>
  \<open>build-runtime-rootfs.py\<close> apart from the archive writer, which is in \<^theory_text>\<open>Newc\<close>: the scan of the
  held root directory, the checks on links, attributes and concurrent changes, the manifest,
  the admission checks and the command.

  What the scan observes is a value: the tree with the \<open>stat\<close> result and the listing of every
  entry (or the exception the call raises), and for every path the results of the later
  calls, since other processes may change the tree in between.  \<open>sha256\<close> stands for the hexadecimal
  digest.
\<close>

section \<open>Symbolic link targets\<close>

text \<open>\<open>posixpath.dirname\<close>.\<close>

definition posix_dirname :: "string \<Rightarrow> string" where
  "posix_dirname p =
     (let head = rev (dropWhile (\<lambda>c. c \<noteq> CHR ''/'') (rev p));
          stripped = rev (dropWhile (\<lambda>c. c = CHR ''/'') (rev head))
      in if stripped = [] then head else stripped)"

fun safe_depth :: "nat \<Rightarrow> string list \<Rightarrow> bool" where
  "safe_depth depth [] = True"
| "safe_depth depth (part # rest) =
     (if part = '''' \<or> part = ''.'' then safe_depth depth rest
      else if part = ''..'' then (if depth = 0 then False else safe_depth (depth - 1) rest)
      else safe_depth (depth + 1) rest)"

definition safe_target :: "string \<Rightarrow> string \<Rightarrow> bool" where
  "safe_target path target =
     (if startswith target ''/'' then True
      else safe_depth (length (filter (\<lambda>part. part \<notin> {'''', ''.''}) (split_on CHR ''/'' (posix_dirname path))))
        (split_on CHR ''/'' target))"

section \<open>Observations\<close>

datatype held = Held (h_stat: "stat_info res") (h_scan_error: "exn option") (h_children: "(string \<times> held) list")

text \<open>The descriptor a \<open>/proc/self/fd/N\<close> path names.\<close>

definition proc_fd :: "string \<Rightarrow> string option" where
  "proc_fd text =
     (let n = drop 14 text
      in if startswith text ''/proc/self/fd/'' \<and> n \<noteq> [] \<and> list_all is_digit n then Some n else None)"

text \<open>
  \<open>open_directory_nofollow\<close>, with the results of \<open>dup\<close> and of \<open>open(path, O_DIRECTORY | O_NOFOLLOW)\<close>.
\<close>

definition open_directory_nofollow :: "(string \<Rightarrow> held res) \<Rightarrow> (string \<Rightarrow> held res) \<Rightarrow> string \<Rightarrow> held res" where
  "open_directory_nofollow dup open_path text =
     bindE (case proc_fd text of Some n \<Rightarrow> dup n | None \<Rightarrow> open_path text) (\<lambda>descriptor.
     bindE (h_stat descriptor) (\<lambda>info.
     if \<not> S_ISDIR (st_mode info) then Inl (OSError ''descriptor is not a directory'') else Inr descriptor))"

definition stat_identity :: "stat_info \<Rightarrow> nat \<times> nat \<times> nat \<times> nat \<times> nat \<times> nat \<times> int \<times> int" where
  "stat_identity v = (st_dev v, st_ino v, st_mode v, st_uid v, st_gid v, st_size v, st_mtime_ns v, st_ctime_ns v)"

text \<open>
  The later calls on a path: the extended attributes and their values, the contents with the
  \<open>fstat\<close> and \<open>lstat\<close> results after reading, the link target with the \<open>lstat\<close> result after it,
  and the tree that the final validation walks.
\<close>

record observed_calls =
  listxattr :: "string \<Rightarrow> string list res"
  getxattr :: "string \<Rightarrow> string \<Rightarrow> bytes res"
  read_file :: "string \<Rightarrow> (bytes \<times> stat_info \<times> stat_info) res"
  readlink :: "string \<Rightarrow> (string \<times> stat_info) res"
  final_tree :: held

definition read_stable :: "observed_calls \<Rightarrow> string \<Rightarrow> stat_info \<Rightarrow> bytes res" where
  "read_stable env path before =
     bindE (read_file env path) (\<lambda>(data, after_fd, after_path).
     if stat_identity before \<noteq> stat_identity after_fd \<or> stat_identity before \<noteq> stat_identity after_path
     then Inl (RootFSError ''input mutated while reading'') else Inr data)"

section \<open>Walking the tree\<close>

text \<open>
  The stack of the walk, top first.  Sorting the children in reverse before they are pushed makes
  the least name the next one popped.
\<close>

definition child_relative :: "string \<Rightarrow> string \<Rightarrow> string" where
  "child_relative relative name = (if relative = ''.'' then name else relative @ ''/'' @ name)"

definition push_children :: "string \<Rightarrow> held \<Rightarrow> (string \<times> held) list \<Rightarrow> (string \<times> held) list" where
  "push_children relative current stack =
     map (\<lambda>(name, child). (child_relative relative name, child)) (sort_key fst (h_children current)) @ stack"

fun held_weight :: "held \<Rightarrow> nat" where
  "held_weight (Held st e children) = Suc (sum_list (map (\<lambda>(name, child). held_weight child) children))"

definition stack_weight :: "(string \<times> held) list \<Rightarrow> nat" where
  "stack_weight stack = sum_list (map (\<lambda>(name, child). held_weight child) stack)"

lemma stack_weight_push: "stack_weight (push_children relative current stack) < stack_weight ((relative, current) # stack)"
proof -
  have "sum_list (map (\<lambda>(n, c). held_weight c) (sort_key fst (h_children current))) = sum_list (map (\<lambda>(n, c). held_weight c) (h_children current))"
    by (metis mset_map mset_sort sum_mset_sum_list)
  then show ?thesis by (cases current) (simp add: stack_weight_def push_children_def comp_def case_prod_unfold)
qed

lemma stack_weight_pop: "stack_weight stack < stack_weight ((relative, current) # stack)"
  by (cases current) (simp add: stack_weight_def)

definition unsafe_name :: "string \<Rightarrow> bool" where
  "unsafe_name name \<longleftrightarrow> name = ''.'' \<or> name = ''..'' \<or> CHR ''/'' \<in> set name \<or> NUL \<in> set name"

function scan_loop :: "(string \<times> held) list \<Rightarrow> (string \<times> stat_info) list \<Rightarrow> (string \<times> stat_info) list res" where
  "scan_loop [] raw = Inr raw"
| "scan_loop ((relative, current) # stack) raw =
     bindE (h_stat current) (\<lambda>info.
     if S_ISDIR (st_mode info)
     then (case h_scan_error current of
         Some e \<Rightarrow> Inl (if is_os_error e then RootFSError ''cannot scan'' else e)
       | None \<Rightarrow>
           if \<exists>(name, child) \<in> set (h_children current). unsafe_name name
           then Inl (RootFSError ''unsafe path component'')
           else scan_loop (push_children relative current stack) (raw @ [(relative, info)]))
     else scan_loop stack (raw @ [(relative, info)]))"
  by pat_completeness auto
termination
  by (relation "measure (\<lambda>(stack, raw). stack_weight stack)") (auto simp: stack_weight_push stack_weight_pop)

function observe_loop :: "(string \<times> held) list \<Rightarrow> (string \<times> stat_info) list \<Rightarrow> (string \<times> stat_info) list res" where
  "observe_loop [] observed = Inr observed"
| "observe_loop ((relative, current) # stack) observed =
     bindE (h_stat current) (\<lambda>info.
     if S_ISDIR (st_mode info)
     then (case h_scan_error current of
         Some e \<Rightarrow> Inl e
       | None \<Rightarrow> observe_loop (push_children relative current stack) (observed @ [(relative, info)]))
     else observe_loop stack (observed @ [(relative, info)]))"
  by pat_completeness auto
termination
  by (relation "measure (\<lambda>(stack, observed). stack_weight stack)") (auto simp: stack_weight_push stack_weight_pop)

text \<open>
  The dictionaries \<open>expected\<close> and \<open>observed\<close> are the association lists of the walks; a later pair of
  the same path replaces an earlier one.
\<close>

definition revalidate_tree :: "held \<Rightarrow> (string \<times> stat_info) list \<Rightarrow> unit res" where
  "revalidate_tree tree raw =
     bindE (wrap_exn is_os_error (RootFSError ''input tree mutated during final validation'') (observe_loop [(''.'', tree)] [])) (\<lambda>observed.
     let expected = map_of (rev raw); found = map_of (rev observed) in
     if fst ` set raw \<noteq> fst ` set observed then Inl (RootFSError ''input tree membership mutated during build'')
     else raise_if (\<exists>(relative, info) \<in> set raw.
         map_option stat_identity (found relative) \<noteq> map_option stat_identity (expected relative))
       (RootFSError ''input mutated during build''))"

section \<open>Hardlinks\<close>

text \<open>The dictionary \<open>hardlink_groups\<close> in insertion order.\<close>

type_synonym groups = "((nat \<times> nat) \<times> string list) list"

fun group_add :: "groups \<Rightarrow> nat \<times> nat \<Rightarrow> string \<Rightarrow> groups" where
  "group_add [] key path = [(key, [path])]"
| "group_add ((k, ps) # gs) key path = (if k = key then (k, ps @ [path]) # gs else (k, ps) # group_add gs key path)"

definition hardlink_groups :: "(string \<times> stat_info) list \<Rightarrow> groups" where
  "hardlink_groups raw =
     fold (\<lambda>(relative, info) gs.
       if S_ISREG (st_mode info) \<and> st_nlink info > 1 then group_add gs (st_dev info, st_ino info) relative else gs) raw []"

text \<open>The names of files whose bytes are not UTF-8 cannot be encoded by \<open>str.encode()\<close>.\<close>

definition encode :: "string \<Rightarrow> bytes res" where
  "encode s = (if utf8_ok s then Inr s else Inl (UnicodeEncodeError ''surrogates not allowed''))"

definition hardlink_id :: "(bytes \<Rightarrow> string) \<Rightarrow> string list \<Rightarrow> string res" where
  "hardlink_id sha256 paths = bindE (encode (join_with [NUL] paths)) (\<lambda>joined. Inr (''h'' @ take 16 (sha256 joined)))"

definition hardlink_ids :: "(bytes \<Rightarrow> string) \<Rightarrow> groups \<Rightarrow> ((nat \<times> nat) \<times> string) list res" where
  "hardlink_ids sha256 gs = mapE (\<lambda>(key, paths). bindE (hardlink_id sha256 paths) (\<lambda>h. Inr (key, h))) gs"

definition check_boundary :: "(string \<times> stat_info) list \<Rightarrow> groups \<Rightarrow> unit res" where
  "check_boundary raw gs =
     forE gs (\<lambda>_ (key, paths).
       case find (\<lambda>(relative, info). (st_dev info, st_ino info) = key) raw of
         None \<Rightarrow> Inl (RuntimeError ''StopIteration'')
       | Some (relative, info) \<Rightarrow> raise_if (st_nlink info \<noteq> length paths) (RootFSError ''hardlink group crosses the root boundary'')) ()"

section \<open>Entries\<close>

definition OVERLAY_OPAQUE_XATTRS :: "string list" where
  "OVERLAY_OPAQUE_XATTRS = [''trusted.overlay.opaque'', ''user.overlay.opaque'']"

definition check_xattrs :: "observed_calls \<Rightarrow> string \<Rightarrow> stat_info \<Rightarrow> unit res" where
  "check_xattrs env relative info =
     bindE (wrap_exn is_os_error (RootFSError ''cannot inspect xattrs'') (listxattr env relative)) (\<lambda>xattrs.
     if \<exists>x \<in> set xattrs. x \<notin> set OVERLAY_OPAQUE_XATTRS then Inl (RootFSError ''unsupported xattrs'')
     else forE (filter (\<lambda>name. name \<in> set xattrs) OVERLAY_OPAQUE_XATTRS) (\<lambda>_ name.
       bindE (wrap_exn is_os_error (RootFSError ''cannot inspect overlay opacity'') (getxattr env relative name)) (\<lambda>value.
       raise_if (\<not> S_ISDIR (st_mode info) \<or> value \<notin> {''y'', ''x''})
         (RootFSError ''malformed overlay opacity metadata''))) ())"

definition link_identity :: "stat_info \<Rightarrow> nat \<times> nat \<times> nat \<times> nat \<times> nat \<times> int \<times> int" where
  "link_identity v = (st_dev v, st_ino v, st_mode v, st_uid v, st_gid v, st_mtime_ns v, st_ctime_ns v)"

definition common_entry :: "string \<Rightarrow> stat_info \<Rightarrow> string \<Rightarrow> nat \<Rightarrow> entry" where
  "common_entry relative info kind sz =
     \<lparr>e_path = relative, e_mode = st_mode info, e_uid = st_uid info, e_gid = st_gid info, e_size = sz, e_kind = kind,
      e_digest = None, e_target = None, e_hardlink = None\<rparr>"

definition regular_entry :: "(bytes \<Rightarrow> string) \<Rightarrow> ((nat \<times> nat) \<times> string) list \<Rightarrow> string \<Rightarrow> stat_info \<Rightarrow> bytes \<Rightarrow> entry" where
  "regular_entry sha256 ids relative info data =
     (common_entry relative info ''regular'' (length data))
       \<lparr>e_digest := Some (sha256 data), e_hardlink := map_of ids (st_dev info, st_ino info)\<rparr>"

definition symlink_entry :: "observed_calls \<Rightarrow> string \<Rightarrow> stat_info \<Rightarrow> (entry \<times> bytes) res" where
  "symlink_entry env relative info =
     bindE (readlink env relative) (\<lambda>(target, after).
     if link_identity info \<noteq> link_identity after then Inl (RootFSError ''input symlink mutated while reading'')
     else if \<not> safe_target relative target then Inl (RootFSError ''escaping symlink'')
     else Inr ((common_entry relative info ''symlink'' (length target))\<lparr>e_target := Some target\<rparr>, target))"

definition scan_entry :: "(bytes \<Rightarrow> string) \<Rightarrow> observed_calls \<Rightarrow> ((nat \<times> nat) \<times> string) list \<Rightarrow>
    entry list \<times> (string \<rightharpoonup> bytes) \<Rightarrow> string \<times> stat_info \<Rightarrow> (entry list \<times> (string \<rightharpoonup> bytes)) res" where
  "scan_entry sha256 env ids = (\<lambda>(entries, contents) (relative, info).
     bindE (check_xattrs env relative info) (\<lambda>_.
     if S_ISDIR (st_mode info) then Inr (entries @ [common_entry relative info ''directory'' 0], contents)
     else if S_ISREG (st_mode info) then
       bindE (read_stable env relative info) (\<lambda>data.
       Inr (entries @ [regular_entry sha256 ids relative info data], contents(relative \<mapsto> data)))
     else if S_ISLNK (st_mode info) then
       bindE (symlink_entry env relative info) (\<lambda>(entry, encoded). Inr (entries @ [entry], contents(relative \<mapsto> encoded)))
     else Inl (RootFSError ''unsupported file type'')))"

definition scan_held :: "(bytes \<Rightarrow> string) \<Rightarrow> observed_calls \<Rightarrow> held \<Rightarrow> (entry list \<times> (string \<rightharpoonup> bytes)) res" where
  "scan_held sha256 env tree =
     bindE (scan_loop [(''.'', tree)] []) (\<lambda>walked.
     let raw = sort_key fst walked; gs = hardlink_groups raw in
     bindE (hardlink_ids sha256 gs) (\<lambda>ids.
     bindE (check_boundary raw gs) (\<lambda>_.
     bindE (forE raw (scan_entry sha256 env ids) ([], Map.empty)) (\<lambda>result.
     bindE (revalidate_tree (final_tree env) raw) (\<lambda>_. Inr result)))))"

definition scan :: "(bytes \<Rightarrow> string) \<Rightarrow> observed_calls \<Rightarrow> (string \<Rightarrow> held res) \<Rightarrow> (string \<Rightarrow> held res) \<Rightarrow> string \<Rightarrow>
    (entry list \<times> (string \<rightharpoonup> bytes)) res" where
  "scan sha256 env dup open_path path =
     bindE (wrap_exn is_os_error (RootFSError ''cannot open root directory without following symlinks'')
              (open_directory_nofollow dup open_path path)) (scan_held sha256 env)"

section \<open>Manifest\<close>

definition optional_field :: "string \<Rightarrow> string option \<Rightarrow> fields" where
  "optional_field key value = (case value of None \<Rightarrow> [] | Some s \<Rightarrow> [(key, JStr s)])"

definition manifest_entry :: "entry \<Rightarrow> fields" where
  "manifest_entry item =
     [(''path'', JStr (e_path item)), (''type'', JStr (e_kind item)), (''mode'', JInt (int (e_mode item AND 65535))),
      (''uid'', JInt (int (e_uid item))), (''gid'', JInt (int (e_gid item))), (''size'', JInt (int (e_size item)))]
     @ optional_field ''sha256'' (e_digest item) @ optional_field ''target'' (e_target item)
     @ optional_field ''hardlink'' (e_hardlink item)"

definition manifest_body :: "entry list \<Rightarrow> json" where
  "manifest_body entries = JObj
     [(''schema_version'', JInt 1),
      (''normalization'', JObj
        [(''archive'', JStr ''cpio-newc''), (''mtime'', JInt 0),
         (''inode_assignment'', JStr ''lexical-path-with-hardlink-groups''),
         (''xattrs'', JStr ''rejected-except-realized-overlay-opacity''),
         (''overlay_opacity'', JStr ''materialized-view-normalized''),
         (''sparse_extents'', JStr ''normalized-to-regular-bytes''), (''device_nodes'', JStr ''rejected'')]),
      (''entries'', JList (map (JObj \<circ> manifest_entry) entries))]"

definition manifest :: "(json \<Rightarrow> bytes) \<Rightarrow> entry list \<Rightarrow> bytes" where
  "manifest dumps entries = dumps (manifest_body entries) @ [CHR 0x0A]"

section \<open>The command\<close>

record build_args =
  manifest_only :: bool
  max_bytes :: int
  max_inodes :: int
  min_free_bytes :: int
  min_free_inodes :: int

record capacity =
  f_bavail :: nat
  f_frsize :: nat
  f_favail :: nat

definition payload_bytes :: "entry list \<Rightarrow> nat" where
  "payload_bytes entries = sum_list (map e_size (filter (\<lambda>item. e_kind item = ''regular'') entries))"

definition check_limits :: "build_args \<Rightarrow> entry list \<Rightarrow> unit res" where
  "check_limits args entries =
     (if max_bytes args \<noteq> 0 \<and> int (payload_bytes entries) > max_bytes args then Inl (RootFSError ''payload bytes exceed limit'')
      else if max_inodes args \<noteq> 0 \<and> int (length entries) > max_inodes args then Inl (RootFSError ''entry count exceeds limit'')
      else raise_if (min_free_inodes args < 0 \<or> min_free_inodes args > 2 ^ 30)
        (RootFSError ''free-inode reserve is outside the supported bounds''))"

definition admit_manifest :: "build_args \<Rightarrow> capacity \<Rightarrow> unit res" where
  "admit_manifest args capacity =
     raise_if (int (f_favail capacity) < min_free_inodes args + 1) (RootFSError ''high-water refusal'')"

definition admit_archive :: "build_args \<Rightarrow> capacity \<Rightarrow> entry list \<Rightarrow> unit res" where
  "admit_archive args capacity entries =
     (let available = int (f_bavail capacity * f_frsize capacity);
          worst_case_archive = int (payload_bytes entries + length entries * 512 + 1024);
          required_inodes = min_free_inodes args + 2
      in raise_if (available - worst_case_archive < min_free_bytes args \<or> int (f_favail capacity) < required_inodes)
           (RootFSError ''high-water refusal''))"

text \<open>
  \<open>main\<close> after the scan; the file system calls are those of \<open>atomic_write\<close>, with the temporary names and
  identities it gets for the two outputs, and the final read of the archive.  \<open>gzip\<close> stands for the
  compressor; the result is the printed report.
\<close>

record build_report =
  r_manifest :: string
  r_initramfs :: "string option"
  r_entries :: nat
  r_payload_bytes :: nat

definition build_main :: "(bytes \<Rightarrow> string) \<Rightarrow> (bytes \<Rightarrow> bytes) \<Rightarrow> (json \<Rightarrow> bytes) \<Rightarrow> build_args \<Rightarrow> capacity res \<Rightarrow>
    (entry list \<times> (string \<rightharpoonup> bytes)) res \<Rightarrow> string \<Rightarrow> string \<Rightarrow> ident \<Rightarrow> string \<Rightarrow> string \<Rightarrow> ident \<Rightarrow> build_report op" where
  "build_main sha256 gzip dumps args capacity scanned output tmp1 new1 manifest_path tmp2 new2 =
     bindS (raiseE scanned) (\<lambda>(entries, contents).
     bindS (raiseE (check_limits args entries)) (\<lambda>_.
     let encoded_manifest = manifest dumps entries;
         report = (\<lambda>archive. \<lparr>r_manifest = sha256 encoded_manifest, r_initramfs = archive,
           r_entries = length entries, r_payload_bytes = payload_bytes entries\<rparr>)
     in bindS (raiseE capacity) (\<lambda>capacity.
     if manifest_only args then
       bindS (raiseE (admit_manifest args capacity)) (\<lambda>_.
       bindS (atomic_write manifest_path tmp2 new2 (Inr encoded_manifest)) (\<lambda>_. returnS (report None)))
     else
       bindS (raiseE (admit_archive args capacity entries)) (\<lambda>_.
       bindS (publish_outputs atomic_write remove_if_identity output tmp1 new1
                (bindE (write_newc entries contents) (\<lambda>archive. Inr (gzip archive)))
                manifest_path tmp2 new2 (Inr encoded_manifest)) (\<lambda>_.
       bindS (sys_read output) (\<lambda>archive. returnS (report (Some (sha256 archive)))))))))"

section \<open>The archive and its manifest\<close>

text \<open>What the scan records of an entry: type, contents, size, digest and target belong together.\<close>

definition described :: "(bytes \<Rightarrow> string) \<Rightarrow> (string \<rightharpoonup> bytes) \<Rightarrow> entry \<Rightarrow> bool" where
  "described sha256 contents e \<longleftrightarrow>
     e_kind e = ''directory'' \<and> S_ISDIR (e_mode e) \<and> contents (e_path e) = None \<and> e_size e = 0
       \<and> e_digest e = None \<and> e_target e = None \<and> e_hardlink e = None
     \<or> e_kind e = ''regular'' \<and> S_ISREG (e_mode e) \<and> e_hardlink e \<noteq> Some [] \<and> e_target e = None
       \<and> (\<exists>d. contents (e_path e) = Some d \<and> e_size e = length d \<and> e_digest e = Some (sha256 d))
     \<or> e_kind e = ''symlink'' \<and> S_ISLNK (e_mode e) \<and> e_digest e = None \<and> e_hardlink e = None
       \<and> (\<exists>t. contents (e_path e) = Some t \<and> e_size e = length t \<and> e_target e = Some t)"

text \<open>The records of an archive, as the reader returns them.\<close>

definition archive_records :: "entry list \<Rightarrow> (string \<rightharpoonup> bytes) \<Rightarrow> newc_entry list \<Rightarrow> bool" where
  "archive_records es contents recs \<longleftrightarrow> length recs = length es
    \<and> (\<forall>i < length es. n_path (recs ! i) = e_path (es ! i) \<and> n_mode (recs ! i) = int (e_mode (es ! i))
        \<and> n_uid (recs ! i) = int (e_uid (es ! i)) \<and> n_gid (recs ! i) = int (e_gid (es ! i))
        \<and> n_nlink (recs ! i) = int (entry_nlink es (es ! i)) \<and> n_mtime (recs ! i) = 0
        \<and> n_size (recs ! i) = int (length (n_data (recs ! i)))
        \<and> n_data (recs ! i) =
            (if \<exists>h. hardlink_of (es ! i) = Some h \<and> (\<exists>j < i. hardlink_of (es ! j) = Some h) then []
             else (case contents (e_path (es ! i)) of Some d \<Rightarrow> d | None \<Rightarrow> [])))
    \<and> (\<forall>i < length es. \<forall>j < length es. n_ino (recs ! i) = n_ino (recs ! j) \<longleftrightarrow>
        i = j \<or> (hardlink_of (es ! i) \<noteq> None \<and> hardlink_of (es ! i) = hardlink_of (es ! j)))"

lemma recordsD:
  assumes "archive_records es contents recs" and "i < length es"
  shows "n_path (recs ! i) = e_path (es ! i)" "n_mode (recs ! i) = int (e_mode (es ! i))"
    "n_uid (recs ! i) = int (e_uid (es ! i))" "n_gid (recs ! i) = int (e_gid (es ! i))"
    "n_nlink (recs ! i) = int (entry_nlink es (es ! i))" "n_mtime (recs ! i) = 0"
    "n_size (recs ! i) = int (length (n_data (recs ! i)))"
  using assms unfolding archive_records_def by blast+

lemma records_length: "archive_records es contents recs \<Longrightarrow> length recs = length es"
  by (simp add: archive_records_def)

lemma records_data:
  assumes "archive_records es contents recs" and "i < length es"
  shows "n_data (recs ! i) =
      (if \<exists>h. hardlink_of (es ! i) = Some h \<and> (\<exists>j < i. hardlink_of (es ! j) = Some h) then []
       else (case contents (e_path (es ! i)) of Some d \<Rightarrow> d | None \<Rightarrow> []))"
  using assms unfolding archive_records_def by blast

lemma records_ino:
  assumes "archive_records es contents recs" and "i < length es" and "j < length es"
  shows "n_ino (recs ! i) = n_ino (recs ! j) \<longleftrightarrow>
      i = j \<or> (hardlink_of (es ! i) \<noteq> None \<and> hardlink_of (es ! i) = hardlink_of (es ! j))"
  using assms unfolding archive_records_def by blast

definition links_agree :: "entry list \<Rightarrow> (string \<rightharpoonup> bytes) \<Rightarrow> bool" where
  "links_agree es contents \<longleftrightarrow> (\<forall>e \<in> set es. \<forall>f \<in> set es.
     hardlink_of e \<noteq> None \<and> hardlink_of e = hardlink_of f \<longrightarrow> contents (e_path e) = contents (e_path f))"

lemma records_payload:
  assumes "archive_records es contents recs" and "links_agree es contents" and i: "i < length es"
    and c: "contents (e_path (es ! i)) = Some d" and j: "j < length es" "n_ino (recs ! j) = n_ino (recs ! i)"
  shows "n_data (recs ! j) = [] \<or> n_data (recs ! j) = d"
proof -
  have "contents (e_path (es ! j)) = Some d"
    using records_ino [OF assms(1) j(1) i] j(2) c assms(2) i j(1) unfolding links_agree_def by (metis nth_mem)
  then show ?thesis using records_data [OF assms(1) j(1)] by simp
qed

lemma records_first:
  assumes "archive_records es contents recs" and "links_agree es contents" and i: "i < length es"
    and c: "contents (e_path (es ! i)) = Some d"
  shows "\<exists>j < length es. n_ino (recs ! j) = n_ino (recs ! i) \<and> n_data (recs ! j) = d"
proof (cases "hardlink_of (es ! i)")
  case None
  then show ?thesis using records_data [OF assms(1) i] c i by auto
next
  case (Some h)
  define j where "j = (LEAST j. hardlink_of (es ! j) = Some h)"
  have j: "hardlink_of (es ! j) = Some h" "j \<le> i" and first: "\<And>k. k < j \<Longrightarrow> hardlink_of (es ! k) \<noteq> Some h"
    unfolding j_def using Some by (auto intro: LeastI Least_le dest: not_less_Least)
  then have jl: "j < length es" using i by simp
  have "contents (e_path (es ! j)) = Some d"
    using assms(2) j(1) Some c i jl unfolding links_agree_def by (metis nth_mem option.distinct(1))
  then have "n_data (recs ! j) = d" using records_data [OF assms(1) jl] j(1) first by auto
  moreover have "n_ino (recs ! j) = n_ino (recs ! i)" using records_ino [OF assms(1) jl i] j(1) Some by simp
  ultimately show ?thesis using jl by blast
qed

lemma records_content:
  assumes r: "archive_records es contents recs" and "links_agree es contents" and i: "i < length es"
    and c: "contents (e_path (es ! i)) = Some d"
  shows "content_of (inode_data recs) (recs ! i) = d"
proof (cases "inode_data recs (n_ino (recs ! i))")
  case None
  obtain j where "j < length es" "n_ino (recs ! j) = n_ino (recs ! i)" "n_data (recs ! j) = d"
    using records_first [OF assms] by blast
  then have "d = []" using None records_length [OF r] by (auto simp: inode_data_None)
  then show ?thesis using None records_payload [OF assms i refl] by (simp add: content_of_def)
next
  case (Some d')
  from inode_data_Some [OF this] obtain j where "j < length es" "n_ino (recs ! j) = n_ino (recs ! i)" "n_data (recs ! j) = d'" "d' \<noteq> []"
    using records_length [OF r] by (auto simp: in_set_conv_nth)
  then show ?thesis using Some records_payload [OF assms, of j] by (simp add: content_of_def)
qed

lemma records_consistent:
  assumes r: "archive_records es contents recs" and "links_agree es contents"
  shows "data_consistent recs"
proof -
  have "n_data (recs ! i) = n_data (recs ! j)"
    if ij: "i < length es" "j < length es" "n_ino (recs ! i) = n_ino (recs ! j)" "n_data (recs ! i) \<noteq> []" "n_data (recs ! j) \<noteq> []" for i j
  proof -
    obtain d where "contents (e_path (es ! i)) = Some d"
      using records_data [OF r ij(1)] ij(4) by (auto split: if_splits option.splits)
    from records_payload [OF assms ij(1) this, of i] records_payload [OF assms ij(1) this, of j] ij show ?thesis by auto
  qed
  then show ?thesis using records_length [OF r] unfolding data_consistent_def by (auto simp: in_set_conv_nth)
qed

lemma mode_mask: "m < 65536 \<Longrightarrow> m AND 65535 = (m :: nat)"
  using take_bit_nat_eq_self [of m 16] by (simp add: take_bit_eq_mask mask_numeral)

lemma manifest_get:
  "jget (manifest_entry e) ''path'' = JStr (e_path e)" "jget (manifest_entry e) ''type'' = JStr (e_kind e)"
  "jget (manifest_entry e) ''mode'' = JInt (int (e_mode e AND 65535))" "jget (manifest_entry e) ''uid'' = JInt (int (e_uid e))"
  "jget (manifest_entry e) ''gid'' = JInt (int (e_gid e))" "jget (manifest_entry e) ''size'' = JInt (int (e_size e))"
  "jget (manifest_entry e) ''sha256'' = (case e_digest e of None \<Rightarrow> JNull | Some s \<Rightarrow> JStr s)"
  "jget (manifest_entry e) ''target'' = (case e_target e of None \<Rightarrow> JNull | Some s \<Rightarrow> JStr s)"
  "jget (manifest_entry e) ''hardlink'' = (case e_hardlink e of None \<Rightarrow> JNull | Some s \<Rightarrow> JStr s)"
  by (simp_all add: manifest_entry_def optional_field_def jget_def split: option.splits)

lemma wanted_link_manifest: "wanted_link (manifest_entry e) = hardlink_of e"
  by (auto simp: wanted_link_def manifest_get hardlink_of_def split: option.splits)

lemma manifest_fields_ok:
  assumes "described sha256 contents e" shows "check_fields (manifest_entry e) = Inr ()"
  using assms unfolding described_def check_fields_def Let_def manifest_get
  by (elim disjE conjE exE) (simp_all add: manifest_entry_def optional_field_def raise_if_def split: option.splits)

lemma py_eq_int [simp]: "py_eq (JInt i) (JInt j) \<longleftrightarrow> i = j"
  by (auto simp: py_eq_def)

lemma manifest_metadata_ok:
  assumes "described sha256 contents e" and "e_mode e < 65536" and "n_mode r = int (e_mode e)" "n_uid r = int (e_uid e)"
    "n_gid r = int (e_gid e)" "n_mtime r = 0"
  shows "check_metadata (manifest_entry e) r = Inr ()"
  using assms unfolding check_metadata_Inr manifest_get described_def
  by (auto simp: mode_mask required_kind_Inr S_ISDIR_def S_ISREG_def S_ISLNK_def)

lemma manifest_content_ok:
  assumes r: "archive_records es contents recs" and agree: "links_agree es contents" and i: "i < length es"
    and d: "described sha256 contents (es ! i)"
  shows "check_content sha256 (inode_data recs) (manifest_entry (es ! i)) (recs ! i) = Inr ()"
proof -
  note dat = records_data [OF r i] and sz = recordsD(7) [OF r i]
  from d consider (dir) "e_kind (es ! i) = ''directory''" "contents (e_path (es ! i)) = None" "e_size (es ! i) = 0"
    | (reg) c where "e_kind (es ! i) = ''regular''" "contents (e_path (es ! i)) = Some c" "e_size (es ! i) = length c" "e_digest (es ! i) = Some (sha256 c)"
    | (link) t where "e_kind (es ! i) = ''symlink''" "contents (e_path (es ! i)) = Some t" "e_size (es ! i) = length t"
        "e_target (es ! i) = Some t" "e_hardlink (es ! i) = None"
    unfolding described_def by (elim disjE conjE exE) (rule that, assumption+)+
  then show ?thesis
  proof cases
    case dir
    then show ?thesis using dat sz by (auto simp: check_content_def manifest_get raise_if_def split: if_splits)
  next
    case reg
    show ?thesis using reg records_content [OF r agree i reg(2)] by (simp add: check_content_def manifest_get raise_if_def)
  next
    case link
    have "n_data (recs ! i) = t" using dat link by (simp add: hardlink_of_def)
    then show ?thesis using link sz by (simp add: check_content_def manifest_get raise_if_def)
  qed
qed

lemma archive_accepted:
  assumes r: "archive_records es contents recs" and agree: "links_agree es contents"
    and ok: "\<forall>e \<in> set es. described sha256 contents e \<and> e_mode e < 65536" and dist: "distinct (map e_path es)"
  shows "verify_entries sha256 (map manifest_entry es) recs = Inr ()"
proof -
  have len: "length recs = length es" using r by (rule records_length)
  have paths: "map n_path recs = map e_path es"
    by (rule nth_equalityI) (use len recordsD(1) [OF r] in auto)
  then have eq: "map (\<lambda>e. jget e ''path'') (map manifest_entry es) = map JStr (map n_path recs)"
    by (simp add: manifest_get(1) comp_def)
  have pass: "check_fields w = Inr () \<and> check_metadata w o' = Inr () \<and> check_content sha256 (inode_data recs) w o' = Inr ()
      \<and> (jget w ''hardlink'' = JNull \<and> n_nlink o' = (if jget w ''type'' = JStr ''directory'' then 2 else 1) \<or> (\<exists>l. wanted_link w = Some l))"
    if "(w, o') \<in> set (zip (map manifest_entry es) recs)" for w o'
  proof -
    from that len obtain i where i: "i < length es" "w = manifest_entry (es ! i)" "o' = recs ! i" by (auto simp: set_zip)
    have d: "described sha256 contents (es ! i)" "e_mode (es ! i) < 65536" using ok i(1) by auto
    have "e_hardlink (es ! i) \<noteq> Some []" using d(1) by (auto simp: described_def)
    then show ?thesis unfolding i(2,3)
      using manifest_fields_ok [OF d(1)] manifest_metadata_ok [OF d recordsD(2,3,4,6) [OF r i(1)]] manifest_content_ok [OF r agree i(1) d(1)]
        recordsD(5) [OF r i(1)]
      by (auto simp: wanted_link_manifest manifest_get hardlink_of_def entry_nlink_def split: option.splits)
  qed
  obtain ls where run: "forE (zip (map manifest_entry es) recs) (check_entry sha256 (inode_data recs)) [] = Inr ls"
    using check_entries_run [OF pass] by blast
  have groups: "check_group recs g = Inr ()" if g: "g \<in> set ls" for g
  proof (rule check_groups_run [OF run _ _ _ _ g])
    fix i l assume i: "i < length recs" and l: "wanted_link (map manifest_entry es ! i) = Some l"
    have "n_nlink (recs ! i) = int (link_counts es l)"
      using recordsD(5) [OF r] i len l by (simp add: wanted_link_manifest entry_nlink_def)
    moreover have "link_counts es l = card {j. j < length recs \<and> wanted_link (map manifest_entry es ! j) = Some l}"
      unfolding link_counts_def length_filter_conv_card using len by (intro arg_cong [where f = card]) (auto simp: wanted_link_manifest)
    ultimately show "n_nlink (recs ! i) = int (card {j. j < length recs \<and> wanted_link (map manifest_entry es ! j) = Some l})" by simp
  qed (use records_ino [OF r] len dist paths in \<open>auto simp: wanted_link_manifest\<close>)
  have "collect_data recs = Inr (inode_data recs)" by (simp add: collect_data_Inr records_consistent [OF r agree])
  then show ?thesis unfolding verify_entries_def
    using eq run groups py_same_list_JStr [of _ "map n_path recs"] by (simp add: forE_unit_Inr comp_def)
qed

section \<open>The walk\<close>

text \<open>A directory listing has no duplicate and no empty names.\<close>

fun listing_ok :: "held \<Rightarrow> bool" where
  "listing_ok (Held st e children) \<longleftrightarrow> distinct (map fst children) \<and> '''' \<notin> fst ` set children
     \<and> (\<forall>(name, child) \<in> set children. listing_ok child)"

fun tree_paths :: "string list \<Rightarrow> held \<Rightarrow> string list list" where
  "tree_paths cs (Held st e children) = cs # concat (map (\<lambda>(name, child). tree_paths (cs @ [name]) child) children)"

definition rel_of :: "string list \<Rightarrow> string" where
  "rel_of cs = (if cs = [] then ''.'' else join_with ''/'' cs)"

definition safe_comps :: "string list \<Rightarrow> bool" where
  "safe_comps cs \<longleftrightarrow> (\<forall>c \<in> set cs. comp_ok c \<and> NUL \<notin> set c)"

lemma tree_paths_prefix: "ds \<in> set (tree_paths cs c) \<Longrightarrow> prefix cs ds"
proof (induction cs c arbitrary: ds rule: tree_paths.induct)
  case (1 cs st e children)
  then consider "ds = cs" | name child where "(name, child) \<in> set children" "ds \<in> set (tree_paths (cs @ [name]) child)" by auto
  then show ?case
  proof cases
    case 2
    from 1(1) [OF 2(1) refl 2(2)] show ?thesis by (auto simp: prefix_def)
  qed simp
qed

lemma tree_paths_distinct: "listing_ok c \<Longrightarrow> distinct (tree_paths cs c)"
proof (induction cs c rule: tree_paths.induct)
  case (1 cs st e children)
  have each: "distinct (tree_paths (cs @ [n]) c)" if "(n, c) \<in> set children" for n c
    using 1(1) [OF that refl] 1(2) that by auto
  have "distinct (concat (map (\<lambda>(n, c). tree_paths (cs @ [n]) c) kids))"
    if "set kids \<subseteq> set children" "distinct (map fst kids)" for kids
    using that
  proof (induction kids)
    case (Cons p kids)
    obtain n c where p: "p = (n, c)" by (cases p)
    have "False" if "ds \<in> set (tree_paths (cs @ [n]) c)" "(n', c') \<in> set kids" "ds \<in> set (tree_paths (cs @ [n']) c')" for ds n' c'
    proof -
      have "prefix (cs @ [n]) ds" "prefix (cs @ [n']) ds" using that tree_paths_prefix by auto
      then have "n = n'" by (auto simp: prefix_def)
      then show False using Cons.prems(2) that(2) p by force
    qed
    then show ?case using Cons each p by auto
  qed simp
  moreover have "cs \<notin> set (tree_paths (cs @ [n]) c)" for n c
    using tree_paths_prefix [of cs "cs @ [n]" c] by (auto simp: prefix_def)
  ultimately show ?case using 1(2) by auto
qed

lemma rel_of_facts:
  assumes "safe_comps cs"
  shows "rel_of cs = ''.'' \<longleftrightarrow> cs = []" and "child_relative (rel_of cs) n = rel_of (cs @ [n])"
    and "\<not> unsafe_newc_path (rel_of cs)" and "NUL \<notin> set (rel_of cs)"
proof -
  have ok: "\<forall>c \<in> set cs. comp_ok c" using assms by (simp add: safe_comps_def)
  have split: "split_on CHR ''/'' (join_with ''/'' cs) = cs" if "cs \<noteq> []"
    using split_join_on [OF that, of "CHR ''/''"] ok by (auto simp: comp_ok_def)
  show dot: "rel_of cs = ''.'' \<longleftrightarrow> cs = []"
  proof
    assume d: "rel_of cs = ''.''"
    show "cs = []"
    proof (rule ccontr)
      assume ne: "cs \<noteq> []"
      then have "cs = [''.'']" using split [OF ne] d by (simp add: rel_of_def)
      then show False using ok by (simp add: comp_ok_def)
    qed
  qed (simp add: rel_of_def)
  show "child_relative (rel_of cs) n = rel_of (cs @ [n])"
    using dot by (simp add: child_relative_def) (simp add: rel_of_def join_with_snoc)
  have "join_with ''/'' cs \<noteq> ''''" if ne: "cs \<noteq> []"
  proof
    assume "join_with ''/'' cs = ''''"
    then have "cs = ['''']" using split [OF ne] by simp
    then show False using ok by (simp add: comp_ok_def)
  qed
  then show "\<not> unsafe_newc_path (rel_of cs)"
    using split join_ok_no_slash [OF ok] ok by (auto simp: unsafe_newc_path_def rel_of_def comp_ok_def)
  have "set (join_with sep ps) \<subseteq> set sep \<union> \<Union> (set ` set ps)" for sep ps
    by (induction sep ps rule: join_with.induct) auto
  from subsetD [OF this [of "''/''" cs], of NUL] show "NUL \<notin> set (rel_of cs)"
    using assms by (auto simp: rel_of_def safe_comps_def NUL_def)
qed

lemma rel_of_inj: "safe_comps cs \<Longrightarrow> safe_comps ds \<Longrightarrow> rel_of cs = rel_of ds \<Longrightarrow> cs = ds"
proof -
  assume a: "safe_comps cs" "safe_comps ds" "rel_of cs = rel_of ds"
  then have e: "cs = [] \<longleftrightarrow> ds = []" using rel_of_facts(1) by metis
  show "cs = ds"
  proof (cases "cs = []")
    case False
    with a e have "join_with ''/'' cs = join_with ''/'' ds" by (simp add: rel_of_def)
    then show ?thesis using join_with_inj [of "CHR ''/''" cs ds] a e False by (auto simp: safe_comps_def comp_ok_def)
  qed (use e in simp)
qed

lemma push_children_comps:
  assumes "safe_comps cs"
  shows "push_children (rel_of cs) current (map (map_prod rel_of id) stk) =
    map (map_prod rel_of id) (map (\<lambda>(n, c). (cs @ [n], c)) (sort_key fst (h_children current)) @ stk)"
  by (auto simp: push_children_def rel_of_facts(2) [OF assms])

lemma tree_paths_children:
  "mset (concat (map (\<lambda>(cs, c). tree_paths cs c) (map (\<lambda>(n, c). (cs @ [n], c)) (sort_key fst (h_children current)) @ stk))) + {#cs#}
   = mset (concat (map (\<lambda>(cs, c). tree_paths cs c) ((cs, current) # stk)))"
proof -
  have "mset (concat (map (\<lambda>(n, c). tree_paths (cs @ [n]) c) (sort_key fst kids))) = mset (concat (map (\<lambda>(n, c). tree_paths (cs @ [n]) c) kids))" for kids
    by (simp add: mset_concat flip: sum_mset_sum_list)
  then show ?thesis by (cases current) (simp add: comp_def case_prod_unfold)
qed

lemma scan_loop_paths:
  assumes "scan_loop (map (map_prod rel_of id) stk) raw = Inr out"
    and "\<forall>(cs, c) \<in> set stk. safe_comps cs \<and> listing_ok c"
  shows "\<exists>css. map fst out = map fst raw @ map rel_of css \<and> (\<forall>cs \<in> set css. safe_comps cs)
    \<and> mset css \<subseteq># mset (concat (map (\<lambda>(cs, c). tree_paths cs c) stk))"
  using assms
proof (induction "map (map_prod rel_of id) stk" raw arbitrary: stk rule: scan_loop.induct)
  case (1 raw)
  then show ?case by simp
next
  case (2 relative current stack raw)
  then obtain cs stk' where stk: "stk = (cs, current) # stk'" "relative = rel_of cs" "stack = map (map_prod rel_of id) stk'"
    by (cases stk) auto
  have safe: "safe_comps cs" "listing_ok current" "\<forall>(cs, c) \<in> set stk'. safe_comps cs \<and> listing_ok c" using 2(5) stk by auto
  have run0: "scan_loop ((relative, current) # stack) raw = Inr out" using 2(4) by (simp only: 2(3))
  then obtain info where info: "h_stat current = Inr info" unfolding scan_loop.simps bindE_Inr by (elim exE conjE) (rule that)
  show ?case
  proof (cases "S_ISDIR (st_mode info)")
    case True
    let ?stk = "map (\<lambda>(n, c). (cs @ [n], c)) (sort_key fst (h_children current)) @ stk'"
    from run0 info True have e: "h_scan_error current = None" and names: "\<not> (\<exists>(name, child) \<in> set (h_children current). unsafe_name name)"
      and run: "scan_loop (push_children relative current stack) (raw @ [(relative, info)]) = Inr out"
      by (auto split: option.splits if_splits)
    have push: "push_children relative current stack = map (map_prod rel_of id) ?stk"
      unfolding stk by (rule push_children_comps [OF safe(1)])
    have ok: "\<forall>(cs, c) \<in> set ?stk. safe_comps cs \<and> listing_ok c"
    proof -
      have "comp_ok n \<and> NUL \<notin> set n \<and> listing_ok c" if k: "(n, c) \<in> set (h_children current)" for n c
      proof -
        have u: "\<not> unsafe_name n" using names k by fast
        have "n \<noteq> ''''" "listing_ok c" using safe(2) k by (cases current, force)+
        then show ?thesis using u by (simp add: comp_ok_def unsafe_name_def)
      qed
      then show ?thesis using safe(1,3) by (auto simp: safe_comps_def)
    qed
    from 2(1) [OF True e names push run [unfolded push] ok] obtain css where
      css: "map fst out = map fst (raw @ [(relative, info)]) @ map rel_of css" "\<forall>cs \<in> set css. safe_comps cs"
      "mset css \<subseteq># mset (concat (map (\<lambda>(cs, c). tree_paths cs c) ?stk))" by (elim exE conjE) (rule that)
    have "mset (cs # css) \<subseteq># mset (concat (map (\<lambda>(cs, c). tree_paths cs c) stk))"
      unfolding stk(1) tree_paths_children [symmetric] using css(3) by simp
    then show ?thesis using css(1,2) safe(1) stk(2) by (intro exI [of _ "cs # css"]) simp
  next
    case False
    with run0 info have run: "scan_loop stack (raw @ [(relative, info)]) = Inr out" by simp
    from 2(2) [OF False stk(3) run [unfolded stk(3)] safe(3)] obtain css where
      css: "map fst out = map fst (raw @ [(relative, info)]) @ map rel_of css" "\<forall>cs \<in> set css. safe_comps cs"
      "mset css \<subseteq># mset (concat (map (\<lambda>(cs, c). tree_paths cs c) stk'))" by (elim exE conjE) (rule that)
    have "mset (cs # css) \<subseteq># mset (concat (map (\<lambda>(cs, c). tree_paths cs c) stk))"
      unfolding stk(1) using css(3) by (cases current) (simp add: subset_mset.add_increasing)
    then show ?thesis using css(1,2) safe(1) stk(2) by (intro exI [of _ "cs # css"]) simp
  qed
qed

lemma distinct_submultiset:
  assumes "mset xs \<subseteq># mset ys" and "distinct ys" shows "distinct xs"
  unfolding distinct_count_atmost_1
proof
  fix a
  have "count (mset xs) a \<le> count (mset ys) a" using assms(1) by (rule mset_subset_eq_count)
  also have "\<dots> \<le> 1" using assms(2) by (simp add: distinct_count_atmost_1)
  finally have "count (mset xs) a \<le> 1" .
  moreover have "count (mset xs) a \<noteq> 0" if "a \<in> set xs" using that by (simp only: count_mset_0_iff) simp
  moreover have "count (mset xs) a = 0" if "a \<notin> set xs" using that by (simp only: count_mset_0_iff) simp
  ultimately show "count (mset xs) a = (if a \<in> set xs then 1 else 0)" by (metis One_nat_def le_SucE le_zero_eq)
qed

lemma scan_loop_distinct:
  assumes "scan_loop [(''.'', tree)] [] = Inr walked" and "listing_ok tree"
  shows "distinct (map fst walked)" and "\<forall>p \<in> fst ` set walked. \<not> unsafe_newc_path p \<and> NUL \<notin> set p"
proof -
  have "scan_loop (map (map_prod rel_of id) [([], tree)]) [] = Inr walked" using assms(1) by (simp add: rel_of_def)
  from scan_loop_paths [OF this] assms(2) obtain css where css: "map fst walked = map rel_of css" "\<forall>cs \<in> set css. safe_comps cs"
    "mset css \<subseteq># mset (tree_paths [] tree)" by (auto simp: safe_comps_def)
  have "distinct css" by (rule distinct_submultiset [OF css(3) tree_paths_distinct [OF assms(2)]])
  moreover have "inj_on rel_of (set css)" using css(2) rel_of_inj by (auto simp: inj_on_def)
  ultimately show "distinct (map fst walked)" unfolding css(1) by (simp add: distinct_map)
  have "fst ` set walked = rel_of ` set css" using css(1) by (metis list.set_map)
  then show "\<forall>p \<in> fst ` set walked. \<not> unsafe_newc_path p \<and> NUL \<notin> set p" using css(2) rel_of_facts(3,4) by auto
qed

section \<open>The entries\<close>

definition same_file :: "stat_info \<Rightarrow> nat \<times> nat" where
  "same_file info = (st_dev info, st_ino info)"

definition scanned_entry :: "(bytes \<Rightarrow> string) \<Rightarrow> observed_calls \<Rightarrow> ((nat \<times> nat) \<times> string) list \<Rightarrow> (string \<rightharpoonup> bytes) \<Rightarrow>
    string \<times> stat_info \<Rightarrow> entry \<Rightarrow> bool" where
  "scanned_entry sha256 env ids contents = (\<lambda>(relative, info) e.
     e_path e = relative \<and> e_mode e = st_mode info \<and> e_uid e = st_uid info \<and> e_gid e = st_gid info
     \<and> ((\<forall>key h. map_of ids key = Some h \<longrightarrow> h \<noteq> []) \<longrightarrow> described sha256 contents e)
     \<and> (e_hardlink e \<noteq> None \<longrightarrow> e_hardlink e = map_of ids (same_file info)
        \<and> (\<exists>d fd after. read_file env relative = Inr (d, fd, after) \<and> same_file fd = same_file info \<and> contents relative = Some d))
     \<and> (\<forall>t. e_target e = Some t \<longrightarrow> safe_target relative t))"

lemma scan_entry_Inr:
  assumes "scan_entry sha256 env ids (es, c) (relative, info) = Inr (es', c')" and "c relative = None"
  shows "\<exists>e. es' = es @ [e] \<and> (\<forall>x. x \<noteq> relative \<longrightarrow> c' x = c x) \<and> (\<forall>c2. c2 relative = c' relative \<longrightarrow> scanned_entry sha256 env ids c2 (relative, info) e)"
proof -
  consider (dir) "S_ISDIR (st_mode info)" | (reg) "\<not> S_ISDIR (st_mode info)" "S_ISREG (st_mode info)"
    | (lnk) "\<not> S_ISDIR (st_mode info)" "\<not> S_ISREG (st_mode info)" "S_ISLNK (st_mode info)"
    using assms(1) by (auto simp: scan_entry_def bindE_Inr split: if_splits)
  then show ?thesis
  proof cases
    case dir
    then show ?thesis using assms
      by (auto simp: scan_entry_def bindE_Inr scanned_entry_def common_entry_def described_def)
  next
    case reg
    with assms(1) obtain d where d: "read_stable env relative info = Inr d"
      "es' = es @ [regular_entry sha256 ids relative info d]" "c' = c(relative \<mapsto> d)"
      by (auto simp: scan_entry_def bindE_Inr)
    from d(1) obtain fd after where "read_file env relative = Inr (d, fd, after)" "stat_identity info = stat_identity fd"
      by (auto simp: read_stable_def bindE_Inr split: if_splits)
    then show ?thesis using d(2,3) reg
      by (auto simp: scanned_entry_def regular_entry_def common_entry_def described_def same_file_def stat_identity_def)
  next
    case lnk
    with assms(1) obtain e t where "symlink_entry env relative info = Inr (e, t)" "es' = es @ [e]" "c' = c(relative \<mapsto> t)"
      by (auto simp: scan_entry_def bindE_Inr)
    then show ?thesis using lnk
      by (auto simp: symlink_entry_def bindE_Inr scanned_entry_def common_entry_def described_def split: if_splits)
  qed
qed

lemma scan_entries:
  assumes "forE raw (scan_entry sha256 env ids) (es0, c0) = Inr (es, c)" and "distinct (map fst raw)"
    and "\<forall>x \<in> fst ` set raw. c0 x = None"
  shows "\<exists>new. es = es0 @ new \<and> (\<forall>x. x \<notin> fst ` set raw \<longrightarrow> c x = c0 x) \<and> list_all2 (scanned_entry sha256 env ids c) raw new"
  using assms
proof (induction raw arbitrary: es0 c0)
  case (Cons p raw)
  obtain relative info where p: "p = (relative, info)" by (cases p)
  from Cons.prems(1) obtain es1 c1 where s: "scan_entry sha256 env ids (es0, c0) (relative, info) = Inr (es1, c1)"
    and t: "forE raw (scan_entry sha256 env ids) (es1, c1) = Inr (es, c)" unfolding p by (auto simp: bindE_Inr)
  from scan_entry_Inr [OF s] Cons.prems(3) p obtain e where e: "es1 = es0 @ [e]" "\<forall>x. x \<noteq> relative \<longrightarrow> c1 x = c0 x"
    "\<forall>c2. c2 relative = c1 relative \<longrightarrow> scanned_entry sha256 env ids c2 (relative, info) e" by auto
  have "relative \<notin> fst ` set raw" "\<forall>x \<in> fst ` set raw. c0 x = None" using Cons.prems(2,3) p by auto
  then have "\<forall>x \<in> fst ` set raw. c1 x = None" using e(2) by metis
  from Cons.IH [OF t _ this] Cons.prems(2) obtain new where new: "es = es1 @ new" "\<forall>x. x \<notin> fst ` set raw \<longrightarrow> c x = c1 x"
    "list_all2 (scanned_entry sha256 env ids c) raw new" by auto
  have "c relative = c1 relative" using new(2) Cons.prems(2) p by simp
  then show ?case using new e p by (intro exI [of _ "e # new"]) auto
qed simp

text \<open>Two names of one file read the same bytes.\<close>

definition stable_inodes :: "observed_calls \<Rightarrow> bool" where
  "stable_inodes env \<longleftrightarrow> (\<forall>p q d fd a d' fd' a'. read_file env p = Inr (d, fd, a) \<and> read_file env q = Inr (d', fd', a')
     \<and> same_file fd = same_file fd' \<longrightarrow> d = d')"

text \<open>No two hardlink groups of the tree get the same truncated digest.\<close>

definition no_collision :: "(bytes \<Rightarrow> string) \<Rightarrow> held \<Rightarrow> bool" where
  "no_collision sha256 tree \<longleftrightarrow> (\<forall>walked ids. scan_loop [(''.'', tree)] [] = Inr walked
     \<and> hardlink_ids sha256 (hardlink_groups (sort_key fst walked)) = Inr ids \<longrightarrow> distinct (map snd ids))"

text \<open>What the format can hold: 32-bit fields, 16-bit modes, no entry named like the trailer.\<close>

definition fits_newc :: "entry list \<Rightarrow> (string \<rightharpoonup> bytes) \<Rightarrow> bool" where
  "fits_newc es contents \<longleftrightarrow> length es < 2 ^ 32 - 1
     \<and> (\<forall>e \<in> set es. e_path e \<noteq> ''TRAILER!!!'' \<and> fits32 (length (e_path e) + 1) \<and> e_mode e < 65536
          \<and> fits32 (e_uid e) \<and> fits32 (e_gid e) \<and> (\<forall>d. contents (e_path e) = Some d \<longrightarrow> fits32 (length d)))"

lemma mapE_mem: "mapE f xs = Inr ys \<Longrightarrow> y \<in> set ys \<Longrightarrow> \<exists>x \<in> set xs. f x = Inr y"
  by (induction xs arbitrary: ys) (auto simp: bindE_Inr)

lemma hardlink_ids_nonempty:
  assumes "hardlink_ids sha256 gs = Inr ids" and "map_of ids key = Some h" shows "h \<noteq> []"
proof -
  have "(key, h) \<in> set ids" using assms(2) by (rule map_of_SomeD)
  from mapE_mem [OF assms(1) [unfolded hardlink_ids_def] this] show ?thesis by (auto simp: hardlink_id_def bindE_Inr)
qed

lemma ids_distinct:
  assumes "distinct (map snd ids)" and "map_of ids k1 = Some h" and "map_of ids k2 = Some h" shows "k1 = k2"
proof -
  have "(k1, h) \<in> set ids" "(k2, h) \<in> set ids" using assms by (auto dest: map_of_SomeD)
  then show ?thesis using assms(1) unfolding distinct_map inj_on_def by (metis prod.inject snd_conv)
qed

lemma scan_held_Inr:
  assumes "scan_held sha256 env tree = Inr (es, contents)"
  obtains walked ids where "scan_loop [(''.'', tree)] [] = Inr walked"
    and "hardlink_ids sha256 (hardlink_groups (sort_key fst walked)) = Inr ids"
    and "check_boundary (sort_key fst walked) (hardlink_groups (sort_key fst walked)) = Inr ()"
    and "forE (sort_key fst walked) (scan_entry sha256 env ids) ([], Map.empty) = Inr (es, contents)"
    and "revalidate_tree (final_tree env) (sort_key fst walked) = Inr ()"
  using assms unfolding scan_held_def Let_def bindE_Inr by (elim exE conjE) (rule that, auto)

lemma list_all2_map_eq: "list_all2 P xs ys \<Longrightarrow> (\<And>x y. P x y \<Longrightarrow> f y = g x) \<Longrightarrow> map f ys = map g xs"
  by (induction xs ys rule: list_all2_induct) auto

lemma list_all2_mem: "list_all2 P xs ys \<Longrightarrow> y \<in> set ys \<Longrightarrow> \<exists>x \<in> set xs. P x y"
  by (induction xs ys rule: list_all2_induct) auto

lemma scanned_path: "scanned_entry sha256 env ids contents p e \<Longrightarrow> e_path e = fst p"
  by (auto simp: scanned_entry_def)

lemma scanned_link:
  assumes "scanned_entry sha256 env ids contents (relative, info) e" and "e_hardlink e = Some h"
  obtains d fd after where "map_of ids (same_file info) = Some h" "read_file env relative = Inr (d, fd, after)"
    "same_file fd = same_file info" "contents relative = Some d"
  using assms by (auto simp: scanned_entry_def)

lemma scan_held_described:
  assumes scan: "scan_held sha256 env tree = Inr (es, contents)" and l: "listing_ok tree"
    and st: "stable_inodes env" and nc: "no_collision sha256 tree"
  shows "distinct (map e_path es)" and "links_agree es contents"
    and "e \<in> set es \<Longrightarrow> described sha256 contents e \<and> \<not> unsafe_newc_path (e_path e) \<and> NUL \<notin> set (e_path e)"
proof -
  from scan obtain walked ids where w: "scan_loop [(''.'', tree)] [] = Inr walked"
    and ids: "hardlink_ids sha256 (hardlink_groups (sort_key fst walked)) = Inr ids"
    and run: "forE (sort_key fst walked) (scan_entry sha256 env ids) ([], Map.empty) = Inr (es, contents)"
    by (rule scan_held_Inr)
  define raw where "raw = sort_key fst walked"
  have set: "set raw = set walked" and "mset (map fst raw) = mset (map fst walked)" by (simp_all add: raw_def)
  then have dist: "distinct (map fst raw)" using scan_loop_distinct(1) [OF w l] mset_eq_imp_distinct_iff by blast
  have rel: "list_all2 (scanned_entry sha256 env ids contents) raw es"
    using scan_entries [OF run [folded raw_def] dist] by auto
  have paths: "map e_path es = map fst raw"
    using rel scanned_path by (rule list_all2_map_eq)
  then show "distinct (map e_path es)" using dist by simp
  have each: "\<exists>info. (e_path e, info) \<in> set raw \<and> scanned_entry sha256 env ids contents (e_path e, info) e" if "e \<in> set es" for e
    using list_all2_mem [OF rel that] scanned_path by (metis prod.collapse)
  have ne: "\<forall>key h. map_of ids key = Some h \<longrightarrow> h \<noteq> []" using hardlink_ids_nonempty [OF ids] by blast
  show "described sha256 contents e \<and> \<not> unsafe_newc_path (e_path e) \<and> NUL \<notin> set (e_path e)" if "e \<in> set es"
    using each [OF that] scan_loop_distinct(2) [OF w l] ne set by (auto simp: scanned_entry_def)
  have inj: "distinct (map snd ids)" using nc w ids by (auto simp: no_collision_def)
  have "contents (e_path e) = contents (e_path f)" if ef: "e \<in> set es" "f \<in> set es" "hardlink_of e = Some h" "hardlink_of f = Some h" for e f h
  proof -
    have h: "e_hardlink e = Some h" "e_hardlink f = Some h" using ef by (auto simp: hardlink_of_def split: option.splits if_splits)
    obtain i j where i: "scanned_entry sha256 env ids contents (e_path e, i) e" "scanned_entry sha256 env ids contents (e_path f, j) f"
      using each ef by blast
    obtain d fd a where d: "map_of ids (same_file i) = Some h" "read_file env (e_path e) = Inr (d, fd, a)" "same_file fd = same_file i"
      "contents (e_path e) = Some d" using i(1) h(1) by (rule scanned_link)
    obtain d' fd' a' where d': "map_of ids (same_file j) = Some h" "read_file env (e_path f) = Inr (d', fd', a')" "same_file fd' = same_file j"
      "contents (e_path f) = Some d'" using i(2) h(2) by (rule scanned_link)
    have "same_file i = same_file j" using ids_distinct [OF inj d(1) d'(1)] .
    then have "d = d'" using st d(2,3) d'(2,3) unfolding stable_inodes_def by metis
    then show ?thesis using d(4) d'(4) by simp
  qed
  then show "links_agree es contents" unfolding links_agree_def by (metis not_None_eq)
qed

lemma manifest_schema: "check_schema (manifest_body es) = Inr (map manifest_entry es)"
proof -
  have n: "py_eq (JObj
        [(''archive'', JStr ''cpio-newc''), (''mtime'', JInt 0),
         (''inode_assignment'', JStr ''lexical-path-with-hardlink-groups''),
         (''xattrs'', JStr ''rejected-except-realized-overlay-opacity''),
         (''overlay_opacity'', JStr ''materialized-view-normalized''),
         (''sparse_extents'', JStr ''normalized-to-regular-bytes''), (''device_nodes'', JStr ''rejected'')]) required_normalization"
    by code_simp
  have m: "mapE (\<lambda>entry. case entry of JObj e \<Rightarrow> Inr e
               | _ \<Rightarrow> Inl (VerificationError ''manifest entries must be objects'')) (map (JObj \<circ> manifest_entry) es) = Inr (map manifest_entry es)"
    by (induction es) auto
  show ?thesis unfolding check_schema_def manifest_body_def using n m by (simp add: same_keys_def jget_def)
qed

lemma manifest_wf: "wf_json (manifest_body es)"
proof -
  have "wf_json (JObj (manifest_entry e))" for e
    by (auto simp: manifest_entry_def optional_field_def split: option.splits)
  then show ?thesis by (auto simp: manifest_body_def)
qed

section \<open>Properties\<close>


text \<open>A directory with two names of one file and a symbolic link.\<close>

definition sample_stat :: "nat \<Rightarrow> nat \<Rightarrow> nat \<Rightarrow> stat_info" where
  "sample_stat mode ino nlink = \<lparr>st_mode = mode, st_uid = 0, st_gid = 0, st_nlink = nlink, st_size = 0, st_dev = 1, st_ino = ino,
     st_rdev = 0, st_mtime_ns = 0, st_ctime_ns = 0\<rparr>"

definition sample_tree :: held where
  "sample_tree = Held (Inr (sample_stat 16877 2 2)) None
     [(''l'', Held (Inr (sample_stat 41471 4 1)) None []), (''b'', Held (Inr (sample_stat 33188 3 2)) None []),
      (''a'', Held (Inr (sample_stat 33188 3 2)) None [])]"

definition sample_calls :: observed_calls where
  "sample_calls = \<lparr>listxattr = (\<lambda>_. Inr []), getxattr = (\<lambda>_ _. Inr []), read_file = (\<lambda>_. Inr (''hi'', sample_stat 33188 3 2, sample_stat 33188 3 2)),
     readlink = (\<lambda>_. Inr (''a'', sample_stat 41471 4 1)), final_tree = sample_tree\<rparr>"

definition sample_scanned :: "entry list" where
  "sample_scanned = [common_entry ''.'' (sample_stat 16877 2 2) ''directory'' 0,
     (common_entry ''a'' (sample_stat 33188 3 2) ''regular'' 2)\<lparr>e_digest := Some ''d'', e_hardlink := Some ''hd''\<rparr>,
     (common_entry ''b'' (sample_stat 33188 3 2) ''regular'' 2)\<lparr>e_digest := Some ''d'', e_hardlink := Some ''hd''\<rparr>,
     (common_entry ''l'' (sample_stat 41471 4 1) ''symlink'' 1)\<lparr>e_target := Some ''a''\<rparr>]"

lemma sample_modes:
  "S_ISDIR 16877" "\<not> S_ISDIR 33188" "S_ISREG 33188" "\<not> S_ISDIR 41471" "\<not> S_ISREG 41471" "S_ISLNK 41471" "\<not> S_ISREG 16877"
  by (simp_all add: S_ISDIR_def S_ISREG_def S_ISLNK_def s_ifmt_def)

lemma sample_walk:
  "scan_loop [(''.'', sample_tree)] [] = Inr [(''.'', sample_stat 16877 2 2), (''a'', sample_stat 33188 3 2), (''b'', sample_stat 33188 3 2), (''l'', sample_stat 41471 4 1)]"
  by (simp add: sample_tree_def sample_stat_def sample_modes push_children_def child_relative_def unsafe_name_def NUL_def)

lemma sample_observe:
  "observe_loop [(''.'', sample_tree)] [] = Inr [(''.'', sample_stat 16877 2 2), (''a'', sample_stat 33188 3 2), (''b'', sample_stat 33188 3 2), (''l'', sample_stat 41471 4 1)]"
  by (simp add: sample_tree_def sample_stat_def sample_modes push_children_def child_relative_def)

lemma sample_scan:
  "scan_held (\<lambda>_. ''d'') sample_calls sample_tree = Inr (sample_scanned, [''a'' \<mapsto> ''hi'', ''b'' \<mapsto> ''hi'', ''l'' \<mapsto> ''a''])"
proof -
  have "hardlink_id (\<lambda>_. ''d'') [''a'', ''b''] = Inr ''hd''" by code_simp
  moreover have "safe_target ''l'' ''a''" by code_simp
  ultimately show ?thesis
  by (simp add: scan_held_def sample_walk sample_calls_def sample_observe revalidate_tree_def sample_scanned_def sample_stat_def sample_modes
      hardlink_groups_def hardlink_ids_def check_boundary_def scan_entry_def check_xattrs_def read_stable_def regular_entry_def symlink_entry_def
      common_entry_def raise_if_def Let_def del: scan_loop.simps observe_loop.simps)
qed


lemma norm_comps_dots: "''..'' \<in> set acc \<Longrightarrow> ''..'' \<in> set (norm_comps False acc parts)"
proof (induction parts arbitrary: acc)
  case (Cons p parts)
  have "''..'' \<in> set (tl acc)" if "hd acc \<noteq> ''..''" using Cons.prems that by (cases acc) auto
  then show ?case using Cons by auto
qed simp

lemma norm_comps_clean: "\<forall>c \<in> set cs. comp_ok c \<Longrightarrow> norm_comps False acc (cs @ parts) = norm_comps False (rev cs @ acc) parts"
  by (induction cs arbitrary: acc) (auto simp: comp_ok_def)

lemma safe_depth_norm:
  "''..'' \<notin> set acc \<Longrightarrow> safe_depth (length acc) parts \<longleftrightarrow> ''..'' \<notin> set (norm_comps False acc parts)"
proof (induction parts arbitrary: acc)
  case (Cons p parts)
  consider "p = '''' \<or> p = ''.''" | "p = ''..''" "acc = []" | "p = ''..''" "acc \<noteq> []" | "p \<noteq> ''''" "p \<noteq> ''.''" "p \<noteq> ''..''" by blast
  then show ?case
  proof cases
    case 2
    then show ?thesis using norm_comps_dots [of "[''..'']" parts] by simp
  next
    case 3
    then have "hd acc \<noteq> ''..''" "''..'' \<notin> set (tl acc)" using Cons.prems by (cases acc; auto)+
    then show ?thesis using 3 Cons.IH [of "tl acc"] by simp
  next
    case 4
    then show ?thesis using Cons.IH [of "p # acc"] Cons.prems by simp
  qed (use Cons in auto)
qed simp

lemma dirname_rel_of:
  assumes "safe_comps cs" and "cs \<noteq> []"
  shows "filter (\<lambda>part. part \<notin> {'''', ''.''}) (split_on CHR ''/'' (posix_dirname (rel_of cs))) = butlast cs"
proof -
  obtain ds c where cs: "cs = ds @ [c]" using assms(2) by (metis append_butlast_last_id)
  have ok: "\<forall>d \<in> set ds. comp_ok d" and c: "CHR ''/'' \<notin> set c" using assms(1) by (auto simp: cs safe_comps_def comp_ok_def)
  have drop: "dropWhile (\<lambda>x. x \<noteq> CHR ''/'') (rev c @ ys) = dropWhile (\<lambda>x. x \<noteq> CHR ''/'') ys" for ys
    using c by (intro dropWhile_append2) auto
  show ?thesis
  proof (cases "ds = []")
    case True
    have e: "dropWhile (\<lambda>x. x \<noteq> CHR ''/'') (rev c) = []" using c by auto
    have "posix_dirname c = ''''" unfolding posix_dirname_def e by simp
    then show ?thesis using True by (simp add: cs rel_of_def)
  next
    case False
    let ?j = "join_with ''/'' ds"
    obtain es e where ds: "ds = es @ [e]" using False by (metis append_butlast_last_id)
    obtain x e' where e: "e = e' @ [x]" "x \<noteq> CHR ''/''" using ok ds by (cases e rule: rev_cases) (auto simp: comp_ok_def)
    then have j: "?j = (if es = [] then [] else join_with ''/'' es @ ''/'') @ e' @ [x]" using ds by (simp add: join_with_snoc)
    have "rel_of cs = ?j @ CHR ''/'' # c" using False by (simp add: cs rel_of_def join_with_snoc)
    then have "posix_dirname (rel_of cs) = ?j" using drop [of "CHR ''/'' # rev ?j"] e(2) by (simp add: posix_dirname_def j)
    moreover have "split_on CHR ''/'' ?j = ds" using split_join_on [OF False, of "CHR ''/''"] ok by (auto simp: comp_ok_def)
    ultimately show ?thesis using ok by (simp add: cs comp_ok_def filter_id_conv)
  qed
qed

text \<open>
  C24. The depth count of \<open>_safe_target\<close> decides lexical containment: a target is accepted exactly when
  it is absolute or the normalised join of the link's directory and the target has no \<open>..\<close> component.
\<close>

theorem safe_target_iff:
  assumes "safe_comps cs" and "cs \<noteq> []"
  shows "safe_target (rel_of cs) target \<longleftrightarrow>
     startswith target ''/'' \<or> ''..'' \<notin> set (norm_comps False [] (butlast cs @ split_on CHR ''/'' target))"
proof (cases "startswith target ''/''")
  case False
  have ok: "\<forall>c \<in> set (butlast cs). comp_ok c" using assms(1) by (auto simp: safe_comps_def dest: in_set_butlastD)
  have "safe_target (rel_of cs) target \<longleftrightarrow> safe_depth (length (rev (butlast cs))) (split_on CHR ''/'' target)"
    using False dirname_rel_of [OF assms] by (simp add: safe_target_def)
  also have "\<dots> \<longleftrightarrow> ''..'' \<notin> set (norm_comps False (rev (butlast cs)) (split_on CHR ''/'' target))"
    using ok by (intro safe_depth_norm) (auto simp: comp_ok_def)
  finally show ?thesis using norm_comps_clean [OF ok, of "[]"] False by simp
qed (simp add: safe_target_def)

theorem safe_target_iff_witness: "safe_target ''usr/lib/l'' ''../bin/sh'' \<and> \<not> safe_target ''usr/l'' ''../../etc''"
proof -
  have a: "safe_comps [''usr'', ''lib'', ''l'']" "safe_comps [''usr'', ''l'']" by (simp_all add: safe_comps_def comp_ok_def NUL_def)
  show ?thesis using safe_target_iff [OF a(1)] safe_target_iff [OF a(2)] by (simp add: rel_of_def)
qed

end
