(* ===== verification/Tree_Fs.thy ===== *)
theory Tree_Fs
  imports Machine Py_Path Py_Os
begin

text \<open>
  The file system as the installation managers use it: a map from paths, given by their components below
  the root the command works on, to directories, files and symbolic links.  Paths are looked up
  lexically, which is what the kernel does as long as no directory on the way is a symbolic link;
  the deployment manager checks that.  Calls that change the tree or force it to disk may
  fail, as scheduled in the state; calls that only look are taken to succeed or to report that the path is
  missing.  Removing a tree is one call.
\<close>

type_synonym path = "string list"

datatype obj = ODir stat_info | OFile stat_info bytes | OLink string | OOther stat_info

text \<open>
  \<open>leads\<close> is what a symbolic link finally resolves to, \<open>euid\<close> and \<open>pid\<close> are \<open>os.geteuid()\<close> and the text of \<open>os.getpid()\<close>.
\<close>

record tree = machine +
  objs :: "path \<rightharpoonup> obj"
  leads :: "path \<Rightarrow> obj option"
  euid :: nat
  pid :: string

type_synonym 'a top = "(tree, 'a) prog"

section \<open>Queries\<close>

fun is_link :: "obj option \<Rightarrow> bool" where
  "is_link (Some (OLink _)) = True" | "is_link _ = False"

fun is_directory :: "obj option \<Rightarrow> bool" where
  "is_directory (Some (ODir _)) = True" | "is_directory _ = False"

text \<open>\<open>os.path.lexists\<close>, \<open>is_symlink\<close>, \<open>readlink\<close>, and \<open>exists\<close> and \<open>is_dir\<close>, which follow links.\<close>

definition lexists :: "tree \<Rightarrow> path \<Rightarrow> bool" where
  "lexists s p \<longleftrightarrow> objs s p \<noteq> None"

definition is_symlink :: "tree \<Rightarrow> path \<Rightarrow> bool" where
  "is_symlink s p \<longleftrightarrow> is_link (objs s p)"

definition readlink :: "tree \<Rightarrow> path \<Rightarrow> string res" where
  "readlink s p =
     (case objs s p of None \<Rightarrow> Inl (FileNotFoundError (join_with ''/'' p))
      | Some (OLink t) \<Rightarrow> Inr t | Some _ \<Rightarrow> Inl (OSError ''not a symbolic link''))"

definition followed :: "tree \<Rightarrow> path \<Rightarrow> obj option" where
  "followed s p = (if is_symlink s p then leads s p else objs s p)"

definition path_exists :: "tree \<Rightarrow> path \<Rightarrow> bool" where
  "path_exists s p \<longleftrightarrow> followed s p \<noteq> None"

definition is_dir :: "tree \<Rightarrow> path \<Rightarrow> bool" where
  "is_dir s p \<longleftrightarrow> is_directory (followed s p)"

fun obj_stat :: "obj \<Rightarrow> stat_info option" where
  "obj_stat (ODir st) = Some st" | "obj_stat (OFile st _) = Some st" | "obj_stat (OOther st) = Some st" | "obj_stat (OLink _) = None"

text \<open>The mode bits that \<open>lstat\<close> reports; those of a symbolic link are \<open>0o120777\<close>.\<close>

definition lstat_mode :: "tree \<Rightarrow> path \<Rightarrow> nat res" where
  "lstat_mode s p =
     (case objs s p of None \<Rightarrow> Inl (FileNotFoundError (join_with ''/'' p))
      | Some x \<Rightarrow> Inr (case obj_stat x of Some st \<Rightarrow> st_mode st | None \<Rightarrow> 41471))"

text \<open>The names in a directory.\<close>

definition children :: "tree \<Rightarrow> path \<Rightarrow> string set" where
  "children s p = {c. objs s (p @ [c]) \<noteq> None}"

section \<open>System calls\<close>

definition new_stat :: "nat \<Rightarrow> nat \<Rightarrow> nat \<Rightarrow> stat_info" where
  "new_stat mode uid sz = \<lparr>st_mode = mode, st_uid = uid, st_gid = 0, st_nlink = 1, st_size = sz, st_dev = 0, st_ino = 0, st_rdev = 0,
     st_mtime_ns = 0, st_ctime_ns = 0\<rparr>"

definition has_parent :: "tree \<Rightarrow> path \<Rightarrow> bool" where
  "has_parent s p \<longleftrightarrow> butlast p = [] \<or> is_directory (objs s (butlast p))"

definition place :: "(tree \<Rightarrow> obj) \<Rightarrow> path \<Rightarrow> unit top" where
  "place x p = syscall (\<lambda>s.
     if objs s p \<noteq> None then (Inl (FileExistsError (join_with ''/'' p)), s)
     else if \<not> has_parent s p then (Inl (FileNotFoundError (join_with ''/'' p)), s)
     else (Inr (), s\<lparr>objs := (objs s)(p := Some (x s))\<rparr>))"

definition sys_mkdir :: "nat \<Rightarrow> path \<Rightarrow> unit top" where
  "sys_mkdir mode = place (\<lambda>s. ODir (new_stat (16384 + mode) (euid s) 0))"

definition sys_symlink :: "string \<Rightarrow> path \<Rightarrow> unit top" where
  "sys_symlink target = place (\<lambda>_. OLink target)"

definition sys_create_file :: "nat \<Rightarrow> path \<Rightarrow> unit top" where
  "sys_create_file mode = place (\<lambda>s. OFile (new_stat (32768 + mode) (euid s) 0) [])"

definition sys_put :: "path \<Rightarrow> bytes \<Rightarrow> unit top" where
  "sys_put p data = syscall (\<lambda>s. case objs s p of
       Some (OFile st _) \<Rightarrow> (Inr (), s\<lparr>objs := (objs s)(p := Some (OFile (st\<lparr>st_size := length data\<rparr>) data))\<rparr>)
     | _ \<Rightarrow> (Inl (OSError ''not a file''), s))"

definition sys_chmod :: "nat \<Rightarrow> path \<Rightarrow> unit top" where
  "sys_chmod mode p = syscall (\<lambda>s. case objs s p of
       Some (OFile st data) \<Rightarrow> (Inr (), s\<lparr>objs := (objs s)(p := Some (OFile (st\<lparr>st_mode := 32768 + mode\<rparr>) data))\<rparr>)
     | Some (ODir st) \<Rightarrow> (Inr (), s\<lparr>objs := (objs s)(p := Some (ODir (st\<lparr>st_mode := 16384 + mode\<rparr>)))\<rparr>)
     | _ \<Rightarrow> (Inl (FileNotFoundError (join_with ''/'' p)), s))"

definition sys_chown :: "nat \<Rightarrow> nat \<Rightarrow> path \<Rightarrow> unit top" where
  "sys_chown uid gid p = syscall (\<lambda>s. case objs s p of
       Some (OFile st data) \<Rightarrow> (Inr (), s\<lparr>objs := (objs s)(p := Some (OFile (st\<lparr>st_uid := uid, st_gid := gid\<rparr>) data))\<rparr>)
     | Some (ODir st) \<Rightarrow> (Inr (), s\<lparr>objs := (objs s)(p := Some (ODir (st\<lparr>st_uid := uid, st_gid := gid\<rparr>)))\<rparr>)
     | _ \<Rightarrow> (Inl (FileNotFoundError (join_with ''/'' p)), s))"

definition sys_remove :: "path \<Rightarrow> unit top" where
  "sys_remove p = syscall (\<lambda>s. case objs s p of
       None \<Rightarrow> (Inl (FileNotFoundError (join_with ''/'' p)), s)
     | Some (ODir _) \<Rightarrow> (Inl (OSError ''is a directory''), s)
     | Some _ \<Rightarrow> (Inr (), s\<lparr>objs := (objs s)(p := None)\<rparr>))"

text \<open>\<open>os.replace\<close> of something that is not a directory.\<close>

definition sys_replace :: "path \<Rightarrow> path \<Rightarrow> unit top" where
  "sys_replace source destination = syscall (\<lambda>s. case objs s source of
       None \<Rightarrow> (Inl (FileNotFoundError (join_with ''/'' source)), s)
     | Some x \<Rightarrow> if is_directory (objs s destination) then (Inl (OSError ''is a directory''), s)
         else (Inr (), s\<lparr>objs := (objs s)(source := None, destination := Some x)\<rparr>))"

text \<open>\<open>os.rename\<close> of a directory to a name that is not in use.\<close>

definition moved :: "path \<Rightarrow> path \<Rightarrow> (path \<rightharpoonup> obj) \<Rightarrow> (path \<rightharpoonup> obj)" where
  "moved source destination m p =
     (if prefix destination p then m (source @ drop (length destination) p)
      else if prefix source p then None else m p)"

definition sys_rename_directory :: "path \<Rightarrow> path \<Rightarrow> unit top" where
  "sys_rename_directory source destination = syscall (\<lambda>s.
     if objs s source = None then (Inl (FileNotFoundError (join_with ''/'' source)), s)
     else if objs s destination \<noteq> None then (Inl (OSError ''destination exists''), s)
     else (Inr (), s\<lparr>objs := moved source destination (objs s)\<rparr>))"

definition sys_rmtree :: "path \<Rightarrow> unit top" where
  "sys_rmtree p = syscall (\<lambda>s.
     if objs s p = None then (Inl (FileNotFoundError (join_with ''/'' p)), s)
     else (Inr (), s\<lparr>objs := (\<lambda>q. if prefix p q then None else objs s q)\<rparr>))"

definition rmtree_ignore_errors :: "path \<Rightarrow> unit top" where
  "rmtree_ignore_errors p = catchS (sys_rmtree p) (\<lambda>e. if is_os_error e then returnS () else raiseS e)"

text \<open>\<open>open\<close>, \<open>fsync\<close> and \<open>close\<close> of a directory.\<close>

definition sync_path :: "path \<Rightarrow> unit top" where
  "sync_path p = bindS sys_noop (\<lambda>_. sys_noop)"

text \<open>\<open>path.mkdir(parents=True, exist_ok=True)\<close>; the components are in reverse order.\<close>

definition mkdir_ok :: "nat \<Rightarrow> path \<Rightarrow> unit top" where
  "mkdir_ok mode p = catchS (sys_mkdir mode p) (\<lambda>e s.
     if is_os_error e \<and> is_dir s p then returnS () s else raiseS e s)"

fun mkdir_parents :: "nat \<Rightarrow> path \<Rightarrow> unit top" where
  "mkdir_parents mode [] = returnS ()"
| "mkdir_parents mode (c # cs) =
     catchS (sys_mkdir mode (rev (c # cs))) (\<lambda>e s.
       if is_missing e then bindS (mkdir_parents 511 cs) (\<lambda>_. mkdir_ok mode (rev (c # cs))) s
       else if is_os_error e \<and> is_dir s (rev (c # cs)) then returnS () s else raiseS e s)"

section \<open>Relative targets\<close>

fun common_prefix :: "path \<Rightarrow> path \<Rightarrow> nat" where
  "common_prefix (a # as) (b # bs) = (if a = b then Suc (common_prefix as bs) else 0)"
| "common_prefix _ _ = 0"

text \<open>\<open>os.path.relpath\<close> of absolute normalised paths.\<close>

definition relpath :: "path \<Rightarrow> path \<Rightarrow> string" where
  "relpath p start =
     (let i = common_prefix p start; parts = replicate (length start - i) ''..'' @ drop i p
      in if parts = [] then ''.'' else join_with ''/'' parts)"

section \<open>Laws\<close>

lemma wp_place [wp_simps]:
  "wp (place x p) Q s \<longleftrightarrow>
     (case faults s (clock s) of
        Some m \<Rightarrow> Q (Inl (OSError m)) (s\<lparr>clock := Suc (clock s), failures := Suc (failures s)\<rparr>)
      | None \<Rightarrow> if objs s p \<noteq> None then Q (Inl (FileExistsError (join_with ''/'' p))) (s\<lparr>clock := Suc (clock s)\<rparr>)
          else if \<not> has_parent s p then Q (Inl (FileNotFoundError (join_with ''/'' p))) (s\<lparr>clock := Suc (clock s)\<rparr>)
          else Q (Inr ()) (s\<lparr>clock := Suc (clock s), objs := (objs s)(p := Some (x (s\<lparr>clock := Suc (clock s)\<rparr>)))\<rparr>))"
  by (auto simp: place_def syscall_def Let_def wp_def has_parent_def split: option.splits)

lemma wp_remove [wp_simps]:
  "wp (sys_remove p) Q s \<longleftrightarrow>
     (case faults s (clock s) of
        Some m \<Rightarrow> Q (Inl (OSError m)) (s\<lparr>clock := Suc (clock s), failures := Suc (failures s)\<rparr>)
      | None \<Rightarrow> if objs s p = None then Q (Inl (FileNotFoundError (join_with ''/'' p))) (s\<lparr>clock := Suc (clock s)\<rparr>)
          else if is_directory (objs s p) then Q (Inl (OSError ''is a directory'')) (s\<lparr>clock := Suc (clock s)\<rparr>)
          else Q (Inr ()) (s\<lparr>clock := Suc (clock s), objs := (objs s)(p := None)\<rparr>))"
  by (auto simp: sys_remove_def syscall_def Let_def wp_def split: option.splits obj.splits)

lemma wp_replace [wp_simps]:
  "wp (sys_replace source destination) Q s \<longleftrightarrow>
     (case faults s (clock s) of
        Some m \<Rightarrow> Q (Inl (OSError m)) (s\<lparr>clock := Suc (clock s), failures := Suc (failures s)\<rparr>)
      | None \<Rightarrow> (case objs s source of
            None \<Rightarrow> Q (Inl (FileNotFoundError (join_with ''/'' source))) (s\<lparr>clock := Suc (clock s)\<rparr>)
          | Some x \<Rightarrow> if is_directory (objs s destination) then Q (Inl (OSError ''is a directory'')) (s\<lparr>clock := Suc (clock s)\<rparr>)
              else Q (Inr ()) (s\<lparr>clock := Suc (clock s), objs := (objs s)(source := None, destination := Some x)\<rparr>)))"
  by (auto simp: sys_replace_def syscall_def Let_def wp_def split: option.splits)

text \<open>What every call keeps, and what may be new after directories were made on the way to \<open>parent\<close>.\<close>

definition same_setting :: "tree \<Rightarrow> tree \<Rightarrow> bool" where
  "same_setting s s' \<longleftrightarrow> runs s s' \<and> leads s' = leads s \<and> euid s' = euid s \<and> pid s' = pid s"

lemma same_setting_refl [simp]: "same_setting s s" by (simp add: same_setting_def)

lemma same_setting_trans: "same_setting s s1 \<Longrightarrow> same_setting s1 s2 \<Longrightarrow> same_setting s s2"
  by (auto simp: same_setting_def intro: runs_trans)

definition grown :: "path \<Rightarrow> (path \<rightharpoonup> obj) \<Rightarrow> (path \<rightharpoonup> obj) \<Rightarrow> bool" where
  "grown parent m m' \<longleftrightarrow> (\<forall>q. m' q = m q \<or> m q = None \<and> is_directory (m' q) \<and> prefix q parent)"

lemma grown_refl [simp]: "grown parent m m" by (simp add: grown_def)

lemma grown_trans: "grown parent m m1 \<Longrightarrow> grown parent m1 m2 \<Longrightarrow> grown parent m m2"
  unfolding grown_def by (metis is_directory.simps(4))

lemma grown_prefix: "grown parent m m' \<Longrightarrow> prefix parent parent' \<Longrightarrow> grown parent' m m'"
  unfolding grown_def by (meson prefix_order.trans)

lemma grown_mkdir: "m p = None \<Longrightarrow> grown p m (m(p := Some (ODir st)))"
  by (auto simp: grown_def)

lemma wp_mkdir: "wp (sys_mkdir mode p) (\<lambda>r s'. same_setting s s' \<and> grown p (objs s) (objs s')) s"
  by (auto simp: sys_mkdir_def wp_simps same_setting_def runs_def grown_mkdir split: option.splits)

lemma wp_mkdir_ok: "wp (mkdir_ok mode p) (\<lambda>r s'. same_setting s s' \<and> grown p (objs s) (objs s')) s"
  using wp_mkdir [of mode p s] by (auto simp: mkdir_ok_def wp_def catchS_def returnS_def raiseS_def split: prod.splits sum.splits)

lemma wp_mkdir_parents: "wp (mkdir_parents mode cs) (\<lambda>r s'. same_setting s s' \<and> grown (rev cs) (objs s) (objs s')) s"
proof (induction cs arbitrary: mode s)
  case (Cons c cs)
  show ?case
  proof (rule wpI)
    fix r s' assume run: "mkdir_parents mode (c # cs) s = (r, s')"
    obtain r1 s1 where m: "sys_mkdir mode (rev (c # cs)) s = (r1, s1)" by fastforce
    note w1 = wpD [OF wp_mkdir m]
    show "same_setting s s' \<and> grown (rev (c # cs)) (objs s) (objs s')"
    proof (cases "\<exists>e. r1 = Inl e \<and> is_missing e")
      case True
      obtain r2 s2 where p: "mkdir_parents 511 cs s1 = (r2, s2)" by fastforce
      note w2 = wpD [OF Cons p]
      have g2: "grown (rev (c # cs)) (objs s1) (objs s2)" using w2 grown_prefix by fastforce
      show ?thesis
      proof (cases r2)
        case (Inl e)
        then show ?thesis using run m p True w1 w2 g2
          by (auto simp: catchS_def bindS_def intro: same_setting_trans grown_trans)
      next
        case (Inr u)
        then have "mkdir_ok mode (rev (c # cs)) s2 = (r, s')" using run m p True by (auto simp: catchS_def bindS_def)
        from wpD [OF wp_mkdir_ok this] show ?thesis using w1 w2 g2 by (meson same_setting_trans grown_trans)
      qed
    next
      case False
      then have "s' = s1" using run m by (auto simp: catchS_def returnS_def raiseS_def split: sum.splits if_splits)
      then show ?thesis using w1 by simp
    qed
  qed
qed (simp add: wp_simps)

section \<open>Frames\<close>

text \<open>A program that leaves every object in place, outside the paths of \<open>D\<close>.\<close>

definition spares :: "(path \<Rightarrow> bool) \<Rightarrow> 'a top \<Rightarrow> bool" where
  "spares D m \<longleftrightarrow> (\<forall>s r s'. m s = (r, s') \<longrightarrow> same_setting s s' \<and> (\<forall>q x. \<not> D q \<longrightarrow> objs s q = Some x \<longrightarrow> objs s' q = Some x))"

named_theorems spares_rules \<open>composition of framed programs\<close>

lemma sparesI:
  "(\<And>s. wp m (\<lambda>r s'. same_setting s s' \<and> (\<forall>q x. \<not> D q \<longrightarrow> objs s q = Some x \<longrightarrow> objs s' q = Some x)) s) \<Longrightarrow> spares D m"
  unfolding spares_def wp_def by (metis fst_conv snd_conv)

lemma sparesD:
  assumes "spares D m" and "m s = (r, s')"
  shows "same_setting s s'" and "\<not> D q \<Longrightarrow> objs s q = Some x \<Longrightarrow> objs s' q = Some x"
  using assms unfolding spares_def by blast+

lemma spares_pure [spares_rules]: "spares D (returnS v)" "spares D (raiseS e)" "spares D (queryS q)" "spares D (raiseE x)"
  by (auto simp: spares_def returnS_def raiseS_def queryS_def raiseE_def split: sum.splits)

lemma spares_step:
  assumes "spares D m" "m s = (r1, s1)" "spares D m'" "m' s1 = (r2, s2)"
  shows "same_setting s s2 \<and> (\<forall>q x. \<not> D q \<longrightarrow> objs s q = Some x \<longrightarrow> objs s2 q = Some x)"
  using sparesD [OF assms(1,2)] sparesD [OF assms(3,4)] same_setting_trans by blast

lemma spares_bind [spares_rules]:
  assumes "spares D m" and "\<And>v. spares D (k v)"
  shows "spares D (bindS m k)"
  unfolding spares_def
proof (intro allI impI)
  fix s r s' assume run: "bindS m k s = (r, s')"
  obtain r1 s1 where m: "m s = (r1, s1)" by fastforce
  show "same_setting s s' \<and> (\<forall>q x. \<not> D q \<longrightarrow> objs s q = Some x \<longrightarrow> objs s' q = Some x)"
  proof (cases r1)
    case Inl
    then show ?thesis using run m sparesD [OF assms(1) m] by (simp add: bindS_def)
  next
    case (Inr v)
    then have "k v s1 = (r, s')" using run m by (simp add: bindS_def)
    then show ?thesis by (rule spares_step [OF assms(1) m assms(2)])
  qed
qed

lemma spares_catch [spares_rules]:
  assumes "spares D m" and "\<And>e. spares D (h e)"
  shows "spares D (catchS m h)"
  unfolding spares_def
proof (intro allI impI)
  fix s r s' assume run: "catchS m h s = (r, s')"
  obtain r1 s1 where m: "m s = (r1, s1)" by fastforce
  show "same_setting s s' \<and> (\<forall>q x. \<not> D q \<longrightarrow> objs s q = Some x \<longrightarrow> objs s' q = Some x)"
  proof (cases r1)
    case (Inl e)
    then have "h e s1 = (r, s')" using run m by (simp add: catchS_def)
    then show ?thesis by (rule spares_step [OF assms(1) m assms(2)])
  next
    case Inr
    then show ?thesis using run m sparesD [OF assms(1) m] by (simp add: catchS_def)
  qed
qed

lemma spares_rollback [spares_rules]: "spares D m \<Longrightarrow> spares D h \<Longrightarrow> spares D (rollbackS m h)"
  unfolding rollbackS_def by (intro spares_rules)

lemma spares_if [spares_rules]: "spares D m \<Longrightarrow> spares D m' \<Longrightarrow> spares D (if c then m else m')"
  by simp

lemma spares_if_state [spares_rules]: "spares D m \<Longrightarrow> spares D m' \<Longrightarrow> spares D (\<lambda>s. if c s then m s else m' s)"
  unfolding spares_def by (metis (no_types, lifting))

lemma spares_for:
  "(\<And>v x. x \<in> set xs \<Longrightarrow> spares D (f v x)) \<Longrightarrow> spares D (forS xs f v)"
proof (induction xs arbitrary: v)
  case Nil
  show ?case by (simp add: spares_pure)
next
  case (Cons x xs)
  show ?case unfolding forS.simps by (rule spares_bind) (simp_all add: Cons)
qed

lemma spares_sync [spares_rules]: "spares D (sync_path p)"
  by (rule sparesI) (auto simp: sync_path_def wp_simps same_setting_def runs_def split: option.splits)

lemma spares_noop [spares_rules]: "spares D sys_noop"
  by (rule sparesI) (auto simp: wp_simps same_setting_def runs_def split: option.splits)

text \<open>New objects displace nothing; other changes are at the path they are made at.\<close>

lemma spares_place: "spares D (place x p)"
  by (rule sparesI) (auto simp: wp_simps same_setting_def runs_def split: option.splits)

lemma spares_new [spares_rules]:
  "spares D (sys_mkdir mode p)" "spares D (sys_symlink t p)" "spares D (sys_create_file mode p)"
  unfolding sys_mkdir_def sys_symlink_def sys_create_file_def by (rule spares_place)+

lemma spares_put: "D p \<Longrightarrow> spares D (sys_put p data)"
  by (rule sparesI) (auto simp: sys_put_def syscall_def Let_def same_setting_def runs_def wp_def split: option.splits obj.splits)

lemma spares_chmod: "D p \<Longrightarrow> spares D (sys_chmod mode p)"
  by (rule sparesI) (auto simp: sys_chmod_def syscall_def Let_def same_setting_def runs_def wp_def split: option.splits obj.splits)

lemma spares_chown: "D p \<Longrightarrow> spares D (sys_chown uid gid p)"
  by (rule sparesI) (auto simp: sys_chown_def syscall_def Let_def same_setting_def runs_def wp_def split: option.splits obj.splits)

lemma spares_rmtree: "(\<And>q. prefix p q \<Longrightarrow> D q) \<Longrightarrow> spares D (sys_rmtree p)"
  by (rule sparesI) (auto simp: sys_rmtree_def syscall_def Let_def same_setting_def runs_def wp_def split: option.splits obj.splits)

lemma spares_mkdir_ok [spares_rules]: "spares D (mkdir_ok mode p)"
  unfolding mkdir_ok_def by (intro spares_rules)

lemma spares_mkdir_parents [spares_rules]: "spares D (mkdir_parents mode cs)"
  by (induction cs arbitrary: mode) (auto intro!: spares_rules simp del: rev.simps)

text \<open>Renaming displaces only what is below the two names, and nothing when the new name is taken.\<close>

lemma rename_directory_outcome:
  assumes "sys_rename_directory source destination s = (r, s')"
  shows "same_setting s s'"
    and "objs s q = Some x \<Longrightarrow> \<not> prefix source q \<Longrightarrow> \<not> (prefix destination q \<and> objs s destination = None) \<Longrightarrow> objs s' q = Some x"
proof -
  have "wp (sys_rename_directory source destination) (\<lambda>r s'. same_setting s s'
      \<and> (objs s' = objs s \<or> objs s destination = None \<and> objs s' = moved source destination (objs s))) s"
    by (auto simp: sys_rename_directory_def syscall_def Let_def same_setting_def runs_def wp_def split: option.splits)
  from wpD [OF this assms] show "same_setting s s'"
    and "objs s q = Some x \<Longrightarrow> \<not> prefix source q \<Longrightarrow> \<not> (prefix destination q \<and> objs s destination = None) \<Longrightarrow> objs s' q = Some x"
    by (auto simp: moved_def)
qed

text \<open>Every object is in a directory.\<close>

definition rooted_tree :: "(path \<rightharpoonup> obj) \<Rightarrow> bool" where
  "rooted_tree m \<longleftrightarrow> (\<forall>p c. m (p @ [c]) \<noteq> None \<longrightarrow> p = [] \<or> m p \<noteq> None)"

lemma rooted_treeD:
  assumes "rooted_tree m" and "prefix p q" and "p \<noteq> []" and "m q \<noteq> None"
  shows "m p \<noteq> None"
proof -
  from assms(2) obtain r where "q = p @ r" by (auto simp: prefix_def)
  then show ?thesis using assms(3,4)
  proof (induction r arbitrary: q rule: rev_induct)
    case (snoc c r)
    then show ?case using assms(1) unfolding rooted_tree_def by (metis append_assoc append_is_Nil_conv)
  qed simp
qed

end
