(* ===== verification/Link_Switch.thy ===== *)
theory Link_Switch
  imports Tree_Fs
begin

text \<open>
  The part the deployment manager and the binaries manager share: a symbolic link is switched by making a link
  under a temporary name beside it and renaming that over it, and an installation owns a table of links and a
  selector.  \<open>link_table\<close> is the contract of such a table; from it follows that
  switching and removing the links of the table never touches anything else.
\<close>

section \<open>Switching a link\<close>

text \<open>\<open>busy\<close> is the exception of the manager when the temporary name is in use.\<close>

definition temporary_name :: "tree \<Rightarrow> path \<Rightarrow> path" where
  "temporary_name s p = butlast p @ [''.'' @ last p @ ''.multikernel-'' @ pid s]"

definition replace_link :: "path \<Rightarrow> path \<Rightarrow> unit top" where
  "replace_link temporary p =
     rollbackS (bindS (sys_replace temporary p) (\<lambda>_. sync_path (butlast p)))
       (catchS (sys_remove temporary) (\<lambda>e. if is_missing e then returnS () else raiseS e))"

definition switch_link :: "exn \<Rightarrow> string \<Rightarrow> path \<Rightarrow> unit top" where
  "switch_link busy target p =
     bindS (mkdir_parents 511 (rev (butlast p))) (\<lambda>_ s.
     let temporary = temporary_name s p in
     if lexists s temporary then raiseS busy s
     else bindS (sys_symlink target temporary) (\<lambda>_. replace_link temporary p) s)"

lemma wp_replace_link:
  assumes "objs s temporary = Some (OLink target)" and "temporary \<noteq> p"
  shows "wp (replace_link temporary p) (\<lambda>r s'. same_setting s s' \<and>
     (case r of
        Inr u \<Rightarrow> objs s' = (objs s)(temporary := None, p := Some (OLink target)) \<and> failures s' = failures s \<and> \<not> is_directory (objs s p)
      | Inl e \<Rightarrow> objs s' \<in> {objs s, (objs s)(temporary := None)} \<or> failures s < failures s' \<and> objs s' = (objs s)(temporary := None, p := Some (OLink target))
            \<and> \<not> is_directory (objs s p))) s"
  using assms
  by (auto simp: replace_link_def rollbackS_def wp_simps sync_path_def same_setting_def runs_def fun_upd_idem_iff split: option.splits)

lemma temporary_name_neq: "p \<noteq> [] \<Longrightarrow> temporary_name s p \<noteq> p"
proof
  assume "p \<noteq> []" "temporary_name s p = p"
  then have "last p = ''.'' @ last p @ ''.multikernel-'' @ pid s" by (metis last_snoc temporary_name_def)
  from arg_cong [OF this, of length] show False by simp
qed

definition link_switched :: "string \<Rightarrow> path \<Rightarrow> tree \<Rightarrow> unit res \<Rightarrow> tree \<Rightarrow> bool" where
  "link_switched target p s r s' \<longleftrightarrow> same_setting s s' \<and> (\<exists>m. grown (butlast p) (objs s) m \<and>
     (objs s' = m \<and> r \<in> range Inl
      \<or> objs s' = m(temporary_name s p := Some (OLink target)) \<and> m (temporary_name s p) = None \<and> r \<in> range Inl
      \<or> objs s' = m(p := Some (OLink target)) \<and> \<not> is_directory (m p)))"

lemma switch_link_outcome:
  assumes "p \<noteq> []" and run: "switch_link busy target p s = (r, s')"
  shows "link_switched target p s r s'"
proof -
  obtain r1 s1 where mk: "mkdir_parents 511 (rev (butlast p)) s = (r1, s1)" by fastforce
  note g = wpD [OF wp_mkdir_parents mk]
  have tmp: "temporary_name s1 p = temporary_name s p" using g by (simp add: temporary_name_def same_setting_def)
  let ?t = "temporary_name s p"
  show ?thesis
  proof (cases r1)
    case (Inl e)
    then show ?thesis using run mk g by (auto simp: switch_link_def bindS_def link_switched_def)
  next
    case (Inr u)
    show ?thesis
    proof (cases "lexists s1 ?t")
      case True
      then show ?thesis using run mk g Inr tmp
        by (auto simp: switch_link_def bindS_def raiseS_def Let_def link_switched_def)
    next
      case False
      then have free: "objs s1 ?t = None" by (simp add: lexists_def)
      obtain r2 s2 where sy: "sys_symlink target ?t s1 = (r2, s2)" by fastforce
      have "wp (sys_symlink target ?t) (\<lambda>r s'. same_setting s1 s' \<and>
          (case r of Inr u \<Rightarrow> objs s' = (objs s1)(?t := Some (OLink target)) | Inl e \<Rightarrow> objs s' = objs s1)) s1"
        by (auto simp: sys_symlink_def wp_simps same_setting_def runs_def split: option.splits)
      note w2 = wpD [OF this sy]
      show ?thesis
      proof (cases r2)
        case Inl
        then show ?thesis using run mk g Inr tmp False sy w2
          by (auto simp: switch_link_def bindS_def Let_def link_switched_def intro: same_setting_trans)
      next
        case (Inr v)
        then have fin: "replace_link ?t p s2 = (r, s')" using run mk \<open>r1 = Inr u\<close> tmp False sy
          by (simp add: switch_link_def bindS_def Let_def)
        have o2: "objs s2 = (objs s1)(?t := Some (OLink target))" and e2: "same_setting s s2"
          using w2 Inr g by (auto intro: same_setting_trans)
        have "objs s2 ?t = Some (OLink target)" using o2 by simp
        note w3 = wpD [OF wp_replace_link [OF this temporary_name_neq [OF assms(1)]] fin]
        have undone: "(objs s2)(?t := None) = objs s1" "(objs s2)(?t := None, p := Some (OLink target)) = (objs s1)(p := Some (OLink target))"
          "objs s2 p = objs s1 p"
          using o2 free temporary_name_neq [OF assms(1), of s] by auto
        show ?thesis using w3 e2 g free o2 unfolding undone link_switched_def
          by (cases r) (auto intro: same_setting_trans)
      qed
    qed
  qed
qed

lemma switch_link_Inr:
  assumes "link_switched target p s (Inr u) s'"
  shows "objs s' p = Some (OLink target)"
  using assms by (auto simp: link_switched_def)

section \<open>Loops with rollback\<close>

text \<open>
  The loop over the links inside \<open>try\<close>.  An exception ends it; what was done so far is then rolled back, so the loop
  returns it with the exception.
\<close>

fun until_failure :: "('l \<Rightarrow> 'p \<Rightarrow> 'p top) \<Rightarrow> 'l list \<Rightarrow> 'p \<Rightarrow> (exn option \<times> 'p) top" where
  "until_failure step [] progress s = returnS (None, progress) s"
| "until_failure step (link # links) progress s =
     (case step link progress s of
        (Inl e, s') \<Rightarrow> (Inr (Some e, progress), s')
      | (Inr progress', s') \<Rightarrow> until_failure step links progress' s')"

text \<open>One created link is removed again; one that is gone already is passed over.\<close>

definition unlink_created :: "path \<Rightarrow> unit top" where
  "unlink_created p =
     catchS (bindS (sys_remove p) (\<lambda>_. sync_path (butlast p))) (\<lambda>e. if is_missing e then returnS () else raiseS e)"

section \<open>Tables of links\<close>

text \<open>
  An installation owns a table of links with their targets and a selector, a link whose target names
  what is active.
\<close>

type_synonym link_list = "(path \<times> string) list"

definition owned :: "link_list \<Rightarrow> path \<Rightarrow> (string \<Rightarrow> bool) \<Rightarrow> path \<Rightarrow> obj \<Rightarrow> bool" where
  "owned links selector selected p x \<longleftrightarrow>
     (\<exists>t. (p, t) \<in> set links \<and> x = OLink t) \<or> p = selector \<and> (\<exists>t. x = OLink t \<and> selected t)"

text \<open>Nothing foreign stands where the links and the selector go.\<close>

definition clean :: "link_list \<Rightarrow> path \<Rightarrow> (string \<Rightarrow> bool) \<Rightarrow> tree \<Rightarrow> bool" where
  "clean links selector selected s \<longleftrightarrow>
     (\<forall>p t. (p, t) \<in> set links \<longrightarrow> objs s p = None \<or> objs s p = Some (OLink t))
     \<and> (\<forall>x. objs s selector = Some x \<longrightarrow> (\<exists>t. x = OLink t \<and> selected t))"

text \<open>A run that changes or removes only what the installation owns.\<close>

definition confined :: "link_list \<Rightarrow> path \<Rightarrow> (string \<Rightarrow> bool) \<Rightarrow> tree \<Rightarrow> tree \<Rightarrow> bool" where
  "confined links selector selected s s' \<longleftrightarrow> same_setting s s' \<and>
     (\<forall>p x. objs s p = Some x \<longrightarrow> objs s' p = Some x \<or> owned links selector selected p x)"

lemma confined_refl [simp]: "confined links selector selected s s" by (simp add: confined_def)

lemma confined_trans:
  "confined links selector selected s s1 \<Longrightarrow> confined links selector selected s1 s2 \<Longrightarrow> confined links selector selected s s2"
  unfolding confined_def by (meson same_setting_trans)

lemma clean_linkD: "clean links selector selected s \<Longrightarrow> (p, t) \<in> set links \<Longrightarrow> objs s p = None \<or> objs s p = Some (OLink t)"
  and clean_selectorD: "clean links selector selected s \<Longrightarrow> objs s selector = Some x \<Longrightarrow> \<exists>t. x = OLink t \<and> selected t"
  by (simp_all add: clean_def)

lemma owned_paths: "owned links selector selected p x \<Longrightarrow> p \<in> set (selector # map fst links)"
  by (force simp: owned_def)

lemma clean_owned:
  assumes "clean links selector selected s" and "p \<in> set (selector # map fst links)" and "objs s p = Some x"
  shows "owned links selector selected p x"
proof (cases "p = selector")
  case True
  then show ?thesis using assms(1,3) by (simp add: clean_def owned_def)
next
  case False
  with assms(2) obtain t where t: "(p, t) \<in> set links" by auto
  from assms(1) t have "objs s p = None \<or> objs s p = Some (OLink t)" unfolding clean_def by blast
  then show ?thesis using assms(3) t by (auto simp: owned_def)
qed

locale link_table =
  fixes links :: link_list and selector :: path and selected :: "string \<Rightarrow> bool"
  assumes apart: "distinct (selector # map fst links)"
    and proper: "p \<in> set (selector # map fst links) \<Longrightarrow> p \<noteq> []"
    and no_nesting: "p \<in> set (selector # map fst links) \<Longrightarrow> q \<in> set (selector # map fst links) \<Longrightarrow> \<not> prefix p (butlast q)"
    and visible: "p \<in> set (selector # map fst links) \<Longrightarrow> \<not> startswith (last p) ''.''"
begin

lemma temporary_outside: "p \<in> set (selector # map fst links) \<Longrightarrow> temporary_name s q \<noteq> p"
  using visible [of p] by (auto simp: temporary_name_def)

lemma grown_outside:
  assumes "grown (butlast q) m m'" and "q \<in> set (selector # map fst links)" and "p \<in> set (selector # map fst links)"
  shows "m' p = m p"
  using assms no_nesting [of p q] unfolding grown_def by blast

lemma switch_frame:
  assumes "link_switched t p s r s'" and "p \<in> set (selector # map fst links)" and "q \<in> set (selector # map fst links)" and "q \<noteq> p"
  shows "objs s' q = objs s q"
proof -
  from assms(1) obtain m where g: "grown (butlast p) (objs s) m" and o: "objs s' = m \<or> objs s' = m(temporary_name s p := Some (OLink t)) \<or> objs s' = m(p := Some (OLink t))"
    unfolding link_switched_def by blast
  have "m q = objs s q" using grown_outside [OF g assms(2,3)] .
  then show ?thesis using o assms(4) temporary_outside [OF assms(3), of s p] by auto
qed

lemma switch_at:
  assumes "link_switched t p s r s'" and "p \<in> set (selector # map fst links)"
  shows "objs s' p = objs s p \<or> objs s' p = Some (OLink t)"
proof -
  from assms(1) obtain m where g: "grown (butlast p) (objs s) m" and o: "objs s' = m \<or> objs s' = m(temporary_name s p := Some (OLink t)) \<or> objs s' = m(p := Some (OLink t))"
    unfolding link_switched_def by blast
  show ?thesis using o grown_outside [OF g assms(2,2)] temporary_outside [OF assms(2), of s p] by auto
qed

lemma switch_keeps:
  assumes "link_switched t p s r s'" and "objs s q = Some x" and "q \<noteq> p"
  shows "objs s' q = Some x"
proof -
  from assms(1) obtain m where g: "grown (butlast p) (objs s) m"
    and o: "objs s' = m \<or> objs s' = m(temporary_name s p := Some (OLink t)) \<and> m (temporary_name s p) = None \<or> objs s' = m(p := Some (OLink t))"
    unfolding link_switched_def by blast
  have "m q = Some x" using g assms(2) unfolding grown_def by (metis option.distinct(1))
  then show ?thesis using o assms(3) by auto
qed

lemma switch_clean:
  assumes "link_switched t p s r s'" and c: "clean links selector selected s"
    and own: "(p, t) \<in> set links \<or> p = selector \<and> selected t"
  shows "clean links selector selected s'" and "confined links selector selected s s'"
proof -
  have p: "p \<in> set (selector # map fst links)" using own by force
  note at = switch_at [OF assms(1) p] and frame = switch_frame [OF assms(1) p]
  have uniq: "t' = t" if "(p, t') \<in> set links" "(p, t) \<in> set links" for t'
    using that apart by (auto dest: eq_key_imp_eq_value)
  have nsel: "selector \<notin> fst ` set links" using apart by simp
  have "objs s' q = None \<or> objs s' q = Some (OLink t')" if q: "(q, t') \<in> set links" for q t'
  proof (cases "q = p")
    case True
    then have "p \<noteq> selector" using q nsel by force
    with own True q uniq have "t' = t" by auto
    then show ?thesis using at clean_linkD [OF c, of p t] q True by auto
  next
    case False
    then have "objs s' q = objs s q" using frame [of q] q by force
    then show ?thesis using clean_linkD [OF c q] by simp
  qed
  moreover have "\<exists>t. x = OLink t \<and> selected t" if "objs s' selector = Some x" for x
  proof (cases "p = selector")
    case True
    then have "selected t" using own nsel by force
    then show ?thesis using at c that True by (auto simp: clean_def)
  next
    case False
    then show ?thesis using frame [of selector] c that by (auto simp: clean_def)
  qed
  ultimately show "clean links selector selected s'" by (auto simp: clean_def)
  have "objs s' q = Some x \<or> owned links selector selected q x" if "objs s q = Some x" for q x
  proof (cases "q = p")
    case True
    then show ?thesis using clean_owned [OF c p] that by simp
  qed (use switch_keeps [OF assms(1) that] in simp)
  then show "confined links selector selected s s'" using assms(1) by (simp add: confined_def link_switched_def)
qed

lemma remove_clean:
  assumes "sys_remove p s = (r, s')" and c: "clean links selector selected s" and p: "p \<in> set (selector # map fst links)"
  shows "clean links selector selected s'" and "confined links selector selected s s'"
    and "r = Inr u \<Longrightarrow> objs s' = (objs s)(p := None)" and "r = Inl e \<Longrightarrow> objs s' = objs s"
proof -
  have "wp (sys_remove p) (\<lambda>r s'. same_setting s s' \<and> (r \<in> range Inr \<and> objs s' = (objs s)(p := None) \<or> r \<in> range Inl \<and> objs s' = objs s)) s"
    by (auto simp: wp_simps same_setting_def runs_def split: option.splits)
  from wpD [OF this assms(1)]
  have w: "same_setting s s' \<and> (r \<in> range Inr \<and> objs s' = (objs s)(p := None) \<or> r \<in> range Inl \<and> objs s' = objs s)" .
  then have keep: "objs s' q = objs s q \<or> objs s' q = None" for q by (cases "q = p") auto
  have "objs s' q = None \<or> objs s' q = Some (OLink t)" if "(q, t) \<in> set links" for q t
    using keep [of q] clean_linkD [OF c that] by auto
  moreover have "\<exists>t. x = OLink t \<and> selected t" if "objs s' selector = Some x" for x
    using keep [of selector] clean_selectorD [OF c] that by auto
  ultimately show "clean links selector selected s'" unfolding clean_def by blast
  have "owned links selector selected p x" if "objs s p = Some x" for x
    using clean_owned [OF c p that] .
  then show "confined links selector selected s s'" using w by (auto simp: confined_def)
  show "r = Inr u \<Longrightarrow> objs s' = (objs s)(p := None)" and "r = Inl e \<Longrightarrow> objs s' = objs s" using w by auto
qed

end

section \<open>Programs that keep to the table\<close>

text \<open>
  A program that, started on a clean table, leaves it clean and changes only what the installation owns, whether
  it returns or raises.  The property composes.
\<close>

definition keeps :: "link_list \<Rightarrow> path \<Rightarrow> (string \<Rightarrow> bool) \<Rightarrow> 'a top \<Rightarrow> bool" where
  "keeps links selector selected m \<longleftrightarrow>
     (\<forall>s r s'. clean links selector selected s \<longrightarrow> m s = (r, s')
        \<longrightarrow> clean links selector selected s' \<and> confined links selector selected s s')"

named_theorems keeps_rules \<open>composition of programs that keep to the table\<close>

lemma keepsI:
  "(\<And>s r s'. clean links selector selected s \<Longrightarrow> m s = (r, s')
      \<Longrightarrow> clean links selector selected s' \<and> confined links selector selected s s') \<Longrightarrow> keeps links selector selected m"
  by (simp add: keeps_def)

lemma keepsD:
  assumes "keeps links selector selected m" and "clean links selector selected s" and "m s = (r, s')"
  shows "clean links selector selected s'" and "confined links selector selected s s'"
  using assms unfolding keeps_def by blast+

lemma keeps_pure [keeps_rules]:
  "keeps links selector selected (returnS v)" "keeps links selector selected (raiseS e)"
  "keeps links selector selected (queryS q)" "keeps links selector selected (raiseE x)"
  by (auto simp: keeps_def returnS_def raiseS_def queryS_def raiseE_def split: sum.splits)

lemma keeps_bind [keeps_rules]:
  assumes "keeps links selector selected m" and "\<And>v. keeps links selector selected (k v)"
  shows "keeps links selector selected (bindS m k)"
proof (rule keepsI)
  fix s r s' assume c: "clean links selector selected s" and run: "bindS m k s = (r, s')"
  obtain r1 s1 where m: "m s = (r1, s1)" by fastforce
  note k1 = keepsD [OF assms(1) c m]
  show "clean links selector selected s' \<and> confined links selector selected s s'"
  proof (cases r1)
    case Inl
    then show ?thesis using run m k1 by (simp add: bindS_def)
  next
    case (Inr v)
    then have "k v s1 = (r, s')" using run m by (simp add: bindS_def)
    from keepsD [OF assms(2) k1(1) this] show ?thesis using k1(2) confined_trans by blast
  qed
qed

lemma keeps_catch [keeps_rules]:
  assumes "keeps links selector selected m" and "\<And>e. keeps links selector selected (h e)"
  shows "keeps links selector selected (catchS m h)"
proof (rule keepsI)
  fix s r s' assume c: "clean links selector selected s" and run: "catchS m h s = (r, s')"
  obtain r1 s1 where m: "m s = (r1, s1)" by fastforce
  note k1 = keepsD [OF assms(1) c m]
  show "clean links selector selected s' \<and> confined links selector selected s s'"
  proof (cases r1)
    case (Inl e)
    then have "h e s1 = (r, s')" using run m by (simp add: catchS_def)
    from keepsD [OF assms(2) k1(1) this] show ?thesis using k1(2) confined_trans by blast
  next
    case Inr
    then show ?thesis using run m k1 by (simp add: catchS_def)
  qed
qed

lemma keeps_rollback [keeps_rules]:
  "keeps links selector selected m \<Longrightarrow> keeps links selector selected h \<Longrightarrow> keeps links selector selected (rollbackS m h)"
  unfolding rollbackS_def by (intro keeps_rules)

lemma keeps_if [keeps_rules]:
  "keeps links selector selected m \<Longrightarrow> keeps links selector selected m' \<Longrightarrow> keeps links selector selected (if c then m else m')"
  by simp

lemma keeps_if_state [keeps_rules]:
  "keeps links selector selected m \<Longrightarrow> keeps links selector selected m' \<Longrightarrow> keeps links selector selected (\<lambda>s. if c s then m s else m' s)"
  by (rule keepsI) (auto dest: keepsD split: if_splits)

lemma keeps_for:
  "(\<And>v x. x \<in> set xs \<Longrightarrow> keeps links selector selected (f v x)) \<Longrightarrow> keeps links selector selected (forS xs f v)"
proof (induction xs arbitrary: v)
  case Nil
  show ?case by (simp add: keeps_pure)
next
  case (Cons x xs)
  show ?case unfolding forS.simps by (rule keeps_bind) (simp_all add: Cons)
qed

lemma keeps_noop: "keeps links selector selected sys_noop"
proof (rule keepsI)
  fix s r s' assume c: "clean links selector selected s" and run: "sys_noop s = (r, s')"
  have "wp sys_noop (\<lambda>r s'. objs s' = objs s \<and> same_setting s s') s"
    by (auto simp: wp_simps same_setting_def runs_def split: option.splits)
  from wpD [OF this run] show "clean links selector selected s' \<and> confined links selector selected s s'"
    using c by (simp add: clean_def confined_def)
qed

lemma keeps_sync [keeps_rules]: "keeps links selector selected (sync_path p)"
  unfolding sync_path_def by (intro keeps_rules keeps_noop)

lemma clean_frame:
  assumes "clean links selector selected s" and "\<And>q. q \<in> set (selector # map fst links) \<Longrightarrow> objs s' q = objs s q"
  shows "clean links selector selected s'"
proof -
  have "objs s' p = objs s p" if "(p, t) \<in> set links" for p t using that assms(2) [of p] by force
  moreover have "objs s' selector = objs s selector" using assms(2) by simp
  ultimately show ?thesis using assms(1) unfolding clean_def by (metis (no_types))
qed

lemma keeps_mkdir:
  assumes "p \<notin> set (selector # map fst links)"
  shows "keeps links selector selected (sys_mkdir mode p)"
proof (rule keepsI)
  fix s r s' assume c: "clean links selector selected s" and run: "sys_mkdir mode p s = (r, s')"
  have "wp (sys_mkdir mode p) (\<lambda>r s'. same_setting s s' \<and> (\<forall>q. objs s' q = objs s q \<or> q = p \<and> objs s q = None)) s"
    by (auto simp: sys_mkdir_def wp_simps same_setting_def runs_def split: option.splits)
  from wpD [OF this run] have same: "same_setting s s'" and o: "\<And>q. objs s' q = objs s q \<or> q = p \<and> objs s q = None" by auto
  have "objs s' q = objs s q" if "q \<in> set (selector # map fst links)" for q using o [of q] that assms by auto
  from clean_frame [OF c this] have "clean links selector selected s'" .
  moreover have "confined links selector selected s s'" using same o unfolding confined_def by (metis option.distinct(1))
  ultimately show "clean links selector selected s' \<and> confined links selector selected s s'" by simp
qed

context link_table
begin

lemma keeps_switch:
  assumes "(p, t) \<in> set links \<or> p = selector \<and> selected t"
  shows "keeps links selector selected (switch_link busy t p)"
proof (rule keepsI)
  fix s r s' assume c: "clean links selector selected s" and run: "switch_link busy t p s = (r, s')"
  have "p \<in> set (selector # map fst links)" using assms by force
  then have "p \<noteq> []" using proper by blast
  from switch_clean [OF switch_link_outcome [OF this run] c assms]
  show "clean links selector selected s' \<and> confined links selector selected s s'" by simp
qed

lemma keeps_remove:
  "p \<in> set (selector # map fst links) \<Longrightarrow> keeps links selector selected (sys_remove p)"
  by (rule keepsI) (use remove_clean in blast)

end

context link_table
begin

lemma keeps_unlink_created:
  "p \<in> set (selector # map fst links) \<Longrightarrow> keeps links selector selected (unlink_created p)"
  unfolding unlink_created_def by (intro keeps_rules keeps_remove)

text \<open>The loop keeps to the table when each step does; \<open>ok\<close> is what the steps establish of the progress.\<close>

lemma until_failure_keeps:
  assumes step: "\<And>l p s r s'. l \<in> set ls \<Longrightarrow> ok p \<Longrightarrow> clean links selector selected s \<Longrightarrow> step l p s = (r, s')
      \<Longrightarrow> clean links selector selected s' \<and> confined links selector selected s s' \<and> (\<forall>p'. r = Inr p' \<longrightarrow> ok p')"
    and "ok p" and "clean links selector selected s" and "until_failure step ls p s = (r, s')"
  shows "clean links selector selected s' \<and> confined links selector selected s s' \<and> (\<exists>e p'. r = Inr (e, p') \<and> ok p')"
  using assms
proof (induction ls arbitrary: p s)
  case Nil
  then show ?case by (auto simp: returnS_def)
next
  case (Cons l ls)
  obtain r1 s1 where s1: "step l p s = (r1, s1)" by fastforce
  note k1 = Cons.prems(1) [OF _ Cons.prems(2,3) s1]
  show ?case
  proof (cases r1)
    case (Inl e)
    then show ?thesis using Cons.prems(2,4) s1 k1 by auto
  next
    case (Inr p')
    then have "until_failure step ls p' s1 = (r, s')" using Cons.prems(4) s1 by simp
    moreover have "ok p'" "clean links selector selected s1" using k1 Inr by simp_all
    ultimately have "clean links selector selected s' \<and> confined links selector selected s1 s' \<and> (\<exists>e p'. r = Inr (e, p') \<and> ok p')"
      by (intro Cons.IH [OF Cons.prems(1)]) simp_all
    then show ?thesis using k1 confined_trans by (metis list.set_intros(1))
  qed
qed

text \<open>A loop that ends without a failure has settled each of its links, when each step settles its own and leaves the others.\<close>

lemma until_failure_settles:
  assumes step: "\<And>l p s p' s'. l \<in> set ls \<Longrightarrow> clean links selector selected s \<Longrightarrow> step l p s = (Inr p', s')
      \<Longrightarrow> clean links selector selected s' \<and> objs s' (place_of l) = want l
          \<and> (\<forall>q \<in> set (selector # map fst links). q \<noteq> place_of l \<longrightarrow> objs s' q = objs s q)"
    and tab: "place_of ` set ls \<subseteq> set (map fst links)" and "distinct (map place_of ls)"
    and "clean links selector selected s" and "until_failure step ls p s = (Inr (None, p'), s')"
  shows "(\<forall>l \<in> set ls. objs s' (place_of l) = want l)
    \<and> (\<forall>q \<in> set (selector # map fst links). q \<notin> place_of ` set ls \<longrightarrow> objs s' q = objs s q)"
  using assms
proof (induction ls arbitrary: p s)
  case Nil
  then show ?case by (auto simp: returnS_def)
next
  case (Cons l ls)
  obtain r1 s1 where s1: "step l p s = (r1, s1)" by fastforce
  with Cons.prems(5) obtain p1 where r1: "r1 = Inr p1" by (cases r1) auto
  note k1 = Cons.prems(1) [OF list.set_intros(1) Cons.prems(4) s1 [unfolded r1]]
  have rest: "until_failure step ls p1 s1 = (Inr (None, p'), s')" using Cons.prems(5) s1 r1 by simp
  have ih: "(\<forall>l \<in> set ls. objs s' (place_of l) = want l)
    \<and> (\<forall>q \<in> set (selector # map fst links). q \<notin> place_of ` set ls \<longrightarrow> objs s' q = objs s1 q)"
  proof (rule Cons.IH [OF Cons.prems(1) _ _ _ rest])
    show "place_of ` set ls \<subseteq> set (map fst links)" "distinct (map place_of ls)" using Cons.prems(2,3) by auto
  qed (use k1 in auto)
  have "place_of l \<in> set (map fst links)" "place_of l \<notin> place_of ` set ls" using Cons.prems(2,3) by auto
  then have "objs s' (place_of l) = objs s1 (place_of l)" using ih by (metis list.set_intros(2))
  then have "objs s' (place_of l) = want l" using k1 by simp
  then show ?case using ih k1 by auto
qed

lemma switch_link_settles:
  assumes "switch_link busy t p s = (Inr u, s')" and "p \<in> set (selector # map fst links)"
  shows "objs s' p = Some (OLink t)" and "\<forall>q \<in> set (selector # map fst links). q \<noteq> p \<longrightarrow> objs s' q = objs s q"
proof -
  have "link_switched t p s (Inr u) s'" by (rule switch_link_outcome [OF proper [OF assms(2)] assms(1)])
  then show "objs s' p = Some (OLink t)" "\<forall>q \<in> set (selector # map fst links). q \<noteq> p \<longrightarrow> objs s' q = objs s q"
    using switch_link_Inr switch_frame [OF _ assms(2)] by blast+
qed

end

text \<open>The conditions of the contract, each decided by evaluation of the table.\<close>

definition well_spread :: "path list \<Rightarrow> bool" where
  "well_spread ps \<longleftrightarrow> distinct ps \<and> list_all (\<lambda>p. p \<noteq> [] \<and> \<not> startswith (last p) ''.'') ps
     \<and> list_all (\<lambda>d. list_all (\<lambda>p. \<not> prefix p d) ps) (remdups (map butlast ps))"

lemma well_spreadD:
  assumes "well_spread ps"
  shows "distinct ps" and "p \<in> set ps \<Longrightarrow> p \<noteq> []" and "p \<in> set ps \<Longrightarrow> \<not> startswith (last p) ''.''"
    and "p \<in> set ps \<Longrightarrow> q \<in> set ps \<Longrightarrow> \<not> prefix p (butlast q)"
  using assms by (auto simp: well_spread_def list_all_iff)

lemma link_table_well_spread: "well_spread (selector # map fst links) \<Longrightarrow> link_table links selector"
  by (unfold_locales) (use well_spreadD in blast)+

section \<open>Runs without failures\<close>

definition faultless :: "tree \<Rightarrow> bool" where
  "faultless s \<longleftrightarrow> (\<forall>k. faults s k = None)"

lemma faultless_same: "faultless s \<Longrightarrow> same_setting s s' \<Longrightarrow> faultless s'"
  by (simp add: faultless_def same_setting_def runs_def)

lemma temporary_name_same: "same_setting s s' \<Longrightarrow> temporary_name s' p = temporary_name s p"
  by (simp add: temporary_name_def same_setting_def)

lemma mkdir_parents_present:
  assumes "faultless s" and "is_directory (objs s p)"
  shows "mkdir_parents mode (rev p) s = (Inr (), if p = [] then s else s\<lparr>clock := Suc (clock s)\<rparr>)"
  using assms
  by (cases "rev p")
     (auto simp: faultless_def catchS_def sys_mkdir_def place_def syscall_def Let_def is_dir_def followed_def is_symlink_def returnS_def
        rev_swap elim!: is_directory.elims)

lemma switch_link_succeeds:
  assumes "faultless s" and p: "p \<noteq> []" "butlast p \<noteq> []" and par: "is_directory (objs s (butlast p))"
    and free: "objs s (temporary_name s p) = None" and nd: "\<not> is_directory (objs s p)"
  shows "switch_link busy t p s = (Inr (), s\<lparr>clock := clock s + 5, objs := (objs s)(p := Some (OLink t))\<rparr>)"
proof -
  let ?s1 = "s\<lparr>clock := Suc (clock s)\<rparr>" and ?t = "temporary_name s p"
  let ?s2 = "s\<lparr>clock := Suc (Suc (clock s)), objs := (objs s)(?t := Some (OLink t))\<rparr>"
  have ne: "?t \<noteq> p" by (rule temporary_name_neq [OF p(1)])
  have has: "is_directory (objs s (butlast ?t))" using par by (simp add: temporary_name_def)
  have mk: "mkdir_parents 511 (rev (butlast p)) s = (Inr (), ?s1)" using mkdir_parents_present [OF assms(1) par] p(2) by simp
  have t1: "temporary_name ?s1 p = ?t" by (simp add: temporary_name_def)
  have sy: "sys_symlink t ?t ?s1 = (Inr (), ?s2)"
    using assms(1) free has by (simp add: faultless_def sys_symlink_def place_def syscall_def Let_def has_parent_def)
  have gone: "(objs s)(p := Some (OLink t), ?t := None) = (objs s)(p := Some (OLink t))" using ne free by (simp add: fun_upd_idem_iff)
  have rp: "replace_link ?t p ?s2 = (Inr (), s\<lparr>clock := clock s + 5, objs := (objs s)(p := Some (OLink t))\<rparr>)"
    using assms(1) ne nd gone
    by (simp add: faultless_def replace_link_def rollbackS_def catchS_def bindS_def sys_replace_def sync_path_def sys_noop_def returnS_def
        syscall_def Let_def fun_upd_twist eval_nat_numeral)
  show ?thesis using mk t1 sy rp free by (simp add: switch_link_def bindS_def Let_def lexists_def)
qed

lemma remove_succeeds:
  assumes "faultless s" and "objs s p = Some (OLink t)"
  shows "sys_remove p s = (Inr (), s\<lparr>clock := Suc (clock s), objs := (objs s)(p := None)\<rparr>)"
  using assms by (simp add: faultless_def sys_remove_def syscall_def Let_def)

lemma sync_succeeds: "faultless s \<Longrightarrow> sync_path p s = (Inr (), s\<lparr>clock := Suc (Suc (clock s))\<rparr>)"
  by (simp add: faultless_def sync_path_def sys_noop_def bindS_def returnS_def syscall_def Let_def)

text \<open>The table can be switched: the directories of its links exist and no temporary name is taken.\<close>

definition switchable :: "path list \<Rightarrow> tree \<Rightarrow> bool" where
  "switchable ps s \<longleftrightarrow> faultless s \<and> (\<forall>p \<in> set ps. is_directory (objs s (butlast p)) \<and> objs s (temporary_name s p) = None)"

context link_table
begin

lemma switchable_update:
  assumes "switchable (selector # map fst links) s" and p: "p \<in> set (selector # map fst links)" and "same_setting s s'"
    and "objs s' = (objs s)(p := x)"
  shows "switchable (selector # map fst links) s'"
proof -
  have "objs s' (butlast q) = objs s (butlast q)" if "q \<in> set (selector # map fst links)" for q
    using no_nesting [OF p that] assms(4) by auto
  moreover have "objs s' (temporary_name s q) = objs s (temporary_name s q)" for q
    using temporary_outside [OF p, of s q] assms(4) by simp
  ultimately show ?thesis
    using assms(1) faultless_same [OF _ assms(3)] temporary_name_same [OF assms(3)] unfolding switchable_def by metis
qed

lemma switch_runs:
  assumes "switchable (selector # map fst links) s" and "clean links selector selected s" and p: "p \<in> set (selector # map fst links)" and "butlast p \<noteq> []"
  shows "\<exists>s'. switch_link busy t p s = (Inr (), s') \<and> switchable (selector # map fst links) s'"
proof -
  let ?s' = "s\<lparr>clock := clock s + 5, objs := (objs s)(p := Some (OLink t))\<rparr>"
  have sw: "faultless s" "is_directory (objs s (butlast p))" "objs s (temporary_name s p) = None"
    using assms(1) p unfolding switchable_def by blast+
  have "\<not> is_directory (objs s p)"
    using clean_owned [OF assms(2) p] by (cases "objs s p") (auto simp: owned_def)
  from switch_link_succeeds [OF sw(1) proper [OF p] assms(4) sw(2,3) this]
  have "switch_link busy t p s = (Inr (), ?s')" .
  moreover have "switchable (selector # map fst links) ?s'"
    using sw(1) by (intro switchable_update [OF assms(1) p]) (simp_all add: same_setting_def runs_def faultless_def)
  ultimately show ?thesis by blast
qed

lemma remove_runs:
  assumes "switchable (selector # map fst links) s" and p: "p \<in> set (selector # map fst links)" and "objs s p = Some (OLink t)"
  shows "\<exists>s'. bindS (sys_remove p) (\<lambda>_. bindS (sync_path q) (\<lambda>_. returnS v)) s = (Inr v, s') \<and> switchable (selector # map fst links) s'"
proof -
  let ?s' = "s\<lparr>clock := clock s + 3, objs := (objs s)(p := None)\<rparr>"
  have f: "faultless s" using assms(1) by (simp add: switchable_def)
  have "bindS (sys_remove p) (\<lambda>_. bindS (sync_path q) (\<lambda>_. returnS v)) s = (Inr v, ?s')"
    using remove_succeeds [OF f assms(3)] sync_succeeds f by (simp add: bindS_def faultless_def returnS_def eval_nat_numeral)
  moreover have "switchable (selector # map fst links) ?s'"
    using f by (intro switchable_update [OF assms(1) p]) (simp_all add: same_setting_def runs_def faultless_def)
  ultimately show ?thesis by blast
qed

lemma until_failure_runs:
  assumes "\<And>l p s. l \<in> set ls \<Longrightarrow> clean links selector selected s \<Longrightarrow> switchable (selector # map fst links) s
      \<Longrightarrow> \<exists>p' s'. step l p s = (Inr p', s') \<and> clean links selector selected s' \<and> switchable (selector # map fst links) s'"
    and "clean links selector selected s" and "switchable (selector # map fst links) s"
  shows "\<exists>p' s'. until_failure step ls p s = (Inr (None, p'), s') \<and> clean links selector selected s' \<and> switchable (selector # map fst links) s'"
  using assms
proof (induction ls arbitrary: p s)
  case Nil
  then show ?case by (simp add: returnS_def)
next
  case (Cons l ls)
  obtain p1 s1 where 1: "step l p s = (Inr p1, s1)" "clean links selector selected s1" "switchable (selector # map fst links) s1"
    using Cons.prems(1) [OF list.set_intros(1) Cons.prems(2,3)] by blast
  from Cons.IH [OF Cons.prems(1) 1(2,3)] show ?case using 1(1) by simp
qed

end

end
