(* ===== verification/Deployment.thy ===== *)
theory Deployment
  imports Link_Switch Py_Json Py_Text
begin

text \<open>
  \<open>manage-runtime-deployment.py\<close>: validation of the environment and host configuration, immutable
  deployments named by the digest of their contents, the links that select one, activation with rollback,
  storage size updates, removal and the command.  The commands work on the tree of
  \<^theory_text>\<open>Tree_Fs\<close>, below the root directory.  Input files outside the tree are observations
  (\<open>lstat\<close>, contents, \<open>lstat\<close>); \<open>sha256\<close>, the JSON text parser and the JSON printer are parameters.
\<close>

section \<open>Tables\<close>

definition BASE :: path where
  "BASE = [''etc'', ''multikernel'']"

definition ASSETS :: "(string \<times> string) list" where
  "ASSETS =
     [(''systemd/sys-fs-multikernel.mount'', ''deploy/systemd/sys-fs-multikernel.mount''),
      (''systemd/mkruntimed.service'', ''deploy/systemd/mkruntimed.service''),
      (''systemd/multikernel-modules.service'', ''deploy/systemd/multikernel-modules.service''),
      (''systemd/mknetd.service'', ''deploy/systemd/mknetd.service''),
      (''cni/10-multikernel.conf'', ''deploy/cni/10-multikernel.conf''),
      (''containerd/20-multikernel-runtime.toml'', ''deploy/containerd/20-multikernel-runtime.toml''),
      (''libexec/build-runtime-container-initramfs.sh'', ''scripts/build-runtime-container-initramfs.sh''),
      (''libexec/validate-runtime-oci.py'', ''scripts/validate-runtime-oci.py''),
      (''libexec/materialize-runtime-binds.py'', ''scripts/materialize-runtime-binds.py''),
      (''libexec/validate-runtime-bootstrap.py'', ''scripts/validate-runtime-bootstrap.py''),
      (''libexec/validate-runtime-docker-root.py'', ''scripts/validate-runtime-docker-root.py''),
      (''libexec/validate-runtime-root.py'', ''scripts/validate-runtime-root.py''),
      (''libexec/validate-runtime-image.py'', ''scripts/validate-runtime-image.py''),
      (''libexec/build-runtime-rootfs.py'', ''scripts/build-runtime-rootfs.py''),
      (''libexec/runtime_safe_publish.py'', ''scripts/runtime_safe_publish.py''),
      (''libexec/runtime_support_exec.py'', ''scripts/runtime_support_exec.py''),
      (''libexec/runtime-storage-identity.py'', ''scripts/runtime-storage-identity.py''),
      (''libexec/validate-runtime-storage-mount.py'', ''scripts/validate-runtime-storage-mount.py''),
      (''libexec/build-runtime-storage.py'', ''scripts/build-runtime-storage.py''),
      (''libexec/verify-runtime-rootfs.py'', ''scripts/verify-runtime-rootfs.py''),
      (''libexec/guest/mk-agent-init'', ''guest/mk-agent-init''),
      (''libexec/guest/runtime-mediated-init'', ''guest/runtime-mediated-init'')]"

definition LINKS :: "(string \<times> string) list" where
  "LINKS =
     [(''/etc/multikernel/runtime.env'', ''runtime.env''),
      (''/etc/mkruntime/config.json'', ''mkruntime/config.json''),
      (''/etc/systemd/system/sys-fs-multikernel.mount'', ''systemd/sys-fs-multikernel.mount''),
      (''/etc/systemd/system/mkruntimed.service'', ''systemd/mkruntimed.service''),
      (''/etc/systemd/system/multikernel-modules.service'', ''systemd/multikernel-modules.service''),
      (''/etc/systemd/system/mknetd.service'', ''systemd/mknetd.service''),
      (''/etc/cni/net.d/10-multikernel.conf'', ''cni/10-multikernel.conf''),
      (''/etc/containerd/conf.d/20-multikernel-runtime.toml'', ''containerd/20-multikernel-runtime.toml''),
      (''/usr/local/libexec/multikernel/build-runtime-container-initramfs.sh'', ''libexec/build-runtime-container-initramfs.sh''),
      (''/usr/local/libexec/multikernel/validate-runtime-oci.py'', ''libexec/validate-runtime-oci.py''),
      (''/usr/local/libexec/multikernel/materialize-runtime-binds.py'', ''libexec/materialize-runtime-binds.py''),
      (''/usr/local/libexec/multikernel/validate-runtime-bootstrap.py'', ''libexec/validate-runtime-bootstrap.py''),
      (''/usr/local/libexec/multikernel/validate-runtime-docker-root.py'', ''libexec/validate-runtime-docker-root.py''),
      (''/usr/local/libexec/multikernel/validate-runtime-root.py'', ''libexec/validate-runtime-root.py''),
      (''/usr/local/libexec/multikernel/validate-runtime-image.py'', ''libexec/validate-runtime-image.py''),
      (''/usr/local/libexec/multikernel/build-runtime-rootfs.py'', ''libexec/build-runtime-rootfs.py''),
      (''/usr/local/libexec/multikernel/runtime_safe_publish.py'', ''libexec/runtime_safe_publish.py''),
      (''/usr/local/libexec/multikernel/runtime_support_exec.py'', ''libexec/runtime_support_exec.py''),
      (''/usr/local/libexec/multikernel/runtime-storage-identity.py'', ''libexec/runtime-storage-identity.py''),
      (''/usr/local/libexec/multikernel/validate-runtime-storage-mount.py'', ''libexec/validate-runtime-storage-mount.py''),
      (''/usr/local/libexec/multikernel/build-runtime-storage.py'', ''libexec/build-runtime-storage.py''),
      (''/usr/local/libexec/multikernel/verify-runtime-rootfs.py'', ''libexec/verify-runtime-rootfs.py''),
      (''/usr/local/libexec/multikernel/guest/mk-agent-init'', ''libexec/guest/mk-agent-init''),
      (''/usr/local/libexec/multikernel/guest/runtime-mediated-init'', ''libexec/guest/runtime-mediated-init'')]"

definition EXECUTABLES :: "string list" where
  "EXECUTABLES = filter (\<lambda>name. startswith name ''libexec/'') (map fst ASSETS)"

definition CURRENT_FILES :: "string list" where
  "CURRENT_FILES = map snd LINKS"

definition KNOWN_FILE_SETS :: "string list list" where
  "KNOWN_FILE_SETS =
     [filter (\<lambda>f. f \<notin> set missing \<and> f \<notin> set modules \<and> f \<notin> set docker) CURRENT_FILES.
        missing \<leftarrow> [[], [''libexec/validate-runtime-storage-mount.py''], [''libexec/runtime_support_exec.py''],
                    [''libexec/runtime_support_exec.py'', ''libexec/validate-runtime-storage-mount.py'']],
        modules \<leftarrow> [[], [''systemd/multikernel-modules.service'']],
        docker \<leftarrow> [[], [''libexec/validate-runtime-docker-root.py'']]]"

definition ENV_KEYS :: "string list" where
  "ENV_KEYS =
     [''MKRUNTIME_POOL_CPUS'', ''MKRUNTIME_POOL_MEMORY'', ''MKRUNTIME_POOL_MEMORY_RESERVE'',
      ''MKRUNTIME_CMDLINE'', ''MKNETWORK_SUBNET'', ''MKNETWORK_EGRESS'', ''MKNETWORK_MTU'',
      ''MKNETWORK_DNS'', ''MKRUNTIME_STORAGE_MOUNT'', ''MKRUNTIME_STORAGE_DEVICE'',
      ''MKRUNTIME_STORAGE_SERIAL'', ''MKRUNTIME_STORAGE_BYTES'', ''MKRUNTIME_STORAGE_LABEL'', ''MKRUNTIME_STORAGE_UUID'']"

definition HOST_FIELDS :: "string list" where
  "HOST_FIELDS =
     [''schema_version'', ''state_directory'', ''socket_path'', ''kerf_executable'', ''multikernel_sysfs_root'',
      ''kernel_manifest_directory'', ''min_primary_cpus'', ''min_primary_memory_bytes'', ''forbidden_apic_ids'',
      ''backend_timeout_seconds'', ''max_frame_size_bytes'']"

section \<open>Inputs\<close>

definition strict_json_bytes :: "loads \<Rightarrow> bytes \<Rightarrow> json res" where
  "strict_json_bytes loads data = bindE (loads default_constant data) (hook (ValueError ''duplicate JSON key''))"

text \<open>A regular file by \<open>lstat\<close> is not a symbolic link, so the test \<open>is_symlink\<close> adds nothing to an observation.\<close>

type_synonym input = "(stat_info \<times> bytes \<times> stat_info) res"

definition secure_input :: "nat \<Rightarrow> nat \<Rightarrow> input \<Rightarrow> bytes res" where
  "secure_input uid limit input =
     bindE input (\<lambda>(info, data, after).
     if \<not> S_ISREG (st_mode info) \<or> st_nlink info \<noteq> 1 \<or> st_uid info \<noteq> uid \<or> st_size info > limit
     then Inl (ValueError ''unsafe deployment input'')
     else if length data > limit \<or> file_identity info \<noteq> file_identity after
     then Inl (ValueError ''deployment input changed while reading'')
     else Inr data)"

definition tree_input :: "tree \<Rightarrow> path \<Rightarrow> input" where
  "tree_input s p =
     (case objs s p of
        None \<Rightarrow> Inl (FileNotFoundError (join_with ''/'' p))
      | Some (OFile st data) \<Rightarrow> Inr (st, data, st)
      | Some (ODir st) \<Rightarrow> Inr (st, [], st)
      | Some (OOther st) \<Rightarrow> Inr (st, [], st)
      | Some (OLink t) \<Rightarrow> Inr (new_stat 41471 0 (length t), [], new_stat 41471 0 (length t)))"

text \<open>The significant lines of the environment: stripped, neither empty nor a comment.\<close>

definition env_lines :: "string \<Rightarrow> string list" where
  "env_lines text = filter (\<lambda>line. line \<noteq> '''' \<and> \<not> startswith line ''#'') (map strip (splitlines text))"

definition env_key_char :: "char \<Rightarrow> bool" where
  "env_key_char c \<longleftrightarrow> in_range (CHR ''A'') (CHR ''Z'') c \<or> is_digit c \<or> c = CHR ''_''"

definition env_key_step :: "string list \<Rightarrow> string \<Rightarrow> string list res" where
  "env_key_step seen line =
     (if CHR ''='' \<notin> set line then Inl (ValueError ''runtime environment contains a malformed assignment'')
      else let (key, val) = split_once (CHR ''='') line in
        if key \<notin> set ENV_KEYS \<or> key \<in> set seen \<or> val = '''' \<or> \<not> (key \<noteq> '''' \<and> list_all env_key_char key)
        then Inl (ValueError ''runtime environment keys are missing, duplicate, unknown, or empty'')
        else Inr (key # seen))"

definition env_values :: "string \<Rightarrow> string \<Rightarrow> string" where
  "env_values text key =
     (case map_of (rev (map (split_once (CHR ''='')) (env_lines text))) key of Some v \<Rightarrow> v | None \<Rightarrow> '''')"

definition check_storage_path :: "(string \<Rightarrow> string) \<Rightarrow> string \<Rightarrow> unit res" where
  "check_storage_path values0 key =
     (let v = values0 key in
      raise_if (\<not> startswith v ''/'' \<or> normpath v \<noteq> v \<or> \<not> class_run (\<lambda>c. c = CHR ''/'') is_path_char 1 4095 v)
        (ValueError ''runtime storage path is unsafe''))"

definition check_storage_token :: "(string \<Rightarrow> string) \<Rightarrow> string \<Rightarrow> unit res" where
  "check_storage_token values0 key =
     raise_if (\<not> class_run is_ascii_alnum is_token_char 0 127 (values0 key)) (ValueError ''runtime storage token is unsafe'')"

definition check_storage_bytes :: "string \<Rightarrow> unit res" where
  "check_storage_bytes v =
     (if \<not> isdigit v then Inl (ValueError ''runtime storage byte size is invalid'')
      else bindE (int_of_digits v) (\<lambda>n.
        raise_if (\<not> (0 < n \<and> n \<le> 2 ^ 63) \<or> n mod 512 \<noteq> 0) (ValueError ''runtime storage byte size is invalid'')))"

definition validate_environment :: "bytes \<Rightarrow> unit res" where
  "validate_environment data =
     bindE (wrap_exn is_decode_error (ValueError ''runtime environment is not UTF-8'') (decode_utf8 data)) (\<lambda>text.
     bindE (forE (env_lines text) env_key_step []) (\<lambda>seen.
     if set seen \<noteq> set ENV_KEYS then Inl (ValueError ''runtime environment fields mismatch'')
     else let v = env_values text in
       bindE (forE [''MKRUNTIME_STORAGE_MOUNT'', ''MKRUNTIME_STORAGE_DEVICE''] (\<lambda>_. check_storage_path v) ()) (\<lambda>_.
       if v ''MKRUNTIME_STORAGE_MOUNT'' \<noteq> ''/srv/multikernel-storage''
       then Inl (ValueError ''runtime storage mount must match the managed service path'')
       else bindE (forE [''MKRUNTIME_STORAGE_SERIAL'', ''MKRUNTIME_STORAGE_LABEL''] (\<lambda>_. check_storage_token v) ()) (\<lambda>_.
         bindE (check_storage_bytes (v ''MKRUNTIME_STORAGE_BYTES'')) (\<lambda>_.
         raise_if (\<not> is_uuid (v ''MKRUNTIME_STORAGE_UUID'')) (ValueError ''runtime storage UUID is invalid''))))))"

definition host_path_ok :: "json \<Rightarrow> bool" where
  "host_path_ok v \<longleftrightarrow> is_str v \<and> length (the_str v) \<le> 4096 \<and> startswith (the_str v) ''/''
     \<and> as_posix (normpath (the_str v)) = as_posix (the_str v)"

definition apic_ids_ok :: "json \<Rightarrow> bool" where
  "apic_ids_ok ids \<longleftrightarrow> is_list ids \<and> the_list ids \<noteq> [] \<and> list_ex (py_same (JInt 0)) (the_list ids)
     \<and> list_all (\<lambda>item. is_int item \<and> 0 \<le> the_int item) (the_list ids) \<and> distinct (map the_int (the_list ids))"

definition validate_host_config :: "loads \<Rightarrow> bytes \<Rightarrow> unit res" where
  "validate_host_config loads data =
     bindE (strict_json_bytes loads data) (\<lambda>v.
     case v of
       JObj d \<Rightarrow>
         (if fst ` set d \<noteq> set HOST_FIELDS \<or> \<not> py_eq (jget d ''schema_version'') (JInt 1)
          then Inl (ValueError ''host configuration fields or version mismatch'')
          else if \<not> list_all (\<lambda>name. host_path_ok (jget d name))
              [''state_directory'', ''socket_path'', ''kerf_executable'', ''multikernel_sysfs_root'', ''kernel_manifest_directory'']
          then Inl (ValueError ''host configuration path is unsafe'')
          else if \<not> list_all (\<lambda>name. is_int (jget d name))
              [''min_primary_cpus'', ''min_primary_memory_bytes'', ''backend_timeout_seconds'', ''max_frame_size_bytes'']
          then Inl (ValueError ''host configuration numeric field is not an integer'')
          else let n = (\<lambda>name. the_int (jget d name)) in
            if n ''min_primary_cpus'' < 1 \<or> n ''min_primary_memory_bytes'' < 512 * 2 ^ 20
               \<or> \<not> (1 \<le> n ''backend_timeout_seconds'' \<and> n ''backend_timeout_seconds'' \<le> 3600)
               \<or> \<not> (4096 \<le> n ''max_frame_size_bytes'' \<and> n ''max_frame_size_bytes'' \<le> 16 * 2 ^ 20)
            then Inl (ValueError ''host configuration numeric field is outside the v1 bounds'')
            else raise_if (\<not> apic_ids_ok (jget d ''forbidden_apic_ids'')) (ValueError ''forbidden APIC IDs are invalid''))
     | _ \<Rightarrow> Inl (ValueError ''host configuration fields or version mismatch''))"

type_synonym files = "(string \<times> bytes) list"

definition deployment_files :: "loads \<Rightarrow> nat \<Rightarrow> (string \<Rightarrow> input) \<Rightarrow> input \<Rightarrow> input \<Rightarrow> files res" where
  "deployment_files loads uid assets runtime_env host_config =
     bindE (mapE (\<lambda>(name, path). bindE (secure_input uid (2 ^ 20) (assets path)) (\<lambda>data. Inr (name, data))) ASSETS) (\<lambda>files.
     bindE (secure_input uid (64 * 2 ^ 10) runtime_env) (\<lambda>env.
     bindE (secure_input uid (2 ^ 20) host_config) (\<lambda>host.
     bindE (validate_environment env) (\<lambda>_.
     bindE (validate_host_config loads host) (\<lambda>_.
     Inr (files @ [(''runtime.env'', env), (''mkruntime/config.json'', host)]))))))"

text \<open>The digest of the lines \<open>name NUL digest\<close> in the order of the names.\<close>

definition identity_line :: "string \<Rightarrow> string \<Rightarrow> bytes" where
  "identity_line name hash = name @ [NUL] @ hash @ [CHR 0x0A]"

definition deployment_identifier :: "(bytes \<Rightarrow> string) \<Rightarrow> files \<Rightarrow> string" where
  "deployment_identifier sha256 files = sha256 (concat (map (\<lambda>(name, data). identity_line name (sha256 data)) (sort_key fst files)))"

section \<open>Links and directories\<close>

definition comps :: "string \<Rightarrow> path" where
  "comps = path_tail"

definition atomic_symlink :: "string \<Rightarrow> path \<Rightarrow> unit top" where
  "atomic_symlink = switch_link (ValueError ''temporary deployment link exists'')"

definition link_target :: "string \<Rightarrow> string \<Rightarrow> string" where
  "link_target destination internal = relpath (BASE @ [''current''] @ comps internal) (butlast (comps destination))"

definition managed_link :: "tree \<Rightarrow> string \<Rightarrow> string \<Rightarrow> bool" where
  "managed_link s destination internal \<longleftrightarrow> objs s (comps destination) = Some (OLink (link_target destination internal))"

definition directory_ok :: "tree \<Rightarrow> path \<Rightarrow> bool" where
  "directory_ok s p \<longleftrightarrow>
     (case objs s p of Some (ODir st) \<Rightarrow> st_uid st = euid s \<and> \<not> others_may_write (st_mode st) | _ \<Rightarrow> False)"

text \<open>\<open>safe_directory\<close> without and with \<open>create\<close>.\<close>

fun check_directory :: "tree \<Rightarrow> path \<Rightarrow> path \<Rightarrow> unit res" where
  "check_directory s current [] = Inr ()"
| "check_directory s current (c # cs) =
     (let p = current @ [c] in
      if \<not> lexists s p then Inr ()
      else if \<not> directory_ok s p then Inl (ValueError ''unsafe deployment directory'')
      else check_directory s p cs)"

fun make_directory :: "path \<Rightarrow> path \<Rightarrow> unit top" where
  "make_directory current [] = returnS ()"
| "make_directory current (c # cs) =
     (let p = current @ [c] in
      bindS (\<lambda>s. if \<not> lexists s p then sys_mkdir 493 p s else returnS () s) (\<lambda>_.
      bindS (queryS (\<lambda>s. raise_if (\<not> directory_ok s p) (ValueError ''unsafe deployment directory''))) (\<lambda>_.
      make_directory p cs)))"

definition safe_directory :: "path \<Rightarrow> bool \<Rightarrow> unit top" where
  "safe_directory absolute create =
     (if create then make_directory [] absolute else queryS (\<lambda>s. check_directory s [] absolute))"

section \<open>Installed deployments\<close>

definition deployment_directory :: "string \<Rightarrow> path" where
  "deployment_directory deployment_id = BASE @ [''deployments'', deployment_id]"

text \<open>\<open>set(manifest)\<close> for a decoded value.\<close>

definition json_keys :: "json \<Rightarrow> json list res" where
  "json_keys v = (case v of JObj d \<Rightarrow> Inr (map (JStr \<circ> fst) d) | JList xs \<Rightarrow> py_set xs
     | JStr s \<Rightarrow> Inr (map (\<lambda>c. JStr [c]) s) | _ \<Rightarrow> Inl (TypeError ''not iterable''))"

definition check_manifest :: "string \<Rightarrow> json \<Rightarrow> fields res" where
  "check_manifest deployment_id manifest =
     bindE (json_keys manifest) (\<lambda>keys.
     if set keys \<noteq> {JStr ''schema_version'', JStr ''deployment'', JStr ''files''}
     then Inl (ValueError ''installed deployment manifest identity mismatch'')
     else bindE (subscript manifest ''schema_version'') (\<lambda>version.
       if \<not> py_eq version (JInt 1) then Inl (ValueError ''installed deployment manifest identity mismatch'')
       else bindE (subscript manifest ''deployment'') (\<lambda>name.
         if \<not> py_eq name (JStr deployment_id) then Inl (ValueError ''installed deployment manifest identity mismatch'')
         else bindE (subscript manifest ''files'') (\<lambda>files.
           case files of
             JObj fs \<Rightarrow> if fst ` set fs \<notin> set ` set KNOWN_FILE_SETS
               then Inl (ValueError ''installed deployment manifest file set mismatch'') else Inr fs
           | _ \<Rightarrow> Inl (ValueError ''installed deployment manifest file set mismatch'')))))"

definition check_installed_file :: "(bytes \<Rightarrow> string) \<Rightarrow> tree \<Rightarrow> string \<Rightarrow> fields \<Rightarrow> bytes \<Rightarrow> string \<Rightarrow> bytes res" where
  "check_installed_file sha256 s deployment_id files identity name =
     (let expected = jget files name; directory = deployment_directory deployment_id in
      if \<not> (is_str expected \<and> is_hex64 (the_str expected)) then Inl (ValueError ''installed deployment file hash is malformed'')
      else bindE (check_directory s [] (directory @ butlast (comps name))) (\<lambda>_.
        bindE (lstat_mode s (directory @ comps name)) (\<lambda>mode.
        if others_may_write mode then Inl (ValueError ''installed deployment file is writable'')
        else bindE (secure_input (euid s) (2 ^ 20) (tree_input s (directory @ comps name))) (\<lambda>data.
          if sha256 data \<noteq> the_str expected then Inl (ValueError ''installed deployment file hash mismatch'')
          else Inr (identity @ identity_line name (the_str expected))))))"

definition verify_deployment :: "(bytes \<Rightarrow> string) \<Rightarrow> loads \<Rightarrow> tree \<Rightarrow> string \<Rightarrow> fields res" where
  "verify_deployment sha256 loads s deployment_id =
     (if \<not> is_hex64 deployment_id then Inl (ValueError ''invalid deployment identity'')
      else bindE (check_directory s [] (BASE @ [''deployments''])) (\<lambda>_.
        let directory = deployment_directory deployment_id; manifest_path = directory @ [''deployment-manifest.json''] in
        if \<not> is_dir s directory \<or> is_symlink s directory then Inl (ValueError ''installed deployment is unavailable'')
        else bindE (check_directory s [] directory) (\<lambda>_.
          bindE (lstat_mode s manifest_path) (\<lambda>mode.
          if others_may_write mode then Inl (ValueError ''installed deployment manifest is writable'')
          else bindE (bindE (secure_input (euid s) (2 ^ 20) (tree_input s manifest_path)) (strict_json_bytes loads)) (\<lambda>manifest.
            bindE (check_manifest deployment_id manifest) (\<lambda>files.
            bindE (forE (sort (map fst files)) (check_installed_file sha256 s deployment_id files) []) (\<lambda>identity.
            if sha256 identity \<noteq> deployment_id then Inl (ValueError ''installed deployment content identity mismatch'')
            else Inr files)))))))"

definition selected_id :: "string \<Rightarrow> string option" where
  "selected_id target =
     (let rest = drop 12 target in if startswith target ''deployments/'' \<and> is_hex64 rest then Some rest else None)"

definition check_selector :: "(bytes \<Rightarrow> string) \<Rightarrow> loads \<Rightarrow> tree \<Rightarrow> unit res" where
  "check_selector sha256 loads s =
     (let current = BASE @ [''current''] in
      if \<not> lexists s current then Inr ()
      else case objs s current of
        Some (OLink target) \<Rightarrow> (case selected_id target of
            None \<Rightarrow> Inl (ValueError ''deployment current selector is unmanaged'')
          | Some deployment_id \<Rightarrow> bindE (verify_deployment sha256 loads s deployment_id) (\<lambda>_. Inr ()))
      | _ \<Rightarrow> Inl (ValueError ''deployment current selector is unmanaged''))"

definition check_destination :: "string \<times> string \<Rightarrow> tree \<Rightarrow> unit res" where
  "check_destination = (\<lambda>(destination, internal) s.
     raise_if (lexists s (comps destination) \<and> \<not> managed_link s destination internal)
       (ValueError ''refuse unrelated deployment path''))"

definition preflight_links :: "(bytes \<Rightarrow> string) \<Rightarrow> loads \<Rightarrow> bool \<Rightarrow> unit top" where
  "preflight_links sha256 loads create_parents =
     bindS (safe_directory BASE create_parents) (\<lambda>_.
     bindS (queryS (check_selector sha256 loads)) (\<lambda>_.
     forS LINKS (\<lambda>_ link.
       bindS (safe_directory (butlast (comps (fst link))) create_parents) (\<lambda>_. queryS (check_destination link))) ()))"

section \<open>Activation\<close>

type_synonym progress = "path list \<times> (path \<times> string) list"

definition activate_link :: "string list \<Rightarrow> string \<times> string \<Rightarrow> progress \<Rightarrow> progress top" where
  "activate_link files = (\<lambda>(destination, internal) (created, removed) s.
     let p = comps destination; target = link_target destination internal in
     if internal \<in> set files \<and> \<not> managed_link s destination internal
     then bindS (atomic_symlink target p) (\<lambda>_. returnS (created @ [p], removed)) s
     else if internal \<notin> set files \<and> managed_link s destination internal
     then bindS (sys_remove p) (\<lambda>_. bindS (sync_path (butlast p)) (\<lambda>_. returnS (created, removed @ [(p, target)]))) s
     else returnS (created, removed) s)"

definition activate_links :: "string list \<Rightarrow> (string \<times> string) list \<Rightarrow> progress \<Rightarrow> (exn option \<times> progress) top" where
  "activate_links files = until_failure (activate_link files)"

definition rollback_links :: "progress \<Rightarrow> unit top" where
  "rollback_links = (\<lambda>(created, removed).
     bindS (forS (rev created) (\<lambda>_. unlink_created) ()) (\<lambda>_.
     forS (rev removed) (\<lambda>_ (p, target). atomic_symlink target p) ()))"

definition select_deployment :: "string list \<Rightarrow> string \<Rightarrow> unit top" where
  "select_deployment files deployment_id =
     bindS (activate_links files LINKS ([], [])) (\<lambda>(failure, progress).
     case failure of
       Some e \<Rightarrow> bindS (rollback_links progress) (\<lambda>_. raiseS e)
     | None \<Rightarrow> rollbackS (atomic_symlink (''deployments/'' @ deployment_id) (BASE @ [''current''])) (rollback_links progress))"

definition activate :: "(bytes \<Rightarrow> string) \<Rightarrow> loads \<Rightarrow> string \<Rightarrow> unit top" where
  "activate sha256 loads deployment_id =
     bindS (preflight_links sha256 loads False) (\<lambda>_.
     bindS (queryS (\<lambda>s. verify_deployment sha256 loads s deployment_id)) (\<lambda>files.
     bindS (preflight_links sha256 loads True) (\<lambda>_.
     select_deployment (map fst files) deployment_id)))"

section \<open>Installation\<close>

definition file_mode :: "(string \<rightharpoonup> nat) option \<Rightarrow> string \<Rightarrow> nat res" where
  "file_mode modes name =
     (case modes of
        Some m \<Rightarrow> (case m name of Some mode \<Rightarrow> Inr mode | None \<Rightarrow> Inl (KeyError name))
      | None \<Rightarrow> Inr (if name = ''runtime.env'' \<or> name = ''mkruntime/config.json'' then 384
                    else if name \<in> set EXECUTABLES then 493 else 420))"

definition write_file :: "nat \<Rightarrow> path \<Rightarrow> bytes \<Rightarrow> unit top" where
  "write_file mode output data =
     bindS (sys_create_file mode output) (\<lambda>_. bindS (sys_put output data) (\<lambda>_. sys_noop))"

definition stage_file :: "(string \<rightharpoonup> nat) option \<Rightarrow> path \<Rightarrow> string \<times> bytes \<Rightarrow> unit top" where
  "stage_file modes staging = (\<lambda>(name, data).
     bindS (mkdir_parents 493 (rev (staging @ butlast (comps name)))) (\<lambda>_.
     bindS (raiseE (file_mode modes name)) (\<lambda>mode. write_file mode (staging @ comps name) data)))"

definition deployment_manifest :: "(bytes \<Rightarrow> string) \<Rightarrow> string \<Rightarrow> files \<Rightarrow> json" where
  "deployment_manifest sha256 deployment_id files = JObj
     [(''schema_version'', JInt 1), (''deployment'', JStr deployment_id),
      (''files'', JObj (map (\<lambda>(name, data). (name, JStr (sha256 data))) (sort_key fst files)))]"

definition write_deployment :: "(bytes \<Rightarrow> string) \<Rightarrow> (json \<Rightarrow> bytes) \<Rightarrow> (string \<rightharpoonup> nat) option \<Rightarrow> string \<Rightarrow> files \<Rightarrow> path \<Rightarrow> unit top" where
  "write_deployment sha256 dumps modes deployment_id files staging =
     bindS (forS files (\<lambda>_. stage_file modes staging) ()) (\<lambda>_.
     let manifest_path = staging @ [''deployment-manifest.json''] in
     bindS (sys_create_file 420 manifest_path) (\<lambda>_.
     bindS (sys_put manifest_path (dumps (deployment_manifest sha256 deployment_id files) @ [CHR 0x0A])) (\<lambda>_.
     sys_chmod 384 manifest_path)))"

definition stage_deployment :: "(bytes \<Rightarrow> string) \<Rightarrow> (json \<Rightarrow> bytes) \<Rightarrow> (string \<rightharpoonup> nat) option \<Rightarrow> string \<Rightarrow> files \<Rightarrow> path \<Rightarrow> path \<Rightarrow> unit top" where
  "stage_deployment sha256 dumps modes deployment_id files staging destination =
     bindS (write_deployment sha256 dumps modes deployment_id files staging) (\<lambda>_.
     bindS (sys_rename_directory staging destination) (\<lambda>_. sync_path (butlast destination)))"

definition modes_differ :: "tree \<Rightarrow> path \<Rightarrow> (string \<rightharpoonup> nat) option \<Rightarrow> string list \<Rightarrow> bool res" where
  "modes_differ s destination modes names0 =
     (case modes of None \<Rightarrow> Inr False
      | Some m \<Rightarrow> forE names0 (\<lambda>differ name.
          bindE (lstat_mode s (destination @ comps name)) (\<lambda>mode. Inr (differ \<or> Some (S_IMODE mode) \<noteq> m name))) False)"

definition check_still_active :: "string option \<Rightarrow> tree \<Rightarrow> unit res" where
  "check_still_active expected_active s =
     (case expected_active of None \<Rightarrow> Inr ()
      | Some expected \<Rightarrow> bindE (readlink s (BASE @ [''current''])) (\<lambda>target.
          raise_if (target \<noteq> expected) (ValueError ''active deployment changed while preparing the storage binding'')))"

definition install_files :: "(bytes \<Rightarrow> string) \<Rightarrow> loads \<Rightarrow> (json \<Rightarrow> bytes) \<Rightarrow> files \<Rightarrow> (string \<rightharpoonup> nat) option \<Rightarrow> string option \<Rightarrow> string top" where
  "install_files sha256 loads dumps files modes expected_active =
     bindS (preflight_links sha256 loads False) (\<lambda>_.
     let deployment_id = deployment_identifier sha256 files; deployments = BASE @ [''deployments'']; destination = deployments @ [deployment_id] in
     bindS (preflight_links sha256 loads True) (\<lambda>_.
     bindS (safe_directory deployments True) (\<lambda>_.
     bindS (\<lambda>s.
       if path_exists s destination then queryS (\<lambda>s. bindE (verify_deployment sha256 loads s deployment_id) (\<lambda>_. Inr ())) s
       else (let staging = deployments @ [''.'' @ deployment_id @ ''.staging-'' @ pid s] in
         bindS (sys_mkdir 493 staging) (\<lambda>_.
         bindS (rollbackS (stage_deployment sha256 dumps modes deployment_id files staging destination) (rmtree_ignore_errors staging)) (\<lambda>_.
         queryS (\<lambda>s. bindE (verify_deployment sha256 loads s deployment_id) (\<lambda>_. Inr ())))) s)) (\<lambda>_.
     bindS (queryS (\<lambda>s. bindE (modes_differ s destination modes (map fst files)) (\<lambda>differ.
         raise_if differ (ValueError ''installed deployment modes differ from the cloned generation'')))) (\<lambda>_.
     bindS (queryS (check_still_active expected_active)) (\<lambda>_.
     bindS (activate sha256 loads deployment_id) (\<lambda>_. returnS deployment_id)))))))"

definition install :: "(bytes \<Rightarrow> string) \<Rightarrow> loads \<Rightarrow> (json \<Rightarrow> bytes) \<Rightarrow> (string \<Rightarrow> input) \<Rightarrow> input \<Rightarrow> input \<Rightarrow> string top" where
  "install sha256 loads dumps assets runtime_env host_config =
     bindS (preflight_links sha256 loads False) (\<lambda>_.
     bindS (queryS (\<lambda>s. deployment_files loads (euid s) assets runtime_env host_config)) (\<lambda>files.
     install_files sha256 loads dumps files None None))"

section \<open>Storage size\<close>

text \<open>
  The pattern \<open>(?m)^[ \t]*MKRUNTIME_STORAGE_BYTES=([0-9]+)[ \t]*\r?$\<close> cannot cross a line feed, so it is
  matched line by line; a match is what precedes the digits, the digits, and the rest of the line.
\<close>

definition match_storage_line :: "bytes \<Rightarrow> (bytes \<times> bytes \<times> bytes) option" where
  "match_storage_line line =
     (let blank = (\<lambda>c. c = CHR '' '' \<or> c = CHR 0x09);
          key = ''MKRUNTIME_STORAGE_BYTES='';
          lead = takeWhile blank line; body = dropWhile blank line;
          digits = takeWhile is_digit (drop (length key) body);
          rest = dropWhile is_digit (drop (length key) body);
          tail = dropWhile blank rest
      in if startswith body key \<and> digits \<noteq> [] \<and> (tail = [] \<or> tail = [CHR 0x0D]) then Some (lead @ key, digits, rest) else None)"

definition storage_matches :: "bytes \<Rightarrow> bytes list" where
  "storage_matches environment =
     map (\<lambda>m. fst (snd (the m))) (filter (\<lambda>m. m \<noteq> None) (map match_storage_line (split_on (CHR 0x0A) environment)))"

definition replace_storage_line :: "nat \<Rightarrow> bytes \<Rightarrow> bytes" where
  "replace_storage_line new_bytes line =
     (case match_storage_line line of Some (pre, _, post) \<Rightarrow> pre @ dec_digits new_bytes @ post | None \<Rightarrow> line)"

definition replace_storage_bytes :: "nat \<Rightarrow> bytes \<Rightarrow> bytes" where
  "replace_storage_bytes new_bytes environment =
     join_with [CHR 0x0A] (map (replace_storage_line new_bytes) (split_on (CHR 0x0A) environment))"

definition rebind_environment :: "nat \<Rightarrow> nat \<Rightarrow> bytes \<Rightarrow> bytes res" where
  "rebind_environment expected_bytes new_bytes environment =
     bindE (validate_environment environment) (\<lambda>_.
     let matches = storage_matches environment in
     if length matches \<noteq> 1 \<or> decimal (hd matches) \<noteq> expected_bytes
     then Inl (ValueError ''active storage byte binding differs from expected old value'')
     else let rebound = replace_storage_bytes new_bytes environment in
       bindE (validate_environment rebound) (\<lambda>_. Inr rebound))"

definition read_deployment :: "tree \<Rightarrow> path \<Rightarrow> string list \<Rightarrow> (files \<times> (string \<rightharpoonup> nat)) res" where
  "read_deployment s directory names0 =
     bindE (mapE (\<lambda>name. bindE (secure_input (euid s) (2 ^ 20) (tree_input s (directory @ comps name))) (\<lambda>data. Inr (name, data))) names0) (\<lambda>files.
     bindE (mapE (\<lambda>name. bindE (lstat_mode s (directory @ comps name)) (\<lambda>mode. Inr (name, S_IMODE mode))) names0) (\<lambda>modes.
     if list_ex (\<lambda>(name, mode). others_may_write mode) modes then Inl (ValueError ''active deployment has writable files'')
     else Inr (files, map_of modes)))"

definition update_storage_size :: "(bytes \<Rightarrow> string) \<Rightarrow> loads \<Rightarrow> (json \<Rightarrow> bytes) \<Rightarrow> int \<Rightarrow> int \<Rightarrow> json top" where
  "update_storage_size sha256 loads dumps expected_bytes new_bytes =
     (if \<not> (0 < expected_bytes \<and> expected_bytes < new_bytes \<and> new_bytes \<le> 2 ^ 63)
         \<or> expected_bytes mod 512 \<noteq> 0 \<or> new_bytes mod 512 \<noteq> 0
      then raiseS (ValueError ''storage binding update requires a sector-aligned growth'')
      else bindS (preflight_links sha256 loads False) (\<lambda>_.
        bindS (queryS (\<lambda>s. if \<not> is_symlink s (BASE @ [''current'']) then Inl (ValueError ''no active deployment for storage binding update'')
            else readlink s (BASE @ [''current'']))) (\<lambda>previous.
        let previous_id = snd (split_once (CHR ''/'') previous) in
        bindS (queryS (\<lambda>s. verify_deployment sha256 loads s previous_id)) (\<lambda>manifest.
        bindS (queryS (\<lambda>s. read_deployment s (BASE @ comps previous) (map fst manifest))) (\<lambda>(files, modes).
        bindS (raiseE (case map_of files ''runtime.env'' of None \<Rightarrow> Inl (KeyError ''runtime.env'') | Some environment \<Rightarrow>
            rebind_environment (nat expected_bytes) (nat new_bytes) environment)) (\<lambda>rebound.
        let files' = map (\<lambda>(name, data). (name, if name = ''runtime.env'' then rebound else data)) files;
            changed = map fst (filter (\<lambda>(name, data). \<not> py_eq (JStr (sha256 data)) (jget manifest name)) files') in
        if changed \<noteq> [''runtime.env''] then raiseS (ValueError ''storage binding update changed unexpected deployment files'')
        else bindS (install_files sha256 loads dumps files' (Some modes) (Some previous)) (\<lambda>selected.
          returnS (JObj [(''previous'', JStr previous_id), (''active'', JStr selected), (''changed_files'', jstrs changed),
            (''old_bytes'', JInt expected_bytes), (''new_bytes'', JInt new_bytes),
            (''disk_resize_performed'', JBool False), (''service_restart_required'', JBool True)]))))))))"

section \<open>Inspection and removal\<close>

definition deployment_names :: "tree \<Rightarrow> string list" where
  "deployment_names s =
     (let deployments = BASE @ [''deployments''] in
      if is_dir s deployments
      then sorted_list_of_set {c \<in> children s deployments. is_dir s (deployments @ [c]) \<and> \<not> startswith c ''.''} else [])"

definition inspection_report :: "tree \<Rightarrow> fields" where
  "inspection_report s =
     [(''active'', (case objs s (BASE @ [''current'']) of Some (OLink t) \<Rightarrow> JStr t | _ \<Rightarrow> JNull)),
      (''deployments'', jstrs (deployment_names s)),
      (''links'', JObj (map (\<lambda>(destination, internal). (destination, JBool (managed_link s destination internal))) LINKS)),
      (''activation_required'', jstrs [''systemctl daemon-reload'',
         ''systemctl enable --now sys-fs-multikernel.mount mkruntimed.service mknetd.service''])]"

definition inspection :: "(bytes \<Rightarrow> string) \<Rightarrow> loads \<Rightarrow> fields top" where
  "inspection sha256 loads =
     bindS (preflight_links sha256 loads False) (\<lambda>_.
     bindS (safe_directory (BASE @ [''deployments'']) False) (\<lambda>_. queryS (\<lambda>s. Inr (inspection_report s))))"

definition unlink_managed :: "string \<times> string \<Rightarrow> unit top" where
  "unlink_managed = (\<lambda>(destination, internal) s.
     let p = comps destination in
     if managed_link s destination internal then bindS (sys_remove p) (\<lambda>_. sync_path (butlast p)) s else returnS () s)"

definition unlink_selector :: "unit top" where
  "unlink_selector s =
     (let current = BASE @ [''current''] in
      if is_symlink s current then bindS (sys_remove current) (\<lambda>_. sync_path BASE) s else returnS () s)"

definition uninstall :: "(bytes \<Rightarrow> string) \<Rightarrow> loads \<Rightarrow> bool \<Rightarrow> fields top" where
  "uninstall sha256 loads apply0 =
     bindS (inspection sha256 loads) (\<lambda>report.
     let report' = report @ [(''operation'', JStr ''uninstall''), (''applied'', JBool apply0)] in
     if \<not> apply0 then returnS report'
     else bindS (preflight_links sha256 loads False) (\<lambda>_.
       bindS (forS LINKS (\<lambda>_. unlink_managed) ()) (\<lambda>_.
       bindS unlink_selector (\<lambda>_.
       bindS (inspection sha256 loads) (\<lambda>final.
       returnS (report' @ [(''preserved_deployments'', jget final ''deployments'')]))))))"

definition remove_deployment :: "(bytes \<Rightarrow> string) \<Rightarrow> loads \<Rightarrow> string \<Rightarrow> bool \<Rightarrow> fields top" where
  "remove_deployment sha256 loads deployment_id apply0 =
     bindS (queryS (\<lambda>s. verify_deployment sha256 loads s deployment_id)) (\<lambda>_.
     bindS (queryS (\<lambda>s. raise_if (objs s (BASE @ [''current'']) = Some (OLink (''deployments/'' @ deployment_id)))
         (ValueError ''refuse to remove the active deployment''))) (\<lambda>_.
     bindS (if apply0 then bindS (sys_rmtree (deployment_directory deployment_id)) (\<lambda>_. sync_path (BASE @ [''deployments''])) else returnS ()) (\<lambda>_.
     returnS [(''operation'', JStr ''remove-deployment''), (''deployment'', JStr deployment_id), (''applied'', JBool apply0)])))"

section \<open>The command\<close>

datatype command =
    Inspect
  | Install input input
  | UpdateStorageSize int int
  | Activate string
  | Uninstall bool
  | RemoveDeployment string bool

fun is_mutation :: "command \<Rightarrow> bool" where
  "is_mutation (Install _ _) = True"
| "is_mutation (Activate _) = True"
| "is_mutation (UpdateStorageSize _ _) = True"
| "is_mutation (Uninstall apply0) = apply0"
| "is_mutation (RemoveDeployment _ apply0) = apply0"
| "is_mutation Inspect = False"

definition run_command :: "(bytes \<Rightarrow> string) \<Rightarrow> loads \<Rightarrow> (json \<Rightarrow> bytes) \<Rightarrow> (string \<Rightarrow> input) \<Rightarrow> command \<Rightarrow> json top" where
  "run_command sha256 loads dumps assets command =
     (case command of
        Inspect \<Rightarrow> bindS (inspection sha256 loads) (\<lambda>r. returnS (JObj r))
      | Install runtime_env host_config \<Rightarrow> bindS (install sha256 loads dumps assets runtime_env host_config)
          (\<lambda>d. returnS (JObj [(''installed_and_active'', JStr d)]))
      | UpdateStorageSize expected_bytes new_bytes \<Rightarrow> update_storage_size sha256 loads dumps expected_bytes new_bytes
      | Activate deployment_id \<Rightarrow> bindS (activate sha256 loads deployment_id) (\<lambda>_. returnS (JObj [(''active'', JStr deployment_id)]))
      | Uninstall apply0 \<Rightarrow> bindS (uninstall sha256 loads apply0) (\<lambda>r. returnS (JObj r))
      | RemoveDeployment deployment_id apply0 \<Rightarrow> bindS (remove_deployment sha256 loads deployment_id apply0) (\<lambda>r. returnS (JObj r)))"

fun is_reported :: "exn \<Rightarrow> bool" where
  "is_reported (ValueError _) = True"
| "is_reported (UnicodeDecodeError _) = True"
| "is_reported (UnicodeEncodeError _) = True"
| "is_reported (JSONDecodeError _) = True"
| "is_reported (KeyError _) = True"
| "is_reported (TypeError _) = True"
| "is_reported e = is_os_error e"

text \<open>\<open>main\<close>: the exit status and, on success, the printed report.  \<open>system_root\<close> says that the root is \<open>/\<close>.\<close>

definition deployment_main :: "(bytes \<Rightarrow> string) \<Rightarrow> loads \<Rightarrow> (json \<Rightarrow> bytes) \<Rightarrow> (string \<Rightarrow> input) \<Rightarrow> bool \<Rightarrow> command \<Rightarrow> (int \<times> json option) top" where
  "deployment_main sha256 loads dumps assets system_root command =
     catchS
       (bindS (queryS (\<lambda>s. raise_if (is_mutation command \<and> system_root \<and> euid s \<noteq> 0) (PermissionError ''system mutation requires root''))) (\<lambda>_.
        bindS (run_command sha256 loads dumps assets command) (\<lambda>result. returnS (0, Some result))))
       (\<lambda>e. if is_reported e then returnS (1, None) else raiseS e)"

end
