(* ===== verification/Deployment_Env.thy ===== *)
theory Deployment_Env
  imports Deployment
begin

text \<open>
  The runtime environment of the deployment manager: what an accepted one guarantees, and what an update of the storage size
  changes in it.
\<close>

section \<open>Accepted environments\<close>

lemma env_keys_loop:
  "forE ls env_key_step seen = Inr seen' \<Longrightarrow> distinct seen \<Longrightarrow>
     distinct seen' \<and> seen' = rev (map (fst \<circ> split_once (CHR ''='')) ls) @ seen"
  by (induction ls arbitrary: seen) (auto simp: env_key_step_def Let_def bindE_def split: if_splits prod.splits)

lemma validate_environment_Inr:
  "validate_environment data = Inr u \<longleftrightarrow> (\<exists>text seen. decode_utf8 data = Inr text \<and> forE (env_lines text) env_key_step [] = Inr seen
     \<and> set seen = set ENV_KEYS
     \<and> check_storage_path (env_values text) ''MKRUNTIME_STORAGE_MOUNT'' = Inr () \<and> check_storage_path (env_values text) ''MKRUNTIME_STORAGE_DEVICE'' = Inr ()
     \<and> env_values text ''MKRUNTIME_STORAGE_MOUNT'' = ''/srv/multikernel-storage''
     \<and> check_storage_token (env_values text) ''MKRUNTIME_STORAGE_SERIAL'' = Inr () \<and> check_storage_token (env_values text) ''MKRUNTIME_STORAGE_LABEL'' = Inr ()
     \<and> check_storage_bytes (env_values text ''MKRUNTIME_STORAGE_BYTES'') = Inr () \<and> is_uuid (env_values text ''MKRUNTIME_STORAGE_UUID''))"
  by (auto simp: validate_environment_def wrap_exn_def raise_if_def Let_def bindE_def split: sum.splits if_splits)

text \<open>
  C28.  An accepted environment assigns each of the known keys exactly once, its storage mount is the one of the managed
  service, and its storage size is a positive multiple of the sector size, at most \<open>2 ^ 63\<close>.
\<close>

theorem validate_environment_bounds:
  assumes "validate_environment data = Inr ()"
  shows "\<exists>text n. decode_utf8 data = Inr text
     \<and> distinct (map (fst \<circ> split_once (CHR ''='')) (env_lines text)) \<and> set (map (fst \<circ> split_once (CHR ''='')) (env_lines text)) = set ENV_KEYS
     \<and> env_values text ''MKRUNTIME_STORAGE_MOUNT'' = ''/srv/multikernel-storage''
     \<and> int_of_digits (env_values text ''MKRUNTIME_STORAGE_BYTES'') = Inr n \<and> 0 < n \<and> n \<le> 2 ^ 63 \<and> 512 dvd n"
proof -
  from assms obtain content seen where a: "decode_utf8 data = Inr content" "forE (env_lines content) env_key_step [] = Inr seen" "set seen = set ENV_KEYS"
    "env_values content ''MKRUNTIME_STORAGE_MOUNT'' = ''/srv/multikernel-storage''" "check_storage_bytes (env_values content ''MKRUNTIME_STORAGE_BYTES'') = Inr ()"
    unfolding validate_environment_Inr by blast
  have "distinct seen" "seen = rev (map (fst \<circ> split_once (CHR ''='')) (env_lines content))" using env_keys_loop [OF a(2)] by auto
  then have k: "distinct (rev seen)" "rev seen = map (fst \<circ> split_once (CHR ''='')) (env_lines content)" by simp_all
  from a(5) obtain n where "int_of_digits (env_values content ''MKRUNTIME_STORAGE_BYTES'') = Inr n" "0 < n" "n \<le> 2 ^ 63" "512 dvd n"
    by (auto simp: check_storage_bytes_def raise_if_def bindE_def split: sum.splits if_splits)
  then show ?thesis using a k by (metis set_rev)
qed

text \<open>An environment with the given storage size, used with two sizes.\<close>

definition sample_lines :: "string \<Rightarrow> string list" where
  "sample_lines bytes =
     [''MKRUNTIME_POOL_CPUS=4'', ''MKRUNTIME_POOL_MEMORY=8G'', ''MKRUNTIME_POOL_MEMORY_RESERVE=1G'', ''MKRUNTIME_CMDLINE=quiet'',
      ''MKNETWORK_SUBNET=10.0.0.0/24'', ''MKNETWORK_EGRESS=eth0'', ''MKNETWORK_MTU=1500'', ''MKNETWORK_DNS=10.0.0.1'',
      ''MKRUNTIME_STORAGE_MOUNT=/srv/multikernel-storage'', ''MKRUNTIME_STORAGE_DEVICE=/dev/vdb'', ''MKRUNTIME_STORAGE_SERIAL=s1'',
      ''MKRUNTIME_STORAGE_BYTES='' @ bytes, ''MKRUNTIME_STORAGE_LABEL=mk'', ''MKRUNTIME_STORAGE_UUID=00000000-0000-0000-0000-000000000000'']"

definition sample_environment :: "string \<Rightarrow> bytes" where
  "sample_environment bytes = join_with [CHR 0x0A] (sample_lines bytes)"

definition sample_sizes :: "string list" where
  "sample_sizes = [''1024'', ''2048'']"

lemma sample_sizes_cases: "v \<in> set sample_sizes \<Longrightarrow> (P ''1024'' \<Longrightarrow> P ''2048'' \<Longrightarrow> P v)"
  by (auto simp: sample_sizes_def)

lemma sample_ascii:
  assumes "v \<in> set sample_sizes"
  shows "list_all is_ascii (sample_environment v)"
  by (rule sample_sizes_cases [OF assms]) (simp_all add: sample_environment_def sample_lines_def is_ascii_def)

lemma sample_env_lines:
  assumes "v \<in> set sample_sizes"
  shows "env_lines (sample_environment v) = sample_lines v"
proof -
  have plain: "list_all (\<lambda>l. l \<noteq> [] \<and> list_all (\<lambda>c. \<not> is_line_end c) l) (sample_lines v)"
    by (rule sample_sizes_cases [OF assms]) (simp_all add: sample_lines_def is_line_end_def)
  show ?thesis
    unfolding env_lines_def sample_environment_def splitlines_join [OF plain]
    by (rule sample_sizes_cases [OF assms]) (simp_all add: sample_lines_def strip_def is_blank_def)
qed

lemma sample_env_keys:
  assumes "v \<in> set sample_sizes"
  shows "forE (sample_lines v) env_key_step [] = Inr (rev ENV_KEYS)"
  by (rule sample_sizes_cases [OF assms]) code_simp+

lemma sample_env_values:
  assumes "v \<in> set sample_sizes"
  shows "map (\<lambda>k. env_values (sample_environment v) (''MKRUNTIME_STORAGE_'' @ k)) [''MOUNT'', ''DEVICE'', ''SERIAL'', ''LABEL'', ''BYTES'', ''UUID'']
    = [''/srv/multikernel-storage'', ''/dev/vdb'', ''s1'', ''mk'', v, ''00000000-0000-0000-0000-000000000000'']"
  unfolding env_values_def sample_env_lines [OF assms]
  by (rule sample_sizes_cases [OF assms]) code_simp+

lemma sample_environment_valid:
  assumes "v \<in> set sample_sizes"
  shows "validate_environment (sample_environment v) = Inr ()"
proof -
  have p: "check_storage_path (\<lambda>_. ''/srv/multikernel-storage'') k = Inr ()" "check_storage_path (\<lambda>_. ''/dev/vdb'') k = Inr ()"
    "check_storage_token (\<lambda>_. ''s1'') k = Inr ()" "check_storage_token (\<lambda>_. ''mk'') k = Inr ()" "is_uuid ''00000000-0000-0000-0000-000000000000''" for k
    by code_simp+
  have b: "check_storage_bytes v = Inr ()"
    by (rule sample_sizes_cases [OF assms])
       (simp_all add: check_storage_bytes_def isdigit_def is_unicode_digit_def is_digit_code int_of_digits_def decimal_def raise_if_def)
  show ?thesis
    unfolding validate_environment_Inr decode_utf8_ascii [OF sample_ascii [OF assms]]
    using p b sample_env_keys [OF assms] sample_env_values [OF assms]
    by (auto simp: sample_env_lines [OF assms] check_storage_path_def check_storage_token_def)
qed

theorem validate_environment_bounds_witness:
  "\<exists>text n. decode_utf8 (sample_environment ''1024'') = Inr text
     \<and> distinct (map (fst \<circ> split_once (CHR ''='')) (env_lines text)) \<and> set (map (fst \<circ> split_once (CHR ''='')) (env_lines text)) = set ENV_KEYS
     \<and> env_values text ''MKRUNTIME_STORAGE_MOUNT'' = ''/srv/multikernel-storage''
     \<and> int_of_digits (env_values text ''MKRUNTIME_STORAGE_BYTES'') = Inr n \<and> 0 < n \<and> n \<le> 2 ^ 63 \<and> 512 dvd n"
  by (rule validate_environment_bounds [OF sample_environment_valid]) (simp add: sample_sizes_def)

section \<open>Rebinding the storage size\<close>

lemma match_storage_line_digits:
  assumes "match_storage_line line = Some (pre, digits, post)"
  shows "line = pre @ digits @ post"
    and "ds \<noteq> [] \<Longrightarrow> list_all is_digit ds \<Longrightarrow> match_storage_line (pre @ ds @ post) = Some (pre, ds, post)"
proof -
  let ?blank = "\<lambda>c. c = CHR '' '' \<or> c = CHR 0x09" and ?key = "''MKRUNTIME_STORAGE_BYTES=''"
  define lead where "lead = takeWhile ?blank line"
  define rest where "rest = drop (length ?key) (dropWhile ?blank line)"
  have m: "startswith (dropWhile ?blank line) ?key" "pre = lead @ ?key" "digits = takeWhile is_digit rest" "post = dropWhile is_digit rest"
    "dropWhile ?blank post = [] \<or> dropWhile ?blank post = [CHR 0x0D]"
    using assms unfolding match_storage_line_def Let_def lead_def rest_def by (auto split: if_splits)
  have "dropWhile ?blank line = ?key @ rest" unfolding rest_def by (rule startswith_split [OF m(1)])
  then have "line = lead @ ?key @ rest" unfolding lead_def by (metis takeWhile_dropWhile_id)
  then show "line = pre @ digits @ post" using m(2-4) by simp
  assume ds: "ds \<noteq> []" "list_all is_digit ds"
  have "list_all ?blank lead" unfolding lead_def by (auto simp: list_all_iff dest: set_takeWhileD)
  then have l: "takeWhile ?blank (lead @ ?key @ ds @ post) = lead \<and> dropWhile ?blank (lead @ ?key @ ds @ post) = ?key @ ds @ post"
    by (intro takeWhile_run) auto
  have "post = [] \<or> \<not> is_digit (hd post)" unfolding m(4) by (metis hd_dropWhile)
  then have d: "takeWhile is_digit (ds @ post) = ds \<and> dropWhile is_digit (ds @ post) = post" using takeWhile_run ds(2) by blast
  show "match_storage_line (pre @ ds @ post) = Some (pre, ds, post)"
    unfolding match_storage_line_def Let_def m(2) append_assoc using l d m(5) ds(1) by (simp add: startswith_def)
qed

lemma single_match:
  assumes "filter (\<lambda>m. m \<noteq> None) (map f xs) = [Some m]"
  shows "\<exists>before x after. xs = before @ x # after \<and> f x = Some m \<and> (\<forall>y \<in> set before \<union> set after. f y = None)"
  using assms
proof (induction xs)
  case (Cons x xs)
  show ?case
  proof (cases "f x")
    case None
    with Cons obtain before y after where "xs = before @ y # after" "f y = Some m" "\<forall>z \<in> set before \<union> set after. f z = None" by auto
    then show ?thesis using None by (intro exI [of _ "x # before"] exI [of _ y] exI [of _ after]) auto
  next
    case (Some z)
    then have "z = m" and "filter (\<lambda>m. m \<noteq> None) (map f xs) = []" using Cons.prems by auto
    then have "\<forall>y \<in> set xs. f y = None" by (auto simp: filter_empty_conv)
    then show ?thesis using Some \<open>z = m\<close> by (intro exI [of _ "[]"] exI [of _ x] exI [of _ xs]) auto
  qed
qed simp

text \<open>
  C29.  Rebinding the storage size replaces the digits of the one line that binds it, which were the expected size, by those of
  the new size and changes nothing else; the result is an accepted environment whose only binding is the new size.
\<close>

theorem rebind_environment_exact:
  assumes "rebind_environment expected_bytes new_bytes environment = Inr rebound"
  shows "\<exists>before pre digits post after.
       environment = join_with [CHR 0x0A] (before @ (pre @ digits @ post) # after)
     \<and> rebound = join_with [CHR 0x0A] (before @ (pre @ dec_digits new_bytes @ post) # after)
     \<and> decimal digits = expected_bytes \<and> storage_matches environment = [digits]
     \<and> storage_matches rebound = [dec_digits new_bytes] \<and> validate_environment rebound = Inr ()"
proof -
  let ?lf = "CHR 0x0A"
  let ?lines = "split_on ?lf environment"
  have r: "length (storage_matches environment) = 1" "decimal (hd (storage_matches environment)) = expected_bytes"
    "rebound = replace_storage_bytes new_bytes environment" "validate_environment rebound = Inr ()"
    using assms by (auto simp: rebind_environment_def Let_def bindE_def split: sum.splits if_splits)
  let ?ms = "filter (\<lambda>m. m \<noteq> None) (map match_storage_line ?lines)"
  have "length ?ms = 1" using r(1) unfolding storage_matches_def length_map .
  then obtain m where ms: "?ms = [m]" unfolding One_nat_def length_Suc_conv length_0_conv by blast
  have "m \<in> set ?ms" unfolding ms by simp
  then have "m \<noteq> None" unfolding set_filter by blast
  then obtain pre digits post where "m = Some (pre, digits, post)" by (cases m) auto
  then have m: "?ms = [Some (pre, digits, post)]" using ms by metis
  from single_match [OF this] obtain before line after where
    l: "?lines = before @ line # after" "match_storage_line line = Some (pre, digits, post)" "\<forall>y \<in> set before \<union> set after. match_storage_line y = None"
    by blast
  note d = match_storage_line_digits [OF l(2)]
  have env: "environment = join_with [?lf] (before @ (pre @ digits @ post) # after)" using join_split_on [of ?lf environment] l(1) d(1) by simp
  have keep: "replace_storage_line new_bytes y = y" if "y \<in> set before \<union> set after" for y
    using l(3) that by (simp add: replace_storage_line_def)
  have "map (replace_storage_line new_bytes) ?lines = before @ (pre @ dec_digits new_bytes @ post) # after"
    using keep l(2) unfolding l(1) by (simp add: replace_storage_line_def [of _ line] map_idI)
  then have reb: "rebound = join_with [?lf] (before @ (pre @ dec_digits new_bytes @ post) # after)"
    using r(3) by (simp add: replace_storage_bytes_def)
  have "?lf \<notin> set line" "\<forall>y \<in> set before \<union> set after. ?lf \<notin> set y" using split_on_no_sep [of _ ?lf environment] l(1) by auto
  moreover have "?lf \<notin> set (dec_digits new_bytes)" using dec_digits_digits(2) [of new_bytes] by (auto simp: list_all_iff is_digit_code)
  ultimately have "split_on ?lf rebound = before @ (pre @ dec_digits new_bytes @ post) # after"
    unfolding reb d(1) by (intro split_join_on) auto
  moreover have "match_storage_line (pre @ dec_digits new_bytes @ post) = Some (pre, dec_digits new_bytes, post)"
    by (rule d(2) [OF dec_digits_digits])
  ultimately have "storage_matches rebound = [dec_digits new_bytes]"
    using l(3) by (simp add: storage_matches_def filter_empty_conv)
  then show ?thesis using env reb r m by (auto simp: storage_matches_def)
qed

lemma sample_split: "v \<in> set sample_sizes \<Longrightarrow> split_on (CHR 0x0A) (sample_environment v) = sample_lines v"
  unfolding sample_environment_def by (rule split_join_on) (auto simp: sample_lines_def sample_sizes_def)

lemma sample_rebound: "rebind_environment 1024 2048 (sample_environment ''1024'') = Inr (sample_environment ''2048'')"
proof -
  have v: "''1024'' \<in> set sample_sizes" "''2048'' \<in> set sample_sizes" by (simp_all add: sample_sizes_def)
  have m: "map match_storage_line (sample_lines ''1024'') = (replicate 14 None)[11 := Some (''MKRUNTIME_STORAGE_BYTES='', ''1024'', [])]"
    by code_simp
  have d: "decimal ''1024'' = 1024" by (simp add: decimal_def)
  have digits: "dec_digits 2048 = ''2048''" by (simp add: dec_digits.simps char_of_def bit_0)
  have "storage_matches (sample_environment ''1024'') = [''1024'']"
    unfolding storage_matches_def sample_split [OF v(1)] m by code_simp
  moreover have "map (replace_storage_line 2048) (sample_lines ''1024'') = sample_lines ''2048''"
    unfolding replace_storage_line_def digits by code_simp
  ultimately show ?thesis
    using sample_environment_valid [OF v(1)] sample_environment_valid [OF v(2)] d
    by (simp add: rebind_environment_def replace_storage_bytes_def sample_split [OF v(1)] sample_environment_def [symmetric])
qed

theorem rebind_environment_exact_witness:
  "\<exists>before pre digits post after.
       sample_environment ''1024'' = join_with [CHR 0x0A] (before @ (pre @ digits @ post) # after)
     \<and> sample_environment ''2048'' = join_with [CHR 0x0A] (before @ (pre @ dec_digits 2048 @ post) # after)
     \<and> decimal digits = 1024 \<and> storage_matches (sample_environment ''1024'') = [digits]
     \<and> storage_matches (sample_environment ''2048'') = [dec_digits 2048] \<and> validate_environment (sample_environment ''2048'') = Inr ()"
  by (rule rebind_environment_exact [OF sample_rebound])

end
