(* ===== verification/Deployment_Safety.thy ===== *)
theory Deployment_Safety
  imports Deployment
begin

text \<open>
  What the deployment manager changes.  Its links and its selector form a \<open>link_table\<close>; the checks before a command
  establish that the table is clean, and every command keeps to it whichever system calls fail.
\<close>

section \<open>The table of links\<close>

definition selector :: path where
  "selector = BASE @ [''current'']"

definition is_selected :: "string \<Rightarrow> bool" where
  "is_selected t \<longleftrightarrow> selected_id t \<noteq> None"

definition link_entry :: "string \<times> string \<Rightarrow> path \<times> string" where
  "link_entry = (\<lambda>(destination, internal). (comps destination, link_target destination internal))"

abbreviation managed_table :: link_list where
  "managed_table \<equiv> map link_entry LINKS"

lemma fst_link_entry [simp]: "fst (link_entry link) = comps (fst link)"
  by (simp add: link_entry_def split: prod.splits)

lemma managed_spread: "well_spread (selector # map (comps \<circ> fst) LINKS)"
  by code_simp

lemma managed_paths: "selector # map fst managed_table = selector # map (comps \<circ> fst) LINKS"
  by simp

interpretation table: link_table managed_table selector is_selected
  by (rule link_table_well_spread, unfold managed_paths, rule managed_spread)

abbreviation "keepsL \<equiv> keeps managed_table selector is_selected"
abbreviation "cleanL \<equiv> clean managed_table selector is_selected"
abbreviation "confinedL \<equiv> confined managed_table selector is_selected"

lemma LINKS_paths:
  assumes "link \<in> set LINKS"
  shows "comps (fst link) \<in> set (selector # map fst managed_table)" and "(comps (fst link), link_target (fst link) (snd link)) \<in> set managed_table"
proof -
  have "link_entry link \<in> set managed_table" using assms by simp
  then show "(comps (fst link), link_target (fst link) (snd link)) \<in> set managed_table" by (simp add: link_entry_def split_beta)
  then show "comps (fst link) \<in> set (selector # map fst managed_table)" using assms by auto
qed

section \<open>Preflight\<close>

text \<open>Without \<open>create_parents\<close> the checks change nothing, and when they pass the table is clean.\<close>

lemma check_links_pure:
  assumes "forS ls (\<lambda>_ link. bindS (queryS (f link)) (\<lambda>_. queryS (check_destination link))) () s = (r, s')"
  shows "s' = s" and "r = Inr u \<Longrightarrow> link \<in> set ls \<Longrightarrow> check_destination link s = Inr ()"
proof -
  have "s' = s \<and> (r \<in> range Inr \<longrightarrow> (\<forall>link \<in> set ls. check_destination link s = Inr ()))"
    using assms
    by (induction ls) (auto simp: returnS_def bindS_def queryS_def split: sum.splits)
  then show "s' = s" and "r = Inr u \<Longrightarrow> link \<in> set ls \<Longrightarrow> check_destination link s = Inr ()" by auto
qed

lemma check_selector_selected:
  assumes "check_selector sha256 loads s = Inr u" and "objs s selector = Some x"
  shows "\<exists>t. x = OLink t \<and> is_selected t"
  using assms by (auto simp: check_selector_def Let_def lexists_def is_selected_def selector_def split: obj.splits option.splits)

lemma check_destination_managed:
  "check_destination link s = Inr u \<Longrightarrow>
     objs s (comps (fst link)) = None \<or> objs s (comps (fst link)) = Some (OLink (link_target (fst link) (snd link)))"
  by (auto simp: check_destination_def managed_link_def lexists_def raise_if_def split: prod.splits if_splits)

lemma preflight_checks:
  assumes "preflight_links sha256 loads False s = (r, s')"
  shows "s' = s" and "r = Inr u \<Longrightarrow> cleanL s"
proof -
  have run: "bindS (queryS (\<lambda>s. check_directory s [] BASE)) (\<lambda>_. bindS (queryS (check_selector sha256 loads)) (\<lambda>_.
      forS LINKS (\<lambda>_ link. bindS (queryS (\<lambda>s. check_directory s [] (butlast (comps (fst link))))) (\<lambda>_. queryS (check_destination link))) ())) s = (r, s')"
    using assms by (simp add: preflight_links_def safe_directory_def)
  show "s' = s" using run by (auto simp: bind_query dest: check_links_pure(1) split: sum.splits)
  assume r: "r = Inr u"
  then obtain v where sel: "check_selector sha256 loads s = Inr v"
    and loop: "forS LINKS (\<lambda>_ link. bindS (queryS (\<lambda>s. check_directory s [] (butlast (comps (fst link))))) (\<lambda>_. queryS (check_destination link))) () s = (Inr u, s')"
    using run by (auto simp: bind_query split: sum.splits)
  have "objs s p = None \<or> objs s p = Some (OLink t)" if pt: "(p, t) \<in> set managed_table" for p t
  proof -
    from pt obtain link where l: "link \<in> set LINKS" "p = comps (fst link)" "t = link_target (fst link) (snd link)"
      by (auto simp: link_entry_def)
    from check_destination_managed [OF check_links_pure(2) [OF loop refl l(1)]] l(2,3) show ?thesis by simp
  qed
  then show "cleanL s" unfolding clean_def using check_selector_selected [OF sel] by blast
qed

lemma make_directory_keeps:
  assumes "\<forall>p \<in> set (selector # map fst managed_table). \<not> prefix p (current @ cs)"
  shows "keepsL (make_directory current cs)"
  using assms
proof (induction cs arbitrary: current)
  case Nil
  show ?case by (simp add: keeps_pure)
next
  case (Cons c cs)
  have "current @ [c] \<notin> set (selector # map fst managed_table)" using Cons.prems by fastforce
  moreover have "keepsL (make_directory (current @ [c]) cs)" using Cons by simp
  ultimately show ?case unfolding make_directory.simps Let_def by (intro keeps_rules keeps_mkdir)
qed

lemma safe_directory_keeps:
  assumes "p \<in> set (selector # map fst managed_table)"
  shows "keepsL (safe_directory (butlast p) create)"
proof -
  have "\<forall>q \<in> set (selector # map fst managed_table). \<not> prefix q ([] @ butlast p)"
    using table.no_nesting [OF _ assms] by simp
  then show ?thesis unfolding safe_directory_def by (intro keeps_rules make_directory_keeps)
qed

lemma preflight_keeps: "keepsL (preflight_links sha256 loads create)"
proof -
  have "keepsL (safe_directory BASE create)" using safe_directory_keeps [of selector create] by (simp add: selector_def)
  moreover have "keepsL (safe_directory (butlast (comps (fst link))) create)" if "link \<in> set LINKS" for link
    by (rule safe_directory_keeps) (rule LINKS_paths [OF that])
  ultimately show ?thesis unfolding preflight_links_def by (intro keeps_rules keeps_for)
qed

section \<open>Activation\<close>

definition progress_ok :: "progress \<Rightarrow> bool" where
  "progress_ok = (\<lambda>(created, removed). set created \<subseteq> set (map fst managed_table) \<and> set removed \<subseteq> set managed_table)"

lemma atomic_symlink_keeps:
  "(p, t) \<in> set managed_table \<or> p = selector \<and> is_selected t \<Longrightarrow> keepsL (atomic_symlink t p)"
  unfolding atomic_symlink_def by (rule table.keeps_switch)

lemma activate_link_keeps:
  assumes "link \<in> set LINKS"
  shows "keepsL (activate_link files link progress)"
proof -
  obtain d i where l: "link = (d, i)" by fastforce
  obtain created removed where p: "progress = (created, removed)" by fastforce
  have m: "keepsL (atomic_symlink (link_target d i) (comps d))" using LINKS_paths [OF assms] l by (intro atomic_symlink_keeps) simp
  have "keepsL (sys_remove (comps d))" using LINKS_paths [OF assms] l by (intro table.keeps_remove) simp
  with m show ?thesis unfolding activate_link_def l p Let_def prod.case by (intro keeps_rules)
qed

lemma activate_link_progress:
  assumes "link \<in> set LINKS" and "progress_ok progress" and "activate_link files link progress s = (Inr progress', s')"
  shows "progress_ok progress'"
proof -
  obtain d i where l: "link = (d, i)" by fastforce
  obtain created removed where p: "progress = (created, removed)" by fastforce
  have e: "(comps d, link_target d i) \<in> set managed_table" using LINKS_paths(2) [OF assms(1)] unfolding l by (simp only: fst_conv snd_conv)
  then have "comps d \<in> set (map fst managed_table)" unfolding list.set_map(1) [of fst] by (rule image_eqI [rotated]) simp
  with e have new: "{comps d} \<subseteq> set (map fst managed_table)" "{(comps d, link_target d i)} \<subseteq> set managed_table" by blast+
  have "progress' \<in> {(created @ [comps d], removed), (created, removed @ [(comps d, link_target d i)]), progress}"
    using assms(3) unfolding l p by (auto simp: activate_link_def Let_def bindS_def returnS_def split: prod.splits sum.splits if_splits)
  then show ?thesis using assms(2) new unfolding progress_ok_def p by (auto simp del: set_map list.set_map)
qed

lemma rollback_links_keeps:
  assumes "progress_ok progress"
  shows "keepsL (rollback_links progress)"
proof -
  obtain created removed where p: "progress = (created, removed)" by fastforce
  have "keepsL (unlink_created x)" if "x \<in> set (rev created)" for x
    using assms p that by (intro table.keeps_unlink_created) (auto simp: progress_ok_def)
  moreover have "keepsL (case x of (p, target) \<Rightarrow> atomic_symlink target p)" if "x \<in> set (rev removed)" for x
    using assms p that by (cases x) (auto simp: progress_ok_def intro!: atomic_symlink_keeps)
  ultimately show ?thesis unfolding rollback_links_def p prod.case by (intro keeps_rules keeps_for)
qed

lemma is_selected_deployment: "is_hex64 d \<Longrightarrow> is_selected (''deployments/'' @ d)"
  by (simp add: is_selected_def selected_id_def)

lemma select_deployment_keeps:
  assumes "is_hex64 d"
  shows "keepsL (select_deployment files d)"
proof (rule keepsI)
  fix s r s' assume c: "cleanL s" and run: "select_deployment files d s = (r, s')"
  obtain r1 s1 where loop: "activate_links files LINKS ([], []) s = (r1, s1)" by fastforce
  have "cleanL s1 \<and> confinedL s s1 \<and> (\<exists>e p. r1 = Inr (e, p) \<and> progress_ok p)"
  proof (rule table.until_failure_keeps [OF _ _ c loop [unfolded activate_links_def]])
    fix l p s r s'
    assume a: "l \<in> set LINKS" "progress_ok p" "cleanL s" "activate_link files l p s = (r, s')"
    from keepsD [OF activate_link_keeps [OF a(1)] a(3,4)] activate_link_progress [OF a(1,2)] a(4)
    show "cleanL s' \<and> confinedL s s' \<and> (\<forall>p'. r = Inr p' \<longrightarrow> progress_ok p')" by auto
  qed (simp add: progress_ok_def)
  then obtain e p where k1: "cleanL s1" "confinedL s s1" and r1: "r1 = Inr (e, p)" and p: "progress_ok p" by blast
  have "keepsL (case e of Some e \<Rightarrow> bindS (rollback_links p) (\<lambda>_. raiseS e)
     | None \<Rightarrow> rollbackS (atomic_symlink (''deployments/'' @ d) (BASE @ [''current''])) (rollback_links p))"
    using rollback_links_keeps [OF p] atomic_symlink_keeps [of selector "''deployments/'' @ d"] is_selected_deployment [OF assms]
    by (auto simp: selector_def split: option.splits intro!: keeps_rules)
  moreover have "(case e of Some e \<Rightarrow> bindS (rollback_links p) (\<lambda>_. raiseS e)
     | None \<Rightarrow> rollbackS (atomic_symlink (''deployments/'' @ d) (BASE @ [''current''])) (rollback_links p)) s1 = (r, s')"
    using run loop r1 by (simp add: select_deployment_def bindS_def)
  ultimately have "cleanL s' \<and> confinedL s1 s'" using keepsD k1(1) by blast
  then show "cleanL s' \<and> confinedL s s'" using k1(2) confined_trans by blast
qed

lemma verify_deployment_hex: "verify_deployment sha256 loads s d = Inr files \<Longrightarrow> is_hex64 d"
  by (auto simp: verify_deployment_def split: if_splits)

text \<open>
  A command starts with the preflight checks; when they fail nothing has changed, and otherwise it runs on a clean table.
\<close>

lemma preflight_confined:
  assumes "bindS (preflight_links sha256 loads False) k s = (r, s')" and "cleanL s \<Longrightarrow> k () s = (r, s') \<Longrightarrow> confinedL s s'"
  shows "confinedL s s'"
proof -
  obtain r1 s1 where pre: "preflight_links sha256 loads False s = (r1, s1)" by fastforce
  note p = preflight_checks [OF pre]
  show ?thesis
  proof (cases r1)
    case Inl
    then show ?thesis using assms(1) pre p(1) by (simp add: bindS_def)
  next
    case (Inr u)
    then show ?thesis using assms pre p by (auto simp: bindS_def)
  qed
qed

lemma activate_confined:
  assumes "activate sha256 loads d s = (r, s')"
  shows "confinedL s s'"
proof (rule preflight_confined [OF assms [unfolded activate_def]])
  assume c: "cleanL s"
    and run: "bindS (queryS (\<lambda>s. verify_deployment sha256 loads s d)) (\<lambda>files.
      bindS (preflight_links sha256 loads True) (\<lambda>_. select_deployment (map fst files) d)) s = (r, s')"
  show "confinedL s s'"
  proof (cases "verify_deployment sha256 loads s d")
    case Inl
    then show ?thesis using run by (simp add: bind_query)
  next
    case (Inr files)
    have "keepsL (bindS (preflight_links sha256 loads True) (\<lambda>_. select_deployment (map fst files) d))"
      by (intro keeps_rules preflight_keeps select_deployment_keeps verify_deployment_hex [OF Inr])
    moreover have "bindS (preflight_links sha256 loads True) (\<lambda>_. select_deployment (map fst files) d) s = (r, s')"
      using run Inr by (simp add: bind_query)
    ultimately show ?thesis using keepsD(2) c by blast
  qed
qed

lemma inspection_pure: "inspection sha256 loads s = (r, s') \<Longrightarrow> s' = s"
  using preflight_checks(1) [of sha256 loads s]
  by (fastforce simp: inspection_def safe_directory_def bind_query queryS_def bindS_def split: prod.splits sum.splits)

lemma unlink_managed_keeps:
  assumes "link \<in> set LINKS"
  shows "keepsL (unlink_managed link)"
proof -
  obtain d i where l: "link = (d, i)" by fastforce
  have "keepsL (sys_remove (comps d))" using LINKS_paths [OF assms] l by (intro table.keeps_remove) simp
  then show ?thesis unfolding unlink_managed_def l Let_def prod.case by (intro keeps_rules)
qed

lemma unlink_selector_keeps: "keepsL unlink_selector"
proof -
  have "keepsL (sys_remove selector)" by (rule table.keeps_remove) simp
  then have "keepsL (\<lambda>s. if is_symlink s selector then bindS (sys_remove selector) (\<lambda>_. sync_path BASE) s else returnS () s)"
    by (intro keeps_rules)
  then show ?thesis unfolding unlink_selector_def [abs_def] Let_def selector_def .
qed

lemma keeps_inspection: "keepsL (inspection sha256 loads)"
  by (rule keepsI) (use inspection_pure in fastforce)

lemma uninstall_confined:
  assumes "uninstall sha256 loads b s = (r, s')"
  shows "confinedL s s'"
proof -
  obtain r1 s1 where insp: "inspection sha256 loads s = (r1, s1)" by fastforce
  have s1: "s1 = s" using inspection_pure [OF insp] .
  show ?thesis
  proof (cases "(\<exists>e. r1 = Inl e) \<or> \<not> b")
    case True
    then show ?thesis using assms insp s1 by (cases r1) (auto simp: uninstall_def bindS_def returnS_def Let_def)
  next
    case False
    then obtain report where rep: "r1 = Inr report" and b: b by (cases r1) auto
    let ?k = "\<lambda>_. bindS (forS LINKS (\<lambda>_. unlink_managed) ()) (\<lambda>_. bindS unlink_selector (\<lambda>_. bindS (inspection sha256 loads) (\<lambda>final.
       returnS (report @ [(''operation'', JStr ''uninstall''), (''applied'', JBool b)] @ [(''preserved_deployments'', jget final ''deployments'')]))))"
    have run: "bindS (preflight_links sha256 loads False) ?k s = (r, s')"
      using assms insp rep b s1 by (simp add: uninstall_def bindS_def Let_def)
    have "keepsL (?k ())" by (intro keeps_rules keeps_for unlink_managed_keeps unlink_selector_keeps keeps_inspection)
    then show ?thesis using preflight_confined [OF run] keepsD(2) by blast
  qed
qed

section \<open>Installation\<close>

lemma deployments_apart: "list_all (\<lambda>p. \<not> prefix (BASE @ [''deployments'']) p) (selector # map (comps \<circ> fst) LINKS)"
  by code_simp

lemma owned_managed: "owned managed_table selector is_selected p x \<Longrightarrow> p \<in> set (selector # map (comps \<circ> fst) LINKS)"
  unfolding managed_paths [symmetric] by (rule owned_paths)

lemma owned_apart: "prefix (BASE @ [''deployments'']) p \<Longrightarrow> \<not> owned managed_table selector is_selected p x"
  using deployments_apart owned_managed unfolding list_all_iff by blast

text \<open>What is below a free name of the deployments directory was not there when the command started.\<close>

lemma free_below:
  assumes "rooted_tree (objs s)" and "confinedL s s1" and "objs s1 d = None" and d: "prefix (BASE @ [''deployments'']) d"
    and "objs s q = Some x"
  shows "\<not> prefix d q"
proof
  assume "prefix d q"
  moreover have "d \<noteq> []" using d by (auto simp: BASE_def)
  ultimately obtain y where y: "objs s d = Some y" using rooted_treeD [OF assms(1)] assms(5) by fastforce
  then have "objs s1 d = Some y" using assms(2) owned_apart [OF d] unfolding confined_def by blast
  then show False using assms(3) by simp
qed

lemma write_deployment_spares: "spares (prefix staging) (write_deployment sha256 dumps modes d files staging)"
  unfolding write_deployment_def stage_file_def write_file_def Let_def split_beta
  by (intro spares_rules spares_for spares_put spares_chmod prefixI) simp_all

lemma stage_deployment_outcome:
  assumes "stage_deployment sha256 dumps modes d files staging destination s = (r, s')" and "\<not> prefix staging destination"
  shows "same_setting s s'"
    and "objs s q = Some x \<Longrightarrow> \<not> prefix staging q \<Longrightarrow> \<not> (prefix destination q \<and> objs s destination = None) \<Longrightarrow> objs s' q = Some x"
proof -
  obtain r1 s1 where w: "write_deployment sha256 dumps modes d files staging s = (r1, s1)" by fastforce
  note w1 = sparesD [OF write_deployment_spares w]
  obtain r2 s2 where n: "sys_rename_directory staging destination s1 = (r2, s2)" by fastforce
  note n1 = rename_directory_outcome [OF n]
  have tail: "s' = s1 \<or> s' = s2 \<or> sync_path (butlast destination) s2 = (r, s')"
    using assms(1) w n by (auto simp: stage_deployment_def bindS_def split: sum.splits)
  note t1 = sparesD [OF spares_sync [of "\<lambda>_. False"]]
  show "same_setting s s'" using tail w1(1) n1(1) t1(1) same_setting_trans by blast
  assume q: "objs s q = Some x" "\<not> prefix staging q" "\<not> (prefix destination q \<and> objs s destination = None)"
  then have "objs s1 q = Some x" using w1(2) by blast
  moreover have "objs s1 destination \<noteq> None" if "prefix destination q" using that q(3) w1(2) assms(2) by fastforce
  ultimately have "objs s2 q = Some x" using q(2) by (intro n1(2)) auto
  then show "objs s' q = Some x" using tail \<open>objs s1 q = Some x\<close> t1(2) by blast
qed

lemma staged_install_confined:
  assumes "rooted_tree (objs s)" and c: "confinedL s s1" and b: "BASE @ [''deployments''] = deployments"
    and st: "staging = deployments @ [''.'' @ d @ ''.staging-'' @ pid s1]" and de: "destination = deployments @ [d]"
    and run: "bindS (sys_mkdir 493 staging) (\<lambda>_.
      bindS (rollbackS (stage_deployment sha256 dumps modes d files staging destination) (rmtree_ignore_errors staging)) (\<lambda>_. queryS v)) s1 = (r, s')"
  shows "confinedL s s'"
proof -
  let ?stage = "stage_deployment sha256 dumps modes d files staging destination"
  obtain r2 s2 where mk: "sys_mkdir 493 staging s1 = (r2, s2)" by fastforce
  note m2 = sparesD [OF spares_new(1) mk]
  have c2: "confinedL s s2" using c m2(1) m2(2) [of "\<lambda>_. False"] same_setting_trans unfolding confined_def by blast
  show ?thesis
  proof (cases r2)
    case Inl
    then show ?thesis using run mk c2 by (simp add: bindS_def)
  next
    case Inr
    have "wp (sys_mkdir 493 staging) (\<lambda>r s'. r \<in> range Inr \<longrightarrow> objs s1 staging = None) s1"
      by (auto simp: sys_mkdir_def wp_simps split: option.splits)
    from wpD [OF this mk] Inr have free: "objs s1 staging = None" by simp
    have ne: "\<not> prefix staging destination" unfolding st de by (auto dest: arg_cong [of _ _ length])
    obtain r3 s3 where sd: "?stage s2 = (r3, s3)" by fastforce
    note out = stage_deployment_outcome [OF sd ne]
    have end0: "s' = s3 \<or> (\<exists>r4. rmtree_ignore_errors staging s3 = (r4, s'))"
      using run mk Inr sd
      by (auto simp: bindS_def rollbackS_def catchS_def queryS_def raiseS_def split: sum.splits prod.splits)
    have rm: "spares (prefix staging) (rmtree_ignore_errors staging)"
      unfolding rmtree_ignore_errors_def by (intro spares_rules spares_rmtree)
    have "same_setting s s'" using c2 out(1) end0 sparesD(1) [OF rm] same_setting_trans unfolding confined_def by blast
    moreover have "objs s' q = Some x \<or> owned managed_table selector is_selected q x" if q: "objs s q = Some x" for q x
    proof (cases "owned managed_table selector is_selected q x")
      case False
      then have q2: "objs s2 q = Some x" using c2 q unfolding confined_def by blast
      have np: "\<not> prefix staging q" using free_below [OF assms(1) c free _ q] st b by simp
      have "prefix (BASE @ [''deployments'']) destination" using de b by simp
      then have "\<not> (prefix destination q \<and> objs s2 destination = None)" using free_below [OF assms(1) c2 _ _ q] by blast
      then have "objs s3 q = Some x" using out(2) q2 np by blast
      then show ?thesis using end0 sparesD(2) [OF rm _ np] by blast
    qed simp
    ultimately show ?thesis by (simp add: confined_def)
  qed
qed

lemma confined_spared:
  assumes "confinedL s s1" and "spares (\<lambda>_. False) m" and "m s1 = (r, s')"
  shows "confinedL s s'"
  using assms(1) sparesD [OF assms(2,3)] same_setting_trans unfolding confined_def by blast

lemma make_directory_spares: "spares D (make_directory current cs)"
  by (induction cs arbitrary: current) (auto simp: Let_def intro!: spares_rules)

lemma safe_directory_spares: "spares D (safe_directory p create)"
  unfolding safe_directory_def by (intro spares_rules make_directory_spares)

lemma install_files_confined:
  assumes "rooted_tree (objs s)" and "install_files sha256 loads dumps files modes expected s = (r, s')"
  shows "confinedL s s'"
proof (rule preflight_confined [OF assms(2) [unfolded install_files_def Let_def]])
  let ?d = "deployment_identifier sha256 files" and ?D = "BASE @ [''deployments'']"
  let ?block = "\<lambda>s. if path_exists s (?D @ [?d]) then queryS (\<lambda>s. bindE (verify_deployment sha256 loads s ?d) (\<lambda>_. Inr ())) s
       else bindS (sys_mkdir 493 (?D @ [''.'' @ ?d @ ''.staging-'' @ pid s])) (\<lambda>_.
         bindS (rollbackS (stage_deployment sha256 dumps modes ?d files (?D @ [''.'' @ ?d @ ''.staging-'' @ pid s]) (?D @ [?d]))
            (rmtree_ignore_errors (?D @ [''.'' @ ?d @ ''.staging-'' @ pid s]))) (\<lambda>_.
         queryS (\<lambda>s. bindE (verify_deployment sha256 loads s ?d) (\<lambda>_. Inr ())))) s"
  let ?rest = "\<lambda>_. bindS (queryS (\<lambda>s. bindE (modes_differ s (?D @ [?d]) modes (map fst files)) (\<lambda>differ.
         raise_if differ (ValueError ''installed deployment modes differ from the cloned generation'')))) (\<lambda>_.
     bindS (queryS (check_still_active expected)) (\<lambda>_.
     bindS (activate sha256 loads ?d) (\<lambda>_. returnS ?d)))"
  assume c: "cleanL s" and run: "bindS (preflight_links sha256 loads True) (\<lambda>_. bindS (safe_directory ?D True) (\<lambda>_. bindS ?block ?rest)) s = (r, s')"
  from run show "confinedL s s'"
  proof (cases rule: bind_cases)
    case 1
    then show ?thesis using keepsD [OF preflight_keeps c] by blast
  next
    case (2 u s1)
    note c1 = keepsD(2) [OF preflight_keeps c 2(1)]
    from 2(2) show ?thesis
    proof (cases rule: bind_cases)
      case 1
      then show ?thesis using confined_spared [OF c1 safe_directory_spares] by blast
    next
      case (2 v s2)
      note c2 = confined_spared [OF c1 safe_directory_spares 2(1)]
      have block: "confinedL s s3" if "?block s2 = (r3, s3)" for r3 s3
      proof (cases "path_exists s2 (?D @ [?d])")
        case True
        then show ?thesis using that c2 by (simp add: queryS_def)
      next
        case False
        then show ?thesis using staged_install_confined [OF assms(1) c2 refl refl refl] that by simp
      qed
      from 2(2) show ?thesis
      proof (cases rule: bind_cases)
        case 1
        then show ?thesis using block by simp
      next
        case (2 w s3)
        have "confinedL s3 s'" if "bindS (activate sha256 loads ?d) (\<lambda>_. returnS ?d) s3 = (r, s')"
          using that by (cases rule: bind_cases) (auto simp: returnS_def intro: activate_confined)
        then have "confinedL s3 s'" using 2(2) by (auto simp: bind_query split: sum.splits)
        then show ?thesis using block [OF 2(1)] confined_trans by blast
      qed
    qed
  qed
qed

lemma install_confined:
  assumes "rooted_tree (objs s)" and "install sha256 loads dumps assets env host s = (r, s')"
  shows "confinedL s s'"
  by (rule preflight_confined [OF assms(2) [unfolded install_def]])
     (auto simp: bind_query split: sum.splits dest: install_files_confined [OF assms(1)])

lemma update_storage_size_confined:
  assumes "rooted_tree (objs s)" and "update_storage_size sha256 loads dumps old new s = (r, s')"
  shows "confinedL s s'"
proof -
  have inst: "confinedL s s'" if "bindS (install_files sha256 loads dumps files modes expected) (\<lambda>d. returnS (f d)) s = (r, s')"
    for files modes expected and f :: "string \<Rightarrow> json"
    using that by (cases rule: bind_cases) (auto simp: returnS_def intro: install_files_confined [OF assms(1)])
  show ?thesis
  proof (cases "\<not> (0 < old \<and> old < new \<and> new \<le> 2 ^ 63) \<or> old mod 512 \<noteq> 0 \<or> new mod 512 \<noteq> 0")
    case True
    then show ?thesis using assms(2) by (simp add: update_storage_size_def raiseS_def)
  next
    case False
    note run = assms(2) [unfolded update_storage_size_def if_not_P [OF False]]
    show ?thesis
      by (rule preflight_confined [OF run])
         (auto simp: bind_query raiseE_def raiseS_def Let_def split: sum.splits if_splits prod.splits dest: inst)
  qed
qed

lemma remove_deployment_outcome:
  assumes "remove_deployment sha256 loads d b s = (r, s')"
  shows "s' = s \<or> b \<and> same_setting s s' \<and> objs s selector \<noteq> Some (OLink (''deployments/'' @ d))
     \<and> (\<forall>p x. objs s p = Some x \<longrightarrow> objs s' p = Some x \<or> prefix (deployment_directory d) p)"
proof -
  have sp: "spares (prefix (deployment_directory d)) (bindS (bindS (sys_rmtree (deployment_directory d)) (\<lambda>_. sync_path (BASE @ [''deployments''])))
      (\<lambda>_. returnS [(''operation'', JStr ''remove-deployment''), (''deployment'', JStr d), (''applied'', JBool b)]))"
    by (intro spares_rules spares_rmtree)
  show ?thesis
    using assms sparesD [OF sp, of s r s']
    by (auto simp: remove_deployment_def bind_query raise_if_def selector_def returnS_def split: sum.splits if_splits)
qed

section \<open>Properties of the command\<close>

text \<open>
  What a command may change or remove: links of the table with the targets it gives them, a selector that names a
  deployment, and for \<open>remove-deployment --apply\<close> the deployment, which is not the active one.
\<close>

definition may_change :: "command \<Rightarrow> tree \<Rightarrow> path \<Rightarrow> obj \<Rightarrow> bool" where
  "may_change command s p x \<longleftrightarrow> owned managed_table selector is_selected p x
     \<or> (case command of RemoveDeployment d True \<Rightarrow> prefix (deployment_directory d) p \<and> objs s selector \<noteq> Some (OLink (''deployments/'' @ d)) | _ \<Rightarrow> False)"

lemma confined_may_change: "confinedL s s' \<Longrightarrow> objs s p = Some x \<Longrightarrow> objs s' p = Some x \<or> may_change command s p x"
  unfolding confined_def may_change_def by blast

lemma run_command_confined:
  assumes "rooted_tree (objs s)" and "run_command sha256 loads dumps assets command s = (r, s')" and "objs s p = Some x"
  shows "objs s' p = Some x \<or> may_change command s p x"
proof (cases "\<exists>d b. command = RemoveDeployment d b")
  case True
  then obtain d b where c: "command = RemoveDeployment d b" by blast
  from assms(2) obtain r1 where "remove_deployment sha256 loads d b s = (r1, s')"
    unfolding c run_command_def command.case by (cases rule: bind_cases) (auto simp: returnS_def)
  from remove_deployment_outcome [OF this] assms(3) show ?thesis unfolding c may_change_def by (cases b) auto
next
  case False
  have "confinedL s s'"
    using False assms(2)
    by (cases command)
       (auto simp: run_command_def returnS_def elim!: bind_cases dest: inspection_pure install_confined [OF assms(1)]
          update_storage_size_confined [OF assms(1)] activate_confined uninstall_confined)
  then show ?thesis using confined_may_change assms(3) by blast
qed

section \<open>What activation reaches\<close>

definition wanted_link :: "string list \<Rightarrow> string \<times> string \<Rightarrow> obj option" where
  "wanted_link files = (\<lambda>(destination, internal).
     if internal \<in> set files then Some (OLink (link_target destination internal)) else None)"

lemma activate_link_settles:
  assumes "link \<in> set LINKS" and c: "cleanL s" and run: "activate_link files link progress s = (Inr progress', s')"
  shows "cleanL s' \<and> objs s' (comps (fst link)) = wanted_link files link
     \<and> (\<forall>q \<in> set (selector # map fst managed_table). q \<noteq> comps (fst link) \<longrightarrow> objs s' q = objs s q)"
proof -
  obtain d i where l: "link = (d, i)" by fastforce
  obtain created removed where p: "progress = (created, removed)" by fastforce
  note path = LINKS_paths [OF assms(1), unfolded l fst_conv snd_conv]
  note cd = clean_linkD [OF c path(2)]
  note run' = run [unfolded l p activate_link_def Let_def prod.case]
  have "objs s' (comps d) = wanted_link files (d, i) \<and> (\<forall>q \<in> set (selector # map fst managed_table). q \<noteq> comps d \<longrightarrow> objs s' q = objs s q)"
  proof (cases "managed_link s d i = (i \<in> set files)")
    case True
    then have "s' = s" using run' by (auto simp: returnS_def split: if_splits)
    then show ?thesis using True cd by (auto simp: managed_link_def wanted_link_def)
  next
    case False
    show ?thesis
    proof (cases "i \<in> set files")
      case True
      then obtain u s1 where "switch_link (ValueError ''temporary deployment link exists'') (link_target d i) (comps d) s = (Inr u, s1)" "s' = s1"
        using run' False unfolding atomic_symlink_def by (auto simp: returnS_def elim!: bind_cases split: if_splits)
      then show ?thesis using table.switch_link_settles [OF _ path(1)] True by (simp add: wanted_link_def)
    next
      case nw: False
      then obtain u s1 v s2 where rm: "sys_remove (comps d) s = (Inr u, s1)" "sync_path (butlast (comps d)) s1 = (Inr v, s2)" "s' = s2"
        using run' False by (auto simp: returnS_def elim!: bind_cases split: if_splits)
      have "wp (sync_path (butlast (comps d))) (\<lambda>r s'. objs s' = objs s1) s1"
        by (auto simp: sync_path_def wp_simps split: option.splits)
      from wpD [OF this rm(2)] have "objs s2 = objs s1" .
      then show ?thesis using table.remove_clean(3) [OF rm(1) c path(1) refl] rm(3) nw by (simp add: wanted_link_def)
    qed
  qed
  then show ?thesis using keepsD(1) [OF activate_link_keeps [OF assms(1)] c run] l by simp
qed

lemma select_deployment_settles:
  assumes c: "cleanL s" and run: "select_deployment files d s = (Inr u, s')"
  shows "objs s' selector = Some (OLink (''deployments/'' @ d))" and "\<forall>link \<in> set LINKS. objs s' (comps (fst link)) = wanted_link files link"
proof -
  from run obtain f progress s1 where loop: "activate_links files LINKS ([], []) s = (Inr (f, progress), s1)"
    and k: "(case f of Some e \<Rightarrow> bindS (rollback_links progress) (\<lambda>_. raiseS e)
     | None \<Rightarrow> rollbackS (atomic_symlink (''deployments/'' @ d) (BASE @ [''current''])) (rollback_links progress)) s1 = (Inr u, s')"
    unfolding select_deployment_def by (auto elim!: bind_cases)
  have f: "f = None" using k by (cases f) (auto simp: raiseS_def elim!: bind_cases)
  have sel: "switch_link (ValueError ''temporary deployment link exists'') (''deployments/'' @ d) selector s1 = (Inr u, s')"
    using k f by (auto simp: rollbackS_def catchS_def raiseS_def atomic_symlink_def selector_def elim!: bind_cases split: prod.splits sum.splits)
  have "(\<forall>l \<in> set LINKS. objs s1 ((comps \<circ> fst) l) = wanted_link files l)
    \<and> (\<forall>q \<in> set (selector # map fst managed_table). q \<notin> (comps \<circ> fst) ` set LINKS \<longrightarrow> objs s1 q = objs s q)"
  proof (rule table.until_failure_settles [OF _ _ _ c])
    show "until_failure (activate_link files) LINKS ([], []) s = (Inr (None, progress), s1)" using loop f by (simp add: activate_links_def)
    show "distinct (map (comps \<circ> fst) LINKS)" using well_spreadD(1) [OF managed_spread] by simp
    show "(comps \<circ> fst) ` set LINKS \<subseteq> set (map fst managed_table)" by auto
    fix l p s p' s' assume "l \<in> set LINKS" "cleanL s" "activate_link files l p s = (Inr p', s')"
    then show "cleanL s' \<and> objs s' ((comps \<circ> fst) l) = wanted_link files l
      \<and> (\<forall>q \<in> set (selector # map fst managed_table). q \<noteq> (comps \<circ> fst) l \<longrightarrow> objs s' q = objs s q)"
      unfolding comp_apply by (rule activate_link_settles)
  qed
  then have links: "\<forall>l \<in> set LINKS. objs s1 (comps (fst l)) = wanted_link files l" by simp
  note sw = table.switch_link_settles [OF sel]
  show "objs s' selector = Some (OLink (''deployments/'' @ d))" using sw(1) by simp
  show "\<forall>link \<in> set LINKS. objs s' (comps (fst link)) = wanted_link files link"
  proof
    fix link assume l: "link \<in> set LINKS"
    have "selector \<notin> set (map (comps \<circ> fst) LINKS)" using well_spreadD(1) [OF managed_spread] by simp
    moreover have "comps (fst link) \<in> set (map (comps \<circ> fst) LINKS)" using imageI [OF l, of "comps \<circ> fst"] by (simp only: set_map comp_apply)
    ultimately have "comps (fst link) \<noteq> selector" by metis
    then show "objs s' (comps (fst link)) = wanted_link files link" using sw(2) LINKS_paths(1) [OF l] links l by auto
  qed
qed

end
