(* ===== verification/Deployment_Live.thy ===== *)
theory Deployment_Live
  imports Deployment_Safety
begin

text \<open>
  That activation completes: without failing system calls, and with no temporary name taken, the preflight checks with
  parents pass where they passed without, and every link is switched.  A small tree with one deployment is the
  concrete input of the statements about the command.
\<close>

section \<open>Activation completes\<close>

abbreviation managed_paths0 :: "path list" where
  "managed_paths0 \<equiv> selector # map fst managed_table"

text \<open>The tree after some of the missing parent directories were made.\<close>

definition improves :: "tree \<Rightarrow> tree \<Rightarrow> bool" where
  "improves s s' \<longleftrightarrow> same_setting s s' \<and> rooted_tree (objs s') \<and>
     (\<forall>q. objs s' q = objs s q \<or> objs s q = None \<and> directory_ok s' q \<and> (\<exists>p \<in> set managed_paths0. prefix q (butlast p)))"

lemma improves_refl: "rooted_tree (objs s) \<Longrightarrow> improves s s"
  by (simp add: improves_def)

lemma directory_ok_same: "objs s' q = objs s q \<Longrightarrow> same_setting s s' \<Longrightarrow> directory_ok s' q = directory_ok s q"
  by (simp add: directory_ok_def same_setting_def split: option.splits obj.splits)

lemma improves_trans:
  assumes "improves s s1" and "improves s1 s2"
  shows "improves s s2"
proof -
  have "objs s2 q = objs s q \<or> objs s q = None \<and> directory_ok s2 q \<and> (\<exists>p \<in> set managed_paths0. prefix q (butlast p))" for q
  proof (cases "objs s2 q = objs s1 q")
    case True
    then show ?thesis using assms directory_ok_same [OF True] unfolding improves_def by metis
  next
    case False
    then show ?thesis using assms unfolding improves_def by metis
  qed
  then show ?thesis using assms same_setting_trans unfolding improves_def by blast
qed

lemma improves_keeps: "improves s s' \<Longrightarrow> objs s q = Some x \<Longrightarrow> objs s' q = Some x"
  unfolding improves_def by (metis option.distinct(1))

lemma improves_same: "improves s s' \<Longrightarrow> same_setting s s'" and improves_rooted: "improves s s' \<Longrightarrow> rooted_tree (objs s')"
  by (simp_all add: improves_def)

lemma improves_directory: "improves s s' \<Longrightarrow> is_directory (objs s q) \<Longrightarrow> is_directory (objs s' q)"
  using improves_keeps by (cases "objs s q") force+

lemma directory_ok_directory: "directory_ok s q \<Longrightarrow> is_directory (objs s q)"
  by (auto simp: directory_ok_def split: option.splits obj.splits)

lemma check_directory_absent:
  assumes "improves s s'" and "\<And>r. r \<noteq> [] \<Longrightarrow> objs s (current @ r) = None"
  shows "check_directory s' current cs = Inr ()"
  using assms(2)
proof (induction cs arbitrary: current)
  case (Cons c cs)
  have none: "objs s (current @ [c]) = None" using Cons.prems by blast
  have "check_directory s' (current @ [c]) cs = Inr ()" by (rule Cons.IH) (simp add: Cons.prems)
  moreover have "\<not> lexists s' (current @ [c]) \<or> directory_ok s' (current @ [c])"
    using assms(1) none unfolding improves_def lexists_def by metis
  ultimately show ?case by (auto simp: Let_def)
qed simp

lemma rooted_below:
  assumes "rooted_tree m" and "m p = None" and "p \<noteq> []"
  shows "m (p @ r) = None"
  using rooted_treeD [OF assms(1) prefixI [OF refl] assms(3)] assms(2) by blast

lemma check_directory_improves:
  assumes "improves s s'" and "rooted_tree (objs s)" and "check_directory s current cs = Inr ()"
  shows "check_directory s' current cs = Inr ()"
  using assms(3)
proof (induction cs arbitrary: current)
  case (Cons c cs)
  show ?case
  proof (cases "lexists s (current @ [c])")
    case True
    then have ok: "directory_ok s (current @ [c])" and rest: "check_directory s (current @ [c]) cs = Inr ()"
      using Cons.prems by (auto simp: Let_def split: if_splits)
    obtain x where x: "objs s (current @ [c]) = Some x" using True by (auto simp: lexists_def)
    have "directory_ok s' (current @ [c])"
      using directory_ok_same [of s' _ s] improves_keeps [OF assms(1) x] x improves_same [OF assms(1)] ok by simp
    then show ?thesis using Cons.IH [OF rest] by (simp add: Let_def)
  next
    case False
    then have "objs s (current @ [c]) = None" by (simp add: lexists_def)
    then have none: "objs s ((current @ [c]) @ r) = None" for r by (rule rooted_below [OF assms(2)]) simp
    have "check_directory s' (current @ [c]) cs = Inr ()" by (rule check_directory_absent [OF assms(1) none])
    moreover have "\<not> lexists s' (current @ [c]) \<or> directory_ok s' (current @ [c])"
      using assms(1) none [of "[]"] unfolding improves_def lexists_def append_Nil2 by metis
    ultimately show ?thesis by (auto simp: Let_def)
  qed
qed simp

lemma mkdir_runs:
  assumes "faultless s" and "rooted_tree (objs s)" and "objs s p = None" and "butlast p = [] \<or> is_directory (objs s (butlast p))"
    and "p \<noteq> []" and "\<exists>q \<in> set managed_paths0. prefix p (butlast q)"
  shows "\<exists>s'. sys_mkdir 493 p s = (Inr (), s') \<and> improves s s' \<and> directory_ok s' p \<and> (\<forall>r. r \<noteq> [] \<longrightarrow> objs s' (p @ r) = None)"
proof -
  let ?d = "ODir (new_stat 16877 (euid s) 0)"
  let ?s' = "s\<lparr>clock := Suc (clock s), objs := (objs s)(p := Some ?d)\<rparr>"
  have run: "sys_mkdir 493 p s = (Inr (), ?s')"
    using assms(1,3,4) by (simp add: faultless_def sys_mkdir_def place_def syscall_def Let_def has_parent_def)
  have ok: "directory_ok ?s' p" by (simp add: directory_ok_def new_stat_def others_may_write_def)
  have below: "objs s (p @ r) = None" for r using rooted_below [OF assms(2,3,5)] .
  have "rooted_tree (objs ?s')"
    unfolding rooted_tree_def
  proof (intro allI impI)
    fix q c assume "objs ?s' (q @ [c]) \<noteq> None"
    then show "q = [] \<or> objs ?s' q \<noteq> None"
      using assms(2,4) unfolding rooted_tree_def by (cases "q @ [c] = p") (auto split: if_splits)
  qed
  moreover have "same_setting s ?s'" using assms(1) by (simp add: same_setting_def runs_def)
  ultimately have "improves s ?s'" using assms(3,6) ok unfolding improves_def by auto
  then show ?thesis using run ok below by auto
qed

lemma make_directory_runs:
  assumes "faultless s" and "rooted_tree (objs s)" and "check_directory s current cs = Inr ()"
    and "current = [] \<or> is_directory (objs s current)" and "\<exists>q \<in> set managed_paths0. current @ cs = butlast q"
  shows "\<exists>s'. make_directory current cs s = (Inr (), s') \<and> improves s s' \<and> (cs = [] \<or> is_directory (objs s' (current @ cs)))"
  using assms
proof (induction cs arbitrary: current s)
  case Nil
  then show ?case by (simp add: returnS_def improves_refl)
next
  case (Cons c cs)
  let ?p = "current @ [c]"
  have "\<exists>s1. (\<lambda>s. if \<not> lexists s ?p then sys_mkdir 493 ?p s else returnS () s) s = (Inr (), s1) \<and> improves s s1 \<and> directory_ok s1 ?p
      \<and> check_directory s1 ?p cs = Inr ()"
  proof (cases "lexists s ?p")
    case True
    then show ?thesis using Cons.prems(2,3) by (auto simp: returnS_def improves_refl Let_def split: if_splits)
  next
    case False
    then have "objs s ?p = None" by (simp add: lexists_def)
    moreover have "butlast ?p = [] \<or> is_directory (objs s (butlast ?p))" using Cons.prems(4) by simp
    moreover have "\<exists>q \<in> set managed_paths0. prefix ?p (butlast q)" using Cons.prems(5) by (metis append.assoc append_Cons append_Nil prefixI)
    ultimately obtain s1 where s1: "sys_mkdir 493 ?p s = (Inr (), s1)" "improves s s1" "directory_ok s1 ?p"
      "\<forall>r. r \<noteq> [] \<longrightarrow> objs s1 (?p @ r) = None" using mkdir_runs [OF Cons.prems(1,2)] by blast
    have "check_directory s1 ?p cs = Inr ()"
      by (rule check_directory_absent [OF improves_refl [OF improves_rooted [OF s1(2)]]]) (use s1(4) in blast)
    then show ?thesis using s1 False by simp
  qed
  then obtain s1 where s1: "(\<lambda>s. if \<not> lexists s ?p then sys_mkdir 493 ?p s else returnS () s) s = (Inr (), s1)" "improves s s1"
    "directory_ok s1 ?p" "check_directory s1 ?p cs = Inr ()" by blast
  have "faultless s1" using faultless_same [OF Cons.prems(1) improves_same [OF s1(2)]] .
  moreover have "?p = [] \<or> is_directory (objs s1 ?p)" using directory_ok_directory [OF s1(3)] by simp
  moreover have "\<exists>q \<in> set managed_paths0. ?p @ cs = butlast q" using Cons.prems(5) by simp
  ultimately obtain s' where s': "make_directory ?p cs s1 = (Inr (), s')" "improves s1 s'" "cs = [] \<or> is_directory (objs s' (?p @ cs))"
    using Cons.IH [OF _ improves_rooted [OF s1(2)] s1(4)] by blast
  have "make_directory current (c # cs) s = (Inr (), s')"
    using s1(1,3) s'(1) by (simp add: Let_def bindS_def queryS_def raise_if_def)
  moreover have "is_directory (objs s' (current @ c # cs))"
    using s'(2,3) directory_ok_directory [OF s1(3)] improves_directory by auto
  ultimately show ?case using improves_trans [OF s1(2) s'(2)] by blast
qed

lemma lstat_mode_improves: "improves s s' \<Longrightarrow> lstat_mode s p = Inr m \<Longrightarrow> lstat_mode s' p = Inr m"
  using improves_keeps [of s s' p] by (auto simp: lstat_mode_def split: option.splits)

lemma tree_input_improves: "improves s s' \<Longrightarrow> tree_input s p = Inr v \<Longrightarrow> tree_input s' p = Inr v"
  using improves_keeps [of s s' p] by (auto simp: tree_input_def split: option.splits)

lemma secure_input_improves:
  "improves s s' \<Longrightarrow> secure_input (euid s) n (tree_input s p) = Inr v \<Longrightarrow> secure_input (euid s') n (tree_input s' p) = Inr v"
  using tree_input_improves [of s s' p] improves_same [of s s']
  by (auto simp: secure_input_def bindE_def same_setting_def split: sum.splits)

lemma check_installed_file_improves:
  assumes "improves s s'" and "rooted_tree (objs s)" and "check_installed_file sha256 s d files identity name = Inr v"
  shows "check_installed_file sha256 s' d files identity name = Inr v"
  using assms(3) check_directory_improves [OF assms(1,2)] lstat_mode_improves [OF assms(1)] secure_input_improves [OF assms(1)]
  by (auto simp: check_installed_file_def Let_def bindE_def split: sum.splits if_splits)

lemma is_dir_improves:
  "improves s s' \<Longrightarrow> is_dir s p \<Longrightarrow> \<not> is_symlink s p \<Longrightarrow> is_dir s' p \<and> \<not> is_symlink s' p"
  using improves_directory [of s s' p] by (auto simp: is_dir_def followed_def is_symlink_def elim!: is_directory.elims)

lemma verify_deployment_improves:
  assumes "improves s s'" and "rooted_tree (objs s)" and "verify_deployment sha256 loads s d = Inr files"
  shows "verify_deployment sha256 loads s' d = Inr files"
proof -
  let ?D = "deployment_directory d"
  let ?loop = "\<lambda>s fs. forE (sort (map fst fs)) (check_installed_file sha256 s d fs) []"
  have loop: "?loop s fs = Inr v \<Longrightarrow> ?loop s' fs = Inr v" for fs v
    by (rule forE_mono [OF check_installed_file_improves [OF assms(1,2)]])
  let ?m = "?D @ [''deployment-manifest.json'']"
  from assms(3) obtain mode data manifest identity
    where v: "is_hex64 d" "check_directory s [] (BASE @ [''deployments'']) = Inr ()" "is_dir s ?D" "\<not> is_symlink s ?D"
      "check_directory s [] ?D = Inr ()" "lstat_mode s ?m = Inr mode" "\<not> others_may_write mode"
      "secure_input (euid s) (2 ^ 20) (tree_input s ?m) = Inr data" "strict_json_bytes loads data = Inr manifest"
      "check_manifest d manifest = Inr files" "?loop s files = Inr identity" "sha256 identity = d"
    unfolding verify_deployment_def Let_def bindE_Inr if_Inl_Inr by auto
  have "is_dir s' ?D \<and> \<not> is_symlink s' ?D" by (rule is_dir_improves [OF assms(1) v(3,4)])
  then show ?thesis
    unfolding verify_deployment_def Let_def
    by (simp add: v(1,7,9,10,12) check_directory_improves [OF assms(1,2) v(2)] check_directory_improves [OF assms(1,2) v(5)]
        lstat_mode_improves [OF assms(1) v(6)] secure_input_improves [OF assms(1) v(8), simplified] loop [OF v(11)])
qed

text \<open>With parents, the preflight checks pass where they passed without, and make the parents of all links.\<close>

lemma clean_check_destination:
  assumes "cleanL s" and "link \<in> set LINKS"
  shows "check_destination link s = Inr ()"
  using clean_linkD [OF assms(1) LINKS_paths(2) [OF assms(2)]]
  by (auto simp: check_destination_def managed_link_def lexists_def raise_if_def split: prod.splits)

lemma check_selector_improves:
  assumes "improves s s'" and "rooted_tree (objs s)" and c: "cleanL s'" and "check_selector sha256 loads s = Inr ()"
  shows "check_selector sha256 loads s' = Inr ()"
proof -
  have "objs s' selector = objs s selector"
  proof (rule ccontr)
    assume "objs s' selector \<noteq> objs s selector"
    then have "directory_ok s' selector" using assms(1) unfolding improves_def by metis
    then show False using clean_selectorD [OF c] by (auto simp: directory_ok_def split: option.splits obj.splits)
  qed
  then show ?thesis using assms(4) verify_deployment_improves [OF assms(1,2)]
    by (auto simp: check_selector_def Let_def lexists_def selector_def bindE_def split: obj.splits option.splits sum.splits)
qed

lemma safe_directory_runs:
  assumes "faultless s" and "rooted_tree (objs s)" and "check_directory s [] (butlast p) = Inr ()" and "p \<in> set managed_paths0" and "butlast p \<noteq> []"
    and "cleanL s"
  shows "\<exists>s'. safe_directory (butlast p) True s = (Inr (), s') \<and> improves s s' \<and> is_directory (objs s' (butlast p)) \<and> cleanL s'"
proof -
  have "\<exists>q \<in> set managed_paths0. [] @ butlast p = butlast q" unfolding append_Nil using assms(4) by blast
  from make_directory_runs [OF assms(1-3) disjI1 [OF refl] this]
  obtain s' where s': "make_directory [] (butlast p) s = (Inr (), s')" "improves s s'" "is_directory (objs s' (butlast p))"
    unfolding append_Nil using assms(5) by blast
  have run: "safe_directory (butlast p) True s = (Inr (), s')" using s'(1) by (simp add: safe_directory_def)
  show ?thesis using s'(2,3) run keepsD(1) [OF safe_directory_keeps [OF assms(4)] assms(6) run] by blast
qed

lemma parents_proper: "list_all (\<lambda>p. butlast p \<noteq> []) (selector # map (comps \<circ> fst) LINKS)"
  by code_simp

lemma parent_proper: "p \<in> set managed_paths0 \<Longrightarrow> butlast p \<noteq> []"
  using parents_proper unfolding managed_paths [symmetric] list_all_iff by blast

lemma link_parents_run:
  assumes "improves s0 s" and "rooted_tree (objs s0)" and "faultless s" and "cleanL s" and "set ls \<subseteq> set LINKS"
    and "\<And>link. link \<in> set ls \<Longrightarrow> check_directory s0 [] (butlast (comps (fst link))) = Inr ()"
  shows "\<exists>s'. forS ls (\<lambda>_ link. bindS (safe_directory (butlast (comps (fst link))) True) (\<lambda>_. queryS (check_destination link))) () s = (Inr (), s')
    \<and> improves s s' \<and> cleanL s' \<and> (\<forall>link \<in> set ls. is_directory (objs s' (butlast (comps (fst link)))))"
  using assms
proof (induction ls arbitrary: s)
  case Nil
  then show ?case by (auto simp: returnS_def intro: improves_refl improves_rooted)
next
  case (Cons l ls)
  have l: "l \<in> set LINKS" using Cons.prems(5) by simp
  note path = LINKS_paths(1) [OF l]
  have "check_directory s [] (butlast (comps (fst l))) = Inr ()"
    using check_directory_improves [OF Cons.prems(1,2) Cons.prems(6)] by simp
  from safe_directory_runs [OF Cons.prems(3) improves_rooted [OF Cons.prems(1)] this path parent_proper [OF path] Cons.prems(4)]
  obtain s1 where s1: "safe_directory (butlast (comps (fst l))) True s = (Inr (), s1)" "improves s s1"
    "is_directory (objs s1 (butlast (comps (fst l))))" "cleanL s1" by blast
  have i: "improves s0 s1" using improves_trans [OF Cons.prems(1) s1(2)] .
  have f1: "faultless s1" using faultless_same [OF Cons.prems(3) improves_same [OF s1(2)]] .
  have sub: "set ls \<subseteq> set LINKS" using Cons.prems(5) by simp
  have "check_directory s0 [] (butlast (comps (fst link))) = Inr ()" if "link \<in> set ls" for link using Cons.prems(6) that by simp
  from Cons.IH [OF i Cons.prems(2) f1 s1(4) sub this] obtain s' where s': "forS ls (\<lambda>_ link. bindS (safe_directory (butlast (comps (fst link))) True) (\<lambda>_. queryS (check_destination link))) () s1 = (Inr (), s')"
    "improves s1 s'" "cleanL s'" "\<forall>link \<in> set ls. is_directory (objs s' (butlast (comps (fst link))))"
    by blast
  have "check_destination l s1 = Inr ()" by (rule clean_check_destination [OF s1(4) l])
  then have "forS (l # ls) (\<lambda>_ link. bindS (safe_directory (butlast (comps (fst link))) True) (\<lambda>_. queryS (check_destination link))) () s = (Inr (), s')"
    using s1(1) s'(1) by (simp add: bindS_def queryS_def)
  moreover have "\<forall>link \<in> set (l # ls). is_directory (objs s' (butlast (comps (fst link))))"
    using s'(4) improves_directory [OF s'(2) s1(3)] by simp
  ultimately show ?case using s'(3) improves_trans [OF s1(2) s'(2)] by blast
qed

lemma preflight_passes:
  assumes "preflight_links sha256 loads False s = (Inr (), s)"
  shows "check_directory s [] BASE = Inr ()" and "check_selector sha256 loads s = Inr ()"
    and "link \<in> set LINKS \<Longrightarrow> check_directory s [] (butlast (comps (fst link))) = Inr ()"
proof -
  have loop: "forS ls (\<lambda>_ link. bindS (queryS (\<lambda>s. check_directory s [] (butlast (comps (fst link))))) (\<lambda>_. queryS (check_destination link))) () s = (Inr (), s')
      \<Longrightarrow> \<forall>link \<in> set ls. check_directory s [] (butlast (comps (fst link))) = Inr ()" for ls s'
    by (induction ls) (auto simp: bind_query queryS_def bindS_def returnS_def split: sum.splits)
  have run: "bindS (queryS (\<lambda>s. check_directory s [] BASE)) (\<lambda>_. bindS (queryS (check_selector sha256 loads)) (\<lambda>_.
      forS LINKS (\<lambda>_ link. bindS (queryS (\<lambda>s. check_directory s [] (butlast (comps (fst link))))) (\<lambda>_. queryS (check_destination link))) ())) s = (Inr (), s)"
    using assms by (simp add: preflight_links_def safe_directory_def)
  then show "check_directory s [] BASE = Inr ()" "check_selector sha256 loads s = Inr ()"
    by (auto simp: bind_query split: sum.splits)
  with run have "forS LINKS (\<lambda>_ link. bindS (queryS (\<lambda>s. check_directory s [] (butlast (comps (fst link))))) (\<lambda>_. queryS (check_destination link))) () s = (Inr (), s)"
    by (simp add: bind_query)
  from loop [OF this] show "link \<in> set LINKS \<Longrightarrow> check_directory s [] (butlast (comps (fst link))) = Inr ()" by blast
qed

lemma preflight_runs:
  assumes "preflight_links sha256 loads False s = (Inr (), s)" and f: "faultless s" and ro: "rooted_tree (objs s)"
  shows "\<exists>s'. preflight_links sha256 loads True s = (Inr (), s') \<and> improves s s' \<and> cleanL s'
    \<and> (\<forall>p \<in> set managed_paths0. is_directory (objs s' (butlast p)))"
proof -
  note pre = preflight_passes [OF assms(1)] and c = preflight_checks(2) [OF assms(1) refl]
  have sel: "selector \<in> set managed_paths0" and bs: "butlast selector = BASE" by (simp_all add: selector_def)
  from safe_directory_runs [OF f ro _ sel parent_proper [OF sel] c] pre(1)
  obtain s1 where s1: "safe_directory BASE True s = (Inr (), s1)" "improves s s1" "is_directory (objs s1 BASE)" "cleanL s1"
    unfolding bs by blast
  have "check_selector sha256 loads s1 = Inr ()" by (rule check_selector_improves [OF s1(2) ro s1(4) pre(2)])
  moreover from link_parents_run [OF s1(2) ro faultless_same [OF f improves_same [OF s1(2)]] s1(4) subset_refl pre(3)]
  obtain s' where s': "forS LINKS (\<lambda>_ link. bindS (safe_directory (butlast (comps (fst link))) True) (\<lambda>_. queryS (check_destination link))) () s1 = (Inr (), s')"
    "improves s1 s'" "cleanL s'" "\<forall>link \<in> set LINKS. is_directory (objs s' (butlast (comps (fst link))))" by blast
  ultimately have "preflight_links sha256 loads True s = (Inr (), s')"
    using s1(1) unfolding preflight_links_def by (simp add: bindS_def queryS_def)
  moreover have "\<forall>p \<in> set managed_paths0. is_directory (objs s' (butlast p))"
    using s'(4) improves_directory [OF s'(2)] s1(3) bs by auto
  ultimately show ?thesis using improves_trans [OF s1(2) s'(2)] s'(3) by blast
qed

lemma parents_visible: "list_all (\<lambda>p. list_all (\<lambda>c. \<not> startswith c ''.'') (butlast p)) (selector # map (comps \<circ> fst) LINKS)"
  by code_simp

lemma temporary_not_parent:
  assumes "q \<in> set managed_paths0"
  shows "\<not> prefix (temporary_name s p) (butlast q)"
proof
  assume "prefix (temporary_name s p) (butlast q)"
  then have "''.'' @ last p @ ''.multikernel-'' @ pid s \<in> set (butlast q)"
    unfolding temporary_name_def prefix_def by auto
  moreover have "\<forall>c \<in> set (butlast q). \<not> startswith c ''.''"
    using parents_visible assms unfolding managed_paths [symmetric] list_all_iff by blast
  ultimately show False by fastforce
qed

lemma improves_free:
  assumes "improves s s'" and "objs s (temporary_name s p) = None"
  shows "objs s' (temporary_name s' p) = None"
  using assms temporary_not_parent temporary_name_same [OF improves_same [OF assms(1)]] unfolding improves_def by metis

lemma activate_link_runs:
  assumes l: "link \<in> set LINKS" and c: "cleanL s" and sw: "switchable managed_paths0 s"
  shows "\<exists>p' s'. activate_link files link progress s = (Inr p', s') \<and> cleanL s' \<and> switchable managed_paths0 s'"
proof -
  obtain d i where di: "link = (d, i)" by fastforce
  obtain created removed where p: "progress = (created, removed)" by fastforce
  note path = LINKS_paths(1) [OF l, unfolded di fst_conv]
  obtain s1 where s1: "atomic_symlink (link_target d i) (comps d) s = (Inr (), s1)" "switchable managed_paths0 s1"
    using table.switch_runs [OF sw c path parent_proper [OF path]] unfolding atomic_symlink_def by blast
  have "\<exists>p' s'. activate_link files link progress s = (Inr p', s') \<and> switchable managed_paths0 s'"
  proof (cases "managed_link s d i")
    case True
    then have "objs s (comps d) = Some (OLink (link_target d i))" by (simp add: managed_link_def)
    from table.remove_runs [OF sw path this, of "butlast (comps d)" "(created, removed @ [(comps d, link_target d i)])"]
    show ?thesis using True sw unfolding di p activate_link_def Let_def by (auto simp: returnS_def)
  next
    case False
    then show ?thesis using s1 sw unfolding di p activate_link_def Let_def by (auto simp: returnS_def bindS_def)
  qed
  then show ?thesis using keepsD(1) [OF activate_link_keeps [OF l] c] by blast
qed

lemma select_deployment_runs:
  assumes "cleanL s" and "switchable managed_paths0 s"
  shows "\<exists>s'. select_deployment files d s = (Inr (), s')"
proof -
  have "\<exists>p' s'. until_failure (activate_link files) LINKS ([], []) s = (Inr (None, p'), s') \<and> cleanL s' \<and> switchable managed_paths0 s'"
    by (rule table.until_failure_runs [OF _ assms]) (rule activate_link_runs)
  then obtain progress s1 where s1: "activate_links files LINKS ([], []) s = (Inr (None, progress), s1)" "cleanL s1" "switchable managed_paths0 s1"
    unfolding activate_links_def by blast
  have sel: "selector \<in> set managed_paths0" by simp
  obtain s' where "atomic_symlink (''deployments/'' @ d) selector s1 = (Inr (), s')"
    using table.switch_runs [OF s1(3,2) sel parent_proper [OF sel]] unfolding atomic_symlink_def by blast
  then have "select_deployment files d s = (Inr (), s')"
    using s1(1) unfolding select_deployment_def by (simp add: bindS_def rollbackS_def catchS_def selector_def)
  then show ?thesis by blast
qed

text \<open>
  C26.  Activation completes.  On a tree whose links pass the preflight checks, with a verified deployment, no temporary name taken and no failing system call,
  \<open>activate\<close> exits with status 0; afterwards the selector names the deployment, and each link of the table
  is present with its target if the deployment has the file and absent otherwise.
\<close>

theorem deployment_main_activates:
  assumes "faultless s" and "rooted_tree (objs s)" and "system_root \<longrightarrow> euid s = 0"
    and pre: "preflight_links sha256 loads False s = (Inr (), s)" and ver: "verify_deployment sha256 loads s d = Inr files"
    and free: "list_all (\<lambda>p. objs s (temporary_name s p) = None) (selector # map (comps \<circ> fst) LINKS)"
  shows "\<exists>s'. deployment_main sha256 loads dumps assets system_root (Activate d) s = (Inr (0, Some (JObj [(''active'', JStr d)])), s')
     \<and> objs s' selector = Some (OLink (''deployments/'' @ d))
     \<and> (\<forall>link \<in> set LINKS. objs s' (comps (fst link)) = wanted_link (map fst files) link)"
proof -
  obtain s1 where s1: "preflight_links sha256 loads True s = (Inr (), s1)" "improves s s1" "cleanL s1"
    "\<forall>p \<in> set managed_paths0. is_directory (objs s1 (butlast p))"
    using preflight_runs [OF pre assms(1,2)] by blast
  have "\<forall>p \<in> set managed_paths0. objs s1 (temporary_name s1 p) = None"
    using free improves_free [OF s1(2)] unfolding managed_paths [symmetric] list_all_iff by blast
  then have sw: "switchable managed_paths0 s1"
    using s1(4) faultless_same [OF assms(1) improves_same [OF s1(2)]] unfolding switchable_def by blast
  obtain s' where s': "select_deployment (map fst files) d s1 = (Inr (), s')" using select_deployment_runs [OF s1(3) sw] by blast
  have "activate sha256 loads d s = (Inr (), s')"
    using pre ver s1(1) s' unfolding activate_def by (simp add: bindS_def queryS_def)
  then have "deployment_main sha256 loads dumps assets system_root (Activate d) s = (Inr (0, Some (JObj [(''active'', JStr d)])), s')"
    using assms(3) by (auto simp: deployment_main_def run_command_def catchS_def bindS_def queryS_def raise_if_def returnS_def)
  then show ?thesis using select_deployment_settles [OF s1(3) s'] by blast
qed

section \<open>A deployment to activate\<close>

definition sample_id :: string where
  "sample_id = replicate 64 (CHR ''0'')"

definition sample_hash :: "bytes \<Rightarrow> string" where
  "sample_hash _ = sample_id"

definition sample_entries :: fields where
  "sample_entries = map (\<lambda>name. (name, JStr sample_id)) CURRENT_FILES"

definition sample_loads :: loads where
  "sample_loads _ _ = Inr (JObj [(''schema_version'', JInt 1), (''deployment'', JStr sample_id), (''files'', JObj sample_entries)])"

definition sample_directories :: "path list" where
  "sample_directories = [[], [''systemd''], [''cni''], [''containerd''], [''libexec''], [''libexec'', ''guest''], [''mkruntime'']]"

definition sample_below :: "path \<Rightarrow> obj option" where
  "sample_below q =
     (if q \<in> set sample_directories then Some (ODir (new_stat 16877 0 0))
      else if q = [''deployment-manifest.json''] \<or> q \<in> set (map comps CURRENT_FILES) then Some (OFile (new_stat 33152 0 1) ''x'') else None)"

definition sample_objs :: "path \<Rightarrow> obj option" where
  "sample_objs p =
     (if p \<in> set [[''etc''], BASE, BASE @ [''deployments'']] then Some (ODir (new_stat 16877 0 0))
      else if take 4 p = deployment_directory sample_id then sample_below (drop 4 p) else None)"

definition sample_tree :: tree where
  "sample_tree = \<lparr>faults = \<lambda>_. None, clock = 0, failures = 0, objs = sample_objs, leads = \<lambda>_. None, euid = 0, pid = ''7''\<rparr>"

definition link_parents :: "path list" where
  "link_parents = [[''etc'', ''mkruntime''], [''etc'', ''multikernel''], [''etc'', ''systemd'', ''system''], [''etc'', ''cni'', ''net.d''],
     [''etc'', ''containerd'', ''conf.d''], [''usr'', ''local'', ''libexec'', ''multikernel''], [''usr'', ''local'', ''libexec'', ''multikernel'', ''guest'']]"

lemma sample_simps [simp]: "objs sample_tree = sample_objs" "euid sample_tree = 0" "faults sample_tree = (\<lambda>_. None)" "leads sample_tree = (\<lambda>_. None)"
  by (simp_all add: sample_tree_def)

lemma sample_directory_ok: "objs s p = Some (ODir (new_stat 16877 0 0)) \<Longrightarrow> euid s = 0 \<Longrightarrow> directory_ok s p"
  by (simp add: directory_ok_def new_stat_def others_may_write_def)

lemma sample_table: "list_all (\<lambda>p. sample_objs p = None) (selector # map (comps \<circ> fst) LINKS)"
  and sample_free: "list_all (\<lambda>p. objs sample_tree (temporary_name sample_tree p) = None) (selector # map (comps \<circ> fst) LINKS)"
  and sample_parents: "list_all (\<lambda>p. butlast p \<in> set link_parents) (selector # map (comps \<circ> fst) LINKS)"
  and sample_file_parents: "list_all (\<lambda>name. butlast (comps name) \<in> set sample_directories \<and> comps name \<notin> set sample_directories) CURRENT_FILES"
  and sample_distinct: "distinct CURRENT_FILES"
  and sample_id_hex: "is_hex64 sample_id"
  by code_simp+

lemma sample_parents_checked: "list_all (\<lambda>p. check_directory sample_tree [] p = Inr ()) link_parents"
  unfolding link_parents_def
  by (simp add: Let_def lexists_def sample_objs_def BASE_def sample_directory_ok deployment_directory_def)

lemma sample_directories_checked:
  "check_directory sample_tree [] (BASE @ [''deployments'']) = Inr ()"
  "list_all (\<lambda>q. check_directory sample_tree [] (deployment_directory sample_id @ q) = Inr ()) sample_directories"
  by (simp_all add: Let_def lexists_def sample_objs_def BASE_def sample_directory_ok deployment_directory_def sample_below_def sample_directories_def)

lemma sample_objs_below: "sample_objs (deployment_directory sample_id @ q) = sample_below q"
  by (simp add: sample_objs_def deployment_directory_def BASE_def)

lemma sample_below_rooted:
  assumes "sample_below (q @ [c]) \<noteq> None"
  shows "sample_below q \<noteq> None"
proof -
  have "q \<in> set sample_directories"
  proof (cases "q @ [c] \<in> set sample_directories")
    case True
    then show ?thesis by (auto simp: sample_directories_def)
  next
    case False
    then have "q @ [c] = [''deployment-manifest.json''] \<or> (\<exists>name \<in> set CURRENT_FILES. q @ [c] = comps name)"
      using assms by (auto simp: sample_below_def split: if_splits)
    moreover have "butlast (comps name) \<in> set sample_directories" if "name \<in> set CURRENT_FILES" for name
      using sample_file_parents that by (simp add: list_all_iff)
    moreover have "[] \<in> set sample_directories" by (simp add: sample_directories_def)
    ultimately show ?thesis by (metis butlast_snoc append_self_conv2 append1_eq_conv)
  qed
  then show ?thesis by (simp add: sample_below_def)
qed

lemma sample_rooted: "rooted_tree (objs sample_tree)"
  unfolding rooted_tree_def
proof (intro allI impI)
  fix p c assume "objs sample_tree (p @ [c]) \<noteq> None"
  then have o: "sample_objs (p @ [c]) \<noteq> None" by simp
  show "p = [] \<or> objs sample_tree p \<noteq> None"
  proof (cases "take 4 (p @ [c]) = deployment_directory sample_id")
    case False
    then show ?thesis using o by (auto simp: sample_objs_def BASE_def split: if_splits)
  next
    case True
    show ?thesis
    proof (cases "4 \<le> length p")
      case l: True
      then obtain q where "p = deployment_directory sample_id @ q" using True by (metis append_take_drop_id take_append diff_is_0_eq append_Nil2 take_0)
      then show ?thesis using o sample_below_rooted sample_objs_below by fastforce
    next
      case False
      then have "p @ [c] = deployment_directory sample_id" using True by simp
      then have "p = BASE @ [''deployments'']" by (simp add: deployment_directory_def)
      then show ?thesis by (simp add: sample_objs_def)
    qed
  qed
qed

lemma sample_preflight: "preflight_links sample_hash sample_loads False sample_tree = (Inr (), sample_tree)"
proof -
  have "check_directory sample_tree [] (butlast (comps (fst l))) = Inr ()" if "l \<in> set LINKS" for l
    using sample_parents sample_parents_checked that by (simp add: list_all_iff)
  moreover have "check_destination l sample_tree = Inr ()" if "l \<in> set LINKS" for l
    using sample_table that by (auto simp: check_destination_def lexists_def raise_if_def list_all_iff split: prod.splits)
  ultimately have loop: "set ls \<subseteq> set LINKS \<Longrightarrow> forS ls (\<lambda>_ link. bindS (queryS (\<lambda>s. check_directory s [] (butlast (comps (fst link))))) (\<lambda>_. queryS (check_destination link))) () sample_tree = (Inr (), sample_tree)" for ls
    by (induction ls) (auto simp: returnS_def bindS_def queryS_def)
  have "check_directory sample_tree [] BASE = Inr ()" 
    using sample_parents_checked by (simp add: link_parents_def BASE_def)
  moreover have "check_selector sample_hash sample_loads sample_tree = Inr ()"
    using sample_table by (simp add: check_selector_def lexists_def selector_def)
  ultimately show ?thesis using loop [OF subset_refl] by (simp add: preflight_links_def safe_directory_def bindS_def queryS_def)
qed

lemma sample_file:
  assumes "name \<in> set CURRENT_FILES"
  shows "\<exists>v. check_installed_file sample_hash sample_tree sample_id sample_entries identity name = Inr v"
proof -
  have "map_of sample_entries name = Some (JStr sample_id)" using assms by (simp add: sample_entries_def map_of_const)
  then have j: "jget sample_entries name = JStr sample_id" by (simp add: jget_def)
  have d: "check_directory sample_tree [] (deployment_directory sample_id @ butlast (comps name)) = Inr ()"
    using sample_directories_checked(2) sample_file_parents assms by (simp add: list_all_iff)
  have f: "sample_objs (deployment_directory sample_id @ comps name) = Some (OFile (new_stat 33152 0 1) ''x'')"
    using sample_file_parents assms unfolding sample_objs_below by (simp add: sample_below_def list_all_iff)
  show ?thesis
    by (simp add: check_installed_file_def Let_def j d f lstat_mode_def tree_input_def secure_input_def new_stat_def others_may_write_def
       sample_id_hex sample_hash_def S_ISREG_def s_ifmt_def file_identity_def)
qed

lemma sample_verified: "verify_deployment sample_hash sample_loads sample_tree sample_id = Inr sample_entries"
proof -
  let ?D = "deployment_directory sample_id"
  have run: "\<exists>v. forE names0 (check_installed_file sample_hash sample_tree sample_id sample_entries) i = Inr v" if "set names0 \<subseteq> set CURRENT_FILES" for names0 i
    using that
  proof (induction names0 arbitrary: i)
    case (Cons n ns)
    then obtain v where "check_installed_file sample_hash sample_tree sample_id sample_entries i n = Inr v" using sample_file by fastforce
    then show ?case using Cons by simp
  qed simp
  have keys: "map fst sample_entries = CURRENT_FILES" by (simp add: sample_entries_def o_def)
  then have keyset: "fst ` set sample_entries = set CURRENT_FILES" by (metis list.set_map)
  obtain v where loop: "forE (sort (map fst sample_entries)) (check_installed_file sample_hash sample_tree sample_id sample_entries) [] = Inr v"
    using run [of "sort (map fst sample_entries)" "[]"] keys by auto
  have known: "set CURRENT_FILES \<in> set ` set KNOWN_FILE_SETS" by (simp add: KNOWN_FILE_SETS_def)
  have m: "check_manifest sample_id (JObj [(''schema_version'', JInt 1), (''deployment'', JStr sample_id), (''files'', JObj sample_entries)]) = Inr sample_entries"
    using known keyset by (simp add: check_manifest_def json_keys_def subscript_def jitem_def insert_commute py_eq_def)
  have wf: "wf_json (JObj [(''schema_version'', JInt 1), (''deployment'', JStr sample_id), (''files'', JObj sample_entries)])"
    using sample_distinct keys by (auto simp: sample_entries_def)
  have j: "strict_json_bytes sample_loads x = Inr (JObj [(''schema_version'', JInt 1), (''deployment'', JStr sample_id), (''files'', JObj sample_entries)])" for x
    using wf by (simp add: strict_json_bytes_def sample_loads_def hook_iff del: hook.simps)
  have d: "check_directory sample_tree [] ?D = Inr ()" "sample_objs ?D = Some (ODir (new_stat 16877 0 0))"
    using sample_directories_checked(2) sample_objs_below [of "[]"] by (simp_all add: sample_directories_def sample_below_def)
  have f: "sample_objs (?D @ [''deployment-manifest.json'']) = Some (OFile (new_stat 33152 0 1) ''x'')"
    unfolding sample_objs_below by (simp add: sample_below_def sample_directories_def)
  show ?thesis
    by (simp add: verify_deployment_def Let_def sample_id_hex sample_directories_checked(1) d f loop m is_dir_def is_symlink_def followed_def
        lstat_mode_def tree_input_def secure_input_def new_stat_def others_may_write_def S_ISREG_def s_ifmt_def file_identity_def j sample_hash_def)
qed

theorem deployment_main_activates_witness:
  "\<exists>s'. deployment_main sample_hash sample_loads (\<lambda>_. []) (\<lambda>_. Inl (KeyError '''')) True (Activate sample_id) sample_tree
       = (Inr (0, Some (JObj [(''active'', JStr sample_id)])), s')
     \<and> objs s' selector = Some (OLink (''deployments/'' @ sample_id))
     \<and> (\<forall>link \<in> set LINKS. objs s' (comps (fst link)) = wanted_link (map fst sample_entries) link)"
  by (rule deployment_main_activates [OF _ sample_rooted _ sample_preflight sample_verified sample_free]) (simp_all add: faultless_def)

lemma activate_links_idle:
  assumes "\<forall>link \<in> set ls. objs s (comps (fst link)) = wanted_link files link"
  shows "until_failure (activate_link files) ls progress s = (Inr (None, progress), s)"
  using assms
proof (induction ls)
  case (Cons l ls)
  have "activate_link files l progress s = (Inr progress, s)"
    using Cons.prems by (cases l, cases progress) (auto simp: activate_link_def managed_link_def wanted_link_def returnS_def Let_def)
  then show ?case using Cons by simp
qed (simp add: returnS_def)


definition failing_tree :: tree where
  "failing_tree = sample_tree\<lparr>faults := (\<lambda>k. if k = 3 then Some ''I/O error'' else None)\<rparr>"


text \<open>
  C25.  Whatever system calls fail, no command of the deployment manager changes or removes anything but the managed links,
  a selector that names a deployment, and, for \<open>remove-deployment --apply\<close>, the files of the deployment removed, which is
  not the active one.
\<close>

theorem deployment_main_confined:
  assumes "rooted_tree (objs s)" and "deployment_main sha256 loads dumps assets system_root command s = (r, s')" and "objs s p = Some x"
  shows "objs s' p = Some x \<or> may_change command s p x"
proof -
  obtain r1 s1 where run: "run_command sha256 loads dumps assets command s = (r1, s1)" by fastforce
  have "s' = s \<or> s' = s1"
    using assms(2) run
    by (auto simp: deployment_main_def catchS_def bindS_def queryS_def returnS_def raiseS_def split: sum.splits if_splits)
  then show ?thesis using run_command_confined [OF assms(1) run assms(3)] assms(3) by blast
qed

theorem deployment_main_confined_witness:
  "\<exists>r s'. deployment_main sample_hash sample_loads (\<lambda>_. []) (\<lambda>_. Inl (KeyError ''x'')) True (RemoveDeployment (replicate 64 (CHR ''1'')) True) failing_tree = (r, s')
     \<and> objs s' (deployment_directory sample_id) = Some (ODir (new_stat 16877 0 0))"
proof -
  let ?c = "RemoveDeployment (replicate 64 (CHR ''1'')) True"
  have o: "objs failing_tree = sample_objs" by (simp add: failing_tree_def)
  obtain r s' where run: "deployment_main sample_hash sample_loads (\<lambda>_. []) (\<lambda>_. Inl (KeyError ''x'')) True ?c failing_tree = (r, s')" by fastforce
  have dir: "objs failing_tree (deployment_directory sample_id) = Some (ODir (new_stat 16877 0 0))"
    using sample_objs_below [of "[]"] o by (simp add: sample_below_def sample_directories_def)
  have "\<not> prefix (deployment_directory (replicate 64 (CHR ''1''))) (deployment_directory sample_id)"
    by (simp add: deployment_directory_def sample_id_def numeral_eq_Suc)
  moreover have "prefix (BASE @ [''deployments'']) (deployment_directory sample_id)" by (simp add: deployment_directory_def)
  ultimately have "\<not> may_change ?c failing_tree (deployment_directory sample_id) x" for x
    using owned_apart unfolding may_change_def by simp
  moreover have "rooted_tree (objs failing_tree)" using sample_rooted o by simp
  ultimately show ?thesis using run deployment_main_confined [OF _ run dir] by blast
qed

end
