(* ===== verification/Py_Struct.thy ===== *)
theory Py_Struct
  imports Prelude
begin

text \<open>
  \<open>struct.unpack\<close> and \<open>int.from_bytes\<close> for little-endian unsigned fields, and \<open>bytes.find\<close> of a byte.
\<close>

fun le_nat :: "bytes \<Rightarrow> nat" where
  "le_nat [] = 0"
| "le_nat (b # bs) = of_char b + 256 * le_nat bs"

text \<open>The fields of the given widths, one after the other.\<close>

fun unpack_le :: "nat list \<Rightarrow> bytes \<Rightarrow> nat list" where
  "unpack_le [] data = []"
| "unpack_le (w # ws) data = le_nat (take w data) # unpack_le ws (drop w data)"

text \<open>The bytes from an offset up to the next NUL, if there is one.\<close>

definition cstring_at :: "bytes \<Rightarrow> nat \<Rightarrow> bytes option" where
  "cstring_at data offset =
     (let rest = drop offset data in if NUL \<in> set rest then Some (takeWhile (\<lambda>c. c \<noteq> NUL) rest) else None)"

lemma length_unpack_le [simp]: "length (unpack_le ws data) = length ws"
  by (induction ws arbitrary: data) auto

lemma le_nat_bound: "le_nat data < 256 ^ length data"
proof (induction data)
  case (Cons b bs)
  have "256 * Suc (le_nat bs) \<le> 256 * 256 ^ length bs" using Cons by (intro mult_le_mono2) simp
  moreover have "x + 256 * y < 256 * Suc y" if "x < 256" for x y :: nat using that by simp
  then have "of_char b + 256 * le_nat bs < 256 * Suc (le_nat bs)" using nat_of_char_less_256 by blast
  ultimately show ?case unfolding le_nat.simps length_Cons power_Suc by (rule less_le_trans [rotated])
qed simp

lemma unpack_le_bound: "i < length ws \<Longrightarrow> unpack_le ws data ! i < 256 ^ (ws ! i)"
proof (induction ws arbitrary: i data)
  case (Cons w ws)
  have "le_nat (take w data) < 256 ^ length (take w data)" by (rule le_nat_bound)
  also have "\<dots> \<le> 256 ^ w" by (rule power_increasing) simp_all
  finally show ?case using Cons by (cases i) auto
qed simp

lemma cstring_at_no_nul: "cstring_at data offset = Some s \<Longrightarrow> NUL \<notin> set s"
  by (auto simp: cstring_at_def Let_def dest: set_takeWhileD split: if_splits)

end
