(* ===== verification/Docker_Elf.thy ===== *)
theory Docker_Elf
  imports Py_Json Py_Text Py_Struct
begin

text \<open>
  \<open>validate-runtime-docker-root.py\<close>, the parts that read the approved image as data: the bounded reader of ELF
  program headers and dynamic tables, and the resolution of paths through the symbolic links of the image manifest.
\<close>

section \<open>Policy\<close>

definition HELPERS :: "(string \<times> nat) list" where
  "HELPERS = [(''usr/bin/newuidmap'', 2541), (''usr/bin/newgidmap'', 2541), (''usr/local/bin/rootlesskit'', 493),
     (''usr/bin/nsenter'', 493), (''sbin/ip'', 493)]"

definition LIB_DIRS :: "string list" where
  "LIB_DIRS = [''lib'', ''usr/local/lib'', ''usr/lib'', ''lib64'', ''usr/lib64'', ''lib/x86_64-linux-gnu'', ''usr/lib/x86_64-linux-gnu'']"

definition INTERPRETERS :: "string list" where
  "INTERPRETERS = [''lib/ld-musl-x86_64.so.1'', ''lib64/ld-linux-x86-64.so.2'', ''lib/ld-linux-x86-64.so.2'',
     ''lib/x86_64-linux-gnu/ld-linux-x86-64.so.2'']"

section \<open>ELF metadata\<close>

text \<open>\<open>part\<close>: offsets and sizes come from unsigned fields, so the tests for negative values never hold.\<close>

definition elf_part :: "bytes \<Rightarrow> nat \<Rightarrow> nat \<Rightarrow> bytes res" where
  "elf_part data offset sz =
     (if offset > length data \<or> sz > length data - offset then Inl (ApprovalError ''helper ELF range exceeds file'')
      else Inr (take sz (drop offset data)))"

definition elf_magic :: bytes where
  "elf_magic = CHR 0x7F # ''ELF'' @ [CHR 0x02, CHR 0x01, CHR 0x01]"

text \<open>The header: offset and number of the program headers.\<close>

definition elf_header :: "bytes \<Rightarrow> (nat \<times> nat) res" where
  "elf_header data =
     (if length data < 64 \<or> take 7 data \<noteq> elf_magic then Inl (ApprovalError ''helper is not Linux x86-64 ELF'')
      else bindE (elf_part data 16 48) (\<lambda>raw.
        let h = unpack_le [2, 2, 4, 8, 8, 8, 4, 2, 2, 2, 2, 2, 2] raw in
        if h ! 0 \<notin> {2, 3} \<or> h ! 1 \<noteq> 62 \<or> h ! 2 \<noteq> 1 \<or> h ! 7 \<noteq> 64 \<or> h ! 8 \<noteq> 56 \<or> \<not> (1 \<le> h ! 9 \<and> h ! 9 \<le> 128)
        then Inl (ApprovalError ''unsupported helper ELF headers'')
        else Inr (h ! 4, h ! 9)))"

text \<open>The load segments as (address, file size, offset), the dynamic table and the interpreter.\<close>

type_synonym elf_segments = "(nat \<times> nat \<times> nat) list \<times> bytes option \<times> string option"

definition elf_interpreter :: "bytes \<Rightarrow> string res" where
  "elf_interpreter text =
     (if \<not> (2 \<le> length text \<and> length text \<le> 4096) \<or> last text \<noteq> NUL \<or> NUL \<in> set (butlast text)
      then Inl (ApprovalError ''helper ELF interpreter refused'')
      else if \<not> list_all is_ascii (butlast text) then Inl (ApprovalError ''helper ELF interpreter refused'')
      else let interpreter = butlast text in
        if drop 1 interpreter \<notin> set INTERPRETERS \<or> \<not> startswith interpreter ''/''
        then Inl (ApprovalError ''helper ELF interpreter is outside fixed loader policy'')
        else Inr interpreter)"

definition elf_segment :: "bytes \<Rightarrow> nat \<Rightarrow> elf_segments \<Rightarrow> nat \<Rightarrow> elf_segments res" where
  "elf_segment data phoff = (\<lambda>(loads, dynamic, interpreter) i.
     bindE (elf_part data (phoff + i * 56) 56) (\<lambda>raw.
     let h = unpack_le [4, 4, 8, 8, 8, 8, 8, 8] raw;
         tag = h ! 0; offset = h ! 2; address = h ! 3; filesz = h ! 5; memsz = h ! 6 in
     bindE (elf_part data offset filesz) (\<lambda>content.
     if tag = 1
     then (if filesz > memsz then Inl (ApprovalError ''helper ELF load size refused'')
           else Inr (loads @ [(address, filesz, offset)], dynamic, interpreter))
     else if tag = 2
     then (if dynamic \<noteq> None \<or> filesz > 128 * 1024 \<or> filesz mod 16 \<noteq> 0 then Inl (ApprovalError ''helper ELF dynamic table refused'')
           else Inr (loads, Some content, interpreter))
     else if tag = 3
     then (if interpreter \<noteq> None then Inl (ApprovalError ''helper ELF interpreter refused'')
           else bindE (elf_interpreter content) (\<lambda>text. Inr (loads, dynamic, Some text)))
     else Inr (loads, dynamic, interpreter))))"

definition refused_tags :: "nat list" where
  "refused_tags = [15, 29, 1879047930, 1879047931, 1879047932, 2147483645, 2147483647]"

text \<open>
  The entries of the dynamic table up to the terminator: offsets of needed names, string table address and its size.
  The tag is signed in the format, but none of the tags looked for is negative.
\<close>

type_synonym elf_dynamic_state = "nat list \<times> nat option \<times> nat option"

definition dynamic_entry :: "nat \<Rightarrow> nat \<Rightarrow> elf_dynamic_state \<Rightarrow> elf_dynamic_state res" where
  "dynamic_entry tag v = (\<lambda>(needed, strings, sz).
     if tag \<in> set refused_tags then Inl (ApprovalError ''helper ELF custom loader search path refused'')
     else if tag = 1
     then (if length (needed @ [v]) > 128 then Inl (ApprovalError ''helper ELF dependency limit exceeded'') else Inr (needed @ [v], strings, sz))
     else if tag = 5
     then (if strings \<noteq> None then Inl (ApprovalError ''helper ELF string table is ambiguous'') else Inr (needed, Some v, sz))
     else if tag = 10
     then (if sz \<noteq> None then Inl (ApprovalError ''helper ELF string size is ambiguous'') else Inr (needed, strings, Some v))
     else Inr (needed, strings, sz))"

function elf_dynamic :: "bytes \<Rightarrow> elf_dynamic_state \<Rightarrow> elf_dynamic_state res" where
  "elf_dynamic table state =
     (if table = [] then Inl (ApprovalError ''helper ELF dynamic terminator missing'')
      else let h = unpack_le [8, 8] (take 16 table) in
        if h ! 0 = 0 then Inr state
        else bindE (dynamic_entry (h ! 0) (h ! 1) state) (elf_dynamic (drop 16 table)))"
  by pat_completeness auto
termination
  by (relation "measure (\<lambda>(table, state). length table)") auto

declare elf_dynamic.simps [simp del]

definition is_library_char :: "char \<Rightarrow> bool" where
  "is_library_char c \<longleftrightarrow> is_token_char c"

definition dependency_name :: "bytes \<Rightarrow> nat \<Rightarrow> string res" where
  "dependency_name table offset =
     (if offset \<ge> length table then Inl (ApprovalError ''helper ELF dependency name exceeds table'')
      else case cstring_at table offset of
        None \<Rightarrow> Inl (ApprovalError ''helper ELF dependency name is unterminated'')
      | Some name \<Rightarrow>
          if length name > 255 then Inl (ApprovalError ''helper ELF dependency name is unterminated'')
          else if \<not> list_all is_ascii name then Inl (ApprovalError ''helper ELF dependency name refused'')
          else if \<not> (name \<noteq> [] \<and> length name \<le> 255 \<and> list_all is_library_char name) \<or> name \<in> {''.'', ''..''}
          then Inl (ApprovalError ''helper ELF dependency name refused'')
          else Inr name)"

definition dependency_names :: "bytes \<Rightarrow> (nat \<times> nat \<times> nat) list \<Rightarrow> elf_dynamic_state \<Rightarrow> string list res" where
  "dependency_names data loads = (\<lambda>(needed, strings, sz).
     if needed = [] then Inr []
     else case (strings, sz) of
       (Some strings, Some sz) \<Rightarrow>
         if \<not> (0 < sz \<and> sz \<le> 2 ^ 20) then Inl (ApprovalError ''helper ELF dependency strings missing'')
         else bindE (mapE (\<lambda>(address, len, offset). elf_part data (offset + strings - address) sz)
             (filter (\<lambda>(address, len, offset). address \<le> strings \<and> strings - address + sz \<le> len) loads)) (\<lambda>tables.
           if length tables \<noteq> 1 then Inl (ApprovalError ''helper ELF dependency mapping is ambiguous'')
           else mapE (dependency_name (hd tables)) needed)
     | _ \<Rightarrow> Inl (ApprovalError ''helper ELF dependency strings missing''))"

definition elf_dependencies :: "bytes \<Rightarrow> (string option \<times> string list) res" where
  "elf_dependencies data =
     bindE (elf_header data) (\<lambda>(phoff, phnum).
     bindE (forE [0..<phnum] (elf_segment data phoff) ([], None, None)) (\<lambda>(loads, dynamic, interpreter).
     if loads = [] then Inl (ApprovalError ''helper ELF has no load segment'')
     else bindE (case dynamic of None \<Rightarrow> Inr ([], None, None) | Some table \<Rightarrow> elf_dynamic table ([], None, None)) (\<lambda>state.
       bindE (dependency_names data loads state) (\<lambda>names. Inr (interpreter, names)))))"

section \<open>Paths of the image\<close>

type_synonym image = "(string \<times> fields) list"

text \<open>The loop over the components still to resolve; at most 32 links are followed.\<close>

function resolve_loop :: "image \<Rightarrow> string list \<Rightarrow> string list \<Rightarrow> nat \<Rightarrow> string list res" where
  "resolve_loop paths [] parts links = Inr parts"
| "resolve_loop paths (component # todo) parts links =
     (if component = '''' \<or> component = ''.'' then resolve_loop paths todo parts links
      else if component = ''..''
      then (if parts = [] then Inl (ApprovalError ''helper alias escapes image root'') else resolve_loop paths todo (butlast parts) links)
      else case map_of paths (join_with ''/'' (parts @ [component])) of
        None \<Rightarrow> Inl (ApprovalError ''required helper dependency is absent'')
      | Some entry \<Rightarrow>
          bindE (jitem entry ''type'') (\<lambda>kind.
          if py_eq kind (JStr ''symlink'')
          then (if Suc links > 32 then Inl (ApprovalError ''helper alias depth exceeded'')
                else case jget entry ''target'' of
                  JStr target \<Rightarrow>
                    if target = '''' \<or> NUL \<in> set target \<or> length target > 4096 then Inl (ApprovalError ''helper alias target refused'')
                    else resolve_loop paths (split_on (CHR ''/'') target @ todo) (if startswith target ''/'' then [] else parts) (Suc links)
                | _ \<Rightarrow> Inl (ApprovalError ''helper alias target refused''))
          else if todo \<noteq> [] \<and> \<not> py_eq kind (JStr ''directory'') then Inl (ApprovalError ''helper path traverses non-directory'')
          else resolve_loop paths todo (parts @ [component]) links))"
  by pat_completeness auto
termination
  by (relation "measures [\<lambda>(paths, todo, parts, links). 33 - links, \<lambda>(paths, todo, parts, links). length todo]") auto

definition resolve_image_path :: "image \<Rightarrow> string \<Rightarrow> string res" where
  "resolve_image_path paths requested =
     bindE (resolve_loop paths (split_on (CHR ''/'') requested) [] 0) (\<lambda>parts.
     let final = join_with ''/'' parts in
     if final = '''' then Inl (ApprovalError ''helper dependency is not regular'')
     else case map_of paths final of
       None \<Rightarrow> Inl (KeyError final)
     | Some entry \<Rightarrow> bindE (jitem entry ''type'') (\<lambda>kind.
         if \<not> py_eq kind (JStr ''regular'') then Inl (ApprovalError ''helper dependency is not regular'') else Inr final))"

section \<open>Laws\<close>

lemma dependency_name_ok:
  "dependency_name table offset = Inr name \<Longrightarrow>
     name \<noteq> [] \<and> length name \<le> 255 \<and> list_all is_token_char name \<and> name \<notin> {''.'', ''..''} \<and> offset < length table"
  by (auto simp: dependency_name_def is_library_char_def [abs_def] split: if_splits option.splits)

lemma token_no_slash: "list_all is_token_char name \<Longrightarrow> CHR ''/'' \<notin> set name"
  by (auto simp: list_all_iff is_token_char_def is_ascii_alnum_def is_digit_def in_range_def less_eq_char_def)

lemma elf_interpreter_ok: "elf_interpreter content = Inr i \<Longrightarrow> \<exists>p \<in> set INTERPRETERS. i = ''/'' @ p"
  by (auto simp: elf_interpreter_def Let_def startswith_iff split: if_splits)

lemma dynamic_entry_needed:
  "dynamic_entry tag v state = Inr state' \<Longrightarrow> length (fst state) \<le> 128 \<Longrightarrow> length (fst state') \<le> 128"
  by (cases state) (auto simp: dynamic_entry_def split: if_splits)

lemma elf_dynamic_needed: "elf_dynamic table state = Inr state' \<Longrightarrow> length (fst state) \<le> 128 \<Longrightarrow> length (fst state') \<le> 128"
proof (induction table state rule: elf_dynamic.induct)
  case (1 table state)
  from 1(2) have ne: "table \<noteq> []" by (subst (asm) elf_dynamic.simps) (auto split: if_splits)
  let ?h = "unpack_le [8, 8] (take 16 table)"
  show ?case
  proof (cases "?h ! 0 = 0")
    case True
    then show ?thesis using 1(2,3) ne by (subst (asm) elf_dynamic.simps) (simp add: Let_def)
  next
    case False
    then obtain state1 where s: "dynamic_entry (?h ! 0) (?h ! 1) state = Inr state1" "elf_dynamic (drop 16 table) state1 = Inr state'"
      using 1(2) ne by (subst (asm) elf_dynamic.simps) (auto simp: Let_def bindE_Inr)
    show ?thesis by (rule 1(1) [OF ne refl False s(2) dynamic_entry_needed [OF s(1) 1(3)]])
  qed
qed

lemma elf_segment_interpreter:
  assumes "elf_segment data phoff state i = Inr state'"
  shows "snd (snd state') = snd (snd state) \<or> (\<exists>content t. elf_interpreter content = Inr t \<and> snd (snd state') = Some t)"
proof -
  obtain loads dynamic interpreter where s: "state = (loads, dynamic, interpreter)" by (cases state)
  obtain tag filesz memsz content entry where
    "(if tag = (1 :: nat) then (if filesz > (memsz :: nat) then Inl (ApprovalError ''helper ELF load size refused'')
           else Inr (loads @ [entry], dynamic, interpreter))
     else if tag = 2
     then (if dynamic \<noteq> None \<or> filesz > 128 * 1024 \<or> filesz mod 16 \<noteq> 0 then Inl (ApprovalError ''helper ELF dynamic table refused'')
           else Inr (loads, Some content, interpreter))
     else if tag = 3
     then (if interpreter \<noteq> None then Inl (ApprovalError ''helper ELF interpreter refused'')
           else bindE (elf_interpreter content) (\<lambda>text. Inr (loads, dynamic, Some text)))
     else Inr (loads, dynamic, interpreter)) = Inr state'"
    using assms unfolding s elf_segment_def prod.case Let_def bindE_Inr by blast
  then show ?thesis unfolding s by (auto simp: bindE_Inr split: if_splits)
qed

lemma dependency_names_origin:
  assumes "mapE (dependency_name table) needed = Inr names"
  shows "length names = length needed \<and> (\<forall>name \<in> set names. \<exists>offset. dependency_name table offset = Inr name)"
  using assms by (auto simp: mapE_Inr_iff list_all2_conv_all_nth in_set_conv_nth) (metis)

text \<open>
  C30.  What the ELF reader returns has the form the copy relies on: the interpreter, if any, is one of the fixed loaders, there are at
  most 128 needed libraries, and each is a nonempty plain file name of at most 255 characters, without a separator and
  neither \<open>.\<close> nor \<open>..\<close>.
\<close>

theorem elf_dependencies_form:
  assumes "elf_dependencies data = Inr (interpreter, names)"
  shows "(case interpreter of None \<Rightarrow> True | Some i \<Rightarrow> \<exists>p \<in> set INTERPRETERS. i = ''/'' @ p) \<and> length names \<le> 128
    \<and> (\<forall>name \<in> set names. name \<noteq> [] \<and> length name \<le> 255 \<and> list_all is_token_char name \<and> comp_ok name)"
proof -
  from assms obtain phoff phnum loads dynamic state
    where loop: "forE [0..<phnum] (elf_segment data phoff) ([], None, None) = Inr (loads, dynamic, interpreter)"
      and dyn: "(case dynamic of None \<Rightarrow> Inr ([], None, None) | Some table \<Rightarrow> elf_dynamic table ([], None, None)) = Inr state"
      and deps: "dependency_names data loads state = Inr names"
    unfolding elf_dependencies_def by (auto simp: bindE_Inr split: prod.splits if_splits)
  have "\<forall>t. snd (snd (loads, dynamic, interpreter)) = Some t \<longrightarrow> (\<exists>content. elf_interpreter content = Inr t)"
    by (rule forE_invariant [OF loop, of "\<lambda>s. \<forall>t. snd (snd s) = Some t \<longrightarrow> (\<exists>content. elf_interpreter content = Inr t)"])
       (simp, metis elf_segment_interpreter option.inject)
  then have i: "case interpreter of None \<Rightarrow> True | Some i \<Rightarrow> \<exists>p \<in> set INTERPRETERS. i = ''/'' @ p" using elf_interpreter_ok by (cases interpreter) auto
  obtain needed strings sz where st: "state = (needed, strings, sz)" by (cases state)
  have n: "length needed \<le> 128"
    using dyn elf_dynamic_needed [of _ "([], None, None)" state] st by (auto split: option.splits)
  have "names = [] \<or> (\<exists>table. mapE (dependency_name table) needed = Inr names)"
    using deps st by (auto simp: dependency_names_def bindE_Inr split: if_splits option.splits)
  then have "length names \<le> 128 \<and> (\<forall>name \<in> set names. \<exists>table offset. dependency_name table offset = Inr name)"
    using n dependency_names_origin by fastforce
  then show ?thesis using i dependency_name_ok token_no_slash unfolding comp_ok_def by blast
qed

text \<open>A shared object for the x86-64 with one load segment, the musl loader, and one needed library.\<close>

definition sample_elf :: bytes where
  "sample_elf = elf_magic @ replicate 9 NUL
     @ [CHR 0x03, NUL, CHR 0x3E, NUL, CHR 0x01] @ replicate 11 NUL @ [CHR 0x40] @ replicate 19 NUL @ [CHR 0x40, NUL, CHR 0x38, NUL, CHR 0x03] @ replicate 7 NUL
     @ [CHR 0x01, NUL, NUL, NUL, CHR 0x04] @ replicate 27 NUL @ [CHR 0x4A, CHR 0x01] @ replicate 6 NUL @ [CHR 0x4A, CHR 0x01] @ replicate 6 NUL @ [CHR 0x01] @ replicate 7 NUL
     @ [CHR 0x03, NUL, NUL, NUL, CHR 0x04, NUL, NUL, NUL, CHR 0xE8] @ replicate 7 NUL @ [CHR 0xE8] @ replicate 7 NUL @ [CHR 0xE8] @ replicate 7 NUL @ [CHR 0x19] @ replicate 7 NUL @ [CHR 0x19] @ replicate 7 NUL @ [CHR 0x01] @ replicate 7 NUL
     @ [CHR 0x02, NUL, NUL, NUL, CHR 0x04, NUL, NUL, NUL, CHR 0x01, CHR 0x01] @ replicate 6 NUL @ [CHR 0x01, CHR 0x01] @ replicate 6 NUL @ [CHR 0x01, CHR 0x01] @ replicate 6 NUL @ [CHR 0x40] @ replicate 7 NUL @ [CHR 0x40] @ replicate 7 NUL @ [CHR 0x01] @ replicate 7 NUL
     @ ''/lib/ld-musl-x86_64.so.1'' @ [NUL]
     @ [CHR 0x01] @ replicate 7 NUL @ [CHR 0x01] @ replicate 7 NUL @ [CHR 0x05] @ replicate 7 NUL @ [CHR 0x41, CHR 0x01] @ replicate 6 NUL @ [CHR 0x0A] @ replicate 7 NUL @ [CHR 0x09] @ replicate 23 NUL
     @ [NUL] @ ''libc.so'' @ [NUL]"

lemma sample_elf_list: "sample_elf =
  [CHR 0x7F, CHR 0x45, CHR 0x4C, CHR 0x46, CHR 0x02, CHR 0x01, CHR 0x01, NUL, NUL, NUL, NUL, NUL, NUL, NUL, NUL, NUL, CHR 0x03, NUL, CHR 0x3E, NUL, CHR 0x01, NUL, NUL, NUL, NUL, NUL, NUL, NUL, NUL, NUL, NUL, NUL, CHR 0x40, NUL, NUL, NUL, NUL, NUL, NUL, NUL, NUL, NUL, NUL, NUL, NUL, NUL, NUL, NUL, NUL, NUL, NUL, NUL, CHR 0x40, NUL, CHR 0x38, NUL, CHR 0x03, NUL, NUL, NUL, NUL, NUL, NUL, NUL, CHR 0x01, NUL, NUL, NUL, CHR 0x04, NUL, NUL, NUL, NUL, NUL, NUL, NUL, NUL, NUL, NUL, NUL, NUL, NUL, NUL, NUL, NUL, NUL, NUL, NUL, NUL, NUL, NUL, NUL, NUL, NUL, NUL, NUL, CHR 0x4A, CHR 0x01, NUL, NUL, NUL, NUL, NUL, NUL, CHR 0x4A, CHR 0x01, NUL, NUL, NUL, NUL, NUL, NUL, CHR 0x01, NUL, NUL, NUL, NUL, NUL, NUL, NUL, CHR 0x03, NUL, NUL, NUL, CHR 0x04, NUL, NUL, NUL, CHR 0xE8, NUL, NUL, NUL, NUL, NUL, NUL, NUL, CHR 0xE8, NUL, NUL, NUL, NUL, NUL, NUL, NUL, CHR 0xE8, NUL, NUL, NUL, NUL, NUL, NUL, NUL, CHR 0x19, NUL, NUL, NUL, NUL, NUL, NUL, NUL, CHR 0x19, NUL, NUL, NUL, NUL, NUL, NUL, NUL, CHR 0x01, NUL, NUL, NUL, NUL, NUL, NUL, NUL, CHR 0x02, NUL, NUL, NUL, CHR 0x04, NUL, NUL, NUL, CHR 0x01, CHR 0x01, NUL, NUL, NUL, NUL, NUL, NUL, CHR 0x01, CHR 0x01, NUL, NUL, NUL, NUL, NUL, NUL, CHR 0x01, CHR 0x01, NUL, NUL, NUL, NUL, NUL, NUL, CHR 0x40, NUL, NUL, NUL, NUL, NUL, NUL, NUL, CHR 0x40, NUL, NUL, NUL, NUL, NUL, NUL, NUL, CHR 0x01, NUL, NUL, NUL, NUL, NUL, NUL, NUL, CHR 0x2F, CHR 0x6C, CHR 0x69, CHR 0x62, CHR 0x2F, CHR 0x6C, CHR 0x64, CHR 0x2D, CHR 0x6D, CHR 0x75, CHR 0x73, CHR 0x6C, CHR 0x2D, CHR 0x78, CHR 0x38, CHR 0x36, CHR 0x5F, CHR 0x36, CHR 0x34, CHR 0x2E, CHR 0x73, CHR 0x6F, CHR 0x2E, CHR 0x31, NUL, CHR 0x01, NUL, NUL, NUL, NUL, NUL, NUL, NUL, CHR 0x01, NUL, NUL, NUL, NUL, NUL, NUL, NUL, CHR 0x05, NUL, NUL, NUL, NUL, NUL, NUL, NUL, CHR 0x41, CHR 0x01, NUL, NUL, NUL, NUL, NUL, NUL, CHR 0x0A, NUL, NUL, NUL, NUL, NUL, NUL, NUL, CHR 0x09, NUL, NUL, NUL, NUL, NUL, NUL, NUL, NUL, NUL, NUL, NUL, NUL, NUL, NUL, NUL, NUL, NUL, NUL, NUL, NUL, NUL, NUL, NUL, NUL, CHR 0x6C, CHR 0x69, CHR 0x62, CHR 0x63, CHR 0x2E, CHR 0x73, CHR 0x6F, NUL]"
  by (simp add: sample_elf_def elf_magic_def numeral_eq_Suc)

lemmas sample_elf_eval = elf_part_def Let_def sample_elf_list NUL_def

lemma sample_elf_header: "elf_header sample_elf = Inr (64, 3)"
  by (simp add: elf_header_def elf_magic_def sample_elf_eval)

lemma sample_elf_segments:
  shows "elf_segment sample_elf 64 ([], None, None) 0 = Inr ([(0, 330, 0)], None, None)"
    and "elf_segment sample_elf 64 (loads, None, None) 1 = Inr (loads, None, Some ''/lib/ld-musl-x86_64.so.1'')"
    and "elf_segment sample_elf 64 (loads, None, i) 2 = Inr (loads, Some (take 64 (drop 257 sample_elf)), i)"
  by (simp_all add: elf_segment_def elf_interpreter_def is_ascii_def INTERPRETERS_def sample_elf_eval)

lemma sample_elf_dynamic: "elf_dynamic (take 64 (drop 257 sample_elf)) ([], None, None) = Inr ([1], Some 321, Some 9)"
  by (simp add: elf_dynamic.simps [of "_ # _"] dynamic_entry_def refused_tags_def sample_elf_eval)

lemma sample_elf_names: "dependency_names sample_elf [(0, 330, 0)] ([1], Some 321, Some 9) = Inr [''libc.so'']"
  by (simp add: dependency_names_def dependency_name_def cstring_at_def is_ascii_def is_library_char_def is_token_char_def is_ascii_alnum_def in_range_def
    sample_elf_eval)

lemma sample_elf_dependencies: "elf_dependencies sample_elf = Inr (Some ''/lib/ld-musl-x86_64.so.1'', [''libc.so''])"
proof -
  have "[0..<3] = [0, 1, 2 :: nat]" by (simp add: upt_rec)
  then show ?thesis
    by (simp add: elf_dependencies_def sample_elf_header sample_elf_segments [unfolded One_nat_def] sample_elf_dynamic sample_elf_names [unfolded One_nat_def])
qed

theorem elf_dependencies_form_witness:
  "elf_dependencies sample_elf = Inr (Some ''/lib/ld-musl-x86_64.so.1'', [''libc.so''])
    \<and> ''lib/ld-musl-x86_64.so.1'' \<in> set INTERPRETERS \<and> list_all is_token_char ''libc.so'' \<and> comp_ok ''libc.so''"
  using elf_dependencies_form [OF sample_elf_dependencies] sample_elf_dependencies by auto

end
