(* ===== verification/Docker_Root.thy ===== *)
theory Docker_Root
  imports Docker_Elf Tree_Fs
begin

text \<open>
  \<open>validate-runtime-docker-root.py\<close>: the approval of an image against a Docker profile, the closure of helper files and
  the outer root it is copied to, the staging of a profile, the workload checks and the command.
  Files outside the tree of \<^theory_text>\<open>Tree_Fs\<close> are observations; \<open>sha256\<close> and the JSON text parser are parameters.
\<close>

section \<open>Metadata\<close>

definition METADATA_LIMIT :: nat where
  "METADATA_LIMIT = 64 * 2 ^ 20"

text \<open>\<open>fstat\<close>, the bytes read (at most \<open>LIMIT + 1\<close>), and \<open>fstat\<close> again, of a file opened without following links.\<close>

type_synonym observed = "(stat_info \<times> bytes \<times> stat_info) res"

definition full_identity :: "stat_info \<Rightarrow> nat list \<times> int \<times> int" where
  "full_identity v = ([st_dev v, st_ino v, st_mode v, st_uid v, st_gid v, st_nlink v, st_size v], st_mtime_ns v, st_ctime_ns v)"

definition read_metadata :: "nat \<Rightarrow> observed \<Rightarrow> bytes res" where
  "read_metadata uid file =
     bindE file (\<lambda>(before, data, after).
     if \<not> S_ISREG (st_mode before) \<or> st_uid before \<noteq> uid \<or> st_nlink before \<noteq> 1 \<or> others_may_write (st_mode before)
        \<or> \<not> (0 < st_size before \<and> st_size before \<le> METADATA_LIMIT)
     then Inl (ApprovalError ''unsafe generated metadata'')
     else if length (take (METADATA_LIMIT + 1) data) \<noteq> st_size before \<or> full_identity before \<noteq> full_identity after
     then Inl (ApprovalError ''generated metadata changed during read'')
     else Inr (take (METADATA_LIMIT + 1) data))"

definition strict_loads :: "loads \<Rightarrow> bytes \<Rightarrow> json res" where
  "strict_loads loads data = bindE (loads default_constant data) (hook (ApprovalError ''duplicate metadata field''))"

text \<open>\<open>v.get(k)\<close> of a decoded value.\<close>

definition dget :: "json \<Rightarrow> string \<Rightarrow> json res" where
  "dget v k = (case v of JObj d \<Rightarrow> Inr (jget d k) | _ \<Rightarrow> Inl (AttributeError ''get''))"

section \<open>Approval\<close>

definition image_path_ok :: "string \<Rightarrow> bool" where
  "image_path_ok path \<longleftrightarrow> \<not> startswith path ''/'' \<and> NUL \<notin> set path \<and> length path \<le> 4096
     \<and> as_posix path = path \<and> ''..'' \<notin> set (path_parts path)"

definition image_step :: "image \<Rightarrow> json \<Rightarrow> image res" where
  "image_step paths entry =
     (case entry of
        JObj e \<Rightarrow> (case jget e ''path'' of
            JStr path \<Rightarrow>
              if map_of paths path \<noteq> None then Inl (ApprovalError ''malformed source entries'')
              else if \<not> image_path_ok path \<or> \<not> list_ex (\<lambda>kind. py_eq (jget e ''type'') (JStr kind)) [''directory'', ''regular'', ''symlink'']
              then Inl (ApprovalError ''noncanonical source entry'')
              else Inr (paths @ [(path, e)])
          | _ \<Rightarrow> Inl (ApprovalError ''malformed source entries''))
      | _ \<Rightarrow> Inl (ApprovalError ''malformed source entries''))"

definition is_alias :: "fields \<Rightarrow> bool" where
  "is_alias e \<longleftrightarrow> py_eq (jget e ''type'') (JStr ''symlink'') \<or> jget e ''hardlink'' \<noteq> JNull"

definition image_aliases :: "image \<Rightarrow> string list" where
  "image_aliases paths = sort (map fst (filter (\<lambda>(path, e). is_alias e) paths))"

definition parse_image :: "json \<Rightarrow> image res" where
  "parse_image root_value =
     (case root_value of
        JObj root_fields \<Rightarrow> (case jget root_fields ''entries'' of
            JList entries \<Rightarrow>
              if \<not> py_eq (jget root_fields ''schema_version'') (JInt 1) \<or> length entries > 131072
              then Inl (ApprovalError ''malformed source manifest'') else forE entries image_step []
          | _ \<Rightarrow> Inl (ApprovalError ''malformed source manifest''))
      | _ \<Rightarrow> Inl (ApprovalError ''malformed source manifest''))"

text \<open>\<open>bisect.bisect_left\<close> on a sorted list.\<close>

definition bisect_left :: "string list \<Rightarrow> string \<Rightarrow> nat" where
  "bisect_left xs x = length (takeWhile (\<lambda>y. y < x) xs)"

definition bind_destination :: "json \<Rightarrow> string res" where
  "bind_destination item =
     (case (case item of JObj d \<Rightarrow> jget d ''destination'' | _ \<Rightarrow> JNull) of
        JStr destination \<Rightarrow>
          if \<not> startswith destination ''/'' \<or> startswith destination ''//'' \<or> NUL \<in> set destination \<or> length destination > 4096
             \<or> as_posix destination \<noteq> destination \<or> ''..'' \<in> set (path_parts destination)
          then Inl (ApprovalError ''noncanonical copied-input destination'')
          else Inr destination
      | _ \<Rightarrow> Inl (ApprovalError ''noncanonical copied-input destination''))"

definition traverses_alias :: "image \<Rightarrow> string list \<Rightarrow> nat \<Rightarrow> bool" where
  "traverses_alias paths parts index =
     (case map_of paths (join_with ''/'' (take index parts)) of
        None \<Rightarrow> False
      | Some e \<Rightarrow> is_alias e \<or> index < length parts \<and> \<not> py_eq (jget e ''type'') (JStr ''directory''))"

definition contains_alias :: "string list \<Rightarrow> string \<Rightarrow> bool" where
  "contains_alias aliases pre \<longleftrightarrow>
     (let index = bisect_left aliases pre in index < length aliases \<and> startswith (aliases ! index) pre)"

definition check_bind :: "image \<Rightarrow> string list \<Rightarrow> json \<Rightarrow> unit res" where
  "check_bind paths aliases item =
     bindE (bind_destination item) (\<lambda>destination.
     let context = (destination = ''/work'' \<or> startswith destination ''/work/''); parts = path_tail destination in
     if \<not> context \<and> destination \<notin> {''/etc/hosts'', ''/etc/hostname'', ''/etc/resolv.conf''}
     then Inl (ApprovalError ''copied input can replace a trusted Docker dependency'')
     else if list_ex (traverses_alias paths parts) [1..<Suc (length parts)]
     then Inl (ApprovalError ''copied input traverses an image alias'')
     else raise_if (contains_alias aliases (join_with ''/'' parts @ ''/'')) (ApprovalError ''copied-input tree contains an image alias''))"

definition check_plan :: "image \<Rightarrow> json \<Rightarrow> nat res" where
  "check_plan paths plan =
     (case plan of
        JObj p \<Rightarrow> (case jget p ''readonly_binds'' of
            JList binds \<Rightarrow>
              if \<not> py_eq (jget p ''schema_version'') (JInt 1) \<or> length binds > 256 then Inl (ApprovalError ''malformed copied-input plan'')
              else bindE (forE binds (\<lambda>_. check_bind paths (image_aliases paths)) ()) (\<lambda>_. Inr (length binds))
          | _ \<Rightarrow> Inl (ApprovalError ''malformed copied-input plan''))
      | _ \<Rightarrow> Inl (ApprovalError ''malformed copied-input plan''))"

definition validate_approval :: "(bytes \<Rightarrow> string) \<Rightarrow> loads \<Rightarrow> json \<Rightarrow> bytes \<Rightarrow> json \<Rightarrow> fields res" where
  "validate_approval sha256 loads bootstrap root_bytes plan =
     bindE (dget bootstrap ''docker_guest'') (\<lambda>profile.
     case profile of
       JObj p \<Rightarrow>
         if \<not> py_eq (jget p ''kind'') (JStr ''docker-rootless-offline-v1'') then Inl (ApprovalError ''unsupported Docker approval'')
         else if jget p ''rootfs_manifest_sha256'' \<noteq> JStr (sha256 root_bytes)
         then Inl (ApprovalError ''held source root differs from approved image'')
         else bindE (strict_loads loads root_bytes) (\<lambda>root_value.
           bindE (parse_image root_value) (\<lambda>paths.
           bindE (check_plan paths plan) (\<lambda>count.
           Inr [(''schema_version'', JInt 1), (''source_bound'', JBool True),
             (''rootfs_manifest_sha256'', JStr (sha256 root_bytes)), (''copied_input_count'', JInt (int count))])))
     | _ \<Rightarrow> Inl (ApprovalError ''unsupported Docker approval''))"

section \<open>Helper files\<close>

text \<open>\<open>isinstance(v, int)\<close>, which holds of the booleans too, and the value.\<close>

fun int_value :: "json \<Rightarrow> int option" where
  "int_value (JInt i) = Some i"
| "int_value (JBool b) = Some (of_bool b)"
| "int_value _ = None"

definition source_uid :: "fields \<Rightarrow> string \<Rightarrow> nat \<Rightarrow> json" where
  "source_uid entry requested required_uid =
     (if requested = ''usr/local/bin/rootlesskit'' then jget entry ''uid'' else JInt (int required_uid))"

definition approved_metadata :: "fields \<Rightarrow> string \<Rightarrow> nat \<Rightarrow> unit res" where
  "approved_metadata entry requested required_uid =
     (let uid = source_uid entry requested required_uid in
      if \<not> is_int uid \<or> \<not> (0 \<le> the_int uid \<and> the_int uid < 2 ^ 32) \<or> \<not> py_eq (jget entry ''uid'') uid
      then Inl (ApprovalError ''unsafe approved helper metadata'')
      else case int_value (jget_or entry ''mode'' (JInt 0)) of
        None \<Rightarrow> Inl (TypeError ''unsupported operand type'')
      | Some mode \<Rightarrow>
          if mode AND 18 \<noteq> 0 then Inl (ApprovalError ''unsafe approved helper metadata'')
          else case int_value (jget entry ''size'') of
            None \<Rightarrow> Inl (ApprovalError ''unsafe approved helper metadata'')
          | Some sz \<Rightarrow> raise_if (\<not> (0 < sz \<and> sz \<le> 64 * 2 ^ 20)) (ApprovalError ''unsafe approved helper metadata''))"

text \<open>The walk from the held root without following links; \<open>later\<close> is the second \<open>fstat\<close>.\<close>

definition open_image_file :: "node \<Rightarrow> string \<Rightarrow> node res" where
  "open_image_file rootfd name =
     (let components = split_on (CHR ''/'') name in
      bindE (forE (butlast components) open_dir_at rootfd) (\<lambda>directory. open_at directory (last components)))"

definition held_metadata_differs :: "stat_info \<Rightarrow> fields \<Rightarrow> bool res" where
  "held_metadata_differs before entry =
     (if \<not> S_ISREG (st_mode before) then Inr True
      else bindE (jitem entry ''uid'') (\<lambda>uid.
        if \<not> py_eq (JInt (int (st_uid before))) uid then Inr True
        else bindE (jitem entry ''gid'') (\<lambda>gid.
          if \<not> py_eq (JInt (int (st_gid before))) gid then Inr True
          else bindE (jitem entry ''mode'') (\<lambda>mode.
            if \<not> py_eq (JInt (int (st_mode before))) mode then Inr True
            else bindE (jitem entry ''size'') (\<lambda>sz. Inr (\<not> py_eq (JInt (int (st_size before))) sz))))))"

definition node_data :: "node \<Rightarrow> bytes" where
  "node_data n = (case n of NFile _ data \<Rightarrow> data | _ \<Rightarrow> [])"

definition read_image_file :: "(bytes \<Rightarrow> string) \<Rightarrow> (string \<Rightarrow> stat_info) \<Rightarrow> node \<Rightarrow> image \<Rightarrow> nat \<Rightarrow> string \<Rightarrow> bytes res" where
  "read_image_file sha256 later rootfd paths required_uid requested =
     bindE (resolve_image_path paths requested) (\<lambda>name.
     let entry = (case map_of paths name of Some e \<Rightarrow> e | None \<Rightarrow> []) in
     bindE (approved_metadata entry requested required_uid) (\<lambda>_.
     bindE (open_image_file rootfd name) (\<lambda>file.
     let before = node_stat file; data = take (64 * 2 ^ 20 + 1) (node_data file) in
     bindE (held_metadata_differs before entry) (\<lambda>differs.
     if differs then Inl (ApprovalError ''held helper metadata differs from approval'')
     else if length data \<noteq> st_size before \<or> full_identity before \<noteq> full_identity (later name)
       \<or> jget entry ''sha256'' \<noteq> JStr (sha256 data)
     then Inl (ApprovalError ''held helper content differs from approval'')
     else Inr data))))"

section \<open>The closure of the helpers\<close>

text \<open>The names read so far with their contents, the names still to read, and all names ever queued.\<close>

type_synonym closure = "(string \<times> bytes) list \<times> string list \<times> string list \<times> nat"

definition enqueue :: "closure \<Rightarrow> string \<Rightarrow> closure res" where
  "enqueue = (\<lambda>(files, pending, queued, total) name.
     if name \<in> set queued then Inr (files, pending, queued, total)
     else if length queued \<ge> 256 then Inl (ApprovalError ''outer helper closure count exceeded'')
     else Inr (files, pending @ [name], queued @ [name], total))"

fun is_approval_error :: "exn \<Rightarrow> bool" where
  "is_approval_error (ApprovalError _) = True" | "is_approval_error _ = False"

definition library_candidates :: "image \<Rightarrow> string \<Rightarrow> string list res" where
  "library_candidates paths library =
     forE LIB_DIRS (\<lambda>candidates directory.
       let candidate = directory @ ''/'' @ library in
       case resolve_image_path paths candidate of
         Inr _ \<Rightarrow> Inr (candidates @ [candidate])
       | Inl e \<Rightarrow> if is_approval_error e then Inr candidates else Inl e) []"

definition enqueue_library :: "image \<Rightarrow> closure \<Rightarrow> string \<Rightarrow> closure res" where
  "enqueue_library paths state library =
     bindE (library_candidates paths library) (\<lambda>candidates.
     if candidates = [] then Inl (ApprovalError ''required helper library is absent'')
     else forE candidates enqueue state)"

text \<open>One helper: its contents are read and its interpreter and libraries queued.\<close>

definition closure_step :: "(string \<Rightarrow> bytes res) \<Rightarrow> image \<Rightarrow> closure \<Rightarrow> string \<Rightarrow> closure res" where
  "closure_step fetch paths = (\<lambda>(files, pending, queued, total) name.
     if map_of files name \<noteq> None then Inr (files, pending, queued, total)
     else if length files \<ge> 256 then Inl (ApprovalError ''outer helper closure count exceeded'')
     else bindE (fetch name) (\<lambda>data.
       let total' = total + length data in
       if total' > 128 * 2 ^ 20 then Inl (ApprovalError ''outer helper closure bytes exceeded'')
       else bindE (elf_dependencies data) (\<lambda>(interpreter, needed).
         let state = (files @ [(name, data)], pending, queued, total') in
         bindE (case interpreter of None \<Rightarrow> Inr state | Some i \<Rightarrow> enqueue state (drop 1 i)) (\<lambda>state'.
         forE needed (enqueue_library paths) state'))))"

text \<open>What is left to do decreases: queueing a name uses up one of the 256 places.\<close>

definition closure_weight :: "closure \<Rightarrow> nat" where
  "closure_weight = (\<lambda>(files, pending, queued, total). 2 * (256 - length queued) + length pending)"

lemma enqueue_weight: "enqueue state name = Inr state' \<Longrightarrow> closure_weight state' \<le> closure_weight state"
  by (cases state) (auto simp: enqueue_def closure_weight_def split: if_splits)

lemma enqueue_library_weight:
  assumes "enqueue_library paths state library = Inr state'"
  shows "closure_weight state' \<le> closure_weight state"
proof -
  from assms obtain cs where run: "forE cs enqueue state = Inr state'"
    by (auto simp: enqueue_library_def bindE_Inr split: if_splits)
  show ?thesis
    by (rule forE_invariant [OF run, of "\<lambda>s. closure_weight s \<le> closure_weight state"]) (auto dest: enqueue_weight)
qed

lemma closure_step_weight:
  assumes "closure_step fetch paths state name = Inr state'"
  shows "closure_weight state' \<le> closure_weight state"
proof -
  obtain files pending queued total where s: "state = (files, pending, queued, total)" by (cases state)
  show ?thesis
  proof (cases "map_of files name \<noteq> None")
    case True
    then show ?thesis using assms s by (simp add: closure_step_def)
  next
    case False
    from assms False obtain data interpreter needed state1
      where s1: "(case interpreter of None \<Rightarrow> Inr (files @ [(name, data)], pending, queued, total + length data)
          | Some i \<Rightarrow> enqueue (files @ [(name, data)], pending, queued, total + length data) (drop 1 i)) = Inr state1"
        and run: "forE needed (enqueue_library paths) state1 = Inr state'"
      unfolding closure_step_def s Let_def by (auto simp: bindE_Inr split: if_splits prod.splits)
    have "closure_weight state1 \<le> closure_weight (files @ [(name, data)], pending, queued, total + length data)"
      using s1 by (auto dest: enqueue_weight split: option.splits)
    also have "\<dots> = closure_weight state" by (simp add: s closure_weight_def)
    finally have w1: "closure_weight state1 \<le> closure_weight state" .
    show ?thesis
      by (rule forE_invariant [OF run, of "\<lambda>s. closure_weight s \<le> closure_weight state"]) (use w1 in \<open>auto dest: enqueue_library_weight\<close>)
  qed
qed

function helper_closure :: "(string \<Rightarrow> bytes res) \<Rightarrow> image \<Rightarrow> closure \<Rightarrow> ((string \<times> bytes) list \<times> nat) res" where
  "helper_closure fetch paths (files, pending, queued, amount) =
     (case pending of
        [] \<Rightarrow> Inr (files, amount)
      | name # rest \<Rightarrow>
          (case closure_step fetch paths (files, rest, queued, amount) name of
             Inl e \<Rightarrow> Inl e | Inr state \<Rightarrow> helper_closure fetch paths state))"
  by pat_completeness auto
termination
proof (relation "measure (\<lambda>(fetch, paths, state). closure_weight state)", goal_cases)
  case (2 fetch paths files pending queued amount name rest state)
  then have "closure_weight state \<le> closure_weight (files, rest, queued, amount)" by (intro closure_step_weight) simp
  then show ?case using 2 by (simp add: closure_weight_def)
qed simp

end
