(* ===== verification/Docker_Stage.thy ===== *)
theory Docker_Stage
  imports Docker_Root
begin

text \<open>
  The parts of \<open>validate-runtime-docker-root.py\<close> that write: the outer root with the closure of the helpers, the staging
  of an approved profile, and the command.
\<close>

section \<open>The outer root\<close>

text \<open>\<open>open("xb")\<close> with \<open>write\<close>.\<close>

definition write_new :: "path \<Rightarrow> bytes \<Rightarrow> unit top" where
  "write_new p data = bindS (sys_create_file 438 p) (\<lambda>_. sys_put p data)"

definition copy_helper :: "path \<Rightarrow> string \<times> bytes \<Rightarrow> unit top" where
  "copy_helper output = (\<lambda>(name, data).
     let parts = path_tail name; p = output @ parts in
     bindS (forS [1..<length parts] (\<lambda>_ i. let directory = output @ take i parts in
         bindS (mkdir_ok 493 directory) (\<lambda>_. sys_chmod 493 directory)) ()) (\<lambda>_.
     bindS (write_new p data) (\<lambda>_.
     sys_chmod (case map_of HELPERS name of Some mode \<Rightarrow> mode | None \<Rightarrow> 493) p)))"

definition outer_accounts :: "(string \<times> string) list" where
  "outer_accounts =
     (let lf = [CHR 0x0A] in
      [(''passwd'', ''root:x:0:0:root:/root:/bin/sh'' @ lf @ ''rootless:x:1000:1000:rootless:/home/rootless:/bin/sh'' @ lf),
       (''group'', ''root:x:0:'' @ lf @ ''rootless:x:1000:'' @ lf),
       (''subuid'', ''rootless:100000:65536'' @ lf), (''subgid'', ''rootless:100000:65536'' @ lf),
       (''nsswitch.conf'', ''passwd: files'' @ lf @ ''group: files'' @ lf @ ''subid: files'' @ lf)])"

definition outer_directories :: "nat \<Rightarrow> (string \<times> nat \<times> nat \<times> nat) list" where
  "outer_directories required_uid =
     [(''tmp'', 1023, required_uid, 0), (''home'', 493, required_uid, 0), (''home/rootless'', 448, 1000, 1000),
      (''home/rootless/.local'', 448, 1000, 1000), (''home/rootless/.local/tmp'', 448, 1000, 1000),
      (''run'', 493, required_uid, 0), (''run/user'', 493, required_uid, 0), (''run/user/1000'', 448, 1000, 1000),
      (''run/user/1000/rootlesskit'', 448, 1000, 1000)]"

definition make_outer_directory :: "path \<Rightarrow> string \<times> nat \<times> nat \<times> nat \<Rightarrow> unit top" where
  "make_outer_directory output = (\<lambda>(name, mode, uid, gid).
     let p = output @ path_tail name in
     bindS (sys_mkdir mode p) (\<lambda>_.
     bindS (\<lambda>s. if euid s = 0 then sys_chown uid gid p s else returnS () s) (\<lambda>_.
     sys_chmod mode p)))"

definition write_outer :: "(string \<times> bytes) list \<Rightarrow> nat \<Rightarrow> path \<Rightarrow> unit top" where
  "write_outer files required_uid output =
     bindS (sys_mkdir 448 output) (\<lambda>_.
     bindS (forS files (\<lambda>_. copy_helper output) ()) (\<lambda>_.
     let etc = output @ [''etc''] in
     bindS (sys_mkdir 493 etc) (\<lambda>_.
     bindS (sys_chmod 493 etc) (\<lambda>_.
     bindS (forS outer_accounts (\<lambda>_ (name, data). bindS (write_new (etc @ [name]) data) (\<lambda>_. sys_chmod 420 (etc @ [name]))) ()) (\<lambda>_.
     bindS (forS (outer_directories required_uid) (\<lambda>_. make_outer_directory output) ()) (\<lambda>_.
     sys_chmod 493 output))))))"

text \<open>The dictionary of the entries by path; \<open>validate\<close> has accepted the same bytes before.\<close>

definition entry_paths :: "json \<Rightarrow> image res" where
  "entry_paths root_value =
     bindE (subscript root_value ''entries'') (\<lambda>entries.
     case entries of
       JList es \<Rightarrow> forE es (\<lambda>paths e.
         case e of
           JObj d \<Rightarrow> bindE (jitem d ''path'') (\<lambda>path.
             case path of JStr name \<Rightarrow> Inr (filter (\<lambda>(n, _). n \<noteq> name) paths @ [(name, d)]) | _ \<Rightarrow> Inl (TypeError ''path''))
         | _ \<Rightarrow> Inl (TypeError ''not subscriptable by name'')) []
     | _ \<Rightarrow> Inl (TypeError ''not iterable''))"

definition outer_report :: "(bytes \<Rightarrow> string) \<Rightarrow> (string \<times> bytes) list \<Rightarrow> nat \<Rightarrow> json" where
  "outer_report sha256 files amount = JObj
     [(''files'', JInt (int (length files))), (''bytes'', JInt (int amount)), (''independent_code'', JBool True),
      (''file_sha256'', JObj (map (\<lambda>(name, data). (name, JStr (sha256 data))) (sort_key fst files)))]"

text \<open>\<open>rootfd\<close> is what \<open>open_directory_nofollow\<close> returns for the source.\<close>

definition prepare_outer :: "(bytes \<Rightarrow> string) \<Rightarrow> loads \<Rightarrow> (string \<Rightarrow> stat_info) \<Rightarrow> node res \<Rightarrow> bytes \<Rightarrow> path \<Rightarrow> nat \<Rightarrow> json top" where
  "prepare_outer sha256 loads later rootfd root_bytes output required_uid =
     bindS (queryS (\<lambda>s.
       if euid s \<noteq> required_uid then Inl (ApprovalError ''outer helper preparation requires trusted ownership'')
       else bindE (strict_loads loads root_bytes) (\<lambda>root_value.
         bindE (entry_paths root_value) (\<lambda>paths.
         bindE rootfd (\<lambda>held.
         helper_closure (read_image_file sha256 later held paths required_uid) paths ([], map fst HELPERS, map fst HELPERS, 0)))))) (\<lambda>(files, amount).
     bindS (write_outer files required_uid output) (\<lambda>_. returnS (outer_report sha256 files amount)))"

section \<open>Staging a profile\<close>

definition private_directories :: "string list" where
  "private_directories = [''home/rootless'', ''home/rootless/.local'', ''home/rootless/.local/tmp'', ''run/user/1000'', ''run/user/1000/rootlesskit'']"

text \<open>
  The order of \<open>os.walk\<close>: the directories and then the other entries of a directory, each sorted, before what is below.
\<close>

function outer_entries :: "string list \<Rightarrow> node \<Rightarrow> (string list \<times> node) list" where
  "outer_entries pre (NDir st kids) =
     (let subdirs = sort_key fst (filter (\<lambda>(_, n). S_ISDIR (st_mode (node_stat n))) kids);
          leaves = sort_key fst (filter (\<lambda>(_, n). \<not> S_ISDIR (st_mode (node_stat n))) kids)
      in map (\<lambda>(c, n). (pre @ [c], n)) (subdirs @ leaves) @ concat (map (\<lambda>(c, n). outer_entries (pre @ [c]) n) subdirs))"
| "outer_entries pre (NFile st data) = []"
| "outer_entries pre (NLink st target) = []"
| "outer_entries pre (NOther st) = []"
  by pat_completeness auto
termination
proof (relation "measure (\<lambda>(pre, n). size n)", goal_cases)
  case (2 pre st kids subdirs leaves x c n)
  then have "(c, n) \<in> set kids" by auto
  then have "size n < Suc (size_list (size_prod (\<lambda>_. 0) size) kids)"
    by (induction kids) auto
  then show ?case by simp
qed simp

type_synonym outer_files = "(string \<times> bytes \<times> nat) list"

definition outer_step :: "nat \<Rightarrow> nat \<Rightarrow> (string \<Rightarrow> stat_info) \<Rightarrow>
    ((string \<times> stat_info) list \<times> outer_files \<times> nat) \<Rightarrow> string list \<times> node \<Rightarrow> ((string \<times> stat_info) list \<times> outer_files \<times> nat) res" where
  "outer_step uid required_uid later = (\<lambda>(directories, files, total) (parts, n).
     let relative = join_with ''/'' parts; info = node_stat n in
     if S_ISDIR (st_mode info)
     then (let owner = (if relative \<in> set private_directories \<and> required_uid = 0 then 1000 else required_uid);
               mode = (if relative = ''tmp'' then 1023 else if relative \<in> set private_directories then 448 else 493)
           in if st_uid info \<noteq> owner \<or> S_IMODE (st_mode info) \<noteq> mode then Inl (ApprovalError ''prepared outer directory identity refused'')
              else Inr (directories @ [(relative, info)], files, total))
     else if S_ISREG (st_mode info)
     then bindE (read_metadata uid (Inr (info, node_data n, later relative))) (\<lambda>data.
       let total' = total + length data in
       if length files \<ge> 256 \<or> total' > 128 * 2 ^ 20 then Inl (ApprovalError ''prepared outer closure exceeds bound'')
       else Inr (directories, files @ [(relative, data, S_IMODE (st_mode info))], total'))
     else Inl (ApprovalError ''prepared outer alias refused''))"

definition selected_artifacts :: "json \<Rightarrow> (string \<times> json) list res" where
  "selected_artifacts profile =
     bindE (subscript profile ''bootstrap'') (\<lambda>boot.
     bindE (mapE (\<lambda>name. bindE (subscript profile ''modules'') (\<lambda>modules. bindE (subscript modules name) (\<lambda>m.
         Inr (''bootstrap-modules/'' @ name @ ''.ko'', m)))) [''llc'', ''stp'', ''bridge'', ''veth'']) (\<lambda>modules.
     Inr ((''docker-bootstrap'', boot) # modules)))"

definition busybox_shebang :: bytes where
  "busybox_shebang = ''#!/bin/busybox sh'' @ [CHR 0x0A]"

definition read_artifact :: "(bytes \<Rightarrow> string) \<Rightarrow> nat \<Rightarrow> (string \<Rightarrow> observed) \<Rightarrow> string \<times> json \<Rightarrow> (string \<times> bytes \<times> nat) res" where
  "read_artifact sha256 uid inputs = (\<lambda>(name, selected).
     bindE (subscript selected ''path'') (\<lambda>p.
     case p of
       JStr location \<Rightarrow>
         bindE (read_metadata uid (inputs location)) (\<lambda>data.
         bindE (subscript selected ''sha256'') (\<lambda>approved.
         if approved \<noteq> JStr (sha256 data) then Inl (ApprovalError ''approved bootstrap artifact changed'')
         else if name = ''docker-bootstrap'' \<and> \<not> startswith data busybox_shebang
         then Inl (ApprovalError ''approved bootstrap interpreter changed'')
         else Inr (name, data, if name = ''docker-bootstrap'' then 493 else 420)))
     | _ \<Rightarrow> Inl (TypeError ''expected a path'')))"

definition require_directory_at :: "path \<Rightarrow> string \<Rightarrow> unit top" where
  "require_directory_at p message = queryS (\<lambda>s. raise_if (\<not> is_directory (objs s p)) (ApprovalError message))"

definition stage_directory :: "path \<Rightarrow> string \<times> stat_info \<Rightarrow> unit top" where
  "stage_directory destination = (\<lambda>(relative, info).
     let p = destination @ path_tail relative in
     bindS (mkdir_ok 511 p) (\<lambda>_.
     bindS (require_directory_at p ''outer destination alias refused'') (\<lambda>_.
     bindS (\<lambda>s. if euid s = 0 then sys_chown (st_uid info) (st_gid info) p s else returnS () s) (\<lambda>_.
     sys_chmod (S_IMODE (st_mode info)) p))))"

definition stage_metadata_directory :: "path \<Rightarrow> nat \<Rightarrow> string \<Rightarrow> unit top" where
  "stage_metadata_directory destination required_uid name =
     (let p = destination @ [name] in
      bindS (mkdir_ok 511 p) (\<lambda>_.
      queryS (\<lambda>s. raise_if (case objs s p of Some (ODir st) \<Rightarrow> st_uid st \<noteq> required_uid | _ \<Rightarrow> True)
        (ApprovalError ''outer metadata destination refused''))))"

definition stage_outer_file :: "path \<Rightarrow> string \<times> bytes \<times> nat \<Rightarrow> unit top" where
  "stage_outer_file destination = (\<lambda>(relative, data, mode).
     let p = destination @ path_tail relative in bindS (write_new p data) (\<lambda>_. sys_chmod mode p))"

definition by_depth :: "(string \<times> stat_info) list \<Rightarrow> (string \<times> stat_info) list" where
  "by_depth directories = sort_key (\<lambda>d. length (filter (\<lambda>c. c = CHR ''/'') (fst d))) (sort_key fst directories)"

definition write_profile :: "(string \<times> stat_info) list \<Rightarrow> outer_files \<Rightarrow> outer_files \<Rightarrow> nat \<Rightarrow> path \<Rightarrow> unit top" where
  "write_profile directories files artifacts required_uid destination =
     bindS (forS (by_depth directories) (\<lambda>_. stage_directory destination) ()) (\<lambda>_.
     bindS (forS [''bootstrap-modules'', ''.multikernel''] (\<lambda>_. stage_metadata_directory destination required_uid) ()) (\<lambda>_.
     forS (files @ artifacts @ [(''.multikernel/docker-guest'', ''docker-rootless-offline-v1'' @ [CHR 0x0A], 384)])
       (\<lambda>_. stage_outer_file destination) ()))"

text \<open>The checks of \<open>stage_profile\<close>, all before the first change; \<open>held\<close> is what opening the two directories returns.\<close>

definition collect_profile :: "(bytes \<Rightarrow> string) \<Rightarrow> nat \<Rightarrow> nat \<Rightarrow> (string \<Rightarrow> observed) \<Rightarrow> (string \<Rightarrow> stat_info) \<Rightarrow> unit res \<Rightarrow>
    json \<Rightarrow> bytes \<Rightarrow> bytes \<Rightarrow> node \<Rightarrow> ((string \<times> stat_info) list \<times> outer_files \<times> outer_files) res" where
  "collect_profile sha256 uid required_uid inputs later held bootstrap source_manifest copied_manifest outer =
     (if uid \<noteq> required_uid then Inl (ApprovalError ''profile staging requires trusted ownership'')
      else if source_manifest \<noteq> copied_manifest then Inl (ApprovalError ''copied root differs from approved source'')
      else bindE (subscript bootstrap ''docker_guest'') (\<lambda>profile.
        bindE (subscript profile ''rootfs_manifest_sha256'') (\<lambda>approved.
        if approved \<noteq> JStr (sha256 copied_manifest) then Inl (ApprovalError ''copied root differs from approved image'')
        else bindE held (\<lambda>_.
          bindE (forE (outer_entries [] outer) (outer_step uid required_uid later) ([], [], 0)) (\<lambda>(directories, files, total).
          bindE (selected_artifacts profile) (\<lambda>selected.
          bindE (mapE (read_artifact sha256 uid inputs) selected) (\<lambda>artifacts.
          Inr (directories, files, artifacts))))))))"

definition stage_profile :: "(bytes \<Rightarrow> string) \<Rightarrow> (string \<Rightarrow> observed) \<Rightarrow> (string \<Rightarrow> stat_info) \<Rightarrow> unit res \<Rightarrow>
    json \<Rightarrow> bytes \<Rightarrow> bytes \<Rightarrow> node \<Rightarrow> path \<Rightarrow> nat \<Rightarrow> json top" where
  "stage_profile sha256 inputs later held bootstrap source_manifest copied_manifest outer destination required_uid =
     bindS (queryS (\<lambda>s. collect_profile sha256 (euid s) required_uid inputs later held bootstrap source_manifest copied_manifest outer))
       (\<lambda>(directories, files, artifacts).
     bindS (write_profile directories files artifacts required_uid destination) (\<lambda>_.
     returnS (JObj [(''copied_root_verified'', JBool True), (''independent_outer_files'', JInt (int (length files))),
       (''module_count'', JInt 4), (''trusted_init_marker'', JBool True)])))"

section \<open>Workload\<close>

definition workload_user :: "json \<Rightarrow> fields option" where
  "workload_user config =
     (case config of
        JObj c \<Rightarrow> (case jget c ''process'' of
            JObj p \<Rightarrow> (case jget p ''user'' of JObj u \<Rightarrow> Some u | _ \<Rightarrow> None)
          | _ \<Rightarrow> None)
      | _ \<Rightarrow> None)"

definition capabilities_refused :: "json \<Rightarrow> bool" where
  "capabilities_refused v \<longleftrightarrow>
     (case v of
        JNull \<Rightarrow> False
      | JObj caps \<Rightarrow> \<not> set (map fst caps) \<subseteq> {''bounding'', ''effective'', ''permitted'', ''inheritable'', ''ambient''}
          \<or> list_ex (\<lambda>(_, w). w \<noteq> JList []) caps
      | _ \<Rightarrow> True)"

definition validate_workload :: "json \<Rightarrow> unit res" where
  "validate_workload config =
     (case workload_user config of
        None \<Rightarrow> Inl (ApprovalError ''Docker guest workloads require UID and GID 1000'')
      | Some user \<Rightarrow>
          let process = (case config of JObj c \<Rightarrow> (case jget c ''process'' of JObj p \<Rightarrow> p | _ \<Rightarrow> []) | _ \<Rightarrow> []) in
          if jget user ''uid'' \<noteq> JInt 1000 \<or> jget user ''gid'' \<noteq> JInt 1000
          then Inl (ApprovalError ''Docker guest workloads require UID and GID 1000'')
          else (case jget_or user ''additionalGids'' (JList []) of
              JList groups \<Rightarrow>
                if list_ex (\<lambda>gid. gid \<noteq> JInt 1000) groups
                then Inl (ApprovalError ''Docker guest supplementary group is outside fixed identity'')
                else if capabilities_refused (jget process ''capabilities'')
                then Inl (ApprovalError ''Docker guest workloads may not request capability grants'')
                else raise_if (has_key process ''noNewPrivileges'' \<and> jget process ''noNewPrivileges'' \<noteq> JBool True)
                  (ApprovalError ''Docker guest workloads require no-new-privileges'')
            | _ \<Rightarrow> Inl (ApprovalError ''Docker guest supplementary group is outside fixed identity'')))"

section \<open>The command\<close>

record docker_args =
  arg_bootstrap :: observed
  arg_manifest :: observed
  arg_bind_plan :: observed
  arg_workload :: "observed option"
  arg_outer :: "(node res \<times> path) option"
  arg_stage :: "(node \<times> unit res \<times> path) option"
  arg_copied :: "observed option"

text \<open>\<open>later\<close> gives the second \<open>fstat\<close> of files below a held root, \<open>inputs\<close> the artifact files.\<close>

definition docker_root_run :: "(bytes \<Rightarrow> string) \<Rightarrow> loads \<Rightarrow> (string \<Rightarrow> stat_info) \<Rightarrow> (string \<Rightarrow> observed) \<Rightarrow> docker_args \<Rightarrow> fields top" where
  "docker_root_run sha256 loads later inputs args =
     bindS (queryS (\<lambda>s. bindE (read_metadata (euid s) (arg_bootstrap args)) (strict_loads loads))) (\<lambda>bootstrap.
     bindS (queryS (\<lambda>s. read_metadata (euid s) (arg_manifest args))) (\<lambda>root_bytes.
     bindS (queryS (\<lambda>s. bindE (read_metadata (euid s) (arg_bind_plan args)) (strict_loads loads))) (\<lambda>plan.
     bindS (raiseE (validate_approval sha256 loads bootstrap root_bytes plan)) (\<lambda>result.
     bindS (case arg_workload args of
         None \<Rightarrow> returnS []
       | Some file \<Rightarrow> queryS (\<lambda>s. bindE (bindE (bindE (read_metadata (euid s) file) (strict_loads loads)) validate_workload)
           (\<lambda>_. Inr [(''workload_identity_bound'', JBool True)]))) (\<lambda>workload.
     bindS (case arg_outer args of
         None \<Rightarrow> returnS []
       | Some (rootfd, output) \<Rightarrow> bindS (prepare_outer sha256 loads later rootfd root_bytes output 0) (\<lambda>r. returnS [(''outer_helpers'', r)])) (\<lambda>outer.
     bindS (case arg_stage args of
         None \<Rightarrow> returnS []
       | Some (prepared, held, destination) \<Rightarrow> (case arg_copied args of
             None \<Rightarrow> raiseS (ApprovalError ''copied manifest required for profile staging'')
           | Some file \<Rightarrow> bindS (queryS (\<lambda>s. read_metadata (euid s) file)) (\<lambda>copied.
               bindS (stage_profile sha256 inputs later held bootstrap root_bytes copied prepared destination 0) (\<lambda>r.
               returnS [(''staged_profile'', r)])))) (\<lambda>staged.
     returnS (result @ workload @ outer @ staged))))))))"

fun is_docker_reported :: "exn \<Rightarrow> bool" where
  "is_docker_reported (ApprovalError _) = True"
| "is_docker_reported (ValueError _) = True"
| "is_docker_reported (UnicodeDecodeError _) = True"
| "is_docker_reported (UnicodeEncodeError _) = True"
| "is_docker_reported (JSONDecodeError _) = True"
| "is_docker_reported (TypeError _) = True"
| "is_docker_reported (AttributeError _) = True"
| "is_docker_reported e = is_os_error e"

definition docker_root_main :: "(bytes \<Rightarrow> string) \<Rightarrow> loads \<Rightarrow> (string \<Rightarrow> stat_info) \<Rightarrow> (string \<Rightarrow> observed) \<Rightarrow> docker_args \<Rightarrow> (int \<times> fields option) top" where
  "docker_root_main sha256 loads later inputs args =
     catchS (bindS (docker_root_run sha256 loads later inputs args) (\<lambda>result. returnS (0, Some result)))
       (\<lambda>e. if is_docker_reported e then returnS (1, None) else raiseS e)"

end
