(* ===== verification/Boot_Files.thy ===== *)
theory Boot_Files
  imports Docker_Elf Py_Os
begin

text \<open>
  \<open>validate-runtime-bootstrap.py\<close>, the files it reads: \<open>exact_fields\<close>, \<open>verified_file\<close>, \<open>artifact\<close>,
  \<open>x86_64_elf\<close>, \<open>kernel_identity\<close> and \<open>kernel_config\<close>.  What the file system answers is a value: each opening of a
  file has its own answers, so that a file may change between two openings and during one.
\<close>

section \<open>Objects of the manifest\<close>

definition PINNED_MULTIKERNEL :: string where
  "PINNED_MULTIKERNEL = ''3bdd35b64413da0b4e089ce931bfc2e8b031cbf7''"

definition PINNED_KERF :: string where
  "PINNED_KERF = ''8b72b3e9b266f8d32e707e2c1743ad7afc50b1ec''"

definition exact_fields :: "json \<Rightarrow> string list \<Rightarrow> string list \<Rightarrow> unit res" where
  "exact_fields v required optional =
     (case v of
        JObj d \<Rightarrow> raise_if (\<not> list_all (\<lambda>p. fst p \<in> set required \<or> fst p \<in> set optional) d \<or> \<not> list_all (has_key d) required)
          (ValueError ''manifest fields mismatch'')
      | _ \<Rightarrow> Inl (ValueError ''manifest object expected''))"

section \<open>Verified files\<close>

text \<open>
  One opening of a file: \<open>lstat\<close>, \<open>open\<close>, \<open>fstat\<close> after opening, the bytes that are hashed, \<open>fstat\<close> after hashing, the
  size and the bytes the caller reads, and \<open>fstat\<close> when the caller is done.
\<close>

record held_file =
  held_lstat :: "stat_info res"
  held_open :: "unit res"
  held_opened :: stat_info
  held_hash_data :: bytes
  held_hashed :: stat_info
  held_size :: nat
  held_data :: bytes
  held_after :: stat_info

text \<open>
  \<open>env_look\<close> takes the step of the run and the path; \<open>env_lstat\<close> answers for the parent directories, \<open>env_config\<close> for
  the kernel configuration, \<open>env_modinfo\<close> for the command \<open>modinfo -F\<close> with a field and a path.
\<close>

record boot_env =
  env_lstat :: "string list \<Rightarrow> stat_info res"
  env_look :: "string \<Rightarrow> string \<Rightarrow> held_file"
  env_config :: "string list \<Rightarrow> (stat_info \<times> bytes \<times> stat_info) res"
  env_modinfo :: "string \<Rightarrow> string \<Rightarrow> string res"

record boot_opts =
  required_uid :: int
  skip_modinfo :: bool
  skip_parent_safety :: bool

definition boot_identity :: "stat_info \<Rightarrow> nat list \<times> int \<times> int" where
  "boot_identity v = ([st_dev v, st_ino v, st_mode v, st_uid v, st_gid v, st_size v], st_mtime_ns v, st_ctime_ns v)"

definition check_parent :: "boot_env \<Rightarrow> boot_opts \<Rightarrow> string list \<Rightarrow> unit res" where
  "check_parent env opts current =
     bindE (env_lstat env current) (\<lambda>info.
     if S_ISLNK (st_mode info) \<or> \<not> S_ISDIR (st_mode info) then Inl (ValueError ''unsafe artifact parent'')
     else raise_if (int (st_uid info) \<notin> {0, required_uid opts} \<or> others_may_write (st_mode info))
       (ValueError ''artifact parent has unsafe owner or mode''))"

definition check_parents :: "boot_env \<Rightarrow> boot_opts \<Rightarrow> string \<Rightarrow> unit res" where
  "check_parents env opts p =
     (if skip_parent_safety opts then Inr ()
      else let parts = butlast (path_tail p) in
        forE [1..<Suc (length parts)] (\<lambda>_ i. check_parent env opts (take i parts)) ())"

definition unsafe_regular :: "boot_opts \<Rightarrow> nat \<Rightarrow> stat_info \<Rightarrow> bool" where
  "unsafe_regular opts maximum info \<longleftrightarrow> \<not> S_ISREG (st_mode info) \<or> int (st_uid info) \<noteq> required_uid opts
     \<or> others_may_write (st_mode info) \<or> \<not> (0 < st_size info \<and> st_size info \<le> maximum)"

definition digest_ok :: "bool \<Rightarrow> json \<Rightarrow> bool" where
  "digest_ok allow_unhashed digest \<longleftrightarrow> allow_unhashed \<and> digest = JNull \<or> (case digest of JStr d \<Rightarrow> is_hex64 d | _ \<Rightarrow> False)"

text \<open>The loop reads at most \<open>maximum + 1\<close> bytes and refuses more than \<open>maximum\<close>.\<close>

definition check_digest :: "(bytes \<Rightarrow> string) \<Rightarrow> json \<Rightarrow> nat \<Rightarrow> bytes \<Rightarrow> unit res" where
  "check_digest sha256 digest maximum data =
     (if digest = JNull then Inr ()
      else if length data > maximum then Inl (ValueError ''artifact exceeds bounded read'')
      else raise_if (digest \<noteq> JStr (sha256 data)) (ValueError ''artifact digest mismatch''))"

text \<open>\<open>body\<close> is what the caller does with the open file; a change seen at the end replaces its outcome.\<close>

definition verified_file :: "(bytes \<Rightarrow> string) \<Rightarrow> boot_env \<Rightarrow> boot_opts \<Rightarrow> string \<Rightarrow> json \<Rightarrow> json \<Rightarrow> nat \<Rightarrow> bool \<Rightarrow> (held_file \<Rightarrow> 'a res) \<Rightarrow> 'a res" where
  "verified_file sha256 env opts step location digest maximum allow_unhashed body =
     (case location of
        JStr p \<Rightarrow>
          if \<not> startswith p ''/'' then Inl (ValueError ''artifact path is not absolute'')
          else bindE (check_parents env opts p) (\<lambda>_.
            let held = env_look env step p in
            bindE (held_lstat held) (\<lambda>before.
            if unsafe_regular opts maximum before then Inl (ValueError ''artifact has unsafe type, owner, mode, or size'')
            else if \<not> digest_ok allow_unhashed digest then Inl (ValueError ''artifact digest is malformed'')
            else bindE (held_open held) (\<lambda>_.
              if boot_identity before \<noteq> boot_identity (held_opened held) then Inl (ValueError ''artifact identity changed while opening'')
              else bindE (check_digest sha256 digest maximum (held_hash_data held)) (\<lambda>_.
                if boot_identity before \<noteq> boot_identity (held_hashed held) then Inl (ValueError ''artifact changed while hashing'')
                else if boot_identity before \<noteq> boot_identity (held_after held) then Inl (ValueError ''artifact changed during verified read'')
                else body held))))
      | _ \<Rightarrow> Inl (TypeError ''expected a path''))"

definition secure_regular :: "(bytes \<Rightarrow> string) \<Rightarrow> boot_env \<Rightarrow> boot_opts \<Rightarrow> string \<Rightarrow> json \<Rightarrow> json \<Rightarrow> unit res" where
  "secure_regular sha256 env opts step location digest = verified_file sha256 env opts step location digest (16 * 2 ^ 30) False (\<lambda>_. Inr ())"

definition artifact :: "(bytes \<Rightarrow> string) \<Rightarrow> boot_env \<Rightarrow> boot_opts \<Rightarrow> string \<Rightarrow> json \<Rightarrow> json res" where
  "artifact sha256 env opts step v =
     bindE (exact_fields v [''path'', ''sha256''] []) (\<lambda>_.
     bindE (subscript v ''path'') (\<lambda>location.
     bindE (subscript v ''sha256'') (\<lambda>digest.
     bindE (secure_regular sha256 env opts step location digest) (\<lambda>_. Inr location))))"

definition x86_64_elf :: "(bytes \<Rightarrow> string) \<Rightarrow> boot_env \<Rightarrow> boot_opts \<Rightarrow> string \<Rightarrow> json \<Rightarrow> unit res" where
  "x86_64_elf sha256 env opts step v =
     bindE (subscript v ''path'') (\<lambda>location.
     bindE (subscript v ''sha256'') (\<lambda>digest.
     bindE (verified_file sha256 env opts step location digest (16 * 2 ^ 30) False (\<lambda>held. Inr (take 20 (held_data held)))) (\<lambda>header.
     raise_if (length header < 20 \<or> take 5 header \<noteq> CHR 0x7F # ''ELF'' @ [CHR 0x02] \<or> le_nat (take 2 (drop 18 header)) \<noteq> 62)
       (ValueError ''artifact is not an x86-64 ELF image''))))"

section \<open>The kernel image\<close>

text \<open>\<open>read\<close>: a seek and a read inside the size of the file.\<close>

definition kernel_read :: "held_file \<Rightarrow> nat \<Rightarrow> nat \<Rightarrow> bytes res" where
  "kernel_read held offset len =
     (if offset > held_size held \<or> len > held_size held - offset then Inl (ValueError ''kernel ELF range is outside the file'')
      else let data = take len (drop offset (held_data held)) in
        if length data \<noteq> len then Inl (ValueError ''kernel ELF range is truncated'') else Inr data)"

definition unpack_from :: "nat list \<Rightarrow> bytes \<Rightarrow> nat \<Rightarrow> nat list" where
  "unpack_from ws data offset = unpack_le ws (drop offset data)"

type_synonym elf_section = "nat list"

definition kernel_sections :: "held_file \<Rightarrow> bytes \<Rightarrow> elf_section list res" where
  "kernel_sections held header =
     (let section_offset = unpack_from [8] header 40 ! 0; section_size = unpack_from [2] header 58 ! 0;
          section_count = unpack_from [2, 2] header 58 ! 1 in
      if section_size \<noteq> 64 \<or> \<not> (0 < section_count \<and> section_count < 65280) then Inl (ValueError ''kernel section table is incompatible'')
      else bindE (kernel_read held section_offset (section_count * 64)) (\<lambda>raw.
        Inr (map (\<lambda>i. unpack_from [4, 4, 8, 8, 8, 8, 4, 4, 8, 8] raw (i * 64)) [0..<section_count])))"

definition strings_section_ok :: "elf_section \<Rightarrow> bool" where
  "strings_section_ok s \<longleftrightarrow> s ! 1 = 3 \<and> s ! 2 AND 2048 = 0 \<and> 0 < s ! 5 \<and> s ! 5 \<le> 32 * 2 ^ 20"

definition name_bounded :: "bytes \<Rightarrow> nat \<Rightarrow> bool" where
  "name_bounded strings name \<longleftrightarrow> name < length strings \<and> NUL \<in> set (take 4096 (drop name strings))"

definition check_section_names :: "held_file \<Rightarrow> bytes \<Rightarrow> elf_section list \<Rightarrow> unit res" where
  "check_section_names held header sections =
     (let name_index = unpack_from [2] header 62 ! 0 in
      if \<not> (0 < name_index \<and> name_index < length sections) then Inl (ValueError ''kernel section names are incompatible'')
      else let section_names = sections ! name_index in
        if \<not> strings_section_ok section_names then Inl (ValueError ''kernel section names are incompatible'')
        else bindE (kernel_read held (section_names ! 4) (section_names ! 5)) (\<lambda>section_strings.
          raise_if (\<not> list_all (\<lambda>s. name_bounded section_strings (s ! 0)) sections) (ValueError ''kernel section name is out of bounds'')))"

definition check_program_table :: "held_file \<Rightarrow> bytes \<Rightarrow> unit res" where
  "check_program_table held header =
     (let program_size = unpack_from [2, 2] header 54 ! 0; program_count = unpack_from [2, 2] header 54 ! 1 in
      if program_count = 65535 \<or> program_count \<noteq> 0 \<and> program_size \<noteq> 56 then Inl (ValueError ''kernel program table is incompatible'')
      else if program_count \<noteq> 0
      then bindE (kernel_read held (unpack_from [8] header 32 ! 0) (program_count * 56)) (\<lambda>_. Inr ())
      else Inr ())"

text \<open>The one symbol table with its string table.\<close>

definition kernel_symbols :: "held_file \<Rightarrow> elf_section list \<Rightarrow> (bytes \<times> bytes) res" where
  "kernel_symbols held sections =
     (case filter (\<lambda>s. s ! 1 = 2) sections of
        [table] \<Rightarrow>
          if table ! 2 AND 2048 \<noteq> 0 \<or> table ! 9 \<noteq> 24 \<or> \<not> (0 < table ! 5 \<and> table ! 5 \<le> 32 * 2 ^ 20)
            \<or> table ! 5 mod 24 \<noteq> 0 \<or> table ! 6 \<ge> length sections
          then Inl (ValueError ''kernel symbol table has unsafe type or size'')
          else let names = sections ! (table ! 6) in
            if \<not> strings_section_ok names then Inl (ValueError ''kernel symbol names have unsafe type or size'')
            else bindE (kernel_read held (table ! 4) (table ! 5)) (\<lambda>symbols.
              bindE (kernel_read held (names ! 4) (names ! 5)) (\<lambda>strings.
              if take 24 symbols \<noteq> replicate 24 NUL then Inl (ValueError ''kernel reserved symbol is incompatible'')
              else Inr (symbols, strings)))
      | _ \<Rightarrow> Inl (ValueError ''kernel symbol table is missing or ambiguous''))"

type_synonym symbol = "nat \<times> nat \<times> nat \<times> nat"

definition symbol_step :: "bytes \<Rightarrow> bytes \<Rightarrow> symbol list \<Rightarrow> nat \<Rightarrow> symbol list res" where
  "symbol_step symbols strings banners i =
     (let s = unpack_from [4, 1, 1, 2, 8, 8] symbols (24 * i); name = s ! 0 in
      if \<not> name_bounded strings name then Inl (ValueError ''kernel symbol name is out of bounds'')
      else Inr (if take 13 (drop name strings) = ''linux_banner'' @ [NUL] then banners @ [(s ! 1, s ! 3, s ! 4, s ! 5)] else banners))"

definition banner_symbol :: "bytes \<Rightarrow> bytes \<Rightarrow> symbol res" where
  "banner_symbol symbols strings =
     bindE (forE [1..<length symbols div 24] (symbol_step symbols strings) []) (\<lambda>banners.
     case banners of [b] \<Rightarrow> Inr b | _ \<Rightarrow> Inl (ValueError ''kernel release symbol is missing or ambiguous''))"

definition read_banner :: "held_file \<Rightarrow> elf_section list \<Rightarrow> symbol \<Rightarrow> bytes res" where
  "read_banner held sections = (\<lambda>(info, index, address, len).
     if info \<noteq> 17 \<or> \<not> (0 < index \<and> index < min (length sections) 65280) \<or> \<not> (0 < len \<and> len \<le> 4096)
     then Inl (ValueError ''kernel release symbol is incompatible'')
     else let s = sections ! index in
       if s ! 1 \<noteq> 1 \<or> s ! 2 AND 2 = 0 \<or> s ! 2 AND 2048 \<noteq> 0 \<or> address < s ! 3 \<or> address - s ! 3 > s ! 5
         \<or> len > s ! 5 - (address - s ! 3)
       then Inl (ValueError ''kernel release section or symbol range is incompatible'')
       else if s ! 4 > held_size held \<or> s ! 5 > held_size held - s ! 4 then Inl (ValueError ''kernel release section is outside its file'')
       else kernel_read held (s ! 4 + address - s ! 3) len)"

definition kernel_banner :: "held_file \<Rightarrow> string \<Rightarrow> unit res" where
  "kernel_banner held release =
     bindE (kernel_read held 0 64) (\<lambda>header.
     if take 7 header \<noteq> elf_magic \<or> unpack_from [2, 2, 4] header 16 \<noteq> [2, 62, 1] \<or> unpack_from [2] header 52 \<noteq> [64]
     then Inl (ValueError ''kernel ELF architecture or type is incompatible'')
     else bindE (kernel_sections held header) (\<lambda>sections.
       bindE (check_section_names held header sections) (\<lambda>_.
       bindE (check_program_table held header) (\<lambda>_.
       bindE (kernel_symbols held sections) (\<lambda>(symbols, strings).
       bindE (banner_symbol symbols strings) (\<lambda>symbol.
       bindE (read_banner held sections symbol) (\<lambda>banner.
       if \<not> endswith banner [NUL] \<or> NUL \<in> set (butlast banner) then Inl (ValueError ''kernel embedded release is incompatible'')
       else if \<not> list_all is_ascii release then Inl (UnicodeEncodeError ''ascii'')
       else raise_if (\<not> startswith banner (''Linux version '' @ release @ '' '')) (ValueError ''kernel embedded release is incompatible''))))))))"

definition kernel_identity :: "(bytes \<Rightarrow> string) \<Rightarrow> boot_env \<Rightarrow> boot_opts \<Rightarrow> json \<Rightarrow> string \<Rightarrow> unit res" where
  "kernel_identity sha256 env opts v release =
     bindE (subscript v ''path'') (\<lambda>location.
     bindE (subscript v ''sha256'') (\<lambda>digest.
     verified_file sha256 env opts ''kernel identity'' location digest (16 * 2 ^ 30) False (\<lambda>held. kernel_banner held release)))"

section \<open>The kernel configuration\<close>

definition safe_release :: "json \<Rightarrow> bool" where
  "safe_release v \<longleftrightarrow> (case v of JStr s \<Rightarrow> class_run is_ascii_alnum is_token_char 0 127 s | _ \<Rightarrow> False)"

definition read_config :: "boot_opts \<Rightarrow> (stat_info \<times> bytes \<times> stat_info) res \<Rightarrow> bytes res" where
  "read_config opts file =
     bindE file (\<lambda>(before, data, after).
     if unsafe_regular opts (16 * 2 ^ 20) before then Inl (ValueError ''kernel config has unsafe type, owner, mode, or size'')
     else if length data > 16 * 2 ^ 20 \<or> file_identity before \<noteq> file_identity after
     then Inl (ValueError ''kernel config changed during bounded verification'')
     else Inr data)"

definition kernel_config :: "boot_env \<Rightarrow> boot_opts \<Rightarrow> string \<Rightarrow> json \<Rightarrow> json \<Rightarrow> unit res" where
  "kernel_config env opts vmlinux release required =
     (if \<not> safe_release release then Inl (ValueError ''kernel release is not a safe filename component'')
      else if \<not> is_list required \<or> \<not> list_all is_str (the_list required) then Inl (ValueError ''required kernel config must be a list of strings'')
      else bindE (read_config opts (env_config env (butlast (path_tail vmlinux) @ [''config-'' @ the_str release]))) (\<lambda>data.
        bindE (decode_utf8 data) (\<lambda>content.
        raise_if (\<not> list_all (\<lambda>line. the_str line \<in> set (map strip (splitlines content))) (the_list required))
          (ValueError ''kernel config is missing a line''))))"

end
