(* ===== verification/Boot_Archive.thy ===== *)
theory Boot_Archive
  imports Boot_Files Rootfs_Build
begin

text \<open>
  \<open>verify_boot_components\<close> of \<open>validate-runtime-bootstrap.py\<close>: one compressed newc archive is read block by block, and
  the required components are found in it with their approved digests.  The decompressor of \<open>zlib\<close> is a parameter.
\<close>

section \<open>Decompression\<close>

text \<open>
  A \<open>decompressobj\<close>: \<open>decompress(pending, 1 << 20)\<close> gives the next state, the output and the unconsumed tail, or \<open>zlib.error\<close>.
\<close>

record 'd decoder =
  dec_start :: 'd
  dec_feed :: "'d \<Rightarrow> bytes \<Rightarrow> ('d \<times> bytes \<times> bytes) option"
  dec_eof :: "'d \<Rightarrow> bool"
  dec_unused :: "'d \<Rightarrow> bytes"

definition boot_maximum :: nat where
  "boot_maximum = 512 * 2 ^ 20"

lemma budget_less: "chunk \<noteq> [] \<Longrightarrow> \<not> m < amount + length chunk \<Longrightarrow> m - (amount + length chunk) < m - amount" for m amount :: nat
  by (cases chunk) auto

text \<open>
  The generator \<open>chunks\<close>: the blocks it yields, and the exception it ends with, if any.  A decoder that is not at its end and
  neither takes input nor gives output would keep the loop from returning; \<open>zlib\<close> has no such state, and the model stops there.
\<close>

function chunks :: "'d decoder \<Rightarrow> 'd \<Rightarrow> bytes \<Rightarrow> nat \<Rightarrow> bytes \<Rightarrow> bytes list \<times> exn option" where
  "chunks dec d pending amount source =
     (if dec_eof dec d
      then ([], if dec_unused dec d \<noteq> [] \<or> pending \<noteq> [] \<or> source \<noteq> [] then Some (ValueError ''boot archive has trailing encoded data'') else None)
      else let input = (if pending = [] then take 65536 source else pending);
               source' = (if pending = [] then drop 65536 source else source) in
        case dec_feed dec d input of
          None \<Rightarrow> ([], Some (ValueError ''invalid boot archive gzip''))
        | Some (d', chunk, tail) \<Rightarrow>
            if amount + length chunk > boot_maximum then ([], Some (ValueError ''boot archive exceeds decompressed limit''))
            else if chunk \<noteq> []
            then (let (blocks, ending) = chunks dec d' tail (amount + length chunk) source' in (chunk # blocks, ending))
            else if dec_eof dec d' then chunks dec d' tail amount source'
            else if tail = []
            then (if source' = [] then ([], Some (ValueError ''truncated boot archive gzip''))
                  else chunks dec d' (take 65536 source') amount (drop 65536 source'))
            else if length source' < length source \<or> length tail < length pending then chunks dec d' tail amount source'
            else ([], Some (ZlibError ''no progress'')))"
  by pat_completeness auto
termination
  by (relation "measures [\<lambda>(dec, d, pending, amount, source). of_bool (\<not> dec_eof dec d),
      \<lambda>(dec, d, pending, amount, source). boot_maximum - amount,
      \<lambda>(dec, d, pending, amount, source). length source,
      \<lambda>(dec, d, pending, amount, source). length pending]") (auto simp: budget_less split: if_splits)

declare chunks.simps [simp del]

section \<open>Reading from the blocks\<close>

text \<open>The unread rest of the current block, and the blocks to come.\<close>

type_synonym boot_state = "bytes \<times> bytes list"

fun boot_fill :: "exn option \<Rightarrow> nat \<Rightarrow> bytes \<Rightarrow> bytes list \<Rightarrow> (bytes \<times> boot_state) res" where
  "boot_fill ending need buffered [] =
     (if need \<le> length buffered then Inr (take need buffered, drop need buffered, [])
      else Inl (case ending of None \<Rightarrow> ValueError ''truncated boot archive record'' | Some e \<Rightarrow> e))"
| "boot_fill ending need buffered (block # blocks) =
     (if need \<le> length buffered then Inr (take need buffered, drop need buffered, block # blocks)
      else bindE (boot_fill ending (need - length buffered) block blocks) (\<lambda>(data, st). Inr (buffered @ data, st)))"

definition boot_read :: "exn option \<Rightarrow> nat \<Rightarrow> boot_state \<Rightarrow> (bytes \<times> boot_state) res" where
  "boot_read ending len = (\<lambda>(buffered, blocks).
     if len > 2 ^ 20 then Inl (ValueError ''boot archive read exceeds bound'') else boot_fill ending len buffered blocks)"

definition any_byte :: "bytes \<Rightarrow> bool" where
  "any_byte data \<longleftrightarrow> list_ex (\<lambda>c. c \<noteq> NUL) data"

definition boot_padding :: "exn option \<Rightarrow> nat \<Rightarrow> boot_state \<Rightarrow> boot_state res" where
  "boot_padding ending len st =
     bindE (boot_read ending len st) (\<lambda>(data, st').
     if any_byte data then Inl (ValueError ''nonzero boot archive alignment'') else Inr st')"

definition boot_align :: "nat \<Rightarrow> nat" where
  "boot_align n = (4 - n mod 4) mod 4"

text \<open>The payload of a member, in reads of at most one mebibyte.\<close>

function boot_payload :: "exn option \<Rightarrow> nat \<Rightarrow> boot_state \<Rightarrow> (bytes \<times> boot_state) res" where
  "boot_payload ending remaining st =
     (if remaining = 0 then Inr ([], st)
      else bindE (boot_read ending (min remaining (2 ^ 20)) st) (\<lambda>(data, st').
        bindE (boot_payload ending (remaining - 2 ^ 20) st') (\<lambda>(rest, st''). Inr (data @ rest, st''))))"
  by pat_completeness auto
termination
  by (relation "measure (\<lambda>(ending, remaining, st). remaining)") auto

declare boot_payload.simps [simp del]

section \<open>Members\<close>

text \<open>The thirteen numbers of a header, the raw name and the name without a leading \<open>./\<close>, as UTF-8.\<close>

definition boot_header :: "exn option \<Rightarrow> boot_state \<Rightarrow> (nat list \<times> bytes \<times> string \<times> boot_state) res" where
  "boot_header ending st =
     bindE (boot_read ending 110 st) (\<lambda>(header, st1).
     if take 6 header \<noteq> ''070701'' \<or> \<not> hexstr (drop 6 header) then Inl (ValueError ''boot archive must use valid newc without CRC'')
     else let numbers = map (\<lambda>i. hex_value 0 (take 8 (drop (6 + i * 8) header))) [0..<13]; sz = numbers ! 6; namesize = numbers ! 11 in
       if \<not> (0 < namesize \<and> namesize \<le> 4096) \<or> sz > boot_maximum \<or> numbers ! 12 \<noteq> 0
       then Inl (ValueError ''invalid boot archive name, size or checksum'')
       else bindE (boot_read ending namesize st1) (\<lambda>(raw, st2).
         if last raw \<noteq> NUL \<or> NUL \<in> set (butlast raw) then Inl (ValueError ''invalid boot archive name'')
         else if \<not> utf8_ok (butlast raw) then Inl (ValueError ''invalid boot archive UTF-8 name'')
         else bindE (boot_padding ending (boot_align (110 + namesize)) st2) (\<lambda>st3.
           Inr (numbers, raw, removeprefix (butlast raw) ''./'', st3))))"

definition boot_trailer :: "exn option \<Rightarrow> bytes \<Rightarrow> nat \<Rightarrow> boot_state \<Rightarrow> unit res" where
  "boot_trailer ending raw sz = (\<lambda>(buffered, blocks).
     if butlast raw \<noteq> ''TRAILER!!!'' then Inl (ValueError ''noncanonical boot archive trailer'')
     else if sz \<noteq> 0 then Inl (ValueError ''boot archive trailer has data'')
     else if any_byte buffered \<or> list_ex any_byte blocks then Inl (ValueError ''boot archive has data after trailer'')
     else case ending of None \<Rightarrow> Inr () | Some e \<Rightarrow> Inl e)"

definition unsafe_boot_name :: "string \<Rightarrow> bool" where
  "unsafe_boot_name name \<longleftrightarrow> name = '''' \<or> name = ''..'' \<or> startswith name ''/'' \<or> startswith name ''../''
     \<or> CHR 0x5C \<in> set name \<or> normpath name \<noteq> name"

text \<open>The approved digest of a component and whether it must be executable.\<close>

type_synonym components = "(string \<times> json \<times> bool) list"

definition component_metadata_ok :: "bool \<Rightarrow> nat list \<Rightarrow> bool" where
  "component_metadata_ok executable numbers \<longleftrightarrow>
     (let mode = numbers ! 1 in S_ISREG mode \<and> mode AND 3602 = 0 \<and> numbers ! 2 = 0 \<and> numbers ! 3 = 0 \<and> numbers ! 4 = 1
        \<and> mode AND 256 \<noteq> 0 \<and> (executable \<longrightarrow> mode AND 64 \<noteq> 0))"

type_synonym boot_seen = "(string \<times> nat \<times> nat \<times> nat) list"

definition boot_member :: "(bytes \<Rightarrow> string) \<Rightarrow> components \<Rightarrow> exn option \<Rightarrow> boot_seen \<Rightarrow> string list \<Rightarrow> nat list \<Rightarrow> string \<Rightarrow> boot_state \<Rightarrow>
    (boot_seen \<times> string list \<times> boot_state) res" where
  "boot_member sha256 required ending seen found numbers name st =
     (if unsafe_boot_name name then Inl (ValueError ''unsafe boot archive path'')
      else if map_of seen name \<noteq> None then Inl (ValueError ''duplicate normalized boot archive path'')
      else let seen' = seen @ [(name, numbers ! 1, numbers ! 2, numbers ! 3)]; critical = map_of required name; sz = numbers ! 6 in
        if (case critical of None \<Rightarrow> False | Some (_, executable) \<Rightarrow> \<not> component_metadata_ok executable numbers)
        then Inl (ValueError ''boot component has unsafe metadata'')
        else bindE (boot_payload ending sz st) (\<lambda>(data, st1).
          bindE (case critical of
              None \<Rightarrow> Inr found
            | Some (digest, _) \<Rightarrow> if digest \<noteq> JStr (sha256 data) then Inl (ValueError ''boot component digest differs from approved artifact'')
                else Inr (found @ [name])) (\<lambda>found'.
          bindE (boot_padding ending (boot_align sz) st1) (\<lambda>st2. Inr (seen', found', st2)))))"

fun boot_loop :: "nat \<Rightarrow> (bytes \<Rightarrow> string) \<Rightarrow> components \<Rightarrow> exn option \<Rightarrow> boot_seen \<Rightarrow> string list \<Rightarrow> boot_state \<Rightarrow> (boot_seen \<times> string list) res" where
  "boot_loop 0 sha256 required ending seen found st = Inl (ValueError ''boot archive entry limit'')"
| "boot_loop (Suc n) sha256 required ending seen found st =
     bindE (boot_header ending st) (\<lambda>(numbers, raw, name, st1).
     if name = ''TRAILER!!!'' then bindE (boot_trailer ending raw (numbers ! 6) st1) (\<lambda>_. Inr (seen, found))
     else bindE (boot_member sha256 required ending seen found numbers name st1) (\<lambda>(seen', found', st2).
       boot_loop n sha256 required ending seen' found' st2))"

section \<open>Ancestors\<close>

definition parent_or_dot :: "string \<Rightarrow> string" where
  "parent_or_dot p = (if posix_dirname p = '''' then ''.'' else posix_dirname p)"

definition ancestor_unsafe :: "boot_seen \<Rightarrow> string \<Rightarrow> bool" where
  "ancestor_unsafe seen parent \<longleftrightarrow>
     (case map_of seen parent of
        None \<Rightarrow> parent \<noteq> ''.''
      | Some (mode, uid, gid) \<Rightarrow> \<not> S_ISDIR mode \<or> mode AND 3602 \<noteq> 0 \<or> uid \<noteq> 0 \<or> gid \<noteq> 0)"

lemma posix_dirname_prefix: "prefix (posix_dirname p) p"
proof -
  have strip: "prefix (rev (dropWhile P (rev xs))) xs" for P and xs :: string
    by (metis rev_rev_ident suffix_dropWhile suffix_to_prefix)
  let ?head = "rev (dropWhile (\<lambda>c. c \<noteq> CHR ''/'') (rev p))"
  have "prefix ?head p" by (rule strip)
  moreover have "prefix (rev (dropWhile (\<lambda>c. c = CHR ''/'') (rev ?head))) p"
    by (rule prefix_order.trans [OF strip strip])
  ultimately show ?thesis unfolding posix_dirname_def Let_def by (simp only: split: if_split) blast
qed

text \<open>A path that is its own directory is a row of slashes, which no member is called; the loop would not return on it.\<close>

function ancestors_safe :: "boot_seen \<Rightarrow> string \<Rightarrow> bool" where
  "ancestors_safe seen parent =
     (if ancestor_unsafe seen parent then False
      else if parent = ''.'' then True
      else if posix_dirname parent = parent then False
      else ancestors_safe seen (parent_or_dot parent))"
  by pat_completeness auto
termination
proof (relation "measure (\<lambda>(seen, parent). if parent = ''.'' then 0 else Suc (length parent))", goal_cases)
  case (2 seen parent)
  then have "length (posix_dirname parent) < length parent"
    using posix_dirname_prefix [of parent] prefix_length_less strict_prefixI by blast
  then show ?case using 2 by (auto simp: parent_or_dot_def)
qed simp

declare ancestors_safe.simps [simp del]

definition verify_boot_blocks :: "(bytes \<Rightarrow> string) \<Rightarrow> components \<Rightarrow> bytes list \<times> exn option \<Rightarrow> unit res" where
  "verify_boot_blocks sha256 required = (\<lambda>(blocks, ending).
     bindE (boot_loop 131072 sha256 required ending [] [] ([], blocks)) (\<lambda>(seen, found).
     if set found \<noteq> set (map fst required) then Inl (ValueError ''boot archive lacks required components'')
     else raise_if (\<not> list_all (\<lambda>name. ancestors_safe seen (parent_or_dot name)) found) (ValueError ''boot component has unsafe ancestor'')))"

definition verify_boot_components :: "(bytes \<Rightarrow> string) \<Rightarrow> 'd decoder \<Rightarrow> bytes \<Rightarrow> components \<Rightarrow> unit res" where
  "verify_boot_components sha256 dec source required = verify_boot_blocks sha256 required (chunks dec (dec_start dec) [] 0 source)"

end
