(* ===== verification/Bootstrap.thy ===== *)
theory Bootstrap
  imports Boot_Archive
begin

text \<open>
  \<open>validate-runtime-bootstrap.py\<close>: the initial file system, the Docker guest profile and the command.
  The SHA-256 function, the JSON text parser, the decompressor and the answers of the system are parameters.
\<close>

section \<open>The initial file system\<close>

definition boot_components :: "json \<Rightarrow> components res" where
  "boot_components doc =
     bindE (bindE (subscript doc ''agent'') (\<lambda>v. subscript v ''sha256'')) (\<lambda>agent.
     bindE (bindE (subscript doc ''relay'') (\<lambda>v. subscript v ''sha256'')) (\<lambda>relay.
     bindE (bindE (bindE (subscript doc ''transport'') (\<lambda>v. subscript v ''module'')) (\<lambda>v. subscript v ''sha256'')) (\<lambda>transport_module.
     Inr [(''mk-agent'', agent, True), (''mkvsock-relay'', relay, True), (''mk_transport.ko'', transport_module, False)])))"

definition initramfs_identity :: "(bytes \<Rightarrow> string) \<Rightarrow> 'd decoder \<Rightarrow> boot_env \<Rightarrow> boot_opts \<Rightarrow> json \<Rightarrow> unit res" where
  "initramfs_identity sha256 dec env opts doc =
     bindE (boot_components doc) (\<lambda>required.
     bindE (subscript doc ''initramfs'') (\<lambda>v.
     bindE (subscript v ''path'') (\<lambda>location.
     bindE (subscript v ''sha256'') (\<lambda>digest.
     verified_file sha256 env opts ''initramfs identity'' location digest (512 * 2 ^ 20 + 2 ^ 20) False
       (\<lambda>held. verify_boot_components sha256 dec (held_data held) required)))))"

section \<open>The Docker guest profile\<close>

definition guest_shebang :: bytes where
  "guest_shebang = ''#!/bin/busybox sh'' @ [CHR 0x0A]"

definition guest_module_ok :: "string \<Rightarrow> string \<Rightarrow> string \<Rightarrow> string \<Rightarrow> bool" where
  "guest_module_ok name release observed vermagic \<longleftrightarrow> observed = name @ [CHR 0x0A] \<and> endswith vermagic [CHR 0x0A]
     \<and> CHR 0x0A \<notin> set (butlast vermagic) \<and> CHR 0x0D \<notin> set vermagic \<and> startswith vermagic (release @ '' '')"

definition guest_module :: "(bytes \<Rightarrow> string) \<Rightarrow> boot_env \<Rightarrow> boot_opts \<Rightarrow> string \<Rightarrow> string \<times> json \<Rightarrow> unit res" where
  "guest_module sha256 env opts release = (\<lambda>(name, selected).
     bindE (artifact sha256 env opts (''guest module '' @ name) selected) (\<lambda>location.
     if skip_modinfo opts then Inr ()
     else bindE (env_modinfo env ''name'' (the_str location)) (\<lambda>observed.
       bindE (env_modinfo env ''vermagic'' (the_str location)) (\<lambda>vermagic.
       raise_if (\<not> guest_module_ok name release observed vermagic)
         (ValueError ''Docker guest module differs from its approved name or child release'')))))"

definition guest_bootstrap :: "(bytes \<Rightarrow> string) \<Rightarrow> boot_env \<Rightarrow> boot_opts \<Rightarrow> json \<Rightarrow> unit res" where
  "guest_bootstrap sha256 env opts boot =
     bindE (exact_fields boot [''path'', ''sha256''] []) (\<lambda>_.
     bindE (subscript boot ''path'') (\<lambda>location.
     bindE (subscript boot ''sha256'') (\<lambda>digest.
     verified_file sha256 env opts ''guest bootstrap'' location digest (4 * 2 ^ 20) False (\<lambda>held.
       raise_if (take (length guest_shebang) (held_data held) \<noteq> guest_shebang)
         (ValueError ''Docker guest bootstrap must use the fixed guest BusyBox interpreter'')))))"

definition docker_guest_profile :: "(bytes \<Rightarrow> string) \<Rightarrow> boot_env \<Rightarrow> boot_opts \<Rightarrow> json \<Rightarrow> string \<Rightarrow> json res" where
  "docker_guest_profile sha256 env opts v release =
     bindE (exact_fields v [''kind'', ''rootfs_manifest_sha256'', ''bootstrap'', ''modules''] []) (\<lambda>_.
     bindE (subscript v ''kind'') (\<lambda>kind.
     bindE (subscript v ''rootfs_manifest_sha256'') (\<lambda>approved.
     if \<not> py_eq kind (JStr ''docker-rootless-offline-v1'') \<or> \<not> digest_ok False approved
     then Inl (ValueError ''Docker guest kind or root filesystem approval is invalid'')
     else bindE (subscript v ''bootstrap'') (\<lambda>boot.
       bindE (guest_bootstrap sha256 env opts boot) (\<lambda>_.
       bindE (subscript v ''modules'') (\<lambda>modules.
       bindE (exact_fields modules [''llc'', ''stp'', ''bridge'', ''veth''] []) (\<lambda>_.
       bindE (dict_items modules) (\<lambda>items.
       bindE (forE items (\<lambda>_. guest_module sha256 env opts release) ()) (\<lambda>_. Inr v)))))))))"

section \<open>The doc\<close>

text \<open>The comparisons \<open>v > 1\<close> and \<open>v < 1\<close>, which raise for a value that is not a number.\<close>

definition above_one :: "json \<Rightarrow> bool res" where
  "above_one v =
     (case num_of v of
        None \<Rightarrow> Inl (TypeError ''not supported between instances'')
      | Some f \<Rightarrow> Inr (case f of FNum r \<Rightarrow> r > 1 | FInf \<Rightarrow> True | _ \<Rightarrow> False))"

definition below_one :: "json \<Rightarrow> bool res" where
  "below_one v =
     (case num_of v of
        None \<Rightarrow> Inl (TypeError ''not supported between instances'')
      | Some f \<Rightarrow> Inr (case f of FNum r \<Rightarrow> r < 1 | FNegInf \<Rightarrow> True | _ \<Rightarrow> False))"

definition check_protocol :: "json \<Rightarrow> unit res" where
  "check_protocol protocol =
     bindE (exact_fields protocol [''min'', ''max''] []) (\<lambda>_.
     bindE (bindE (subscript protocol ''min'') above_one) (\<lambda>above.
     if above then Inl (ValueError ''manifest does not support protocol v1'')
     else bindE (bindE (subscript protocol ''max'') below_one) (\<lambda>below.
       raise_if below (ValueError ''manifest does not support protocol v1''))))"

definition expected_compatibility :: json where
  "expected_compatibility = JObj [(''multikernel_revision'', JStr PINNED_MULTIKERNEL), (''kerf_version'', JStr ''v0.2.0''), (''kerf_revision'', JStr PINNED_KERF)]"

definition expected_transport :: fields where
  "expected_transport = [(''module_name'', JStr ''mk_transport''), (''socket_option'', JInt 9), (''transport_id'', JInt 1),
     (''primary_role'', JStr ''server''), (''child_role'', JStr ''client'')]"

definition check_transport :: "json \<Rightarrow> unit res" where
  "check_transport transport =
     bindE (exact_fields transport [''module'', ''module_name'', ''socket_option'', ''transport_id'', ''primary_role'', ''child_role''] []) (\<lambda>_.
     bindE (mapE (\<lambda>(key, _). bindE (subscript transport key) (\<lambda>v. Inr (key, v))) expected_transport) (\<lambda>observed.
     raise_if (\<not> py_eq (JObj observed) (JObj expected_transport))
       (ValueError ''transport module, socket option, ID, or direction is incompatible'')))"

definition boot_fields :: "string list" where
  "boot_fields = [''schema_version'', ''name'', ''architecture'', ''kernel_release'', ''compatibility'', ''kernel'', ''initramfs'',
     ''agent'', ''relay'', ''transport'', ''protocol'', ''required_config'', ''oci_features'']"

definition check_manifest_identity :: "json \<Rightarrow> string \<Rightarrow> unit res" where
  "check_manifest_identity doc expected_name =
     bindE (exact_fields doc boot_fields [''modules'', ''docker_guest'']) (\<lambda>_.
     bindE (subscript doc ''schema_version'') (\<lambda>version.
     bindE (subscript doc ''name'') (\<lambda>name.
     bindE (subscript doc ''architecture'') (\<lambda>architecture.
     if \<not> py_eq version (JInt 1) \<or> \<not> py_eq name (JStr expected_name) \<or> \<not> py_eq architecture (JStr ''amd64'')
     then Inl (ValueError ''manifest identity or architecture is incompatible'')
     else bindE (subscript doc ''compatibility'') (\<lambda>compatibility.
       bindE (exact_fields compatibility [''multikernel_revision'', ''kerf_version'', ''kerf_revision''] []) (\<lambda>_.
       if \<not> py_eq compatibility expected_compatibility then Inl (ValueError ''manifest compatibility pins are incompatible'')
       else bindE (subscript doc ''protocol'') check_protocol))))))"

text \<open>What a \<open>for\<close> loop goes through.\<close>

definition iterated :: "json \<Rightarrow> json list res" where
  "iterated v =
     (case v of
        JList xs \<Rightarrow> Inr xs
      | JObj d \<Rightarrow> Inr (map (JStr \<circ> fst) d)
      | JStr s \<Rightarrow> Inr (map (\<lambda>c. JStr [c]) s)
      | _ \<Rightarrow> Inl (TypeError ''not iterable''))"

definition extra_modules :: "(bytes \<Rightarrow> string) \<Rightarrow> boot_env \<Rightarrow> boot_opts \<Rightarrow> json \<Rightarrow> json list res" where
  "extra_modules sha256 env opts doc =
     bindE (case doc of JObj d \<Rightarrow> Inr (jget_or d ''modules'' (JList [])) | _ \<Rightarrow> Inl (AttributeError ''get'')) (\<lambda>v.
     bindE (iterated v) (\<lambda>extras.
     mapE (\<lambda>(i, extra). artifact sha256 env opts (''modules '' @ dec_digits i) extra) (zip [0..<length extras] extras)))"

definition check_module :: "boot_env \<Rightarrow> string \<Rightarrow> json \<Rightarrow> json \<Rightarrow> unit res" where
  "check_module env release transport_module selected =
     bindE (env_modinfo env ''name'' (the_str selected)) (\<lambda>name_text.
     bindE (env_modinfo env ''vermagic'' (the_str selected)) (\<lambda>vermagic_text.
     let name = strip name_text; vermagic = strip vermagic_text in
     raise_if (selected = transport_module \<and> name \<noteq> ''mk_transport'' \<or> name = '''' \<or> CHR 0x0A \<in> set name \<or> CHR 0x0A \<in> set vermagic
         \<or> \<not> startswith vermagic (release @ '' ''))
       (ValueError ''module name or kernel release is incompatible'')))"

section \<open>The command\<close>

definition read_manifest :: "(bytes \<Rightarrow> string) \<Rightarrow> boot_env \<Rightarrow> boot_opts \<Rightarrow> string \<Rightarrow> bytes res" where
  "read_manifest sha256 env opts location =
     verified_file sha256 env opts ''manifest'' (JStr location) JNull (2 ^ 20) True (\<lambda>held.
       let data = take (2 ^ 20 + 1) (held_data held) in
       if length data > 2 ^ 20 then Inl (ValueError ''manifest exceeds bounded read'') else Inr data)"

text \<open>The artifacts of the manifest, in the order they are checked: kernel, initial file system, agent, relay and module.\<close>

definition check_artifacts :: "(bytes \<Rightarrow> string) \<Rightarrow> 'd decoder \<Rightarrow> boot_env \<Rightarrow> boot_opts \<Rightarrow> json \<Rightarrow> json list res" where
  "check_artifacts sha256 dec env opts doc =
     bindE (subscript doc ''kernel'') (\<lambda>kernel_value.
     bindE (artifact sha256 env opts ''kernel'' kernel_value) (\<lambda>vmlinux.
     bindE (subscript doc ''kernel_release'') (\<lambda>release.
     bindE (subscript doc ''required_config'') (\<lambda>required.
     bindE (kernel_config env opts (the_str vmlinux) release required) (\<lambda>_.
     bindE (kernel_identity sha256 env opts kernel_value (the_str release)) (\<lambda>_.
     bindE (bindE (subscript doc ''initramfs'') (artifact sha256 env opts ''initramfs'')) (\<lambda>initramfs.
     bindE (subscript doc ''agent'') (\<lambda>agent_value.
     bindE (artifact sha256 env opts ''agent'' agent_value) (\<lambda>agent.
     bindE (subscript doc ''relay'') (\<lambda>relay_value.
     bindE (artifact sha256 env opts ''relay'' relay_value) (\<lambda>relay.
     bindE (subscript doc ''transport'') (\<lambda>transport.
     bindE (check_transport transport) (\<lambda>_.
     bindE (bindE (subscript transport ''module'') (artifact sha256 env opts ''module'')) (\<lambda>transport_module.
     bindE (extra_modules sha256 env opts doc) (\<lambda>extras.
     bindE (x86_64_elf sha256 env opts ''agent image'' agent_value) (\<lambda>_.
     bindE (x86_64_elf sha256 env opts ''relay image'' relay_value) (\<lambda>_.
     bindE (if skip_modinfo opts then Inr () else forE (transport_module # extras) (\<lambda>_. check_module env (the_str release) transport_module) ()) (\<lambda>_.
     bindE (initramfs_identity sha256 dec env opts doc) (\<lambda>_.
     Inr [vmlinux, initramfs, agent, relay, transport_module])))))))))))))))))))"

definition bootstrap_run :: "(bytes \<Rightarrow> string) \<Rightarrow> loads \<Rightarrow> 'd decoder \<Rightarrow> boot_env \<Rightarrow> boot_opts \<Rightarrow> string \<Rightarrow> string \<Rightarrow> fields res" where
  "bootstrap_run sha256 loads dec env opts location expected_name =
     bindE (read_manifest sha256 env opts location) (\<lambda>manifest_bytes.
     bindE (bindE (loads default_constant manifest_bytes) (hook (ValueError ''duplicate JSON field''))) (\<lambda>doc.
     bindE (check_manifest_identity doc expected_name) (\<lambda>_.
     bindE (check_artifacts sha256 dec env opts doc) (\<lambda>paths.
     bindE (mapE (\<lambda>k. bindE (subscript doc k) (\<lambda>v. Inr (k, v))) [''architecture'', ''kernel_release'', ''required_config'', ''oci_features'']) (\<lambda>copied.
     bindE (subscript doc ''kernel_release'') (\<lambda>release.
     bindE (case doc of
         JObj d \<Rightarrow> if has_key d ''docker_guest''
           then bindE (docker_guest_profile sha256 env opts (jget d ''docker_guest'') (the_str release)) (\<lambda>v. Inr [(''docker_guest'', v)])
           else Inr []
       | _ \<Rightarrow> Inr []) (\<lambda>guest.
     Inr ([(''manifest'', JStr (as_posix location)), (''manifest_sha256'', JStr (sha256 manifest_bytes))] @ copied
       @ zip [''kernel'', ''initramfs'', ''agent'', ''relay'', ''module''] paths @ guest))))))))"

fun is_boot_reported :: "exn \<Rightarrow> bool" where
  "is_boot_reported (ValueError _) = True"
| "is_boot_reported (UnicodeDecodeError _) = True"
| "is_boot_reported (UnicodeEncodeError _) = True"
| "is_boot_reported (JSONDecodeError _) = True"
| "is_boot_reported (SubprocessError _) = True"
| "is_boot_reported e = is_os_error e"

definition bootstrap_main :: "(bytes \<Rightarrow> string) \<Rightarrow> loads \<Rightarrow> 'd decoder \<Rightarrow> boot_env \<Rightarrow> boot_opts \<Rightarrow> string \<Rightarrow> string \<Rightarrow> (int \<times> fields option) res" where
  "bootstrap_main sha256 loads dec env opts location expected_name =
     (case bootstrap_run sha256 loads dec env opts location expected_name of
        Inr result \<Rightarrow> Inr (0, Some result)
      | Inl e \<Rightarrow> if is_boot_reported e then Inr (1, None) else Inl e)"

end
