(* ===== verification/Release_Manifest.thy ===== *)
theory Release_Manifest
  imports Tree_Fs Py_Json Py_Text
begin

text \<open>
  \<open>runtime-release-manifest.py\<close>: the identity a component prints, the manifest of a directory of components, and the command.
  Running a component is a parameter: what a program with the given contents prints for \<open>--version\<close>.
\<close>

definition COMPONENTS :: "string list" where
  "COMPONENTS = [''containerd-shim-multikernel-v2'', ''mk-agent'', ''mk-agentctl'', ''mk-cni'', ''mk-host-check'', ''mknetd'', ''mkruntimed'']"

text \<open>The exit status, the standard output and the standard error of a run.\<close>

type_synonym execute = "bytes \<Rightarrow> (int \<times> string \<times> string) res"

section \<open>Identities\<close>

definition is_name_char :: "char \<Rightarrow> bool" where
  "is_name_char c \<longleftrightarrow> in_range (CHR ''a'') (CHR ''z'') c \<or> is_digit c"

text \<open>
  The pattern \<open>IDENTITY\<close>.  Neither the name nor the version can hold a blank, so the first two blanks are the separators.
\<close>

definition parse_identity :: "string \<Rightarrow> (string \<times> string \<times> string) option" where
  "parse_identity s =
     (let (name, r1) = split_once (CHR '' '') s;
          (version, r2) = split_once (CHR '' '') (drop 8 r1);
          revision = drop 9 r2
      in if CHR '' '' \<in> set s \<and> name \<noteq> [] \<and> is_name_char (hd name) \<and> list_all (\<lambda>c. is_name_char c \<or> c = CHR ''.'' \<or> c = CHR ''-'') (tl name)
            \<and> startswith r1 ''version='' \<and> CHR '' '' \<in> set (drop 8 r1) \<and> version \<noteq> [] \<and> list_all (\<lambda>c. \<not> is_blank c) version
            \<and> startswith r2 ''revision='' \<and> endswith revision [CHR 0x0A] \<and> is_hex_run 40 (butlast revision)
         then Some (name, version, butlast revision) else None)"

section \<open>Components\<close>

text \<open>What \<open>lstat\<close> reports of an object, and its contents.\<close>

definition obj_mode :: "obj \<Rightarrow> nat" where
  "obj_mode x = (case obj_stat x of Some st \<Rightarrow> st_mode st | None \<Rightarrow> 41471)"

definition obj_data :: "obj \<Rightarrow> bytes" where
  "obj_data x = (case x of OFile _ data \<Rightarrow> data | _ \<Rightarrow> [])"

definition obj_size :: "obj \<Rightarrow> nat" where
  "obj_size x = (case obj_stat x of Some st \<Rightarrow> st_size st | None \<Rightarrow> 0)"

definition inspect_component :: "(bytes \<Rightarrow> string) \<Rightarrow> execute \<Rightarrow> string \<Rightarrow> string \<Rightarrow> string \<Rightarrow> obj option \<Rightarrow> json res" where
  "inspect_component sha256 execute expected_version expected_revision name file =
     (case file of
        None \<Rightarrow> Inl (FileNotFoundError name)
      | Some x \<Rightarrow>
          if \<not> S_ISREG (obj_mode x) \<or> S_ISLNK (obj_mode x) then Inl (ValueError ''component must be a regular non-symlink file'')
          else if obj_mode x AND 73 = 0 then Inl (ValueError ''component is not executable'')
          else bindE (execute (obj_data x)) (\<lambda>(returncode, stdout, stderr).
            if returncode \<noteq> 0 \<or> stderr \<noteq> [] then Inl (ValueError ''version command failed'')
            else case parse_identity stdout of
              None \<Rightarrow> Inl (ValueError ''malformed component identity'')
            | Some (found, version, revision) \<Rightarrow>
                if found \<noteq> name then Inl (ValueError ''malformed component identity'')
                else if version \<noteq> expected_version then Inl (ValueError ''version does not match'')
                else if revision \<noteq> expected_revision then Inl (ValueError ''revision does not match'')
                else Inr (JObj [(''name'', JStr name), (''version'', JStr version), (''revision'', JStr revision),
                  (''size_bytes'', JInt (int (obj_size x))), (''sha256'', JStr (sha256 (obj_data x)))])))"

text \<open>\<open>re.fullmatch\<close> raises for a value that is not a string.\<close>

definition pattern_text :: "json \<Rightarrow> string res" where
  "pattern_text v = (case v of JStr s \<Rightarrow> Inr s | _ \<Rightarrow> Inl (TypeError ''expected string or bytes-like object''))"

definition create_manifest :: "(bytes \<Rightarrow> string) \<Rightarrow> execute \<Rightarrow> (string \<Rightarrow> obj option) \<Rightarrow> json \<Rightarrow> json \<Rightarrow> json res" where
  "create_manifest sha256 execute binaries expected_version expected_revision =
     bindE (pattern_text expected_version) (\<lambda>version.
     if \<not> class_run is_ascii_alnum is_token_char 0 127 version then Inl (ValueError ''expected version has an unsafe or empty value'')
     else bindE (pattern_text expected_revision) (\<lambda>revision.
       if \<not> is_hex_run 40 revision then Inl (ValueError ''expected revision must be a lowercase 40-hex commit'')
       else bindE (mapE (\<lambda>name. inspect_component sha256 execute version revision name (binaries name)) COMPONENTS) (\<lambda>components.
         Inr (JObj [(''schema_version'', JInt 1), (''runtime'', JStr ''io.containerd.multikernel.v2''),
           (''version'', JStr version), (''revision'', JStr revision), (''components'', JList components)]))))"

section \<open>The command\<close>

fun is_manifest_reported :: "exn \<Rightarrow> bool" where
  "is_manifest_reported (ValueError _) = True"
| "is_manifest_reported (UnicodeDecodeError _) = True"
| "is_manifest_reported (UnicodeEncodeError _) = True"
| "is_manifest_reported (SubprocessError _) = True"
| "is_manifest_reported e = is_os_error e"

text \<open>\<open>dumps\<close> is the JSON printer with its options.  The arguments are strings.\<close>

definition release_manifest_main :: "(bytes \<Rightarrow> string) \<Rightarrow> (json \<Rightarrow> bytes) \<Rightarrow> execute \<Rightarrow> (string \<Rightarrow> obj option) \<Rightarrow> path \<Rightarrow> string \<Rightarrow> string \<Rightarrow> int top" where
  "release_manifest_main sha256 dumps execute binaries output expected_version expected_revision =
     catchS
       (bindS (raiseE (create_manifest sha256 execute binaries (JStr expected_version) (JStr expected_revision))) (\<lambda>manifest.
        bindS (sys_create_file 420 output) (\<lambda>_.
        bindS (sys_put output (dumps manifest @ [CHR 0x0A])) (\<lambda>_.
        bindS sys_noop (\<lambda>_. returnS 0)))))
       (\<lambda>e. if is_manifest_reported e then returnS 1 else raiseS e)"

end
