(* ===== verification/Binaries.thy ===== *)
theory Binaries
  imports Link_Switch Release_Manifest
begin

text \<open>
  \<open>manage-runtime-binaries.py\<close>: releases named by version and revision, the commands that are linked into the system, the
  selector of the active release, activation with rollback, installation, removal and the command.  The commands work
  on the tree of \<^theory_text>\<open>Tree_Fs\<close>, below the root directory.
\<close>

section \<open>Tables\<close>

definition RELEASE_BASE :: path where
  "RELEASE_BASE = [''usr'', ''local'', ''lib'', ''multikernel'']"

definition COMMAND_LINKS :: "(string \<times> path) list" where
  "COMMAND_LINKS =
     [(''containerd-shim-multikernel-v2'', [''usr'', ''local'', ''bin'', ''containerd-shim-multikernel-v2'']),
      (''mk-agentctl'', [''usr'', ''local'', ''bin'', ''mk-agentctl'']),
      (''mk-host-check'', [''usr'', ''local'', ''bin'', ''mk-host-check'']),
      (''mkruntimed'', [''usr'', ''local'', ''sbin'', ''mkruntimed'']),
      (''mknetd'', [''usr'', ''local'', ''sbin'', ''mknetd'']),
      (''mk-cni'', [''opt'', ''cni'', ''bin'', ''multikernel''])]"

text \<open>The pattern \<open>RELEASE_ID\<close>: a version, a hyphen and forty hexadecimal digits.\<close>

definition is_release_id :: "string \<Rightarrow> bool" where
  "is_release_id s \<longleftrightarrow>
     (let n = length s in 42 \<le> n \<and> is_hex_run 40 (drop (n - 40) s) \<and> s ! (n - 41) = CHR ''-''
        \<and> class_run is_ascii_alnum is_token_char 0 127 (take (n - 41) s))"

definition release_text :: "json \<Rightarrow> string res" where
  "release_text v = (case v of JStr s \<Rightarrow> Inr s | _ \<Rightarrow> Inl (ValueError ''manifest does not produce a safe release identity''))"

text \<open>
  The text of a number or of another value is not followed: a manifest whose version or revision is no string
  has been refused before the name is made.
\<close>

definition release_id :: "json \<Rightarrow> string res" where
  "release_id manifest =
     bindE (bindE (subscript manifest ''version'') release_text) (\<lambda>version.
     bindE (bindE (subscript manifest ''revision'') release_text) (\<lambda>revision.
     let v = version @ ''-'' @ revision in
     if \<not> is_release_id v then Inl (ValueError ''manifest does not produce a safe release identity'') else Inr v))"

section \<open>Links\<close>

definition expected_target :: "path \<Rightarrow> string \<Rightarrow> string" where
  "expected_target link component =
     (let current_binary = RELEASE_BASE @ [''current'', ''bin'', component] in
      if take 2 link = [''usr'', ''local''] \<and> length link > 2 then relpath current_binary (butlast link)
      else ''/'' @ join_with ''/'' current_binary)"

definition managed_command :: "tree \<Rightarrow> path \<Rightarrow> string \<Rightarrow> bool" where
  "managed_command s p expected \<longleftrightarrow> objs s p = Some (OLink expected)"

definition check_command :: "tree \<Rightarrow> string \<times> path \<Rightarrow> unit res" where
  "check_command s = (\<lambda>(component, link).
     raise_if (lexists s link \<and> \<not> managed_command s link (expected_target link component)) (ValueError ''refuse unrelated existing command path''))"

definition preflight_commands :: "tree \<Rightarrow> unit res" where
  "preflight_commands s =
     (let current = RELEASE_BASE @ [''current''] in
      if lexists s current \<and> \<not> is_symlink s current then Inl (ValueError ''refuse non-symlink runtime activation path'')
      else forE COMMAND_LINKS (\<lambda>_. check_command s) ())"

definition require_directory :: "obj option \<Rightarrow> unit res" where
  "require_directory x =
     (case x of
        None \<Rightarrow> Inl (ValueError ''missing directory'')
      | Some (ODir _) \<Rightarrow> Inr ()
      | Some _ \<Rightarrow> Inl (ValueError ''must be a non-symlink directory''))"

definition command_symlink :: "string \<Rightarrow> path \<Rightarrow> unit top" where
  "command_symlink target p = switch_link (ValueError ''temporary activation path already exists'') target p"

section \<open>Releases\<close>

text \<open>The directory of binaries, the manifest and the binaries of a release, each as \<open>lstat\<close> and a read see them.\<close>

record release_input =
  input_directory :: "obj option"
  input_manifest :: "obj option"
  input_binaries :: "string \<Rightarrow> obj option"

definition tree_release :: "tree \<Rightarrow> path \<Rightarrow> release_input" where
  "tree_release s directory = \<lparr>input_directory = objs s (directory @ [''bin'']),
     input_manifest = objs s (directory @ [''release-manifest.json'']),
     input_binaries = (\<lambda>component. objs s (directory @ [''bin'', component]))\<rparr>"

definition release_json :: "loads \<Rightarrow> bytes \<Rightarrow> json res" where
  "release_json loads data = bindE (loads default_constant data) (hook (ValueError ''duplicate JSON key''))"

definition verify_release_input :: "(bytes \<Rightarrow> string) \<Rightarrow> loads \<Rightarrow> execute \<Rightarrow> release_input \<Rightarrow> json res" where
  "verify_release_input sha256 loads execute input =
     bindE (require_directory (input_directory input)) (\<lambda>_.
     case input_manifest input of
       None \<Rightarrow> Inl (FileNotFoundError ''release manifest'')
     | Some x \<Rightarrow>
         if \<not> S_ISREG (obj_mode x) then Inl (ValueError ''release manifest must be a regular non-symlink file'')
         else bindE (release_json loads (obj_data x)) (\<lambda>manifest.
           bindE (subscript manifest ''version'') (\<lambda>version.
           bindE (subscript manifest ''revision'') (\<lambda>revision.
           bindE (create_manifest sha256 execute (input_binaries input) version revision) (\<lambda>observed.
           if \<not> py_eq manifest observed then Inl (ValueError ''manifest content differs from verified component identities and hashes'')
           else Inr manifest)))))"

definition release_directory :: "string \<Rightarrow> path" where
  "release_directory release = RELEASE_BASE @ [''releases'', release]"

definition verify_installed :: "(bytes \<Rightarrow> string) \<Rightarrow> loads \<Rightarrow> execute \<Rightarrow> tree \<Rightarrow> string \<Rightarrow> json res" where
  "verify_installed sha256 loads execute s release =
     (if \<not> is_release_id release then Inl (ValueError ''invalid release identity'')
      else bindE (require_directory (objs s (release_directory release))) (\<lambda>_.
        bindE (verify_release_input sha256 loads execute (tree_release s (release_directory release))) (\<lambda>manifest.
        bindE (release_id manifest) (\<lambda>name.
        if name \<noteq> release then Inl (ValueError ''installed release directory and manifest identity differ'') else Inr manifest))))"

section \<open>Activation\<close>

definition activate_command :: "string \<times> path \<Rightarrow> path list \<Rightarrow> path list top" where
  "activate_command = (\<lambda>(component, link) created s.
     let expected = expected_target link component in
     if \<not> managed_command s link expected then bindS (command_symlink expected link) (\<lambda>_. returnS (created @ [link])) s
     else returnS created s)"

definition rollback_commands :: "path list \<Rightarrow> unit top" where
  "rollback_commands created = forS (rev created) (\<lambda>_. unlink_created) ()"

definition select_release :: "string \<Rightarrow> unit top" where
  "select_release release =
     bindS (until_failure activate_command COMMAND_LINKS []) (\<lambda>(failure, created).
     case failure of
       Some e \<Rightarrow> bindS (rollback_commands created) (\<lambda>_. raiseS e)
     | None \<Rightarrow> rollbackS (command_symlink (''releases/'' @ release) (RELEASE_BASE @ [''current''])) (rollback_commands created))"

definition activate_release :: "(bytes \<Rightarrow> string) \<Rightarrow> loads \<Rightarrow> execute \<Rightarrow> string \<Rightarrow> unit top" where
  "activate_release sha256 loads execute release =
     bindS (queryS preflight_commands) (\<lambda>_.
     bindS (queryS (\<lambda>s. verify_installed sha256 loads execute s release)) (\<lambda>_.
     select_release release))"

section \<open>Installation\<close>

text \<open>What reading the sources gives when they are copied, which is after they were verified.\<close>

record release_copy =
  copy_binaries :: "string \<Rightarrow> bytes res"
  copy_manifest :: "bytes res"

definition copy_component :: "release_copy \<Rightarrow> path \<Rightarrow> string \<Rightarrow> unit top" where
  "copy_component sources output_bin component =
     (let output = output_bin @ [component] in
      bindS (sys_create_file 493 output) (\<lambda>_.
      bindS (raiseE (copy_binaries sources component)) (\<lambda>data.
      bindS (sys_put output data) (\<lambda>_.
      bindS sys_noop (\<lambda>_. sys_chmod 493 output)))))"

definition write_release :: "release_copy \<Rightarrow> path \<Rightarrow> unit top" where
  "write_release sources staging =
     (let output_bin = staging @ [''bin'']; output = staging @ [''release-manifest.json''] in
      bindS (sys_mkdir 493 output_bin) (\<lambda>_.
      bindS (forS COMPONENTS (\<lambda>_. copy_component sources output_bin) ()) (\<lambda>_.
      bindS (raiseE (copy_manifest sources)) (\<lambda>data.
      bindS (sys_create_file 438 output) (\<lambda>_.
      bindS (sys_put output data) (\<lambda>_.
      bindS (sys_chmod 420 output) (\<lambda>_.
      bindS (sync_path output_bin) (\<lambda>_. sync_path staging))))))))"

definition stage_release :: "(bytes \<Rightarrow> string) \<Rightarrow> loads \<Rightarrow> execute \<Rightarrow> release_copy \<Rightarrow> string \<Rightarrow> path \<Rightarrow> path \<Rightarrow> unit top" where
  "stage_release sha256 loads execute sources release staging destination =
     bindS (write_release sources staging) (\<lambda>_.
     bindS (queryS (\<lambda>s. bindE (verify_release_input sha256 loads execute (tree_release s staging)) (\<lambda>manifest.
         bindE (release_id manifest) (\<lambda>name.
         raise_if (name \<noteq> release) (ValueError ''staged release and manifest identity differ''))))) (\<lambda>_.
     bindS (sys_rename_directory staging destination) (\<lambda>_. sync_path (butlast destination))))"

definition ensure_directory :: "unit top \<Rightarrow> path \<Rightarrow> unit top" where
  "ensure_directory creation p s =
     (if lexists s p then queryS (\<lambda>s. require_directory (objs s p)) s else creation s)"

definition place_release :: "(bytes \<Rightarrow> string) \<Rightarrow> loads \<Rightarrow> execute \<Rightarrow> release_copy \<Rightarrow> json \<Rightarrow> string \<Rightarrow> unit top" where
  "place_release sha256 loads execute sources manifest release s =
     (let releases = RELEASE_BASE @ [''releases'']; destination = releases @ [release];
          staging = releases @ [''.'' @ release @ ''.staging-'' @ pid s] in
      if lexists s destination
      then queryS (\<lambda>s. bindE (verify_installed sha256 loads execute s release) (\<lambda>installed.
        raise_if (\<not> py_eq installed manifest) (ValueError ''release identity already exists with different manifest content''))) s
      else bindS (sys_mkdir 493 staging) (\<lambda>_.
        bindS (rollbackS (stage_release sha256 loads execute sources release staging destination) (rmtree_ignore_errors staging)) (\<lambda>_.
        rollbackS (queryS (\<lambda>s. bindE (verify_installed sha256 loads execute s release) (\<lambda>_. Inr ())))
          (bindS (rmtree_ignore_errors destination) (\<lambda>_. sync_path releases)))) s)"

definition install_release :: "(bytes \<Rightarrow> string) \<Rightarrow> loads \<Rightarrow> execute \<Rightarrow> release_input \<Rightarrow> release_copy \<Rightarrow> string top" where
  "install_release sha256 loads execute input sources =
     bindS (queryS preflight_commands) (\<lambda>_.
     bindS (raiseE (verify_release_input sha256 loads execute input)) (\<lambda>manifest.
     bindS (raiseE (release_id manifest)) (\<lambda>release.
     bindS (ensure_directory (mkdir_parents 493 (rev RELEASE_BASE)) RELEASE_BASE) (\<lambda>_.
     bindS (ensure_directory (sys_mkdir 493 (RELEASE_BASE @ [''releases''])) (RELEASE_BASE @ [''releases''])) (\<lambda>_.
     bindS (place_release sha256 loads execute sources manifest release) (\<lambda>_.
     bindS (activate_release sha256 loads execute release) (\<lambda>_. returnS release)))))))"

section \<open>Inspection and removal\<close>

definition release_names :: "tree \<Rightarrow> string list" where
  "release_names s =
     (let releases = RELEASE_BASE @ [''releases''] in
      if is_dir s releases
      then sorted_list_of_set {c \<in> children s releases. is_dir s (releases @ [c]) \<and> \<not> startswith c ''.''} else [])"

definition link_report :: "tree \<Rightarrow> string \<times> path \<Rightarrow> string \<times> json" where
  "link_report s = (\<lambda>(component, link).
     (''/'' @ join_with ''/'' link, JObj [(''present'', JBool (lexists s link)),
       (''managed'', JBool (managed_command s link (expected_target link component))),
       (''target'', (case objs s link of Some (OLink t) \<Rightarrow> JStr t | _ \<Rightarrow> JNull))]))"

definition release_inspection :: "tree \<Rightarrow> fields res" where
  "release_inspection s =
     (let releases = RELEASE_BASE @ [''releases''] in
      bindE (if lexists s RELEASE_BASE then require_directory (objs s RELEASE_BASE) else Inr ()) (\<lambda>_.
      bindE (if lexists s releases then require_directory (objs s releases) else Inr ()) (\<lambda>_.
      Inr [(''active'', (case objs s (RELEASE_BASE @ [''current'']) of Some (OLink t) \<Rightarrow> JStr t | _ \<Rightarrow> JNull)),
        (''releases'', jstrs (release_names s)), (''links'', JObj (map (link_report s) COMMAND_LINKS))])))"

definition unlink_command :: "string \<times> path \<Rightarrow> unit top" where
  "unlink_command = (\<lambda>(component, link) s.
     if managed_command s link (expected_target link component) then bindS (sys_remove link) (\<lambda>_. sync_path (butlast link)) s
     else returnS () s)"

definition unlink_current :: "unit top" where
  "unlink_current s =
     (let current = RELEASE_BASE @ [''current''] in
      if is_symlink s current then bindS (sys_remove current) (\<lambda>_. sync_path RELEASE_BASE) s else returnS () s)"

definition uninstall_release :: "bool \<Rightarrow> fields top" where
  "uninstall_release apply0 =
     bindS (queryS release_inspection) (\<lambda>report.
     let report' = report @ [(''operation'', JStr ''uninstall''), (''applied'', JBool apply0)] in
     if \<not> apply0 then returnS report'
     else bindS (queryS preflight_commands) (\<lambda>_.
       bindS (forS COMMAND_LINKS (\<lambda>_. unlink_command) ()) (\<lambda>_.
       bindS unlink_current (\<lambda>_.
       bindS (queryS release_inspection) (\<lambda>final.
       returnS (report' @ [(''preserved_releases'', jget final ''releases'')]))))))"

definition remove_release :: "(bytes \<Rightarrow> string) \<Rightarrow> loads \<Rightarrow> execute \<Rightarrow> string \<Rightarrow> bool \<Rightarrow> fields top" where
  "remove_release sha256 loads execute release apply0 =
     bindS (queryS (\<lambda>s. verify_installed sha256 loads execute s release)) (\<lambda>manifest.
     bindS (queryS (\<lambda>s. raise_if (objs s (RELEASE_BASE @ [''current'']) = Some (OLink (''releases/'' @ release)))
         (ValueError ''refuse to remove the active release''))) (\<lambda>_.
     bindS (raiseE (subscript manifest ''version'')) (\<lambda>version.
     bindS (if apply0 then bindS (sys_rmtree (release_directory release)) (\<lambda>_. sync_path (RELEASE_BASE @ [''releases''])) else returnS ()) (\<lambda>_.
     returnS [(''operation'', JStr ''remove-release''), (''release'', JStr release), (''version'', version), (''applied'', JBool apply0)]))))"

section \<open>The command\<close>

datatype binary_command =
    InspectReleases
  | InstallRelease release_input release_copy
  | ActivateRelease string
  | UninstallRelease bool
  | RemoveRelease string bool

fun is_release_mutation :: "binary_command \<Rightarrow> bool" where
  "is_release_mutation InspectReleases = False"
| "is_release_mutation (InstallRelease _ _) = True"
| "is_release_mutation (ActivateRelease _) = True"
| "is_release_mutation (UninstallRelease apply0) = apply0"
| "is_release_mutation (RemoveRelease _ apply0) = apply0"

definition require_privilege :: "bool \<Rightarrow> bool \<Rightarrow> tree \<Rightarrow> unit res" where
  "require_privilege system_root mutation s =
     raise_if (mutation \<and> system_root \<and> euid s \<noteq> 0) (PermissionError ''system mutation requires root'')"

definition run_binary_command :: "(bytes \<Rightarrow> string) \<Rightarrow> loads \<Rightarrow> execute \<Rightarrow> binary_command \<Rightarrow> json top" where
  "run_binary_command sha256 loads execute command =
     (case command of
        InspectReleases \<Rightarrow> bindS (queryS release_inspection) (\<lambda>r. returnS (JObj r))
      | InstallRelease input sources \<Rightarrow> bindS (install_release sha256 loads execute input sources) (\<lambda>r. returnS (JObj [(''installed_and_active'', JStr r)]))
      | ActivateRelease release \<Rightarrow> bindS (activate_release sha256 loads execute release) (\<lambda>_. returnS (JObj [(''active'', JStr release)]))
      | UninstallRelease apply0 \<Rightarrow> bindS (uninstall_release apply0) (\<lambda>r. returnS (JObj r))
      | RemoveRelease release apply0 \<Rightarrow> bindS (remove_release sha256 loads execute release apply0) (\<lambda>r. returnS (JObj r)))"

fun is_binaries_reported :: "exn \<Rightarrow> bool" where
  "is_binaries_reported (ValueError _) = True"
| "is_binaries_reported (UnicodeDecodeError _) = True"
| "is_binaries_reported (UnicodeEncodeError _) = True"
| "is_binaries_reported (JSONDecodeError _) = True"
| "is_binaries_reported (KeyError _) = True"
| "is_binaries_reported (TypeError _) = True"
| "is_binaries_reported e = is_os_error e"

definition binaries_main :: "(bytes \<Rightarrow> string) \<Rightarrow> loads \<Rightarrow> execute \<Rightarrow> bool \<Rightarrow> binary_command \<Rightarrow> (int \<times> json option) top" where
  "binaries_main sha256 loads execute system_root command =
     catchS
       (bindS (queryS (require_privilege system_root (is_release_mutation command))) (\<lambda>_.
        bindS (run_binary_command sha256 loads execute command) (\<lambda>result. returnS (0, Some result))))
       (\<lambda>e. if is_binaries_reported e then returnS (1, None) else raiseS e)"

end
