(* ===== verification/Image_Entry.thy ===== *)
theory Image_Entry
  imports Docker_Elf Py_Os Newc
begin

text \<open>
  \<open>validate-runtime-image.py\<close>: the entry point of an OCI configuration is resolved inside the held root, through symbolic
  links and interpreter lines, and must be an image for the architecture of the selected kernel.  The root is the tree
  of nodes the held descriptors show; reopening a file and the state after reading it are observations by resolved path.
\<close>

section \<open>Symbolic links\<close>

text \<open>\<open>_readlink_descriptor\<close>: the buffer is doubled until the target is shorter than it.\<close>

function readlink_buffer :: "nat \<Rightarrow> string \<Rightarrow> string res" where
  "readlink_buffer sz target =
     (if 0 < sz \<and> sz \<le> 2 ^ 20
      then (if min (length target) sz < sz then Inr target else readlink_buffer (sz * 2) target)
      else Inl (ImageError ''entrypoint symlink target is too large''))"
  by pat_completeness auto
termination
  by (relation "measure (\<lambda>(sz, target). 2 ^ 20 + 1 - sz)") auto

declare readlink_buffer.simps [simp del]

section \<open>Resolution\<close>

text \<open>\<open>os.open\<close> with \<open>O_PATH | O_NOFOLLOW\<close> in a held directory gives the object itself, a link included.\<close>

definition open_path_at :: "node \<Rightarrow> string \<Rightarrow> node res" where
  "open_path_at directory name =
     (if NUL \<in> set name then Inl (ValueError ''embedded null byte'')
      else case directory of
        NDir _ kids \<Rightarrow> (case map_of kids name of None \<Rightarrow> Inl (FileNotFoundError name) | Some n \<Rightarrow> Inr n)
      | _ \<Rightarrow> Inl (OSError ''not a directory''))"

record image_obs =
  obs_reopen :: "string list \<Rightarrow> stat_info res"
  obs_after :: "string list \<Rightarrow> stat_info"

definition open_exact :: "image_obs \<Rightarrow> node \<Rightarrow> string list \<Rightarrow> (node \<times> string list) res" where
  "open_exact obs candidate resolved =
     (let info = node_stat candidate in
      if \<not> S_ISREG (st_mode info) \<or> st_mode info AND 73 = 0 then Inl (ImageError ''resolved entrypoint is not an executable regular file'')
      else bindE (obs_reopen obs resolved) (\<lambda>exact.
        if (st_dev exact, st_ino exact) \<noteq> (st_dev info, st_ino info) then Inl (ImageError ''entrypoint identity changed while opening'')
        else Inr (candidate, resolved)))"

text \<open>
  The components still to resolve, those resolved, and the held directories, the current one first; the root is last.
\<close>

function resolve_held :: "image_obs \<Rightarrow> string list \<Rightarrow> string list \<Rightarrow> node list \<Rightarrow> nat \<Rightarrow> (node \<times> string list) res" where
  "resolve_held obs [] resolved directories links = Inl (ImageError ''resolved entrypoint is not an executable regular file'')"
| "resolve_held obs (component # pending) resolved directories links =
     (if component = '''' \<or> component = ''.'' then resolve_held obs pending resolved directories links
      else if component = ''..''
      then (if resolved = [] then Inl (ImageError ''entrypoint traversal escapes the OCI root'')
            else resolve_held obs pending (butlast resolved) (tl directories) links)
      else bindE (open_path_at (hd directories) component) (\<lambda>candidate.
        if S_ISLNK (st_mode (node_stat candidate))
        then (if Suc links > 40 then Inl (ImageError ''entrypoint has too many symlinks'')
              else bindE (readlink_buffer 256 (case candidate of NLink _ target \<Rightarrow> target | _ \<Rightarrow> [])) (\<lambda>target.
                if startswith target ''/'' then resolve_held obs (path_tail target @ pending) [] [last directories] (Suc links)
                else resolve_held obs (path_tail target @ pending) resolved directories (Suc links)))
        else if pending \<noteq> []
        then (if \<not> S_ISDIR (st_mode (node_stat candidate)) then Inl (ImageError ''entrypoint path contains a non-directory component'')
              else resolve_held obs pending (resolved @ [component]) (candidate # directories) links)
        else open_exact obs candidate (resolved @ [component])))"
  by pat_completeness auto
termination
  by (relation "measures [\<lambda>(obs, pending, resolved, directories, links). 41 - links, \<lambda>(obs, pending, resolved, directories, links). length pending]") auto

definition resolve_in_root :: "image_obs \<Rightarrow> node \<Rightarrow> string \<Rightarrow> (node \<times> string list) res" where
  "resolve_in_root obs root_fd name =
     (if \<not> startswith name ''/'' \<or> NUL \<in> set name then Inl (ImageError ''OCI argv[0] must be an absolute path'')
      else resolve_held obs (path_tail name) [] [root_fd] 0)"

section \<open>Contents\<close>

definition entry_identity :: "stat_info \<Rightarrow> nat list \<times> int \<times> int" where
  "entry_identity v = ([st_dev v, st_ino v, st_mode v, st_uid v, st_gid v, st_size v], st_mtime_ns v, st_ctime_ns v)"

definition stable_bytes :: "image_obs \<Rightarrow> node \<Rightarrow> string list \<Rightarrow> bytes res" where
  "stable_bytes obs file resolved =
     (if entry_identity (node_stat file) \<noteq> entry_identity (obs_after obs resolved)
      then Inl (ImageError ''entrypoint mutated during architecture validation'')
      else Inr (case file of NFile _ data \<Rightarrow> data | _ \<Rightarrow> []))"

text \<open>\<open>data.splitlines()[0][2:].strip().split()[0]\<close>, if there is such a word.\<close>

definition shebang_word :: "bytes \<Rightarrow> bytes" where
  "shebang_word data =
     (let line = takeWhile (\<lambda>c. c \<noteq> CHR 0x0A \<and> c \<noteq> CHR 0x0D) data
      in takeWhile (\<lambda>c. \<not> is_space c) (dropWhile is_space (drop 2 line)))"

function executable :: "image_obs \<Rightarrow> node \<Rightarrow> string \<Rightarrow> nat \<Rightarrow> (string list \<times> bytes) res" where
  "executable obs root_fd name depth =
     (if depth > 4 then Inl (ImageError ''entrypoint interpreter chain is too deep'')
      else bindE (resolve_in_root obs root_fd name) (\<lambda>(file, resolved).
        bindE (stable_bytes obs file resolved) (\<lambda>data.
        if startswith data ''#!''
        then (if shebang_word data = [] then Inl (ImageError ''entrypoint has an empty shebang'')
              else executable obs root_fd (shebang_word data) (Suc depth))
        else Inr (resolved, data))))"
  by pat_completeness auto
termination
  by (relation "measure (\<lambda>(obs, root_fd, name, depth). 5 - depth)") auto

declare executable.simps [simp del]

section \<open>Validation\<close>

definition image_json :: "loads \<Rightarrow> bytes res \<Rightarrow> json res" where
  "image_json loads file =
     bindE file (\<lambda>data. bindE (loads default_constant data) (hook (ImageError ''duplicate JSON field'')))"

text \<open>\<open>v[0]\<close> of a decoded value.\<close>

definition first_item :: "json \<Rightarrow> json res" where
  "first_item v =
     (case v of
        JList (x # _) \<Rightarrow> Inr x
      | JList [] \<Rightarrow> Inl (IndexError ''list index out of range'')
      | JStr (c # _) \<Rightarrow> Inr (JStr [c])
      | JStr [] \<Rightarrow> Inl (IndexError ''string index out of range'')
      | JObj _ \<Rightarrow> Inl (KeyError ''0'')
      | _ \<Rightarrow> Inl (TypeError ''not subscriptable''))"

fun is_lookup_error :: "exn \<Rightarrow> bool" where
  "is_lookup_error (KeyError _) = True"
| "is_lookup_error (IndexError _) = True"
| "is_lookup_error (TypeError _) = True"
| "is_lookup_error _ = False"

definition entrypoint_of :: "json \<Rightarrow> json res" where
  "entrypoint_of config =
     wrap_exn is_lookup_error (ImageError ''OCI process entrypoint is missing'')
       (bindE (bindE (subscript config ''process'') (\<lambda>v. subscript v ''args'')) first_item)"

definition amd64_image :: "bytes \<Rightarrow> bool" where
  "amd64_image data \<longleftrightarrow> length data \<ge> 20 \<and> take 5 data = CHR 0x7F # ''ELF'' @ [CHR 0x02] \<and> data ! 5 = CHR 0x01
     \<and> le_nat (take 2 (drop 18 data)) = 62"

definition image_report :: "(bytes \<Rightarrow> string) \<Rightarrow> json \<Rightarrow> string \<Rightarrow> string list \<Rightarrow> bytes \<Rightarrow> fields res" where
  "image_report sha256 bootstrap entrypoint resolved data =
     bindE (mapE (\<lambda>(key, field). bindE (subscript bootstrap field) (\<lambda>v. Inr (key, v)))
       [(''kernel_manifest_sha256'', ''manifest_sha256''), (''kernel_release'', ''kernel_release''),
        (''required_kernel_config'', ''required_config''), (''supported_oci_features'', ''oci_features'')]) (\<lambda>copied.
     Inr ([(''architecture'', JStr ''amd64''), (''entrypoint'', JStr entrypoint),
       (''resolved_entrypoint'', JStr (''/'' @ join_with ''/'' resolved)), (''entrypoint_sha256'', JStr (sha256 data))] @ copied))"

definition validate_held :: "(bytes \<Rightarrow> string) \<Rightarrow> loads \<Rightarrow> image_obs \<Rightarrow> node \<Rightarrow> bytes res \<Rightarrow> bytes res \<Rightarrow> fields res" where
  "validate_held sha256 loads obs root_fd config_file bootstrap_file =
     bindE (image_json loads config_file) (\<lambda>config.
     bindE (image_json loads bootstrap_file) (\<lambda>bootstrap.
     bindE (case bootstrap of JObj d \<Rightarrow> Inr (jget d ''architecture'') | _ \<Rightarrow> Inl (AttributeError ''get'')) (\<lambda>architecture.
     if \<not> py_eq architecture (JStr ''amd64'') then Inl (ImageError ''selected kernel is not amd64'')
     else bindE (entrypoint_of config) (\<lambda>entrypoint.
       case entrypoint of
         JStr name \<Rightarrow>
           bindE (executable obs root_fd name 0) (\<lambda>(resolved, data).
           if \<not> amd64_image data then Inl (ImageError ''OCI entrypoint/interpreter is not a little-endian x86-64 ELF image'')
           else image_report sha256 bootstrap name resolved data)
       | _ \<Rightarrow> Inl (AttributeError ''startswith'')))))"

text \<open>\<open>held\<close> is what \<open>open_directory_nofollow\<close> returns for the root.\<close>

definition validate_image :: "(bytes \<Rightarrow> string) \<Rightarrow> loads \<Rightarrow> image_obs \<Rightarrow> node res \<Rightarrow> bytes res \<Rightarrow> bytes res \<Rightarrow> fields res" where
  "validate_image sha256 loads obs held config_file bootstrap_file =
     bindE (wrap_exn is_os_error (ImageError ''cannot open OCI root without following symlinks'') held) (\<lambda>root_fd.
     validate_held sha256 loads obs root_fd config_file bootstrap_file)"

fun is_image_reported :: "exn \<Rightarrow> bool" where
  "is_image_reported (ImageError _) = True"
| "is_image_reported (JSONDecodeError _) = True"
| "is_image_reported e = is_os_error e"

definition image_main :: "(bytes \<Rightarrow> string) \<Rightarrow> loads \<Rightarrow> image_obs \<Rightarrow> node res \<Rightarrow> bytes res \<Rightarrow> bytes res \<Rightarrow> (int \<times> fields option) res" where
  "image_main sha256 loads obs held config_file bootstrap_file =
     (case validate_image sha256 loads obs held config_file bootstrap_file of
        Inr report \<Rightarrow> Inr (0, Some report)
      | Inl e \<Rightarrow> if is_image_reported e then Inr (1, None) else Inl e)"

end
