(* ===== verification/Storage_Mount.thy ===== *)
theory Storage_Mount
  imports Py_Text Py_Os
begin

text \<open>
  \<open>validate-runtime-storage-mount.py\<close>: the table of mounts, the identity of the device and the checks that the storage path is
  the approved disk.  What the system reports is a record of observations.
\<close>

section \<open>The table of mounts\<close>

text \<open>\<open>s.replace(old, new)\<close> for a nonempty \<open>old\<close>: the occurrences from the left.\<close>

fun replace_text :: "string \<Rightarrow> string \<Rightarrow> nat \<Rightarrow> string \<Rightarrow> string" where
  "replace_text old new skip [] = []"
| "replace_text old new (Suc skip) (c # cs) = replace_text old new skip cs"
| "replace_text old new 0 (c # cs) =
     (if startswith (c # cs) old then new @ replace_text old new (length old - 1) cs
      else c # replace_text old new 0 cs)"

definition MOUNT_ESCAPES :: "(string \<times> string) list" where
  "MOUNT_ESCAPES = [(CHR 0x5C # ''040'', '' ''), (CHR 0x5C # ''011'', [CHR 0x09]), (CHR 0x5C # ''012'', [CHR 0x0A]), (CHR 0x5C # ''134'', [CHR 0x5C])]"

definition decode_mount :: "string \<Rightarrow> string" where
  "decode_mount v = foldl (\<lambda>v (encoded, decoded). replace_text encoded decoded 0 v) v MOUNT_ESCAPES"

text \<open>\<open>s.split()\<close>, and \<open>s.partition(" - ")\<close> with the flag that the separator was found.\<close>

fun words_from :: "string \<Rightarrow> string \<Rightarrow> string list" where
  "words_from word [] = (if word = [] then [] else [rev word])"
| "words_from word (c # cs) =
     (if is_blank c then (if word = [] then words_from [] cs else rev word # words_from [] cs)
      else words_from (c # word) cs)"

definition words :: "string \<Rightarrow> string list" where
  "words s = words_from [] s"

fun partition_dash :: "string \<Rightarrow> string \<times> bool \<times> string" where
  "partition_dash [] = ([], False, [])"
| "partition_dash (c # cs) =
     (if startswith (c # cs) '' - '' then ([], True, drop 3 (c # cs))
      else (let (left, found, right) = partition_dash cs in (c # left, found, right)))"

record mount =
  mount_device :: string
  mount_point :: string
  mount_options :: "string list"
  mount_type :: string
  mount_source :: string

definition mount_entry :: "string \<Rightarrow> mount res" where
  "mount_entry line =
     (let (left, found, right) = partition_dash line; left_fields = words left; right_fields = words right in
      if \<not> found \<or> length left_fields < 6 \<or> length right_fields < 3 then Inl (ValueError ''malformed mountinfo record'')
      else Inr \<lparr>mount_device = left_fields ! 2, mount_point = decode_mount (left_fields ! 4),
        mount_options = split_on (CHR '','') (left_fields ! 5), mount_type = right_fields ! 0, mount_source = decode_mount (right_fields ! 1)\<rparr>)"

definition mount_entries :: "string \<Rightarrow> mount list res" where
  "mount_entries content = mapE mount_entry (splitlines content)"

section \<open>Names and numbers\<close>

definition canonical_absolute :: "string \<Rightarrow> unit res" where
  "canonical_absolute v =
     raise_if (\<not> startswith v ''/'' \<or> normpath v \<noteq> v \<or> length v > 4096) (ValueError ''must be a canonical absolute path'')"

definition is_storage_token :: "string \<Rightarrow> bool" where
  "is_storage_token s \<longleftrightarrow> class_run is_ascii_alnum is_token_char 0 127 s"

text \<open>\<open>int(s.strip())\<close>: a sign, then digits with single underscores between them.\<close>

fun scan_int :: "nat \<Rightarrow> bool \<Rightarrow> string \<Rightarrow> nat option" where
  "scan_int acc digit [] = (if digit then Some acc else None)"
| "scan_int acc digit (c # cs) =
     (if c = CHR ''_'' \<and> digit then scan_int acc False cs
      else if is_digit c then scan_int (acc * 10 + (of_char c - 48)) True cs else None)"

definition int_of_text :: "string \<Rightarrow> int res" where
  "int_of_text s =
     (let t = strip s; negative = startswith t ''-''; digits = (if negative \<or> startswith t ''+'' then drop 1 t else t) in
      case scan_int 0 False digits of
        None \<Rightarrow> Inl (ValueError ''invalid literal for int'')
      | Some n \<Rightarrow> Inr (if negative then - int n else int n))"

text \<open>\<open>os.major\<close> and \<open>os.minor\<close> of a 64-bit device number.\<close>

definition dev_major :: "nat \<Rightarrow> nat" where
  "dev_major d = d div 2 ^ 8 mod 2 ^ 12 + d div 2 ^ 44 * 2 ^ 12"

definition dev_minor :: "nat \<Rightarrow> nat" where
  "dev_minor d = d mod 2 ^ 8 + d div 2 ^ 20 mod 2 ^ 24 * 2 ^ 8"

definition device_identity :: "nat \<Rightarrow> string" where
  "device_identity d = dec_digits (dev_major d) @ '':'' @ dec_digits (dev_minor d)"

definition udev_serial :: "string \<Rightarrow> string res" where
  "udev_serial content =
     (let key = ''E:ID_SERIAL_SHORT='';
          found = map (\<lambda>line. removeprefix line key) (filter (\<lambda>line. startswith line key) (splitlines content)) in
      if length found \<noteq> 1 \<or> \<not> is_storage_token (hd found) then Inl (ValueError ''udev storage serial is missing or malformed'')
      else Inr (hd found))"

section \<open>Validation\<close>

record storage_args =
  arg_mountpoint :: string
  arg_device :: string
  arg_serial :: string
  arg_bytes :: int
  arg_label :: string
  arg_uuid :: string

text \<open>
  \<open>see_lstat\<close> and \<open>see_resolve\<close> answer for the link of the device and the links by label and by UUID, \<open>see_directory\<close> for the
  directories on the way to the mount point; the files are those of the device with the given identity.
\<close>

record storage_obs =
  see_lstat :: "string \<Rightarrow> stat_info res"
  see_resolve :: "string \<Rightarrow> string res"
  see_stat :: "string \<Rightarrow> stat_info res"
  see_partition :: "string \<Rightarrow> bool"
  see_sectors :: "string \<Rightarrow> string res"
  see_udev_lstat :: "string \<Rightarrow> stat_info res"
  see_udev :: "string \<Rightarrow> string res"
  see_directory :: "string list \<Rightarrow> stat_info res"
  see_mounts :: "string res"

definition check_mount_directory :: "storage_obs \<Rightarrow> string list \<Rightarrow> unit res" where
  "check_mount_directory obs current =
     bindE (see_directory obs current) (\<lambda>info.
     raise_if (\<not> S_ISDIR (st_mode info) \<or> st_uid info \<noteq> 0 \<or> others_may_write (st_mode info)) (ValueError ''unsafe storage mount directory''))"

definition safe_mount_directory :: "storage_obs \<Rightarrow> string \<Rightarrow> unit res" where
  "safe_mount_directory obs p =
     (let parts = path_tail p in forE [1..<Suc (length parts)] (\<lambda>_ i. check_mount_directory obs (take i parts)) ())"

definition same_device_link :: "storage_obs \<Rightarrow> string \<Rightarrow> string \<Rightarrow> unit res" where
  "same_device_link obs p device =
     bindE (see_lstat obs p) (\<lambda>info.
     if \<not> S_ISLNK (st_mode info) \<or> st_uid info \<noteq> 0 then Inl (ValueError ''must be a root-owned symlink'')
     else bindE (see_resolve obs p) (\<lambda>target. raise_if (target \<noteq> device) (ValueError ''resolves to a different device'')))"

definition check_storage_args :: "storage_args \<Rightarrow> unit res" where
  "check_storage_args args =
     bindE (canonical_absolute (arg_mountpoint args)) (\<lambda>_.
     bindE (canonical_absolute (arg_device args)) (\<lambda>_.
     if \<not> is_storage_token (arg_serial args) \<or> \<not> is_storage_token (arg_label args) then Inl (ValueError ''storage serial or label is malformed'')
     else if \<not> is_uuid (arg_uuid args) then Inl (ValueError ''storage UUID is malformed'')
     else raise_if (arg_bytes args \<le> 0 \<or> arg_bytes args mod 512 \<noteq> 0) (ValueError ''storage byte size must be a positive sector multiple'')))"

text \<open>The block device: its path and its device number.\<close>

definition resolve_device :: "storage_obs \<Rightarrow> string \<Rightarrow> (string \<times> nat) res" where
  "resolve_device obs link =
     bindE (see_lstat obs link) (\<lambda>link_info.
     if \<not> S_ISLNK (st_mode link_info) \<or> st_uid link_info \<noteq> 0 then Inl (ValueError ''storage by-id path must be a root-owned symlink'')
     else bindE (see_resolve obs link) (\<lambda>device.
       bindE (see_stat obs device) (\<lambda>info.
       if \<not> S_ISBLK (st_mode info) \<or> st_uid info \<noteq> 0 then Inl (ValueError ''storage by-id target must be a root-owned block device'')
       else Inr (device, st_rdev info))))"

definition check_disk :: "storage_obs \<Rightarrow> storage_args \<Rightarrow> string \<Rightarrow> unit res" where
  "check_disk obs args device =
     (if see_partition obs device then Inl (ValueError ''runtime storage must be a whole disk'')
      else bindE (bindE (see_sectors obs device) int_of_text) (\<lambda>sectors.
        if sectors * 512 \<noteq> arg_bytes args then Inl (ValueError ''runtime storage byte size mismatch'')
        else bindE (see_udev_lstat obs device) (\<lambda>info.
          if \<not> S_ISREG (st_mode info) \<or> st_uid info \<noteq> 0 \<or> others_may_write (st_mode info) \<or> \<not> (0 < st_size info \<and> st_size info \<le> 2 ^ 20)
          then Inl (ValueError ''udev storage identity record is unsafe'')
          else bindE (bindE (see_udev obs device) udev_serial) (\<lambda>serial.
            raise_if (serial \<noteq> arg_serial args) (ValueError ''runtime storage serial mismatch'')))))"

definition check_mounts :: "string \<Rightarrow> string \<Rightarrow> mount list \<Rightarrow> unit res" where
  "check_mounts mountpoint device entries =
     (case filter (\<lambda>m. mount_point m = mountpoint) entries of
        [entry] \<Rightarrow>
          if mount_device entry \<noteq> device \<or> mount_type entry \<noteq> ''ext4'' \<or> ''rw'' \<notin> set (mount_options entry)
          then Inl (ValueError ''runtime storage mount device, type, or mode mismatch'')
          else raise_if (length (filter (\<lambda>m. mount_device m = device) entries) \<noteq> 1) (ValueError ''runtime storage device is mounted more than once'')
      | _ \<Rightarrow> Inl (ValueError ''runtime storage path is not one distinct mountpoint''))"

definition validate_storage :: "storage_obs \<Rightarrow> storage_args \<Rightarrow> unit res" where
  "validate_storage obs args =
     bindE (check_storage_args args) (\<lambda>_.
     bindE (resolve_device obs (arg_device args)) (\<lambda>(device, rdev).
     let identity = device_identity rdev in
     bindE (check_disk obs args identity) (\<lambda>_.
     bindE (same_device_link obs (''/dev/disk/by-label/'' @ arg_label args) device) (\<lambda>_.
     bindE (same_device_link obs (''/dev/disk/by-uuid/'' @ arg_uuid args) device) (\<lambda>_.
     bindE (safe_mount_directory obs (arg_mountpoint args)) (\<lambda>_.
     bindE (bindE (see_mounts obs) mount_entries) (\<lambda>entries.
     bindE (check_mounts (as_posix (arg_mountpoint args)) identity entries) (\<lambda>_.
     bindE (see_stat obs (arg_mountpoint args)) (\<lambda>mounted.
     if st_dev mounted \<noteq> rdev then Inl (ValueError ''runtime storage mount identity aliases the wrong filesystem'')
     else bindE (see_stat obs ''/'') (\<lambda>top.
       raise_if (st_dev top = rdev) (ValueError ''runtime storage mount identity aliases the wrong filesystem'')))))))))))"

fun is_storage_reported :: "exn \<Rightarrow> bool" where
  "is_storage_reported (ValueError _) = True"
| "is_storage_reported (UnicodeDecodeError _) = True"
| "is_storage_reported e = is_os_error e"

definition storage_main :: "storage_obs \<Rightarrow> storage_args \<Rightarrow> int res" where
  "storage_main obs args =
     (case validate_storage obs args of
        Inr _ \<Rightarrow> Inr 0
      | Inl e \<Rightarrow> if is_storage_reported e then Inr 1 else Inl e)"

end
