(* ===== verification/Binds.thy ===== *)
theory Binds
  imports Rootfs_Build Tree_Fs
begin

text \<open>
  \<open>materialize-runtime-binds.py\<close>: each admitted bind source is listed in a manifest, copied into the private root, and listed again
  on both sides.  The private root is a directory of \<^theory_text>\<open>Tree_Fs\<close>; the host tree the sources are opened in, and
  what is seen of a source and of its copy, are observations.  The command \<open>cp\<close> is a parameter, a program on the tree.
\<close>

section \<open>Sources\<close>

text \<open>
  Opening one component after the other from the root, without following links.  The path \<open>//\<close> has no components and is not
  \<open>/\<close> to \<open>pathlib\<close>, so it opens the root itself.
\<close>

definition source_path_ok :: "string \<Rightarrow> bool" where
  "source_path_ok p \<longleftrightarrow> startswith p ''/'' \<and> path_parts (normpath (as_posix p)) = path_parts p \<and> path_parts p \<noteq> [''/'']"

definition open_real_source :: "node \<Rightarrow> string \<Rightarrow> (node \<times> bool) res" where
  "open_real_source host p =
     (if \<not> source_path_ok p then Inl (MaterializationError ''must be absolute and canonical'')
      else let parts = path_tail p in
        bindE (wrap_exn is_os_error (MaterializationError ''must not traverse a symlink, non-directory, or unavailable component'')
          (if parts = [] then Inr host else bindE (forE (butlast parts) open_dir_at host) (\<lambda>directory. open_at directory (last parts)))) (\<lambda>n.
        if S_ISDIR (st_mode (node_stat n)) then Inr (n, True)
        else if S_ISREG (st_mode (node_stat n)) \<and> st_nlink (node_stat n) = 1 then Inr (n, False)
        else Inl (MaterializationError ''must be a real directory or private single-link regular file'')))"

text \<open>What a manifest sees of a held source: a directory that is scanned, or a file with its attributes and contents.\<close>

datatype view =
    DirectoryView observed_calls held
  | FileView stat_info "string list res" bytes stat_info

definition single_file :: "(bytes \<Rightarrow> string) \<Rightarrow> stat_info \<Rightarrow> bytes \<Rightarrow> entry" where
  "single_file sha256 before data = \<lparr>e_path = ''.'', e_mode = st_mode before, e_uid = st_uid before, e_gid = st_gid before,
     e_size = length data, e_kind = ''regular'', e_digest = Some (sha256 data), e_target = None, e_hardlink = None\<rparr>"

definition no_xattrs :: "string list res \<Rightarrow> unit res" where
  "no_xattrs xattrs =
     bindE (wrap_exn is_os_error (MaterializationError ''cannot inspect bind-file xattrs'') xattrs) (\<lambda>names.
     raise_if (names \<noteq> []) (MaterializationError ''read-only bind regular file has unsupported xattrs''))"

definition listed :: "(json \<Rightarrow> bytes) \<Rightarrow> entry list \<Rightarrow> bytes \<times> nat \<times> nat" where
  "listed dumps entries = (manifest dumps entries, payload_bytes entries, length entries)"

definition manifest_descriptor :: "(bytes \<Rightarrow> string) \<Rightarrow> (json \<Rightarrow> bytes) \<Rightarrow> view \<Rightarrow> (bytes \<times> nat \<times> nat) res" where
  "manifest_descriptor sha256 dumps v =
     (case v of
        DirectoryView calls tree \<Rightarrow> bindE (scan_held sha256 calls tree) (\<lambda>(entries, _). Inr (listed dumps entries))
      | FileView before xattrs data after \<Rightarrow>
          if \<not> S_ISREG (st_mode before) \<or> st_nlink before \<noteq> 1 then Inl (MaterializationError ''read-only bind regular file must have exactly one link'')
          else bindE (no_xattrs xattrs) (\<lambda>_.
            if stat_identity before \<noteq> stat_identity after \<or> st_nlink after \<noteq> 1
            then Inl (MaterializationError ''read-only bind regular file mutated during manifesting'')
            else Inr (listed dumps [single_file sha256 before data])))"

text \<open>What a manifest sees of a copy, by its path.\<close>

record copy_view =
  copy_stat :: "stat_info res"
  copy_calls :: observed_calls
  copy_dup :: "string \<Rightarrow> held res"
  copy_open :: "string \<Rightarrow> held res"
  copy_xattrs :: "string list res"
  copy_after :: "stat_info res"

definition manifest_bytes :: "(bytes \<Rightarrow> string) \<Rightarrow> (json \<Rightarrow> bytes) \<Rightarrow> copy_view \<Rightarrow> string \<Rightarrow> (bytes \<times> nat \<times> nat) res" where
  "manifest_bytes sha256 dumps v target =
     bindE (copy_stat v) (\<lambda>info.
     if S_ISDIR (st_mode info)
     then bindE (scan sha256 (copy_calls v) (copy_dup v) (copy_open v) target) (\<lambda>(entries, _). Inr (listed dumps entries))
     else if S_ISREG (st_mode info)
     then (if st_nlink info \<noteq> 1 then Inl (MaterializationError ''read-only bind regular file must have exactly one link'')
           else bindE (no_xattrs (copy_xattrs v)) (\<lambda>_.
             bindE (read_stable (copy_calls v) target info) (\<lambda>data.
             bindE (copy_after v) (\<lambda>after.
             if stat_identity info \<noteq> stat_identity after \<or> st_nlink after \<noteq> 1
             then Inl (MaterializationError ''read-only bind regular file mutated during manifesting'')
             else Inr (listed dumps [single_file sha256 info data])))))
     else Inl (MaterializationError ''read-only bind source changed to an unsupported type''))"

section \<open>Destinations\<close>

definition destination_ok :: "string \<Rightarrow> bool" where
  "destination_ok destination \<longleftrightarrow> startswith destination ''/'' \<and> as_posix destination = destination \<and> destination \<noteq> ''/''
     \<and> ''..'' \<notin> set (path_parts destination)"

definition real_parent :: "path \<Rightarrow> unit top" where
  "real_parent p =
     bindS (\<lambda>s. if objs s p = None then sys_mkdir 493 p s else returnS () s) (\<lambda>_.
     queryS (\<lambda>s. raise_if (\<not> is_directory (objs s p)) (MaterializationError ''bind destination parent is not a real directory'')))"

definition new_target :: "path \<Rightarrow> bool \<Rightarrow> unit top" where
  "new_target target source_is_directory = (if source_is_directory then sys_mkdir 493 target else sys_create_file 384 target)"

definition fresh_target :: "path \<Rightarrow> bool \<Rightarrow> unit top" where
  "fresh_target target source_is_directory s =
     (case objs s target of
        None \<Rightarrow> new_target target source_is_directory s
      | Some x \<Rightarrow>
          if (if source_is_directory then \<not> is_directory (Some x) else (case x of OFile _ _ \<Rightarrow> False | _ \<Rightarrow> True))
          then raiseS (MaterializationError ''existing bind destination type differs from its source'') s
          else bindS (if source_is_directory then sys_rmtree target else sys_remove target) (\<lambda>_. new_target target source_is_directory) s)"

text \<open>A destination that is only slashes has no last component to take.\<close>

definition destination_path :: "path \<Rightarrow> string \<Rightarrow> bool \<Rightarrow> path top" where
  "destination_path base destination source_is_directory =
     (if \<not> destination_ok destination then raiseS (MaterializationError ''bind destination is not absolute and canonical'')
      else let parts = path_tail destination in
        if parts = [] then raiseS (IndexError ''tuple index out of range'')
        else bindS (forS [1..<length parts] (\<lambda>_ i. real_parent (base @ take i parts)) ()) (\<lambda>_.
          bindS (fresh_target (base @ parts) source_is_directory) (\<lambda>_. returnS (base @ parts))))"

section \<open>The plan\<close>

definition plan_binds :: "json \<Rightarrow> json list res" where
  "plan_binds plan =
     (case plan of
        JObj d \<Rightarrow>
          if set (map fst d) \<noteq> {''schema_version'', ''readonly_binds''} \<or> \<not> py_eq (jget d ''schema_version'') (JInt 1) \<or> \<not> is_list (jget d ''readonly_binds'')
          then Inl (MaterializationError ''invalid read-only bind plan'')
          else if length (the_list (jget d ''readonly_binds'')) > 8 then Inl (MaterializationError ''at most eight read-only bind inputs are supported'')
          else Inr (the_list (jget d ''readonly_binds''))
      | JList xs \<Rightarrow>
          bindE (py_set xs) (\<lambda>elements.
          if set elements \<noteq> {JStr ''schema_version'', JStr ''readonly_binds''} then Inl (MaterializationError ''invalid read-only bind plan'')
          else Inl (TypeError ''list indices must be integers''))
      | JStr _ \<Rightarrow> Inl (MaterializationError ''invalid read-only bind plan'')
      | _ \<Rightarrow> Inl (TypeError ''not iterable''))"

record bind_item =
  item_destination :: string
  item_source :: string
  private_seed :: bool

definition bind_options :: "string \<Rightarrow> json" where
  "bind_options access = jstrs [''bind'', access, ''nodev'', ''nosuid'', ''noexec'']"

definition parse_item :: "json \<Rightarrow> bind_item res" where
  "parse_item item =
     (case item of
        JObj d \<Rightarrow>
          if set (map fst d) \<noteq> {''destination'', ''type'', ''source'', ''options''} then Inl (MaterializationError ''invalid read-only bind record'')
          else if \<not> py_eq (jget d ''type'') (JStr ''bind'')
            \<or> \<not> (py_eq (jget d ''options'') (bind_options ''ro'') \<or> py_eq (jget d ''options'') (bind_options ''rw''))
            \<or> \<not> is_str (jget d ''source'') \<or> \<not> is_str (jget d ''destination'')
          then Inl (MaterializationError ''read-only bind record differs from the enforced contract'')
          else Inr \<lparr>item_destination = the_str (jget d ''destination''), item_source = the_str (jget d ''source''),
            private_seed = py_eq (jget d ''options'') (bind_options ''rw'')\<rparr>
      | _ \<Rightarrow> Inl (MaterializationError ''invalid read-only bind record''))"

definition runtime_owned :: "string \<Rightarrow> bool" where
  "runtime_owned destination \<longleftrightarrow> destination = ''/'' \<or> list_ex (\<lambda>p. is_within p destination) [''/dev'', ''/proc'', ''/run'', ''/sys'']"

definition check_item_destination :: "string list \<Rightarrow> string \<Rightarrow> unit res" where
  "check_item_destination destinations destination =
     (if runtime_owned destination then Inl (MaterializationError ''read-only bind destination overlaps a runtime-owned path'')
      else raise_if (list_ex (\<lambda>prior. is_within prior destination \<or> startswith prior (destination @ ''/'')) destinations)
        (MaterializationError ''read-only bind destinations overlap''))"

section \<open>Copies\<close>

record bind_obs =
  see_host :: node
  see_before :: "nat \<Rightarrow> view"
  see_after :: "nat \<Rightarrow> view"
  see_copy :: "nat \<Rightarrow> copy_view"

record bind_limits =
  limit_bytes :: int
  limit_inodes :: int

text \<open>\<open>cp\<close> takes the source, whether it is a directory, and the target; it gives the exit status.\<close>

type_synonym copier = "string \<Rightarrow> bool \<Rightarrow> path \<Rightarrow> int top"

text \<open>The records, the destinations, and the bytes and inodes so far.\<close>

type_synonym bind_state = "json list \<times> string list \<times> nat \<times> nat"

definition bind_record :: "(bytes \<Rightarrow> string) \<Rightarrow> loads \<Rightarrow> bind_item \<Rightarrow> bytes \<Rightarrow> json res" where
  "bind_record sha256 loads item before =
     bindE (loads default_constant before) (\<lambda>decoded.
     Inr (JObj [(''destination'', JStr (item_destination item)), (''source'', JStr (item_source item)), (''manifest'', decoded),
       (''manifest_sha256'', JStr (sha256 before)), (''ownership'', JStr ''numeric-uid-gid-preserved''),
       (''propagation'', JStr ''none-materialized-copy''),
       (''guest_policy'', JStr (if private_seed item then ''private-writable-seed-copy'' else ''bind-remount-ro-nodev-nosuid-noexec''))]))"

definition copy_bind :: "(bytes \<Rightarrow> string) \<Rightarrow> (json \<Rightarrow> bytes) \<Rightarrow> copier \<Rightarrow> bind_obs \<Rightarrow> path \<Rightarrow> nat \<Rightarrow> bind_item \<Rightarrow> bool \<Rightarrow> bytes \<Rightarrow> unit top" where
  "copy_bind sha256 dumps cp obs base index item source_is_directory before =
     bindS (destination_path base (item_destination item) source_is_directory) (\<lambda>target.
     bindS (cp (item_source item) source_is_directory target) (\<lambda>status.
     if status \<noteq> 0 then raiseS (MaterializationError ''copy read-only bind failed'')
     else bindS (raiseE (manifest_descriptor sha256 dumps (see_after obs index))) (\<lambda>(after, _, _).
       bindS (raiseE (manifest_bytes sha256 dumps (see_copy obs index) (''/'' @ join_with ''/'' target))) (\<lambda>(copied, _, _).
       if before \<noteq> after then raiseS (MaterializationError ''read-only bind source mutated during materialization'')
       else if before \<noteq> copied then raiseS (MaterializationError ''read-only bind copy differs from its admitted source'')
       else returnS ()))))"

definition materialize_bind :: "(bytes \<Rightarrow> string) \<Rightarrow> loads \<Rightarrow> (json \<Rightarrow> bytes) \<Rightarrow> copier \<Rightarrow> bind_obs \<Rightarrow> bind_limits \<Rightarrow> path \<Rightarrow> bind_state \<Rightarrow> nat \<times> json \<Rightarrow> bind_state top" where
  "materialize_bind sha256 loads dumps cp obs limits base = (\<lambda>(records, destinations, amount, inodes) (index, v).
     bindS (raiseE (parse_item v)) (\<lambda>item.
     bindS (raiseE (check_item_destination destinations (item_destination item))) (\<lambda>_.
     bindS (raiseE (open_real_source (see_host obs) (item_source item))) (\<lambda>(_, source_is_directory).
     if private_seed item \<and> source_is_directory then raiseS (MaterializationError ''private writable seed must be a regular file'')
     else bindS (raiseE (manifest_descriptor sha256 dumps (see_before obs index))) (\<lambda>(before, payload, count).
       if int (amount + payload) > limit_bytes limits \<or> int (inodes + count) > limit_inodes limits
       then raiseS (MaterializationError ''read-only bind inputs exceed the aggregate byte or inode limit'')
       else bindS (copy_bind sha256 dumps cp obs base index item source_is_directory before) (\<lambda>_.
         bindS (raiseE (bind_record sha256 loads item before)) (\<lambda>r.
         returnS (records @ [r], destinations @ [item_destination item], amount + payload, inodes + count))))))))"

section \<open>The command\<close>

definition exclusive_write :: "path \<Rightarrow> bytes \<Rightarrow> unit top" where
  "exclusive_write p data = bindS (sys_create_file 384 p) (\<lambda>_. bindS (sys_put p data) (\<lambda>_. sys_noop))"

definition bind_json :: "loads \<Rightarrow> bytes res \<Rightarrow> json res" where
  "bind_json loads file = bindE file (\<lambda>data. bindE (loads default_constant data) (hook (MaterializationError ''duplicate bind-plan key'')))"

definition materialize_run :: "(bytes \<Rightarrow> string) \<Rightarrow> loads \<Rightarrow> (json \<Rightarrow> bytes) \<Rightarrow> copier \<Rightarrow> bind_obs \<Rightarrow> bind_limits \<Rightarrow> bytes res \<Rightarrow> string \<Rightarrow> path \<Rightarrow> unit top" where
  "materialize_run sha256 loads dumps cp obs limits plan_file target_root result =
     (if limit_bytes limits < 0 \<or> limit_inodes limits < 1 then raiseS (MaterializationError ''read-only bind limits are invalid'')
      else bindS (raiseE (bindE (bind_json loads plan_file) plan_binds)) (\<lambda>binds.
        bindS (raiseE (open_real_source (see_host obs) target_root)) (\<lambda>(_, root_is_directory).
        if \<not> root_is_directory then raiseS (MaterializationError ''materialization root must be a real directory'')
        else bindS (forS (zip [0..<length binds] binds) (materialize_bind sha256 loads dumps cp obs limits (path_tail target_root)) ([], [], 0, 0)) (\<lambda>(records, _, _, _).
          let encoded = dumps (JObj [(''schema_version'', JInt 1), (''readonly_binds'', JList records)]) @ [CHR 0x0A] in
          if length encoded > 128 * 2 ^ 20 then raiseS (MaterializationError ''read-only bind manifest set exceeds its retained limit'')
          else exclusive_write result encoded))))"

fun is_bind_reported :: "exn \<Rightarrow> bool" where
  "is_bind_reported (MaterializationError _) = True"
| "is_bind_reported (ValueError _) = True"
| "is_bind_reported (UnicodeDecodeError _) = True"
| "is_bind_reported (UnicodeEncodeError _) = True"
| "is_bind_reported (JSONDecodeError _) = True"
| "is_bind_reported e = is_os_error e"

definition materialize_main :: "(bytes \<Rightarrow> string) \<Rightarrow> loads \<Rightarrow> (json \<Rightarrow> bytes) \<Rightarrow> copier \<Rightarrow> bind_obs \<Rightarrow> bind_limits \<Rightarrow> bytes res \<Rightarrow> string \<Rightarrow> path \<Rightarrow> int top" where
  "materialize_main sha256 loads dumps cp obs limits plan_file target_root result =
     catchS (bindS (materialize_run sha256 loads dumps cp obs limits plan_file target_root result) (\<lambda>_. returnS 0))
       (\<lambda>e. if is_bind_reported e then returnS 1 else raiseS e)"

end
