(* ===== verification/Spec2Isabelle.thy ===== *)
theory Spec2Isabelle
  imports Newc Oci_Config Docker_Config Rootfs_Build Deployment_Env Deployment_Live Docker_Stage Bootstrap Binaries Image_Entry Storage_Mount Binds
begin

text \<open>
  Verification of the host-side runtime tooling (\<open>src/scripts\<close>).

  \<^theory_text>\<open>Prelude\<close>: exceptions as values, sequencing, Python slices and string operations.
  \<^theory_text>\<open>Newc\<close>: the cpio newc writer of \<open>build-runtime-rootfs.py\<close> and the reader of
  \<open>verify-runtime-rootfs.py\<close>.
\<close>

end
